(* ===== verification/Prelude.thy ===== *)
theory Prelude
  imports Main
begin

text \<open>
  What every component shares: results of operations that may raise, tables of rows kept as
  lists in primary-key order (the database of the program), and the lemma collections the
  component theories add to.

  An operation that may raise returns a sum: \<open>Inl\<close> the exception, \<open>Inr\<close> the value. The
  services run inside a database transaction, so an exception leaves no change behind and the
  \<open>Inl\<close> carries no state.
\<close>

named_theorems table_simps \<open>equations of table operations\<close>
named_theorems status_simps \<open>evaluation of status predicates\<close>
named_theorems frame_simps \<open>what an operation leaves unchanged\<close>

section \<open>Results\<close>

type_synonym ('e, 'a) result = "'e + 'a"

definition rbind :: "('e, 'a) result \<Rightarrow> ('a \<Rightarrow> ('e, 'b) result) \<Rightarrow> ('e, 'b) result" where
  "rbind m f = (case m of Inl e \<Rightarrow> Inl e | Inr x \<Rightarrow> f x)"

definition guard_that :: "bool \<Rightarrow> 'e \<Rightarrow> ('e, unit) result" where
  "guard_that b e = (if b then Inr () else Inl e)"

definition of_option :: "'e \<Rightarrow> 'a option \<Rightarrow> ('e, 'a) result" where
  "of_option e x = (case x of None \<Rightarrow> Inl e | Some y \<Rightarrow> Inr y)"

lemma rbind_simps [simp]:
  "rbind (Inl e) f = Inl e" "rbind (Inr x) f = f x"
  by (simp_all add: rbind_def)

lemma rbind_eq_Inr [simp]: "rbind m f = Inr y \<longleftrightarrow> (\<exists>x. m = Inr x \<and> f x = Inr y)"
  by (cases m) simp_all

lemma rbind_eq_Inl [simp]:
  "rbind m f = Inl e \<longleftrightarrow> m = Inl e \<or> (\<exists>x. m = Inr x \<and> f x = Inl e)"
  by (cases m) simp_all

lemma rbind_assoc: "rbind (rbind m f) g = rbind m (\<lambda>x. rbind (f x) g)"
  by (cases m) simp_all

lemma guard_that_simps [simp]:
  "guard_that True e = Inr ()" "guard_that False e = Inl e"
  by (simp_all add: guard_that_def)

lemma guard_that_eq_Inr [simp]: "guard_that b e = Inr u \<longleftrightarrow> b"
  by (simp add: guard_that_def)

lemma guard_that_eq_Inl [simp]: "guard_that b e = Inl e' \<longleftrightarrow> \<not> b \<and> e' = e"
  by (auto simp: guard_that_def)

lemma of_option_simps [simp]:
  "of_option e None = Inl e" "of_option e (Some y) = Inr y"
  by (simp_all add: of_option_def)

lemma of_option_eq_Inr [simp]: "of_option e x = Inr y \<longleftrightarrow> x = Some y"
  by (simp add: of_option_def split: option.splits)

lemma of_option_eq_Inl [simp]: "of_option e x = Inl e' \<longleftrightarrow> x = None \<and> e' = e"
  by (auto simp: of_option_def split: option.splits)

text \<open>A loop whose body may raise stops at the first exception.\<close>

fun rfold :: "('a \<Rightarrow> 's \<Rightarrow> ('e, 's) result) \<Rightarrow> 'a list \<Rightarrow> 's \<Rightarrow> ('e, 's) result" where
  "rfold f [] s = Inr s"
| "rfold f (x # xs) s = rbind (f x s) (rfold f xs)"

lemma rfold_invariant:
  assumes "rfold f xs s = Inr s'" and "P s"
    and "\<And>x s s'. x \<in> set xs \<Longrightarrow> P s \<Longrightarrow> f x s = Inr s' \<Longrightarrow> P s'"
  shows "P s'"
  using assms
proof (induction xs arbitrary: s)
  case Nil
  then show ?case by simp
next
  case (Cons x xs)
  from Cons.prems(1) obtain t where t: "f x s = Inr t" "rfold f xs t = Inr s'" by auto
  have "P t" using Cons.prems(2) t(1) by (rule Cons.prems(3) [rotated]) simp
  with t(2) show ?case using Cons.prems(3) by (rule Cons.IH) (simp_all)
qed

text \<open>Work that is not one transaction: a step leaves a state with its exception, too.\<close>

type_synonym ('s, 'e, 'a) stepping = "'s \<times> ('e, 'a) result"

definition then_do :: "('s, 'e, 'a) stepping \<Rightarrow> ('a \<Rightarrow> 's \<Rightarrow> ('s, 'e, 'b) stepping) \<Rightarrow> ('s, 'e, 'b) stepping" where
  "then_do m f = (case m of (s, Inl e) \<Rightarrow> (s, Inl e) | (s, Inr x) \<Rightarrow> f x s)"

definition lift_error :: "('e \<Rightarrow> 'f) \<Rightarrow> ('e, 'a) result \<Rightarrow> ('f, 'a) result" where
  "lift_error f r = (case r of Inl e \<Rightarrow> Inl (f e) | Inr x \<Rightarrow> Inr x)"

section \<open>Tables of rows\<close>

text \<open>
  A table is the list of its rows. \<open>update_where p f\<close> is the bulk
  \<^verbatim>\<open>filter(p).update(f)\<close> of the ORM, \<open>first_where p\<close> its \<^verbatim>\<open>filter(p).first()\<close> on a
  table in the order the query asks for, \<open>sort_key\<close> gives the \<^verbatim>\<open>order_by\<close>.
\<close>

definition update_where :: "('r \<Rightarrow> bool) \<Rightarrow> ('r \<Rightarrow> 'r) \<Rightarrow> 'r list \<Rightarrow> 'r list" where
  "update_where p f rows = map (\<lambda>r. if p r then f r else r) rows"

definition count_where :: "('r \<Rightarrow> bool) \<Rightarrow> 'r list \<Rightarrow> nat" where
  "count_where p rows = length (filter p rows)"

definition first_where :: "('r \<Rightarrow> bool) \<Rightarrow> 'r list \<Rightarrow> 'r option" where
  "first_where p rows = find p rows"

lemma update_where_simps [simp, table_simps]:
  "update_where p f [] = []"
  "update_where p f (r # rs) = (if p r then f r else r) # update_where p f rs"
  by (simp_all add: update_where_def)

lemma length_update_where [simp, table_simps]: "length (update_where p f rows) = length rows"
  by (simp add: update_where_def)

lemma set_update_where [table_simps]:
  "set (update_where p f rows) = (\<lambda>r. if p r then f r else r) ` set rows"
  by (simp add: update_where_def)

lemma filter_update_where:
  "(\<And>r. p r \<Longrightarrow> \<not> q r \<and> \<not> q (f r)) \<Longrightarrow> filter q (update_where p f rows) = filter q rows"
  by (induction rows) auto

lemma ball_update_where [table_simps]:
  "(\<forall>x \<in> set (update_where p f rows). P x) \<longleftrightarrow> (\<forall>r \<in> set rows. P (if p r then f r else r))"
  by (induction rows) auto

lemma bex_update_where [table_simps]:
  "(\<exists>x \<in> set (update_where p f rows). P x) \<longleftrightarrow> (\<exists>r \<in> set rows. P (if p r then f r else r))"
  by (induction rows) auto

lemma map_update_where [table_simps]:
  assumes "\<And>r. p r \<Longrightarrow> g (f r) = g r"
  shows "map g (update_where p f rows) = map g rows"
  using assms by (simp add: update_where_def)

lemma update_where_none: "(\<And>r. r \<in> set rows \<Longrightarrow> \<not> p r) \<Longrightarrow> update_where p f rows = rows"
  by (induction rows) auto

lemma first_where_simps [simp]:
  "first_where p [] = None"
  "first_where p (r # rs) = (if p r then Some r else first_where p rs)"
  by (simp_all add: first_where_def)

lemma first_where_Some: "first_where p rows = Some r \<Longrightarrow> r \<in> set rows \<and> p r"
  by (induction rows) (auto split: if_splits)

lemma first_where_None: "first_where p rows = None \<longleftrightarrow> (\<forall>r \<in> set rows. \<not> p r)"
  by (induction rows) auto

lemma first_where_key:
  assumes "distinct (map key rows)" and "r \<in> set rows" and "p r"
    and "\<And>r'. p r' \<Longrightarrow> key r' = key r"
  shows "first_where p rows = Some r"
  using assms
proof (induction rows)
  case Nil
  then show ?case by simp
next
  case (Cons a rows)
  show ?case
  proof (cases "a = r")
    case True
    with Cons.prems(3) show ?thesis by simp
  next
    case False
    with Cons.prems(2) have r: "r \<in> set rows" by simp
    with Cons.prems(1) have "key a \<noteq> key r" by (metis distinct.simps(2) image_eqI list.set_map list.simps(9))
    with Cons.prems(4) have "\<not> p a" by blast
    with Cons.IH [OF _ r Cons.prems(3)] Cons.prems(1,4) show ?thesis by simp
  qed
qed

lemma first_where_update_where:
  assumes "\<And>r. q (if p r then f r else r) = q r"
  shows "first_where q (update_where p f rows) = map_option (\<lambda>r. if p r then f r else r) (first_where q rows)"
  using assms by (induction rows) auto

section \<open>Options\<close>

definition or_else :: "'a option \<Rightarrow> 'a \<Rightarrow> 'a" where
  "or_else x d = (case x of None \<Rightarrow> d | Some y \<Rightarrow> y)"

lemma or_else_simps [simp]: "or_else None d = d" "or_else (Some y) d = y"
  by (simp_all add: or_else_def)

definition first_some :: "'a option \<Rightarrow> 'a option \<Rightarrow> 'a option" where
  "first_some x y = (case x of None \<Rightarrow> y | Some v \<Rightarrow> Some v)"

lemma first_some_simps [simp]: "first_some None y = y" "first_some (Some v) y = Some v"
  by (simp_all add: first_some_def)

lemma first_some_eq_None [simp]: "first_some x y = None \<longleftrightarrow> x = None \<and> y = None"
  by (cases x) simp_all

end
