(* ===== verification/Py_Text.thy ===== *)
theory Py_Text
  imports Prelude "HOL-Library.Sublist"
begin

text \<open>
  The string operations of Python that the program uses, on lists of characters (a
  \<open>char\<close> is a code point below 256; longer code points do not occur in the identifiers,
  statuses and paths modelled here), and \<^verbatim>\<open>posixpath.normpath\<close>, as the standard library
  defines it.
\<close>

named_theorems text_simps \<open>equations of string operations\<close>

section \<open>Characters, trimming and case\<close>

definition is_space :: "char \<Rightarrow> bool" where
  "is_space c = (let n = (of_char c :: nat) in
     (9 \<le> n \<and> n \<le> 13) \<or> (28 \<le> n \<and> n \<le> 32) \<or> n = 133 \<or> n = 160)"

definition lower_char :: "char \<Rightarrow> char" where
  "lower_char c = (let n = (of_char c :: nat) in
     if (65 \<le> n \<and> n \<le> 90) \<or> (192 \<le> n \<and> n \<le> 222 \<and> n \<noteq> 215) then char_of (n + 32) else c)"

definition lower :: "string \<Rightarrow> string" where
  "lower s = map lower_char s"

definition lstrip_by :: "(char \<Rightarrow> bool) \<Rightarrow> string \<Rightarrow> string" where
  "lstrip_by p s = dropWhile p s"

definition rstrip_by :: "(char \<Rightarrow> bool) \<Rightarrow> string \<Rightarrow> string" where
  "rstrip_by p s = rev (dropWhile p (rev s))"

definition strip_by :: "(char \<Rightarrow> bool) \<Rightarrow> string \<Rightarrow> string" where
  "strip_by p s = rstrip_by p (lstrip_by p s)"

definition strip :: "string \<Rightarrow> string" where
  "strip s = strip_by is_space s"

definition replace_char :: "char \<Rightarrow> char \<Rightarrow> string \<Rightarrow> string" where
  "replace_char a b s = map (\<lambda>c. if c = a then b else c) s"

lemma lstrip_by_stable: "s = [] \<or> \<not> p (hd s) \<Longrightarrow> lstrip_by p s = s"
  by (cases s) (auto simp: lstrip_by_def)

lemma rstrip_by_stable: "s = [] \<or> \<not> p (last s) \<Longrightarrow> rstrip_by p s = s"
  by (cases s rule: rev_cases) (auto simp: rstrip_by_def)

lemma rstrip_by_last: "rstrip_by p s \<noteq> [] \<Longrightarrow> \<not> p (last (rstrip_by p s))"
  unfolding rstrip_by_def by (simp add: last_rev hd_dropWhile)

lemma rstrip_by_prefix: "prefix (rstrip_by p s) s"
  unfolding rstrip_by_def by (metis rev_rev_ident suffix_dropWhile suffix_to_prefix)

lemma rstrip_by_idem [simp]: "rstrip_by p (rstrip_by p s) = rstrip_by p s"
  by (cases "rstrip_by p s = []") (auto intro: rstrip_by_stable dest: rstrip_by_last)

lemma strip_by_idem [simp]: "strip_by p (strip_by p s) = strip_by p s"
proof (cases "strip_by p s = []")
  case True
  moreover have "strip_by p [] = []" by (simp add: strip_by_def rstrip_by_def lstrip_by_def)
  ultimately show ?thesis by simp
next
  case False
  obtain u where u: "lstrip_by p s = strip_by p s @ u"
    using rstrip_by_prefix [of p "lstrip_by p s"] by (auto simp: strip_by_def prefix_def)
  with False have "hd (strip_by p s) = hd (lstrip_by p s)" and "lstrip_by p s \<noteq> []" by auto
  then have "\<not> p (hd (strip_by p s))" by (simp add: lstrip_by_def hd_dropWhile)
  then have "lstrip_by p (strip_by p s) = strip_by p s" by (intro lstrip_by_stable) simp
  then show ?thesis by (simp add: strip_by_def)
qed

lemma strip_idem [simp]: "strip (strip s) = strip s"
  by (simp add: strip_def)

section \<open>Splitting and joining\<close>

text \<open>\<^verbatim>\<open>s.split(c)\<close>: one field more than there are separators.\<close>

fun split_on :: "char \<Rightarrow> string \<Rightarrow> string list" where
  "split_on c [] = [[]]"
| "split_on c (x # xs) =
     (if x = c then [] # split_on c xs
      else case split_on c xs of [] \<Rightarrow> [[x]] | f # fs \<Rightarrow> (x # f) # fs)"

text \<open>\<^verbatim>\<open>c.join(fields)\<close>.\<close>

fun join_with :: "char \<Rightarrow> string list \<Rightarrow> string" where
  "join_with c [] = []"
| "join_with c [f] = f"
| "join_with c (f # g # fs) = f @ c # join_with c (g # fs)"

lemma split_on_not_Nil [simp]: "split_on c s \<noteq> []"
  by (cases s) (auto split: list.splits)

lemma join_split [simp]: "join_with c (split_on c s) = s"
proof (induction s)
  case Nil
  then show ?case by simp
next
  case (Cons x xs)
  then show ?case
    by (cases "split_on c xs"; cases "tl (split_on c xs)") auto
qed

lemma split_on_no_sep: "f \<in> set (split_on c s) \<Longrightarrow> c \<notin> set f"
  by (induction s arbitrary: f) (auto split: if_splits list.splits)

lemma split_on_single: "c \<notin> set s \<Longrightarrow> split_on c s = [s]"
  by (induction s) auto

lemma split_on_append_sep: "c \<notin> set f \<Longrightarrow> split_on c (f @ c # s) = f # split_on c s"
  by (induction f) auto

lemma split_join:
  assumes "fs \<noteq> []" and "\<forall>f \<in> set fs. c \<notin> set f"
  shows "split_on c (join_with c fs) = fs"
  using assms by (induction fs rule: join_with.induct) (auto simp: split_on_single split_on_append_sep)

text \<open>\<^verbatim>\<open>s.split(c, 1)\<close>: at most one cut, at the first separator.\<close>

fun split_once :: "char \<Rightarrow> string \<Rightarrow> string list" where
  "split_once c [] = [[]]"
| "split_once c (x # xs) =
     (if x = c then [[], xs]
      else case split_once c xs of [] \<Rightarrow> [[x]] | f # fs \<Rightarrow> (x # f) # fs)"

text \<open>\<^verbatim>\<open>s.split()\<close>: fields between runs of white space.\<close>

fun split_ws_acc :: "string \<Rightarrow> string \<Rightarrow> string list" where
  "split_ws_acc acc [] = (if acc = [] then [] else [rev acc])"
| "split_ws_acc acc (x # xs) =
     (if is_space x then (if acc = [] then split_ws_acc [] xs else rev acc # split_ws_acc [] xs)
      else split_ws_acc (x # acc) xs)"

definition split_ws :: "string \<Rightarrow> string list" where
  "split_ws s = split_ws_acc [] s"

section \<open>Integers in text\<close>

definition digit_val :: "char \<Rightarrow> nat option" where
  "digit_val c = (let n = (of_char c :: nat) in if 48 \<le> n \<and> n \<le> 57 then Some (n - 48) else None)"

text \<open>Digits with single underscores between them, as \<^verbatim>\<open>int(text)\<close> accepts.\<close>

fun digits_acc :: "nat \<Rightarrow> string \<Rightarrow> nat option" where
  "digits_acc n [] = Some n"
| "digits_acc n (c # cs) =
     (case digit_val c of
        Some d \<Rightarrow> digits_acc (10 * n + d) cs
      | None \<Rightarrow>
          (if c = CHR ''_'' then
             (case cs of
                [] \<Rightarrow> None
              | e # es \<Rightarrow> (case digit_val e of Some d \<Rightarrow> digits_acc (10 * n + d) es | None \<Rightarrow> None))
           else None))"

definition parse_nat :: "string \<Rightarrow> nat option" where
  "parse_nat s = (case s of [] \<Rightarrow> None
     | c # cs \<Rightarrow> (case digit_val c of Some d \<Rightarrow> digits_acc d cs | None \<Rightarrow> None))"

text \<open>\<^verbatim>\<open>int(text)\<close>: surrounding white space and one sign are accepted; \<open>None\<close> is ValueError.\<close>

definition parse_int :: "string \<Rightarrow> int option" where
  "parse_int s = (case strip s of
       [] \<Rightarrow> None
     | c # cs \<Rightarrow>
         (if c = CHR ''-'' then map_option (\<lambda>n. - int n) (parse_nat cs)
          else if c = CHR ''+'' then map_option int (parse_nat cs)
          else map_option int (parse_nat (c # cs))))"

fun show_nat :: "nat \<Rightarrow> string" where
  "show_nat n = (if n < 10 then [char_of (48 + n)] else show_nat (n div 10) @ [char_of (48 + n mod 10)])"

declare show_nat.simps [simp del]

definition show_int :: "int \<Rightarrow> string" where
  "show_int i = (if i < 0 then CHR ''-'' # show_nat (nat (- i)) else show_nat (nat i))"

lemma digit_val_char_of [simp]: "d < 10 \<Longrightarrow> digit_val (char_of (48 + d)) = Some d"
  by (simp add: digit_val_def Let_def)

lemma digits_acc_append:
  assumes "\<forall>c \<in> set s. digit_val c \<noteq> None"
  shows "digits_acc n (s @ t) = (case digits_acc n s of None \<Rightarrow> None | Some m \<Rightarrow> digits_acc m t)"
  using assms by (induction s arbitrary: n) (auto split: option.splits)

lemma show_nat_digits: "c \<in> set (show_nat n) \<Longrightarrow> \<exists>d<(10::nat). c = char_of (48 + d)"
proof (induction n rule: show_nat.induct)
  case (1 n)
  show ?case
  proof (cases "n < 10")
    case True
    with 1 show ?thesis by (auto simp: show_nat.simps [of n])
  next
    case False
    with "1.prems" have "c \<in> set (show_nat (n div 10)) \<or> c = char_of (48 + n mod 10)"
      by (auto simp: show_nat.simps [of n])
    then show ?thesis
    proof
      assume "c \<in> set (show_nat (n div 10))"
      with "1.IH" False show ?thesis by blast
    next
      assume "c = char_of (48 + n mod 10)"
      then show ?thesis by (intro exI [of _ "n mod 10"]) simp
    qed
  qed
qed

lemma show_nat_not_Nil [simp]: "show_nat n \<noteq> []"
  by (simp add: show_nat.simps [of n])

lemma parse_show_nat [simp]: "parse_nat (show_nat n) = Some n"
proof (induction n rule: show_nat.induct)
  case (1 n)
  show ?case
  proof (cases "n < 10")
    case True
    then show ?thesis by (simp add: show_nat.simps [of n] parse_nat_def)
  next
    case False
    obtain c cs where s: "show_nat (n div 10) = c # cs"
      using show_nat_not_Nil [of "n div 10"] by (cases "show_nat (n div 10)") blast+
    have dig: "\<forall>x \<in> set (c # cs). digit_val x \<noteq> None"
      using show_nat_digits [of _ "n div 10"] s by fastforce
    from 1 False s have "parse_nat (c # cs) = Some (n div 10)" by simp
    then obtain d where d: "digit_val c = Some d" "digits_acc d cs = Some (n div 10)"
      by (auto simp: parse_nat_def split: option.splits)
    have "digits_acc d (cs @ [char_of (48 + n mod 10)]) = Some (10 * (n div 10) + n mod 10)"
      using dig d(2) by (subst digits_acc_append) auto
    with False s d(1) show ?thesis by (simp add: show_nat.simps [of n] parse_nat_def)
  qed
qed

lemma show_nat_eq [simp]: "show_nat m = show_nat n \<longleftrightarrow> m = n"
  by (metis option.inject parse_show_nat)

lemma digit_chars:
  "c \<in> set (show_nat n) \<Longrightarrow> c \<notin> {CHR ''/'', CHR ''-'', CHR '','', CHR ''*'', CHR '':'', CHR ''+''} \<and> \<not> is_space c"
proof -
  assume "c \<in> set (show_nat n)"
  then obtain d :: nat where d: "d < 10" "c = char_of (48 + d)" using show_nat_digits by blast
  then have "d \<in> {0,1,2,3,4,5,6,7,8,9}" by auto
  then show ?thesis unfolding d(2) by (elim insertE) (simp_all add: is_space_def char_of_def)
qed

lemma strip_stable: "s \<noteq> [] \<Longrightarrow> \<not> is_space (hd s) \<Longrightarrow> \<not> is_space (last s) \<Longrightarrow> strip s = s"
  unfolding strip_def strip_by_def by (simp add: lstrip_by_stable rstrip_by_stable)

lemma show_nat_ends [simp]: "\<not> is_space (hd (show_nat n))" "\<not> is_space (last (show_nat n))"
  using digit_chars [of "hd (show_nat n)" n] digit_chars [of "last (show_nat n)" n] by auto

lemma parse_int_show_nat [simp]: "parse_int (show_nat n) = Some (int n)"
proof -
  obtain c cs where c: "show_nat n = c # cs" by (metis list.exhaust show_nat_not_Nil)
  have s: "strip (show_nat n) = show_nat n" by (rule strip_stable) simp_all
  have "c \<noteq> CHR ''-''" "c \<noteq> CHR ''+''" using digit_chars [of c n] c by auto
  then show ?thesis using parse_show_nat [of n] s unfolding c by (simp add: parse_int_def)
qed

section \<open>Path parts\<close>

text \<open>The parts of a slash-separated path; empty parts are dropped.\<close>

definition slash_parts :: "string \<Rightarrow> string list" where
  "slash_parts s = filter (\<lambda>p. p \<noteq> []) (split_on (CHR ''/'') s)"

lemma slash_parts_ok: "p \<in> set (slash_parts s) \<Longrightarrow> p \<noteq> [] \<and> CHR ''/'' \<notin> set p"
  by (auto simp: slash_parts_def dest: split_on_no_sep)

lemma slash_parts_Nil [simp]: "slash_parts [] = []"
  by (simp add: slash_parts_def)

lemma slash_parts_slash [simp]: "slash_parts (CHR ''/'' # s) = slash_parts s"
  by (simp add: slash_parts_def)

lemma slash_parts_join:
  assumes "\<forall>p \<in> set ps. p \<noteq> [] \<and> CHR ''/'' \<notin> set p"
  shows "slash_parts (join_with (CHR ''/'') ps) = ps"
proof (cases "ps = []")
  case True
  then show ?thesis by simp
next
  case False
  with assms have "split_on (CHR ''/'') (join_with (CHR ''/'') ps) = ps" by (intro split_join) auto
  with assms show ?thesis by (simp add: slash_parts_def)
qed

lemma slash_parts_join_idem [simp]:
  "slash_parts (join_with (CHR ''/'') (slash_parts s)) = slash_parts s"
  by (rule slash_parts_join) (auto dest: slash_parts_ok)

text \<open>\<^verbatim>\<open>posixpath.normpath\<close>.\<close>

definition initial_slashes :: "string \<Rightarrow> nat" where
  "initial_slashes p =
     (if \<not> prefix ''/'' p then 0
      else if prefix ''//'' p \<and> \<not> prefix ''///'' p then 2 else 1)"

fun norm_comps :: "bool \<Rightarrow> string list \<Rightarrow> string list \<Rightarrow> string list" where
  "norm_comps rooted acc [] = rev acc"
| "norm_comps rooted acc (c # cs) =
     (if c = [] \<or> c = ''.'' then norm_comps rooted acc cs
      else if c \<noteq> ''..'' \<or> (\<not> rooted \<and> acc = []) \<or> (acc \<noteq> [] \<and> hd acc = ''..'')
        then norm_comps rooted (c # acc) cs
      else norm_comps rooted (tl acc) cs)"

definition normpath :: "string \<Rightarrow> string" where
  "normpath p =
     (if p = [] then ''.''
      else
        let k = initial_slashes p;
            comps = norm_comps (k \<noteq> 0) [] (split_on (CHR ''/'') p);
            q = replicate k (CHR ''/'') @ join_with (CHR ''/'') comps
        in if q = [] then ''.'' else q)"

text \<open>A rooted path has no \<^verbatim>\<open>..\<close> part left after normalisation: it cannot climb out.\<close>

lemma norm_comps_rooted:
  assumes "''..'' \<notin> set acc" and "\<forall>c \<in> set acc. c \<noteq> [] \<and> c \<noteq> ''.''"
  shows "''..'' \<notin> set (norm_comps True acc cs) \<and> (\<forall>c \<in> set (norm_comps True acc cs). c \<noteq> [] \<and> c \<noteq> ''.'')"
  using assms
proof (induction cs arbitrary: acc)
  case Nil
  then show ?case by simp
next
  case (Cons c cs)
  have hd: "acc \<noteq> [] \<longrightarrow> hd acc \<noteq> ''..''" using Cons.prems(1) by (cases acc) auto
  have "set (tl acc) \<subseteq> set acc" by (cases acc) auto
  then have "''..'' \<notin> set (tl acc)" "\<forall>x \<in> set (tl acc). x \<noteq> [] \<and> x \<noteq> ''.''"
    using Cons.prems by blast+
  note tl = Cons.IH [OF this]
  have "c \<noteq> [] \<Longrightarrow> c \<noteq> ''.'' \<Longrightarrow> c \<noteq> ''..'' \<Longrightarrow>
      ''..'' \<notin> set (c # acc) \<and> (\<forall>x \<in> set (c # acc). x \<noteq> [] \<and> x \<noteq> ''.'')"
    using Cons.prems by simp
  then have push: "c \<noteq> [] \<Longrightarrow> c \<noteq> ''.'' \<Longrightarrow> c \<noteq> ''..'' \<Longrightarrow>
      ''..'' \<notin> set (norm_comps True (c # acc) cs)
      \<and> (\<forall>x \<in> set (norm_comps True (c # acc) cs). x \<noteq> [] \<and> x \<noteq> ''.'')"
    using Cons.IH [of "c # acc"] by blast
  show ?case
  proof (cases "c = [] \<or> c = ''.''")
    case True
    then show ?thesis using Cons.IH [OF Cons.prems] by simp
  next
    case False
    then show ?thesis using tl push hd by (cases "c = ''..''") auto
  qed
qed

lemma norm_comps_subset: "set (norm_comps r acc cs) \<subseteq> set acc \<union> set cs"
proof (induction cs arbitrary: acc)
  case (Cons c cs)
  have "set (tl acc) \<subseteq> set acc" by (cases acc) auto
  then have "set (norm_comps r (tl acc) cs) \<subseteq> set acc \<union> set (c # cs)"
    and "set (norm_comps r acc cs) \<subseteq> set acc \<union> set (c # cs)"
    and "set (norm_comps r (c # acc) cs) \<subseteq> set acc \<union> set (c # cs)"
    using Cons.IH [of acc] Cons.IH [of "c # acc"] Cons.IH [of "tl acc"] by auto
  then show ?case by (simp only: norm_comps.simps split: if_split) simp
qed simp

section \<open>UUID texts\<close>

text \<open>\<^verbatim>\<open>s.replace(p, "")\<close> for a text \<open>p\<close> that is not empty.\<close>

function remove_text :: "string \<Rightarrow> string \<Rightarrow> string" where
  "remove_text p s =
     (case s of [] \<Rightarrow> []
      | c # cs \<Rightarrow> if prefix p s \<and> p \<noteq> [] then remove_text p (drop (length p) s) else c # remove_text p cs)"
  by pat_completeness auto
termination
  by (relation "measure (\<lambda>(p, s). length s)") auto

declare remove_text.simps [simp del]

lemma remove_text_code [simp]:
  "remove_text p [] = []"
  "remove_text p (c # cs) =
     (if prefix p (c # cs) \<and> p \<noteq> [] then remove_text p (drop (length p) (c # cs)) else c # remove_text p cs)"
  by (simp_all add: remove_text.simps [of p])

definition hex_val :: "char \<Rightarrow> nat option" where
  "hex_val c = (let n = (of_char c :: nat) in
     if 48 \<le> n \<and> n \<le> 57 then Some (n - 48)
     else if 97 \<le> n \<and> n \<le> 102 then Some (n - 87)
     else if 65 \<le> n \<and> n \<le> 70 then Some (n - 55) else None)"

text \<open>\<^verbatim>\<open>int(text, 16)\<close>: white space around it, a sign, the prefix \<^verbatim>\<open>0x\<close>, single underscores.\<close>

fun hex_acc :: "int \<Rightarrow> string \<Rightarrow> int option" where
  "hex_acc n [] = Some n"
| "hex_acc n (c # cs) =
     (case hex_val c of
        Some d \<Rightarrow> hex_acc (16 * n + int d) cs
      | None \<Rightarrow>
          (case cs of [] \<Rightarrow> None
           | e # es \<Rightarrow> if c = CHR ''_'' then
                (case hex_val e of Some d \<Rightarrow> hex_acc (16 * n + int d) es | None \<Rightarrow> None) else None))"

definition parse_hex_nat :: "string \<Rightarrow> int option" where
  "parse_hex_nat s =
     (let body = (if prefix ''0x'' s \<or> prefix ''0X'' s
                  then (case drop 2 s of CHR ''_'' # r \<Rightarrow> r | r \<Rightarrow> r) else s)
      in case body of [] \<Rightarrow> None
         | c # cs \<Rightarrow> (case hex_val c of Some d \<Rightarrow> hex_acc (int d) cs | None \<Rightarrow> None))"

definition parse_hex :: "string \<Rightarrow> int option" where
  "parse_hex s = (case strip s of
       [] \<Rightarrow> None
     | c # cs \<Rightarrow>
         (if c = CHR ''-'' then map_option uminus (parse_hex_nat cs)
          else if c = CHR ''+'' then parse_hex_nat cs else parse_hex_nat (c # cs)))"

text \<open>\<^verbatim>\<open>uuid.UUID(text)\<close> as its integer; \<open>None\<close> is the ValueError.\<close>

definition parse_uuid :: "string \<Rightarrow> int option" where
  "parse_uuid s =
     (let h = filter (\<lambda>c. c \<noteq> CHR ''-'')
                (strip_by (\<lambda>c. c = CHR ''{'' \<or> c = CHR ''}'') (remove_text ''uuid:'' (remove_text ''urn:'' s)))
      in if length h \<noteq> 32 then None
         else case parse_hex h of None \<Rightarrow> None | Some i \<Rightarrow> if i < 0 then None else Some i)"

end
