(* ===== verification/Py_Value.thy ===== *)
theory Py_Value
  imports Py_Text Complex_Main
begin

text \<open>
  The dynamic values the program reads from JSON columns and messages, with the Python
  operations it applies to them: truth value, \<^verbatim>\<open>dict.get\<close>, \<^verbatim>\<open>int\<close>, \<^verbatim>\<open>str\<close>, \<^verbatim>\<open>==\<close> and
  \<^verbatim>\<open>isinstance\<close>. A float carries its value and the text Python prints for it.
\<close>

named_theorems value_simps \<open>evaluation of dynamic values\<close>

section \<open>Values\<close>

datatype json =
  JNull
| JBool bool
| JInt int
| JFloat rat string
| JStr string
| JList "json list"
| JObj "(string \<times> json) list"

type_synonym dict = "(string \<times> json) list"

fun truthy :: "json \<Rightarrow> bool" where
  "truthy JNull = False"
| "truthy (JBool b) = b"
| "truthy (JInt i) = (i \<noteq> 0)"
| "truthy (JFloat q _) = (q \<noteq> 0)"
| "truthy (JStr s) = (s \<noteq> [])"
| "truthy (JList xs) = (xs \<noteq> [])"
| "truthy (JObj d) = (d \<noteq> [])"

fun is_dict :: "json \<Rightarrow> bool" where
  "is_dict (JObj _) = True"
| "is_dict _ = False"

text \<open>\<^verbatim>\<open>x if isinstance(x, dict) else {}\<close>, and \<^verbatim>\<open>d.get(k)\<close> with its default \<^verbatim>\<open>None\<close>.\<close>

fun as_dict :: "json \<Rightarrow> dict" where
  "as_dict (JObj d) = d"
| "as_dict _ = []"

definition dget :: "dict \<Rightarrow> string \<Rightarrow> json" where
  "dget d k = (case map_of d k of None \<Rightarrow> JNull | Some v \<Rightarrow> v)"

definition dget_or :: "dict \<Rightarrow> string \<Rightarrow> json \<Rightarrow> json" where
  "dget_or d k v0 = (case map_of d k of None \<Rightarrow> v0 | Some v \<Rightarrow> v)"

definition has_key :: "dict \<Rightarrow> string \<Rightarrow> bool" where
  "has_key d k = (map_of d k \<noteq> None)"

text \<open>\<^verbatim>\<open>d[k] = v\<close> keeps the place of an existing key and appends a new one.\<close>

fun dset :: "dict \<Rightarrow> string \<Rightarrow> json \<Rightarrow> dict" where
  "dset [] k v = [(k, v)]"
| "dset ((a, b) # d) k v = (if a = k then (a, v) # d else (a, b) # dset d k v)"

definition dupdate :: "dict \<Rightarrow> dict \<Rightarrow> dict" where
  "dupdate d e = foldl (\<lambda>acc (k, v). dset acc k v) d e"

text \<open>\<^verbatim>\<open>x or y\<close> on values.\<close>

definition jor :: "json \<Rightarrow> json \<Rightarrow> json" where
  "jor x y = (if truthy x then x else y)"

lemma map_of_dset [simp, value_simps]: "map_of (dset d k v) = (map_of d)(k \<mapsto> v)"
  by (induction d k v rule: dset.induct) (auto simp: fun_eq_iff)

lemma dget_dset [simp, value_simps]: "dget (dset d k v) k' = (if k' = k then v else dget d k')"
  by (simp add: dget_def)

lemma dget_Nil [simp, value_simps]: "dget [] k = JNull"
  by (simp add: dget_def)

lemma dset_not_Nil [simp]: "dset d k v \<noteq> []"
  by (cases d) (auto split: if_splits)

lemma fst_dset: "fst ` set (dset d k v) = insert k (fst ` set d)"
  by (induction d k v rule: dset.induct) auto

lemma distinct_dset: "distinct (map fst d) \<Longrightarrow> distinct (map fst (dset d k v))"
proof (induction d k v rule: dset.induct)
  case (2 a b d k v)
  then show ?case using fst_dset [of d k v] by (auto simp: image_iff)
qed simp

section \<open>Conversions\<close>

definition trunc_rat :: "rat \<Rightarrow> int" where
  "trunc_rat q = (if q < 0 then - \<lfloor>- q\<rfloor> else \<lfloor>q\<rfloor>)"

text \<open>\<^verbatim>\<open>int(x)\<close>; \<open>None\<close> is the TypeError or ValueError.\<close>

fun py_int :: "json \<Rightarrow> int option" where
  "py_int (JBool b) = Some (if b then 1 else 0)"
| "py_int (JInt i) = Some i"
| "py_int (JFloat q _) = Some (trunc_rat q)"
| "py_int (JStr s) = parse_int s"
| "py_int _ = None"

text \<open>\<^verbatim>\<open>repr\<close> of a string: the quote is a single one unless that alone would need escaping.\<close>

definition hex_digit :: "nat \<Rightarrow> char" where
  "hex_digit n = (if n < 10 then char_of (48 + n) else char_of (87 + n))"

definition repr_char :: "char \<Rightarrow> char \<Rightarrow> string" where
  "repr_char q c = (let n = (of_char c :: nat) in
     if c = q then [CHR 0x5C, c]
     else if n = 92 then [CHR 0x5C, CHR 0x5C]
     else if n = 9 then [CHR 0x5C, CHR ''t'']
     else if n = 10 then [CHR 0x5C, CHR ''n'']
     else if n = 13 then [CHR 0x5C, CHR ''r'']
     else if n < 32 \<or> (127 \<le> n \<and> n \<le> 160) \<or> n = 173
       then [CHR 0x5C, CHR ''x'', hex_digit (n div 16), hex_digit (n mod 16)]
     else [c])"

definition repr_str :: "string \<Rightarrow> string" where
  "repr_str s = (let q = (if CHR 0x27 \<in> set s \<and> CHR 0x22 \<notin> set s then CHR 0x22 else CHR 0x27)
     in q # concat (map (repr_char q) s) @ [q])"

fun join_comma :: "string list \<Rightarrow> string" where
  "join_comma [] = []"
| "join_comma [s] = s"
| "join_comma (s # t # r) = s @ '', '' @ join_comma (t # r)"

fun py_repr :: "json \<Rightarrow> string" where
  "py_repr JNull = ''None''"
| "py_repr (JBool b) = (if b then ''True'' else ''False'')"
| "py_repr (JInt i) = show_int i"
| "py_repr (JFloat _ r) = r"
| "py_repr (JStr s) = repr_str s"
| "py_repr (JList xs) = ''['' @ join_comma (map py_repr xs) @ '']''"
| "py_repr (JObj d) = ''{'' @ join_comma (map (\<lambda>(k, v). repr_str k @ '': '' @ py_repr v) d) @ ''}''"

definition py_str :: "json \<Rightarrow> string" where
  "py_str v = (case v of JStr s \<Rightarrow> s | _ \<Rightarrow> py_repr v)"

text \<open>\<^verbatim>\<open>str(x or "")\<close>, the way the program reads an optional text field.\<close>

definition text_or_empty :: "json \<Rightarrow> string" where
  "text_or_empty v = (if truthy v then py_str v else [])"

lemma text_or_empty_simps [simp, value_simps]:
  "text_or_empty (JStr s) = s" "text_or_empty JNull = []" "text_or_empty (JBool False) = []"
  by (simp_all add: text_or_empty_def py_str_def)

text \<open>\<^verbatim>\<open>int(x or d)\<close>.\<close>

definition int_or :: "json \<Rightarrow> int \<Rightarrow> int option" where
  "int_or v d = (if truthy v then py_int v else Some d)"

lemma int_or_simps [simp, value_simps]:
  "int_or JNull d = Some d" "int_or (JInt i) d = Some (if i = 0 then d else i)"
  by (simp_all add: int_or_def)

section \<open>Equality\<close>

text \<open>
  \<^verbatim>\<open>==\<close> on values: numbers (booleans among them) by value, dictionaries without regard to
  the order of their keys.
\<close>

fun num_of :: "json \<Rightarrow> rat option" where
  "num_of (JBool b) = Some (if b then 1 else 0)"
| "num_of (JInt i) = Some (of_int i)"
| "num_of (JFloat q _) = Some q"
| "num_of _ = None"

fun py_eq :: "json \<Rightarrow> json \<Rightarrow> bool" where
  "py_eq (JObj xs) y =
     (case y of JObj ys \<Rightarrow>
        length xs = length ys
        \<and> list_all (\<lambda>(k, v). case map_of ys k of None \<Rightarrow> False | Some w \<Rightarrow> py_eq v w) xs
      | _ \<Rightarrow> False)"
| "py_eq (JList xs) y = (case y of JList ys \<Rightarrow> list_all2 py_eq xs ys | _ \<Rightarrow> False)"
| "py_eq JNull y = (y = JNull)"
| "py_eq (JStr s) y = (y = JStr s)"
| "py_eq x y = (num_of x \<noteq> None \<and> num_of x = num_of y)"

text \<open>Values as Python holds them: no key twice in a dictionary.\<close>

fun proper :: "json \<Rightarrow> bool" where
  "proper (JObj d) = (distinct (map fst d) \<and> list_all (\<lambda>(k, v). proper v) d)"
| "proper (JList xs) = list_all proper xs"
| "proper v = True"

lemma py_eq_refl: "proper v \<Longrightarrow> py_eq v v"
proof (induction v rule: proper.induct)
  case (1 d)
  then have "py_eq v v" if "(k, v) \<in> set d" for k v
    using that by (force simp: list_all_iff)
  moreover have "map_of d k = Some v" if "(k, v) \<in> set d" for k v
    using that 1 by simp
  ultimately show ?case by (auto simp: list_all_iff)
next
  case (2 xs)
  then have "\<And>x. x \<in> set xs \<Longrightarrow> py_eq x x" by (simp add: list_all_iff)
  then show ?case by (simp add: list_all2_same)
qed auto

end
