(* ===== verification/Event_Text.thy ===== *)
theory Event_Text
  imports Py_Value
begin

text \<open>
  \<^verbatim>\<open>apps/task/event_text.py\<close>: the neutral wording of task events. The name of the storage
  engine is replaced in messages and, recursively, in metadata; routing identifiers keep their
  values. The lemmas show that no message keeps the name and that rewriting twice is rewriting
  once.
\<close>

section \<open>The two substitutions\<close>

text \<open>A case-insensitive match of \<open>pat\<close> (given in lower case) at the head of \<open>s\<close>.\<close>

fun match_ci :: "string \<Rightarrow> string \<Rightarrow> bool" where
  "match_ci [] s = True"
| "match_ci (p # ps) [] = False"
| "match_ci (p # ps) (c # cs) = (lower_char c = p \<and> match_ci ps cs)"

definition engine_name :: string where
  "engine_name = ''kopia''"

text \<open>\<^verbatim>\<open>_ENGINE_CODE.sub("REPOSITORY", value)\<close>: the name directly before an underscore.\<close>

function sub_engine_code :: "string \<Rightarrow> string" where
  "sub_engine_code s =
     (if match_ci engine_name s \<and> drop 5 s \<noteq> [] \<and> hd (drop 5 s) = CHR ''_''
      then ''REPOSITORY'' @ sub_engine_code (drop 5 s)
      else case s of [] \<Rightarrow> [] | c # cs \<Rightarrow> c # sub_engine_code cs)"
  by pat_completeness auto
termination
  by (relation "measure length") auto

text \<open>\<^verbatim>\<open>_ENGINE_NAME.sub("repository engine", value)\<close>.\<close>

function sub_engine_name :: "string \<Rightarrow> string" where
  "sub_engine_name s =
     (if match_ci engine_name s then ''repository engine'' @ sub_engine_name (drop 5 s)
      else case s of [] \<Rightarrow> [] | c # cs \<Rightarrow> c # sub_engine_name cs)"
  by pat_completeness auto
termination
proof (relation "measure length")
  fix s :: string
  assume "match_ci engine_name s"
  then show "(drop 5 s, s) \<in> measure length"
    by (cases s) (auto simp: engine_name_def)
qed auto

declare sub_engine_code.simps [simp del]
declare sub_engine_name.simps [simp del]

definition neutral_event_text :: "string \<Rightarrow> string" where
  "neutral_event_text value' = sub_engine_name (sub_engine_code value')"

definition identifier_fields :: "string list" where
  "identifier_fields = [''step'', ''step_name'', ''current_step'', ''event_type'']"

definition keeps_value :: "string \<Rightarrow> bool" where
  "keeps_value key \<longleftrightarrow>
     key \<in> set identifier_fields
     \<or> suffix ''_id'' key \<or> suffix ''_ids'' key \<or> suffix ''_uuid'' key"

fun neutral_event_metadata :: "json \<Rightarrow> json" where
  "neutral_event_metadata (JStr s) = JStr (neutral_event_text s)"
| "neutral_event_metadata (JObj d) =
     JObj (map (\<lambda>(key, item). (key, if keeps_value key then item else neutral_event_metadata item)) d)"
| "neutral_event_metadata (JList xs) = JList (map neutral_event_metadata xs)"
| "neutral_event_metadata v = v"

section \<open>No message keeps the name\<close>

text \<open>The name occurs somewhere in a text, in any case.\<close>

fun mentions_engine :: "string \<Rightarrow> bool" where
  "mentions_engine [] = False"
| "mentions_engine (c # cs) = (match_ci engine_name (c # cs) \<or> mentions_engine cs)"

lemma match_ci_sub_engine_name:
  assumes "match_ci u (sub_engine_name s)" and "CHR ''r'' \<notin> set u"
  shows "match_ci u s"
  using assms
proof (induction u arbitrary: s)
  case Nil
  then show ?case by simp
next
  case (Cons p u)
  show ?case
  proof (cases "match_ci engine_name s")
    case True
    with Cons.prems have "lower_char (CHR ''r'') = p"
      by (simp add: sub_engine_name.simps [of s])
    then show ?thesis using Cons.prems(2) by (simp add: lower_char_def Let_def)
  next
    case False
    show ?thesis
    proof (cases s)
      case Nil
      with False Cons.prems show ?thesis by (simp add: sub_engine_name.simps [of "[]"])
    next
      case (Cons c cs)
      with False Cons.prems Cons.IH show ?thesis
        by (simp add: sub_engine_name.simps [of "c # cs"])
    qed
  qed
qed

lemma match_name_imp_mentions: "match_ci engine_name s \<Longrightarrow> mentions_engine s"
  by (cases s) (auto simp: engine_name_def)

lemma replacement_hides_name:
  "\<not> mentions_engine t \<Longrightarrow> \<not> mentions_engine (''repository engine'' @ t)"
  by (simp add: engine_name_def lower_char_def Let_def)

lemma sub_engine_name_clean: "\<not> mentions_engine (sub_engine_name s)"
proof (induction s rule: sub_engine_name.induct)
  case (1 s)
  show ?case
  proof (cases "match_ci engine_name s")
    case True
    with "1.IH"(1) have "\<not> mentions_engine (''repository engine'' @ sub_engine_name (drop 5 s))"
      by (intro replacement_hides_name) simp
    with True show ?thesis by (simp add: sub_engine_name.simps [of s])
  next
    case False
    show ?thesis
    proof (cases s)
      case Nil
      with False show ?thesis by (simp add: sub_engine_name.simps [of "[]"])
    next
      case (Cons c cs)
      with "1.IH"(2) False have "\<not> mentions_engine (sub_engine_name cs)" by simp
      moreover have "\<not> match_ci engine_name (c # sub_engine_name cs)"
      proof
        assume "match_ci engine_name (c # sub_engine_name cs)"
        then have "lower_char c = CHR ''k''" and "match_ci ''opia'' (sub_engine_name cs)"
          by (simp_all add: engine_name_def)
        then have "match_ci engine_name (c # cs)"
          using match_ci_sub_engine_name [of "''opia''" cs] by (simp add: engine_name_def)
        with False Cons show False by simp
      qed
      ultimately show ?thesis using False Cons by (simp add: sub_engine_name.simps [of "c # cs"])
    qed
  qed
qed

lemma neutral_event_text_clean: "\<not> mentions_engine (neutral_event_text s)"
  by (simp add: neutral_event_text_def sub_engine_name_clean)

lemma sub_engine_name_id: "\<not> mentions_engine s \<Longrightarrow> sub_engine_name s = s"
proof (induction s)
  case Nil
  then show ?case by (simp add: sub_engine_name.simps [of "[]"] engine_name_def)
next
  case (Cons c cs)
  then show ?case by (simp add: sub_engine_name.simps [of "c # cs"])
qed

lemma sub_engine_code_id: "\<not> mentions_engine s \<Longrightarrow> sub_engine_code s = s"
proof (induction s)
  case Nil
  then show ?case by (simp add: sub_engine_code.simps [of "[]"])
next
  case (Cons c cs)
  then show ?case by (simp add: sub_engine_code.simps [of "c # cs"])
qed

lemma neutral_event_text_id: "\<not> mentions_engine s \<Longrightarrow> neutral_event_text s = s"
  by (simp add: neutral_event_text_def sub_engine_code_id sub_engine_name_id)

lemma neutral_event_text_idem [simp]:
  "neutral_event_text (neutral_event_text s) = neutral_event_text s"
  by (simp add: neutral_event_text_id neutral_event_text_clean)

section \<open>Metadata\<close>

text \<open>Every text of a metadata value that is not a routing identifier is neutral.\<close>

fun neutral_value :: "json \<Rightarrow> bool" where
  "neutral_value (JStr s) = (\<not> mentions_engine s)"
| "neutral_value (JObj d) = list_all (\<lambda>(key, item). keeps_value key \<or> neutral_value item) d"
| "neutral_value (JList xs) = list_all neutral_value xs"
| "neutral_value v = True"

lemma neutral_event_metadata_clean: "neutral_value (neutral_event_metadata v)"
  by (induction v rule: neutral_event_metadata.induct)
    (auto simp: neutral_event_text_clean list_all_iff split: if_splits)

lemma neutral_event_metadata_id: "neutral_value v \<Longrightarrow> neutral_event_metadata v = v"
  by (induction v rule: neutral_event_metadata.induct)
    (auto simp: neutral_event_text_id list_all_iff intro!: map_idI)

lemma neutral_event_metadata_keys:
  "neutral_event_metadata v = JObj d' \<Longrightarrow> \<exists>d. v = JObj d \<and> map fst d' = map fst d"
  by (cases v rule: neutral_event_metadata.cases) (auto simp: case_prod_unfold comp_def)

lemma neutral_event_metadata_routing:
  "keeps_value key \<Longrightarrow> neutral_event_metadata (JObj d) = JObj d' \<Longrightarrow> map_of d' key = map_of d key"
proof -
  assume "keeps_value key" and "neutral_event_metadata (JObj d) = JObj d'"
  then show "map_of d' key = map_of d key"
    by (induction d arbitrary: d') auto
qed

end
