(* ===== verification/Task_Service.thy ===== *)
theory Task_Service
  imports Task_Model
begin

text \<open>
  The operations of \<^verbatim>\<open>apps/task/services/interface.py\<close> and \<^verbatim>\<open>recovery.py\<close>, one definition
  each, on the stores of \<open>Task_Model\<close>. Every operation takes the clock reading it uses;
  \<open>create_task\<close> also takes the fresh \<^verbatim>\<open>uuid4\<close> of the new row. An exception rolls the
  transaction back, so the \<open>Inl\<close> carries no database.
\<close>

section \<open>The original trigger of a task\<close>

text \<open>\<^verbatim>\<open>trigger.py\<close>: follow the replacement links while the trigger is the legacy \<^verbatim>\<open>retry\<close>.\<close>

definition trigger_parent :: "task_db \<Rightarrow> task \<Rightarrow> task option" where
  "trigger_parent db cur = (case t_replaces cur of None \<Rightarrow> None | Some p \<Rightarrow> task_by_id db p)"

function trigger_walk :: "task_db \<Rightarrow> task \<Rightarrow> nat list \<Rightarrow> task \<Rightarrow> task" where
  "trigger_walk db t visited cur =
     (if t_trigger cur \<noteq> Retry \<or> t_id cur \<in> set visited then cur
      else case trigger_parent db cur of
        None \<Rightarrow> cur
      | Some parent \<Rightarrow>
          if t_org parent \<noteq> t_org t \<or> t_type parent \<noteq> t_type t then cur
          else trigger_walk db t (t_id cur # visited) parent)"
  by pat_completeness auto
termination
proof (relation "measure (\<lambda>(db, t, visited, cur).
    card (insert (t_id cur) (t_id ` set (db_tasks db)) - set visited))")
  fix db :: task_db and t :: task and visited and cur parent
  assume "\<not> (t_trigger cur \<noteq> Retry \<or> t_id cur \<in> set visited)"
    and p: "trigger_parent db cur = Some parent"
  then have new: "t_id cur \<notin> set visited" by simp
  let ?ids = "t_id ` set (db_tasks db)"
  from p have "t_id parent \<in> ?ids"
    by (auto simp: trigger_parent_def split: option.splits dest!: task_by_id_Some)
  then have "insert (t_id parent) ?ids - set (t_id cur # visited)
      \<subseteq> insert (t_id cur) ?ids - set visited - {t_id cur}" by auto
  then have "card (insert (t_id parent) ?ids - set (t_id cur # visited))
      \<le> card (insert (t_id cur) ?ids - set visited - {t_id cur})"
    by (intro card_mono) auto
  also have "\<dots> < card (insert (t_id cur) ?ids - set visited)"
    using new by (intro psubset_card_mono) auto
  finally show "((db, t, t_id cur # visited, parent), db, t, visited, cur)
      \<in> measure (\<lambda>(db, t, visited, cur).
          card (insert (t_id cur) (t_id ` set (db_tasks db)) - set visited))" by simp
qed auto

declare trigger_walk.simps [simp del]

definition legacy_maintenance :: "repository_operation \<Rightarrow> bool" where
  "legacy_maintenance ro \<longleftrightarrow>
     ro_operation_type ro \<in> {''maintenance.quick'', ''maintenance.full''}
     \<or> or_else (ro_triggered_by_task ro) 0 \<noteq> 0
     \<or> (ro_operation_type ro = ''snapshot.reconcile'' \<and> ro_requested_by ro = None)"

definition task_trigger_source :: "task_db \<Rightarrow> task \<Rightarrow> trigger_type" where
  "task_trigger_source db t =
     (let current = trigger_walk db t [] t in
      if t_trigger current \<noteq> Retry then t_trigger current
      else if t_type t = Repository_operation
        \<and> (case first_where (\<lambda>ro. ro_task ro = t_id current) (db_operations db) of
             None \<Rightarrow> False | Some ro \<Rightarrow> legacy_maintenance ro)
      then System else Manual)"

lemma task_trigger_source_not_retry: "task_trigger_source db t \<noteq> Retry"
  by (simp add: task_trigger_source_def Let_def)

section \<open>Creation\<close>

text \<open>
  What a caller passes: a resource or a step dictionary is given by its keys, a missing key as
  \<open>None\<close>; \<open>Unsaved\<close> is a replaced task without a primary key.
\<close>

record resource_def =
  rd_type :: "string option"
  rd_subtype :: "string option"
  rd_ref :: "int option"
  rd_primary :: bool

datatype step_def =
  Named_step string
| Step_fields (sd_name: "string option") (sd_status: "string option") (sd_progress: "rat option")

datatype task_ref = Unsaved | Saved nat

record task_request =
  q_org :: "int option"
  q_type :: string
  q_name :: string
  q_trigger :: string
  q_payload :: "dict option"
  q_resources :: "resource_def list"
  q_steps :: "step_def list"
  q_normalize :: bool
  q_replaces :: "task_ref option"
  q_group_uuid :: "string option"
  q_key :: "string option"
  q_notify_on_commit :: bool

definition creation_trigger :: "trigger_type \<Rightarrow> trigger_type" where
  "creation_trigger tr = (if tr = System then System else Manual)"

definition backup_source_only :: "task_type \<Rightarrow> bool" where
  "backup_source_only ty \<longleftrightarrow> ty \<in> {Backup, Restore, Insight_workspace_restore, Snapshot_download,
     Snapshot_delete, Backup_config_reset, Source_unregister}"

definition replaced_task ::
  "task_request \<Rightarrow> task_type \<Rightarrow> task_db \<Rightarrow> (task_error, task option) result" where
  "replaced_task q ty db =
     (case q_replaces q of
        None \<Rightarrow> Inr None
      | Some Unsaved \<Rightarrow>
          Inl (Validation ''replaces_task'' ''The interrupted task must be persisted.'')
      | Some (Saved i) \<Rightarrow>
          rbind (of_option Does_not_exist (task_by_id db i)) (\<lambda>r.
          rbind (guard_that (t_org r = q_org q) (Validation ''replaces_task''
            ''Replacement tasks must belong to the same organization.'')) (\<lambda>_.
          rbind (guard_that (t_type r = ty) (Validation ''replaces_task''
            ''Replacement tasks must use the same task type.'')) (\<lambda>_.
          rbind (guard_that (t_status r = Failed) (Validation ''replaces_task''
            ''The interrupted task must be failed before replacement.'')) (\<lambda>_.
          rbind (guard_that (\<forall>x \<in> set (db_tasks db). t_replaces x \<noteq> Some (t_id r))
            (Validation ''replaces_task'' ''The interrupted task already has a replacement.''))
            (\<lambda>_. Inr (Some r)))))))"

definition first_step_name :: "step_def list \<Rightarrow> string option" where
  "first_step_name sds = (case sds of
       [] \<Rightarrow> None
     | Named_step n # _ \<Rightarrow> Some n
     | Step_fields n _ _ # _ \<Rightarrow> n)"

text \<open>\<^verbatim>\<open>str(first_step) if first_step else None\<close>\<close>

definition nonempty_name :: "string option \<Rightarrow> string option" where
  "nonempty_name n = (if or_else n [] = [] then None else n)"

text \<open>The unique constraints of the task table; SQL does not compare null columns.\<close>

definition task_conflict :: "task \<Rightarrow> task \<Rightarrow> bool" where
  "task_conflict a b \<longleftrightarrow>
     t_uuid a = t_uuid b
     \<or> (t_replaces a \<noteq> None \<and> t_replaces a = t_replaces b)
     \<or> (t_org a \<noteq> None \<and> t_org a = t_org b
        \<and> t_idempotency_key a \<noteq> None \<and> t_idempotency_key a = t_idempotency_key b)"

definition insert_task :: "task \<Rightarrow> task_db \<Rightarrow> (task_error, task_db) result" where
  "insert_task t db =
     rbind (guard_that (\<forall>x \<in> set (db_tasks db). \<not> task_conflict t x) (Integrity ''task''))
       (\<lambda>_. Inr (db\<lparr>db_tasks := db_tasks db @ [t], db_next_task := Suc (t_id t)\<rparr>))"

definition insert_resource :: "nat \<Rightarrow> resource_def \<Rightarrow> task_db \<Rightarrow> (task_error, task_db) result" where
  "insert_resource i rd db =
     rbind (of_option (Missing_key ''resource_type'') (rd_type rd)) (\<lambda>ty.
     rbind (of_option (Missing_key ''resource_id'') (rd_ref rd)) (\<lambda>ref.
     let row = \<lparr>r_task = i, r_type = ty, r_subtype = or_else (rd_subtype rd) [], r_ref = ref,
                r_primary = rd_primary rd\<rparr> in
     rbind (guard_that (\<forall>x \<in> set (db_resources db).
              \<not> (r_task x = i \<and> r_type x = r_type row \<and> r_subtype x = r_subtype row
                 \<and> r_ref x = r_ref row) \<and> \<not> (r_task x = i \<and> r_primary x \<and> r_primary row))
              (Integrity ''task_resource''))
       (\<lambda>_. Inr (db\<lparr>db_resources := db_resources db @ [row]\<rparr>))))"

definition step_columns :: "step_def \<Rightarrow> (task_error, string \<times> step_status \<times> int) result" where
  "step_columns sd = (case sd of
       Named_step n \<Rightarrow> Inr (n, Step_pending, 0)
     | Step_fields n st pr \<Rightarrow>
         rbind (of_option (Missing_key ''step_name'') n) (\<lambda>name.
         rbind (progress_of (or_else pr 0)) (\<lambda>p.
           Inr (name, if or_else st [] = [] then Step_pending else parse_step_status (the st), p))))"

definition insert_step ::
  "int \<Rightarrow> nat \<Rightarrow> nat \<times> step_def \<Rightarrow> task_db \<Rightarrow> (task_error, task_db) result" where
  "insert_step now i = (\<lambda>(idx, sd) db.
     rbind (step_columns sd) (\<lambda>(name, status, progress).
       Inr (db\<lparr>db_steps := db_steps db @
              [\<lparr>s_id = db_next_step db, s_task = i, s_index = idx, s_name = name,
                s_status = status, s_progress = progress, s_created_at = now\<rparr>],
            db_next_step := Suc (db_next_step db)\<rparr>)))"

definition send_signal :: "task_signal \<Rightarrow> task_db \<Rightarrow> task_db" where
  "send_signal sg db = db\<lparr>db_signals := db_signals db @ [sg]\<rparr>"

definition updated_signal :: "task \<Rightarrow> task_signal" where
  "updated_signal t = Task_updated (t_uuid t) (t_org t) (t_status t) (t_progress t)"

definition new_task ::
  "int \<Rightarrow> string \<Rightarrow> task_request \<Rightarrow> task_type \<Rightarrow> trigger_type \<Rightarrow> task option \<Rightarrow> string option \<Rightarrow> nat \<Rightarrow> task" where
  "new_task now uuid q ty tr replaced first_step i =
     \<lparr>t_id = i, t_uuid = uuid, t_org = q_org q, t_type = ty, t_name = strip (q_name q),
      t_status = Pending, t_progress = 0, t_current_step = nonempty_name first_step,
      t_retry_count = 0,
      t_recovery_attempt = (case replaced of None \<Rightarrow> 0 | Some r \<Rightarrow> t_recovery_attempt r + 1),
      t_replaces = map_option t_id replaced, t_trigger = tr,
      t_request = (case q_payload q of None \<Rightarrow> None | Some d \<Rightarrow> if d = [] then None else Some d),
      t_group_uuid = q_group_uuid q,
      t_idempotency_key = (if or_else (q_key q) [] = [] then None else map_option strip (q_key q)),
      t_result = None, t_error_code = None, t_error_message = None,
      t_started_at = None, t_finished_at = None, t_created_at = now, t_updated_at = now\<rparr>"

definition request_trigger :: "task_request \<Rightarrow> trigger_type \<Rightarrow> task option \<Rightarrow> task_db \<Rightarrow> trigger_type" where
  "request_trigger q tr replaced db =
     (case replaced of
        Some r \<Rightarrow> task_trigger_source db r
      | None \<Rightarrow>
          let tr' = (if q_normalize q then creation_trigger tr else tr)
          in if tr' = Retry then Manual else tr')"

definition kept_resources :: "task_request \<Rightarrow> task_type \<Rightarrow> resource_def list" where
  "kept_resources q ty =
     (if backup_source_only ty
      then filter (\<lambda>rd. or_else (rd_type rd) [] = ''backup_source'') (q_resources q)
      else q_resources q)"

definition announce_created :: "bool \<Rightarrow> task \<Rightarrow> task_db \<Rightarrow> task_db" where
  "announce_created deferred t db =
     (if deferred then db\<lparr>db_on_commit := db_on_commit db @ [t_id t]\<rparr>
      else send_signal (updated_signal t) db)"

text \<open>The stores after the checks of the arguments have passed.\<close>

definition store_task ::
  "int \<Rightarrow> string \<Rightarrow> task_request \<Rightarrow> task_type \<Rightarrow> trigger_type \<Rightarrow> task option \<Rightarrow> task_db \<Rightarrow> task task_result" where
  "store_task now uuid q ty tr replaced db =
     (let step_defs = (if q_steps q = [] then map Named_step (default_steps ty) else q_steps q);
          first_step = first_step_name step_defs;
          t = new_task now uuid q ty tr replaced first_step (db_next_task db) in
      rbind (insert_task t db) (\<lambda>db.
      rbind (rfold (insert_resource (t_id t)) (kept_resources q ty) db) (\<lambda>db.
      rbind (rfold (insert_step now (t_id t)) (zip [1..<Suc (length step_defs)] step_defs) db) (\<lambda>db.
      let db = append_task_event now t Info ''Task created''
                 (Some [(''task_type'', JStr (task_type_value ty)),
                        (''trigger_type'', JStr (trigger_type_value tr))])
                 (find_task_step db t (nonempty_name first_step)) db
      in Inr (announce_created (q_notify_on_commit q) t db, t)))))"

definition create_task :: "int \<Rightarrow> string \<Rightarrow> task_request \<Rightarrow> task_db \<Rightarrow> task task_result" where
  "create_task now uuid q db =
     rbind (of_option (Validation ''task_type'' ''Unsupported task type.'')
              (parse_task_type (q_type q))) (\<lambda>ty.
     rbind (of_option (Validation ''trigger_type'' ''Unsupported trigger type.'')
              (parse_trigger_type (q_trigger q))) (\<lambda>tr.
     rbind (guard_that (strip (q_name q) \<noteq> [])
              (Validation ''display_name'' ''Display name is required.'')) (\<lambda>_.
     rbind (replaced_task q ty db) (\<lambda>replaced.
     rbind (guard_that (length (filter rd_primary (q_resources q)) \<le> 1)
              (Validation ''resources'' ''A task can have at most one primary resource.'')) (\<lambda>_.
       store_task now uuid q ty (request_trigger q tr replaced db) replaced db)))))"

text \<open>
  The commit of the enclosing transaction: every deferred announcement reads its task again and
  is dropped when the row is gone.
\<close>

definition run_on_commit :: "task_db \<Rightarrow> task_db" where
  "run_on_commit db =
     fold (\<lambda>i db. case task_by_id db i of
         None \<Rightarrow> db | Some t \<Rightarrow> send_signal (updated_signal t) db)
       (db_on_commit db) (db\<lparr>db_on_commit := []\<rparr>)"

text \<open>\<^verbatim>\<open>create_restore_task\<close>\<close>

record restore_request =
  rq_org :: int
  rq_plan :: "int option"
  rq_snapshot :: "int option"
  rq_snapshots :: "int list"
  rq_selection :: dict
  rq_mode :: string
  rq_target :: dict
  rq_conflict :: string
  rq_acl :: bool
  rq_source_type :: "string option"
  rq_source_ref :: "int option"

definition restore_snapshots :: "restore_request \<Rightarrow> int list" where
  "restore_snapshots q =
     (let sids = filter (\<lambda>sid. sid \<noteq> 0) (rq_snapshots q) in
      case rq_snapshot q of
        None \<Rightarrow> sids
      | Some s \<Rightarrow> if s \<noteq> 0 \<and> s \<notin> set sids then s # sids else sids)"

definition opt_int :: "int option \<Rightarrow> json" where
  "opt_int x = (case x of None \<Rightarrow> JNull | Some i \<Rightarrow> JInt i)"

definition restore_payload :: "restore_request \<Rightarrow> dict" where
  "restore_payload q = (let sids = restore_snapshots q in
     [(''restore_plan_id'', opt_int (rq_plan q)),
      (''snapshot_id'', opt_int (rq_snapshot q)),
      (''snapshot_ids'', JList (map JInt sids)),
      (''snapshot_count'', JInt (int (length sids))),
      (''selection'', JObj (rq_selection q)),
      (''mode'', JStr (rq_mode q)),
      (''target'', JObj (rq_target q)),
      (''conflict'', JStr (rq_conflict q)),
      (''restore_acl'', JBool (rq_acl q))])"

definition restore_task_request :: "restore_request \<Rightarrow> task_request" where
  "restore_task_request q =
     \<lparr>q_org = Some (rq_org q), q_type = ''restore'',
      q_name = (case rq_plan q of
          None \<Rightarrow> ''Restore task''
        | Some p \<Rightarrow> if p = 0 then ''Restore task'' else ''Restore plan #'' @ show_int p),
      q_trigger = ''manual'', q_payload = Some (restore_payload q),
      q_resources =
        (if or_else (rq_source_type q) [] \<noteq> [] \<and> or_else (rq_source_ref q) 0 \<noteq> 0
         then [\<lparr>rd_type = Some ''backup_source'', rd_subtype = rq_source_type q,
                rd_ref = rq_source_ref q, rd_primary = True\<rparr>]
         else []),
      q_steps = [Named_step ''restore'', Named_step ''finalize''], q_normalize = True,
      q_replaces = None, q_group_uuid = None, q_key = None, q_notify_on_commit = False\<rparr>"

definition create_restore_task :: "int \<Rightarrow> string \<Rightarrow> restore_request \<Rightarrow> task_db \<Rightarrow> task task_result" where
  "create_restore_task now uuid q db = create_task now uuid (restore_task_request q) db"

section \<open>Lifecycle\<close>

text \<open>\<^verbatim>\<open>task.save(update_fields=...)\<close>: the columns \<open>f\<close> sets, in the row and in the object.\<close>

definition save_task :: "(task \<Rightarrow> task) \<Rightarrow> task \<Rightarrow> task_db \<Rightarrow> task_db" where
  "save_task f t db = db\<lparr>db_tasks := update_where (\<lambda>r. t_id r = t_id t) f (db_tasks db)\<rparr>"

definition find_locked :: "task_db \<Rightarrow> string \<Rightarrow> int \<Rightarrow> (task_error, task) result" where
  "find_locked db uuid org = of_option Does_not_exist (locked_task db uuid org)"

definition cancellation_result_payload :: "task \<Rightarrow> dict" where
  "cancellation_result_payload t =
     [(''summary'', JStr ''Task cancelled by user''),
      (''resolutions'', JList [JStr ''You can retry the operation from the original workflow.'']),
      (''technical_detail'', JObj
         [(''task_type'', JStr (task_type_value (t_type t))),
          (''cancelled_step'', JStr (or_else (t_current_step t) []))])]"

definition cancelled_columns :: "int \<Rightarrow> string \<Rightarrow> dict option \<Rightarrow> task \<Rightarrow> task" where
  "cancelled_columns now message result' r =
     r\<lparr>t_status := Cancelled, t_error_code := Some ''TASK_CANCELLED'',
       t_error_message := Some message, t_result := result', t_finished_at := Some now,
       t_updated_at := now\<rparr>"

definition skip_open_steps :: "nat \<Rightarrow> task_db \<Rightarrow> task_db" where
  "skip_open_steps i db = db\<lparr>db_steps := update_where
     (\<lambda>s. s_task s = i \<and> s_status s \<in> {Step_pending, Step_running})
     (\<lambda>s. s\<lparr>s_status := Step_skipped\<rparr>) (db_steps db)\<rparr>"

definition resolve_dependencies :: "int \<Rightarrow> nat \<Rightarrow> task_db \<Rightarrow> task_db" where
  "resolve_dependencies now i db = db\<lparr>db_deps := update_where
     (\<lambda>d. d_task d = i \<and> d_is_active d)
     (\<lambda>d. d\<lparr>d_is_active := False, d_resolved_at := Some now\<rparr>) (db_deps db)\<rparr>"

definition finalize_task_cancellation :: "int \<Rightarrow> task \<Rightarrow> string \<Rightarrow> task_db \<Rightarrow> task_db \<times> task" where
  "finalize_task_cancellation now t reason db =
     (let message = (if strip reason = [] then ''Task cancelled by user'' else strip reason);
          result' = (if or_else (t_result t) [] = [] then Some (cancellation_result_payload t)
                     else t_result t);
          t' = cancelled_columns now message result' t;
          db = save_task (cancelled_columns now message result') t db;
          db = resolve_dependencies now (t_id t) (skip_open_steps (t_id t) db);
          db = append_task_event now t' Warn ''Task cancelled''
                 (Some [(''reason'', JStr message)]) (current_task_step db t') db;
          db = send_signal (Task_cancelled (t_uuid t') (t_org t') (t_status t')) db
      in (send_signal (updated_signal t') db, t'))"

definition cancel_task :: "int \<Rightarrow> string \<Rightarrow> int \<Rightarrow> string \<Rightarrow> task_db \<Rightarrow> task task_result" where
  "cancel_task now uuid org reason db =
     rbind (find_locked db uuid org) (\<lambda>t.
     rbind (guard_that (\<not> terminal (t_status t))
       (invalid ''Finished tasks cannot be cancelled.'')) (\<lambda>_.
     rbind (guard_that (\<not> is_restore_type (t_type t))
       (invalid ''Restore tasks must be cancelled through the restore service.'')) (\<lambda>_.
     rbind (guard_that (t_type t \<noteq> Source_unregister)
       (invalid (''Source deregistration tasks cannot be cancelled. Submit a new request ''
                 @ ''if cleanup did not start.''))) (\<lambda>_.
     rbind (guard_that (t_type t \<noteq> Backup_config_provision)
       (invalid ''Storage validation is controlled by the backup configuration workflow.'')) (\<lambda>_.
     rbind (guard_that (t_type t \<noteq> Node_lifecycle)
       (invalid ''Node lifecycle tasks are controlled by the authoritative Agent task.'')) (\<lambda>_.
       Inr (finalize_task_cancellation now t reason db)))))))"

definition retried_columns :: "int \<Rightarrow> task_step option \<Rightarrow> int \<Rightarrow> task \<Rightarrow> task" where
  "retried_columns now first_step n r =
     r\<lparr>t_status := Pending, t_progress := 0, t_current_step := map_option s_name first_step,
       t_retry_count := n, t_result := None, t_error_code := None, t_error_message := None,
       t_started_at := None, t_finished_at := None, t_updated_at := now\<rparr>"

definition reset_steps :: "nat \<Rightarrow> task_db \<Rightarrow> task_db" where
  "reset_steps i db = db\<lparr>db_steps := update_where (\<lambda>s. s_task s = i)
     (\<lambda>s. s\<lparr>s_status := Step_pending, s_progress := 0\<rparr>) (db_steps db)\<rparr>"

definition retry_task :: "int \<Rightarrow> string \<Rightarrow> int \<Rightarrow> string \<Rightarrow> task_db \<Rightarrow> task task_result" where
  "retry_task now uuid org reason db =
     rbind (find_locked db uuid org) (\<lambda>t.
     rbind (guard_that (\<not> is_restore_type (t_type t))
       (invalid ''Restore tasks must be restarted from their originating restore workflow.'')) (\<lambda>_.
     rbind (guard_that (t_type t \<noteq> Node_lifecycle)
       (invalid (''Node lifecycle tasks cannot be retried from Operations. Retry the node ''
                 @ ''operation from its host page.''))) (\<lambda>_.
     rbind (guard_that (t_status t \<in> {Failed, Timeout, Cancelled})
       (invalid ''Only failed, timeout, or cancelled tasks can be retried.'')) (\<lambda>_.
     let first_step = first_task_step db t;
         f = retried_columns now first_step (t_retry_count t + 1);
         db = reset_steps (t_id t) (save_task f t db);
         db = append_task_event now (f t) Info ''Task queued for retry''
                (Some [(''reason'', JStr (strip reason)),
                       (''retry_count'', JInt (t_retry_count t + 1))]) first_step db
     in Inr (send_signal (updated_signal (f t)) db, f t)))))"

definition start_task :: "int \<Rightarrow> string \<Rightarrow> int \<Rightarrow> task_db \<Rightarrow> task task_result" where
  "start_task now uuid org db =
     rbind (find_locked db uuid org) (\<lambda>t.
     rbind (guard_that (t_status t = Pending) (invalid ''Only pending tasks can be started.'')) (\<lambda>_.
     let f = (\<lambda>r. r\<lparr>t_status := Running, t_started_at := Some now, t_updated_at := now\<rparr>);
         db = save_task f t db;
         db = append_task_event now (f t) Info ''Task started'' None (current_task_step db (f t)) db
     in Inr (send_signal (updated_signal (f t)) db, f t)))"

definition resumed_columns :: "int \<Rightarrow> int option \<Rightarrow> task \<Rightarrow> task" where
  "resumed_columns now started r =
     r\<lparr>t_status := Running, t_started_at := started, t_error_code := None,
       t_error_message := None, t_updated_at := now\<rparr>"

definition resume_waiting_task :: "int \<Rightarrow> string \<Rightarrow> int \<Rightarrow> task_db \<Rightarrow> task task_result" where
  "resume_waiting_task now uuid org db =
     rbind (find_locked db uuid org) (\<lambda>t.
     rbind (guard_that (t_status t \<in> {Waiting, Blocked})
       (invalid ''Only waiting or blocked tasks can be resumed.'')) (\<lambda>_.
     rbind (guard_that (\<forall>d \<in> set (db_deps db). \<not> (d_task d = t_id t \<and> d_is_active d))
       (invalid ''Waiting task still has active dependencies.'')) (\<lambda>_.
     let f = resumed_columns now (Some (or_else (t_started_at t) now));
         db = save_task f t db;
         db = append_task_event now (f t) Info ''Task dependencies resolved; execution started''
                None (current_task_step db (f t)) db
     in Inr (send_signal (updated_signal (f t)) db, f t))))"

record completion =
  c_status :: string
  c_progress :: rat
  c_result :: "dict option"
  c_error_code :: string
  c_error_message :: string
  c_details_in_event :: bool
  c_event_metadata :: dict

definition nonempty :: "string \<Rightarrow> string option" where
  "nonempty s = (if s = [] then None else Some s)"

definition completed_columns ::
  "int \<Rightarrow> task_status \<Rightarrow> int \<Rightarrow> completion \<Rightarrow> int option \<Rightarrow> task \<Rightarrow> task" where
  "completed_columns now status progress c started r =
     r\<lparr>t_status := status, t_progress := progress, t_result := c_result c,
       t_error_code := nonempty (c_error_code c),
       t_error_message := nonempty (c_error_message c), t_started_at := started,
       t_finished_at := Some now, t_updated_at := now\<rparr>"

definition completion_metadata :: "completion \<Rightarrow> dict option" where
  "completion_metadata c =
     (let d = dupdate (if c_details_in_event c
          then [(''error_code'', JStr (c_error_code c)), (''error_message'', JStr (c_error_message c))]
          else []) (c_event_metadata c)
      in if d = [] then None else Some d)"

definition emit_task_terminal_signal :: "task \<Rightarrow> task_db \<Rightarrow> task_db" where
  "emit_task_terminal_signal t db =
     (case t_status t of
        Success \<Rightarrow> send_signal (Task_succeeded (t_uuid t) (t_org t)) db
      | Failed \<Rightarrow> send_signal (Task_failed (t_uuid t) (t_org t)) db
      | Timeout \<Rightarrow> send_signal (Task_timed_out (t_uuid t) (t_org t)) db
      | _ \<Rightarrow> db)"

definition finish_task :: "int \<Rightarrow> task_status \<Rightarrow> int \<Rightarrow> completion \<Rightarrow> task \<Rightarrow> task_db \<Rightarrow> task_db \<times> task" where
  "finish_task now status p c t db =
     (let f = completed_columns now status p c (Some (or_else (t_started_at t) now));
          db = save_task f t db;
          db = append_task_event now (f t) (if status = Success then Info else Error_level)
                 (''Task finished with status '' @ c_status c) (completion_metadata c)
                 (current_task_step db (f t)) db;
          db = send_signal (updated_signal (f t)) db
      in (emit_task_terminal_signal (f t) db, f t))"

definition complete_task :: "int \<Rightarrow> string \<Rightarrow> int \<Rightarrow> completion \<Rightarrow> task_db \<Rightarrow> task task_result" where
  "complete_task now uuid org c db =
     (case parse_task_status (c_status c) of
        None \<Rightarrow> Inl (invalid ''complete_task requires a terminal status.'')
      | Some status \<Rightarrow>
     rbind (guard_that (terminal status)
       (invalid ''complete_task requires a terminal status.'')) (\<lambda>_.
     rbind (find_locked db uuid org) (\<lambda>t.
     if terminal (t_status t) then Inr (db, t) else
     rbind (progress_of (c_progress c)) (\<lambda>p. Inr (finish_task now status p c t db)))))"

section \<open>Recovery after a restart of the control plane\<close>

datatype recovery_decision = Wait_decision | Resume_decision | Fail_decision | Fail_and_replace

fun recovery_decision_value :: "recovery_decision \<Rightarrow> string" where
  "recovery_decision_value Wait_decision = ''wait''"
| "recovery_decision_value Resume_decision = ''resume''"
| "recovery_decision_value Fail_decision = ''fail''"
| "recovery_decision_value Fail_and_replace = ''fail_and_replace''"

record recovery_plan =
  rp_decision :: recovery_decision
  rp_reason :: string
  rp_evidence :: dict

definition record_recovery_decision ::
  "int \<Rightarrow> task \<Rightarrow> recovery_plan \<Rightarrow> task option \<Rightarrow> task_db \<Rightarrow> task_db" where
  "record_recovery_decision now t plan replacement db =
     append_task_event now t
       (if rp_decision plan \<in> {Fail_decision, Fail_and_replace} then Warn else Info)
       (''Control-plane recovery decision: '' @ recovery_decision_value (rp_decision plan))
       (Some ([(''decision'', JStr (recovery_decision_value (rp_decision plan))),
               (''reason'', JStr (rp_reason plan)), (''evidence'', JObj (rp_evidence plan)),
               (''recovery_attempt'', JInt (int (t_recovery_attempt t)))]
              @ (case replacement of None \<Rightarrow> []
                 | Some r \<Rightarrow> [(''replacement_task_uuid'', JStr (t_uuid r))])))
       None db"

end
