(* ===== verification/Interfaces.thy ===== *)
theory Interfaces
  imports Prelude
begin

text \<open>
  The contracts components rely on, stated once as locales. Each is interpreted on the model's
  own definitions by the theory that provides it.
\<close>

section \<open>Step systems\<close>

lemma two_steps: "r a b \<Longrightarrow> r b c \<Longrightarrow> r\<^sup>*\<^sup>* a c"
  by (rule rtranclp.rtrancl_into_rtrancl [OF r_into_rtranclp])

text \<open>A step relation and a predicate every step keeps.\<close>

locale preserved =
  fixes step :: "'s \<Rightarrow> 's \<Rightarrow> bool"
    and inv :: "'s \<Rightarrow> bool"
  assumes step_inv: "step s s' \<Longrightarrow> inv s \<Longrightarrow> inv s'"
begin

lemma run_inv: "step\<^sup>*\<^sup>* s s' \<Longrightarrow> inv s \<Longrightarrow> inv s'"
  by (induction rule: rtranclp_induct) (auto intro: step_inv)

end

text \<open>
  A step system whose entities have a last word: once what is visible of an entity is final, no
  step changes it.
\<close>

locale absorbing = preserved step inv
  for step :: "'s \<Rightarrow> 's \<Rightarrow> bool" and inv :: "'s \<Rightarrow> bool" +
  fixes view :: "'k \<Rightarrow> 's \<Rightarrow> 'v option"
    and final :: "'v \<Rightarrow> bool"
  assumes step_view:
    "step s s' \<Longrightarrow> inv s \<Longrightarrow> view k s = Some v \<Longrightarrow> final v \<Longrightarrow> view k s' = Some v"
begin

lemma run_view:
  assumes "step\<^sup>*\<^sup>* s s'" and "inv s" and "view k s = Some v" and "final v"
  shows "view k s' = Some v"
  using assms
proof (induction rule: rtranclp_induct)
  case base
  then show ?case by simp
next
  case (step y z)
  then have "inv y" using run_inv by blast
  with step show ?case using step_view by blast
qed

text \<open>Two final observations of one entity agree, whatever happened between them.\<close>

lemma run_final_agree:
  assumes "step\<^sup>*\<^sup>* s s'" and "inv s"
    and "view k s = Some v" and "final v" and "view k s' = Some v'"
  shows "v' = v"
  using run_view [OF assms(1-4)] assms(5) by simp

end

text \<open>A step system with facts that, once true, stay true.\<close>

locale persisting = preserved step inv
  for step :: "'s \<Rightarrow> 's \<Rightarrow> bool" and inv :: "'s \<Rightarrow> bool" +
  fixes fact :: "'k \<Rightarrow> 's \<Rightarrow> bool"
  assumes step_fact: "step s s' \<Longrightarrow> inv s \<Longrightarrow> fact k s \<Longrightarrow> fact k s'"
begin

lemma run_fact:
  assumes "step\<^sup>*\<^sup>* s s'" and "inv s" and "fact k s"
  shows "fact k s'"
  using assms
proof (induction rule: rtranclp_induct)
  case base
  then show ?case by simp
next
  case (step y z)
  then have "inv y" using run_inv by blast
  with step show ?case using step_fact by blast
qed

end

end
