(* ===== verification/Task_Correct.thy ===== *)
theory Task_Correct
  imports Task_Service Interfaces
begin

text \<open>
  What the task services keep: the well-formedness of the stores, under every operation; the last
  word of a terminal task; and what each operation does on each of its branches.
\<close>

section \<open>Well-formed stores\<close>

text \<open>
  A row: finished exactly when terminal, started when it runs or ended by itself, no error while
  pending or running, progress within the column's range.
\<close>

definition task_row_ok :: "task \<Rightarrow> bool" where
  "task_row_ok t \<longleftrightarrow>
     (terminal (t_status t) \<longleftrightarrow> t_finished_at t \<noteq> None)
     \<and> (t_status t \<in> {Running, Success, Failed, Timeout} \<longrightarrow> t_started_at t \<noteq> None)
     \<and> (t_status t \<in> {Pending, Running} \<longrightarrow> t_error_code t = None \<and> t_error_message t = None)
     \<and> 0 \<le> t_progress t \<and> t_progress t \<le> 10000 \<and> 0 \<le> t_retry_count t"

definition unique_ok :: "task_db \<Rightarrow> bool" where
  "unique_ok db \<longleftrightarrow>
     distinct (map t_id (db_tasks db))
     \<and> (\<forall>t \<in> set (db_tasks db). t_id t < db_next_task db)
     \<and> (\<forall>a \<in> set (db_tasks db). \<forall>b \<in> set (db_tasks db). t_id a \<noteq> t_id b \<longrightarrow> \<not> task_conflict a b)"

text \<open>A replacement is younger than the task it replaces and one recovery attempt further.\<close>

definition replaces_row :: "task \<Rightarrow> task \<Rightarrow> bool" where
  "replaces_row t r \<longleftrightarrow>
     t_id r < t_id t \<and> t_recovery_attempt t = Suc (t_recovery_attempt r)
     \<and> t_org r = t_org t \<and> t_type r = t_type t"

definition lineage_ok :: "task_db \<Rightarrow> bool" where
  "lineage_ok db \<longleftrightarrow> (\<forall>t \<in> set (db_tasks db).
     case t_replaces t of
       None \<Rightarrow> t_recovery_attempt t = 0
     | Some p \<Rightarrow> \<exists>r \<in> set (db_tasks db). t_id r = p \<and> replaces_row t r)"

definition steps_ok :: "task_db \<Rightarrow> bool" where
  "steps_ok db \<longleftrightarrow>
     distinct (map s_id (db_steps db))
     \<and> distinct (map (\<lambda>s. (s_task s, s_index s)) (db_steps db))
     \<and> (\<forall>s \<in> set (db_steps db). s_id s < db_next_step db \<and> s_task s < db_next_task db
          \<and> 0 \<le> s_progress s \<and> s_progress s \<le> 10000)"

definition resources_ok :: "task_db \<Rightarrow> bool" where
  "resources_ok db \<longleftrightarrow>
     distinct (map (\<lambda>r. (r_task r, r_type r, r_subtype r, r_ref r)) (db_resources db))
     \<and> distinct (map r_task (filter r_primary (db_resources db)))"

definition events_ok :: "task_db \<Rightarrow> bool" where
  "events_ok db \<longleftrightarrow>
     (\<forall>i. gapless (map e_seq (events_of db i)))
     \<and> (\<forall>e \<in> set (db_events db). \<not> mentions_engine (e_message e) \<and> neutral_value (e_metadata e))"

definition rows_ok :: "task_db \<Rightarrow> bool" where
  "rows_ok db \<longleftrightarrow> (\<forall>t \<in> set (db_tasks db). task_row_ok t)"

text \<open>A cancelled task has no open step and waits for nothing.\<close>

definition quiet :: "task_db \<Rightarrow> nat \<Rightarrow> bool" where
  "quiet db i \<longleftrightarrow>
     (\<forall>s \<in> set (db_steps db). s_task s = i \<longrightarrow> s_status s \<noteq> Step_pending \<and> s_status s \<noteq> Step_running)
     \<and> (\<forall>d \<in> set (db_deps db). d_task d = i \<longrightarrow> \<not> d_is_active d)"

definition core_ok :: "task_db \<Rightarrow> bool" where
  "core_ok db \<longleftrightarrow> rows_ok db \<and> unique_ok db \<and> lineage_ok db \<and> steps_ok db \<and> resources_ok db
     \<and> events_ok db"

lemmas core_defs = rows_ok_def unique_ok_def lineage_ok_def steps_ok_def resources_ok_def

section \<open>Primitive updates keep the stores well-formed\<close>

text \<open>The columns no service changes after creation.\<close>

definition keeps_identity :: "(task \<Rightarrow> task) \<Rightarrow> bool" where
  "keeps_identity f \<longleftrightarrow> (\<forall>r. t_id (f r) = t_id r \<and> t_uuid (f r) = t_uuid r \<and> t_org (f r) = t_org r
     \<and> t_type (f r) = t_type r \<and> t_replaces (f r) = t_replaces r
     \<and> t_recovery_attempt (f r) = t_recovery_attempt r
     \<and> t_idempotency_key (f r) = t_idempotency_key r)"

lemma keeps_identity_columns [simp]:
  "keeps_identity (cancelled_columns now m res)"
  "keeps_identity (retried_columns now st n)"
  "keeps_identity (resumed_columns now started)"
  "keeps_identity (completed_columns now status p c started)"
  "keeps_identity (\<lambda>r. r\<lparr>t_status := Running, t_started_at := Some now, t_updated_at := now\<rparr>)"
  by (simp_all add: keeps_identity_def cancelled_columns_def retried_columns_def
      resumed_columns_def completed_columns_def)

lemma id_unique:
  "unique_ok db \<Longrightarrow> a \<in> set (db_tasks db) \<Longrightarrow> b \<in> set (db_tasks db) \<Longrightarrow> t_id a = t_id b \<Longrightarrow> a = b"
  unfolding unique_ok_def distinct_map inj_on_def by blast

lemma set_save_task:
  assumes "unique_ok db" and "t \<in> set (db_tasks db)"
  shows "set (db_tasks (save_task f t db)) = insert (f t) (set (db_tasks db) - {t})"
proof -
  have "(if t_id r = t_id t then f r else r) = (if r = t then f t else r)"
    if "r \<in> set (db_tasks db)" for r
    using id_unique [OF assms(1) that assms(2)] by auto
  then show ?thesis using assms(2) by (force simp: save_task_def set_update_where)
qed

lemma save_task_frame [simp, frame_simps]:
  "db_steps (save_task f t db) = db_steps db" "db_events (save_task f t db) = db_events db"
  "db_resources (save_task f t db) = db_resources db" "db_deps (save_task f t db) = db_deps db"
  "db_next_task (save_task f t db) = db_next_task db"
  "db_next_step (save_task f t db) = db_next_step db"
  "db_signals (save_task f t db) = db_signals db"
  "db_on_commit (save_task f t db) = db_on_commit db"
  "db_operations (save_task f t db) = db_operations db"
  by (simp_all add: save_task_def)

lemma task_conflict_keeps:
  "keeps_identity f \<Longrightarrow> task_conflict (f a) b = task_conflict a b"
  "keeps_identity f \<Longrightarrow> task_conflict a (f b) = task_conflict a b"
  by (simp_all add: keeps_identity_def task_conflict_def)

lemma unique_ok_save_task:
  assumes "unique_ok db" and "keeps_identity f"
  shows "unique_ok (save_task f t db)"
proof -
  have "map t_id (db_tasks (save_task f t db)) = map t_id (db_tasks db)"
    unfolding save_task_def using assms(2) by (simp add: map_update_where keeps_identity_def)
  moreover have "t_id (f r) = t_id r" for r using assms(2) by (simp add: keeps_identity_def)
  ultimately show ?thesis
    using assms by (auto simp: unique_ok_def save_task_def set_update_where task_conflict_keeps)
qed

lemma lineage_ok_save_task:
  assumes "lineage_ok db" and "keeps_identity f"
  shows "lineage_ok (save_task f t db)"
proof -
  let ?g = "\<lambda>r. if t_id r = t_id t then f r else r"
  have g: "t_replaces (?g r) = t_replaces r" "t_recovery_attempt (?g r) = t_recovery_attempt r"
    "t_id (?g r) = t_id r" "replaces_row (?g r) (?g q) = replaces_row r q" for r q
    using assms(2) by (auto simp: keeps_identity_def replaces_row_def)
  have "db_tasks (save_task f t db) = map ?g (db_tasks db)"
    by (simp add: save_task_def update_where_def)
  with assms(1) show ?thesis
    unfolding lineage_ok_def set_map ball_simps bex_simps
    by (simp only: set_map ball_simps bex_simps g)
qed

lemma lineage_ok_frame:
  assumes "db_tasks db' = db_tasks db"
  shows "lineage_ok db' = lineage_ok db"
  unfolding lineage_ok_def assms by (rule refl)

lemma lineage_ok_updates [simp]:
  "lineage_ok (db\<lparr>db_steps := ss\<rparr>) = lineage_ok db"
  "lineage_ok (append_task_event now t l m md st db) = lineage_ok db"
  by (rule lineage_ok_frame, simp)+

lemma core_ok_save_task:
  assumes "core_ok db" and "t \<in> set (db_tasks db)" and "keeps_identity f" and "task_row_ok (f t)"
  shows "core_ok (save_task f t db)"
proof -
  from assms(1) have u: "unique_ok db" by (simp add: core_ok_def)
  have "rows_ok (save_task f t db)"
    using assms by (auto simp: core_ok_def rows_ok_def set_save_task [OF u assms(2)])
  with assms show ?thesis
    by (auto simp: core_ok_def unique_ok_save_task lineage_ok_save_task steps_ok_def
        resources_ok_def events_ok_def events_of_def)
qed

lemma events_ok_append:
  assumes "events_ok db"
  shows "events_ok (append_task_event now t l m md st db)"
proof -
  have "gapless (map e_seq (events_of (append_task_event now t l m md st db) i))" for i
    using assms by (intro gapless_append_task_event) (simp add: events_ok_def)
  moreover have "neutral_value (neutral_event_metadata v)" for v
    by (rule neutral_event_metadata_clean)
  ultimately show ?thesis
    using assms by (auto simp: events_ok_def append_task_event_def neutral_event_text_clean)
qed

lemma core_ok_append_event [intro]:
  "core_ok db \<Longrightarrow> core_ok (append_task_event now t l m md st db)"
  by (auto simp: core_ok_def rows_ok_def unique_ok_def steps_ok_def resources_ok_def
      intro: events_ok_append)

lemma send_signal_frame [simp, frame_simps]:
  "db_tasks (send_signal sg db) = db_tasks db" "db_steps (send_signal sg db) = db_steps db"
  "db_events (send_signal sg db) = db_events db"
  "db_resources (send_signal sg db) = db_resources db" "db_deps (send_signal sg db) = db_deps db"
  "db_next_task (send_signal sg db) = db_next_task db"
  "db_next_step (send_signal sg db) = db_next_step db"
  "db_operations (send_signal sg db) = db_operations db"
  "db_on_commit (send_signal sg db) = db_on_commit db"
  by (simp_all add: send_signal_def)

lemma core_ok_frame:
  assumes "db_tasks db' = db_tasks db" "db_steps db' = db_steps db" "db_events db' = db_events db"
    "db_resources db' = db_resources db" "db_next_task db' = db_next_task db"
    "db_next_step db' = db_next_step db"
  shows "core_ok db' = core_ok db"
  unfolding core_ok_def core_defs events_ok_def events_of_def assms by (rule refl)

lemma core_ok_send [simp]: "core_ok (send_signal sg db) = core_ok db"
  by (rule core_ok_frame) simp_all

text \<open>Bulk updates of step rows that touch status and progress only.\<close>

lemma core_ok_steps:
  assumes "core_ok db"
    and "\<And>s. s_id (f s) = s_id s \<and> s_task (f s) = s_task s \<and> s_index (f s) = s_index s"
    and "\<And>s. 0 \<le> s_progress s \<Longrightarrow> s_progress s \<le> 10000
           \<Longrightarrow> 0 \<le> s_progress (f s) \<and> s_progress (f s) \<le> 10000"
  shows "core_ok (db\<lparr>db_steps := update_where p f (db_steps db)\<rparr>)"
proof -
  let ?db = "db\<lparr>db_steps := update_where p f (db_steps db)\<rparr>"
  have "steps_ok ?db"
    using assms by (auto simp: core_ok_def steps_ok_def map_update_where set_update_where)
  moreover have "rows_ok ?db \<and> unique_ok ?db \<and> lineage_ok ?db \<and> resources_ok ?db \<and> events_ok ?db"
    using assms(1) by (simp add: core_ok_def rows_ok_def unique_ok_def
        resources_ok_def events_ok_def events_of_def)
  ultimately show ?thesis by (simp add: core_ok_def)
qed

lemma core_ok_skip [intro]: "core_ok db \<Longrightarrow> core_ok (skip_open_steps i db)"
  unfolding skip_open_steps_def by (rule core_ok_steps) auto

lemma core_ok_reset [intro]: "core_ok db \<Longrightarrow> core_ok (reset_steps i db)"
  unfolding reset_steps_def by (rule core_ok_steps) auto

lemma core_ok_resolve [simp]: "core_ok (resolve_dependencies now i db) = core_ok db"
  by (rule core_ok_frame) (simp_all add: resolve_dependencies_def)

section \<open>Every operation keeps the stores well-formed\<close>

lemma cancel_quiets:
  "quiet (resolve_dependencies now i (skip_open_steps i db)) i"
  by (simp add: quiet_def resolve_dependencies_def skip_open_steps_def ball_update_where)

lemma cancel_keeps_quiet:
  "quiet db j \<Longrightarrow> quiet (resolve_dependencies now i (skip_open_steps i db)) j"
  by (simp add: quiet_def resolve_dependencies_def skip_open_steps_def ball_update_where)

lemma finalize_core_ok:
  assumes "core_ok db" and "t \<in> set (db_tasks db)"
    and "finalize_task_cancellation now t reason db = (db', t')"
  shows "core_ok db'"
proof -
  have "task_row_ok (cancelled_columns now m r t)" for m r
    using assms(1,2) by (auto simp: core_ok_def rows_ok_def task_row_ok_def cancelled_columns_def)
  then have "core_ok (resolve_dependencies now (t_id t) (skip_open_steps (t_id t)
      (save_task (cancelled_columns now m r) t db)))" for m r
    using assms(1,2) by (simp add: core_ok_save_task core_ok_skip)
  from core_ok_append_event [OF this] show ?thesis
    using assms(3) unfolding finalize_task_cancellation_def Let_def by (auto simp del: if_split)
qed

lemma row_ok: "core_ok db \<Longrightarrow> t \<in> set (db_tasks db) \<Longrightarrow> task_row_ok t"
  by (simp add: core_ok_def core_ok_def rows_ok_def)

lemma find_locked_in:
  "find_locked db uuid org = Inr t \<Longrightarrow> t \<in> set (db_tasks db) \<and> t_uuid t = uuid \<and> t_org t = Some org"
  unfolding find_locked_def by (simp add: locked_task_Some)

lemma insert_step_frame:
  assumes "insert_step now i x db = Inr db'"
  shows "db_tasks db' = db_tasks db" "db_events db' = db_events db" "db_deps db' = db_deps db"
    "db_resources db' = db_resources db" "db_next_task db' = db_next_task db"
    "db_signals db' = db_signals db"
  using assms by (cases x; auto simp: insert_step_def)+

lemma insert_resource_frame:
  assumes "insert_resource i x db = Inr db'"
  shows "db_tasks db' = db_tasks db" "db_events db' = db_events db" "db_deps db' = db_deps db"
    "db_steps db' = db_steps db" "db_next_task db' = db_next_task db"
    "db_next_step db' = db_next_step db" "db_signals db' = db_signals db"
  using assms by (auto simp: insert_resource_def Let_def)

lemma step_columns_range: "step_columns sd = Inr (n, st, p) \<Longrightarrow> 0 \<le> p \<and> p \<le> 10000"
  by (cases sd) (auto simp: step_columns_def dest: progress_of_range)

lemma core_ok_parts:
  assumes "core_ok db" and "db_tasks db' = db_tasks db" and "db_events db' = db_events db"
    and "db_next_task db' = db_next_task db" and "steps_ok db'" and "resources_ok db'"
  shows "core_ok db'"
proof -
  have "lineage_ok db' = lineage_ok db" using assms(2) by (rule lineage_ok_frame)
  with assms show ?thesis
    by (simp add: core_ok_def rows_ok_def unique_ok_def events_ok_def events_of_def)
qed

lemma insert_resource_core:
  assumes "insert_resource i rd db = Inr db'" and "core_ok db"
  shows "core_ok db'"
proof (rule core_ok_parts)
  show "resources_ok db'"
    using assms by (auto simp: insert_resource_def Let_def core_ok_def resources_ok_def) blast+
  show "steps_ok db'"
    using assms insert_resource_frame [OF assms(1)] by (simp add: core_ok_def steps_ok_def)
qed (use assms insert_resource_frame [OF assms(1)] in simp_all)

text \<open>The new step takes an index above those the task already has.\<close>

definition indices_below :: "task_db \<Rightarrow> nat \<Rightarrow> nat \<Rightarrow> bool" where
  "indices_below db i k \<longleftrightarrow> (\<forall>s \<in> set (db_steps db). s_task s = i \<longrightarrow> s_index s < k)"

lemma insert_step_core:
  assumes "insert_step now i (k, sd) db = Inr db'" and "core_ok db" and "i < db_next_task db"
    and "indices_below db i k"
  shows "core_ok db' \<and> indices_below db' i (Suc k)"
proof -
  obtain n st p where sd: "step_columns sd = Inr (n, st, p)"
    and db': "db' = db\<lparr>db_steps := db_steps db @
        [\<lparr>s_id = db_next_step db, s_task = i, s_index = k, s_name = n,
          s_status = st, s_progress = p, s_created_at = now\<rparr>],
      db_next_step := Suc (db_next_step db)\<rparr>"
    using assms(1) by (auto simp: insert_step_def)
  have ok: "steps_ok db" using assms(2) by (simp add: core_ok_def)
  have "steps_ok db'"
    using ok assms(3,4) step_columns_range [OF sd]
    by (fastforce simp: db' steps_ok_def indices_below_def less_Suc_eq)
  then have "core_ok db'"
    using assms(2) by (intro core_ok_parts [OF assms(2)]) (simp_all add: db' core_ok_def resources_ok_def)
  moreover have "indices_below db' i (Suc k)"
    using assms(4) by (auto simp: db' indices_below_def less_Suc_eq)
  ultimately show ?thesis by simp
qed

lemma insert_steps_core:
  assumes "rfold (insert_step now i) (zip [k..<k + length sds] sds) db = Inr db'"
    and "core_ok db" and "i < db_next_task db" and "indices_below db i k"
  shows "core_ok db'"
  using assms
proof (induction sds arbitrary: k db)
  case Nil
  then show ?case by simp
next
  case (Cons sd sds)
  have "[k..<k + length (sd # sds)] = k # [Suc k..<Suc k + length sds]"
    by (simp add: upt_conv_Cons del: upt_Suc)
  with Cons.prems(1) obtain d where d: "insert_step now i (k, sd) db = Inr d"
    "rfold (insert_step now i) (zip [Suc k..<Suc k + length sds] sds) d = Inr db'"
    by auto
  from insert_step_core [OF d(1) Cons.prems(2-4)] insert_step_frame [OF d(1)] Cons.prems(3)
  show ?case using Cons.IH [OF d(2)] by simp
qed

lemma replaced_task_row:
  assumes "replaced_task q ty db = Inr (Some r)"
  shows "r \<in> set (db_tasks db) \<and> t_org r = q_org q \<and> t_type r = ty \<and> t_status r = Failed
    \<and> (\<forall>x \<in> set (db_tasks db). t_replaces x \<noteq> Some (t_id r))"
  using assms by (auto simp: replaced_task_def dest: task_by_id_Some
      split: option.splits task_ref.splits)

lemma new_task_columns [simp]:
  "t_id (new_task now uuid q ty tr rep fs i) = i"
  "t_uuid (new_task now uuid q ty tr rep fs i) = uuid"
  "t_org (new_task now uuid q ty tr rep fs i) = q_org q"
  "t_type (new_task now uuid q ty tr rep fs i) = ty"
  "t_status (new_task now uuid q ty tr rep fs i) = Pending"
  "t_trigger (new_task now uuid q ty tr rep fs i) = tr"
  "t_replaces (new_task now uuid q ty tr rep fs i) = map_option t_id rep"
  "task_row_ok (new_task now uuid q ty tr rep fs i)"
  by (simp_all add: new_task_def task_row_ok_def)

lemma task_conflict_sym: "task_conflict a b = task_conflict b a"
  unfolding task_conflict_def by metis

lemma insert_task_core:
  assumes "insert_task t db = Inr db'" and "core_ok db" and "t_id t = db_next_task db"
    and "task_row_ok t"
    and "case t_replaces t of None \<Rightarrow> t_recovery_attempt t = 0
         | Some p \<Rightarrow> \<exists>r \<in> set (db_tasks db). t_id r = p \<and> replaces_row t r"
  shows "core_ok db'"
proof -
  from assms(1) have free: "\<forall>x \<in> set (db_tasks db). \<not> task_conflict t x"
    and db': "db' = db\<lparr>db_tasks := db_tasks db @ [t], db_next_task := Suc (t_id t)\<rparr>"
    by (auto simp: insert_task_def)
  have u: "unique_ok db" and l: "lineage_ok db" using assms(2) by (simp_all add: core_ok_def)
  have "unique_ok db'"
    unfolding unique_ok_def
  proof (intro conjI)
    show "distinct (map t_id (db_tasks db'))" "\<forall>x \<in> set (db_tasks db'). t_id x < db_next_task db'"
      using u assms(3) by (auto simp: db' unique_ok_def less_Suc_eq)
    have "\<not> task_conflict x t" if "x \<in> set (db_tasks db)" for x
      using free that task_conflict_sym by blast
    with u free show "\<forall>a \<in> set (db_tasks db'). \<forall>b \<in> set (db_tasks db').
        t_id a \<noteq> t_id b \<longrightarrow> \<not> task_conflict a b"
      by (simp add: db' unique_ok_def)
  qed
  moreover have "lineage_ok db'"
    using l assms(5) unfolding db' lineage_ok_def
    by (auto split: option.splits)
  ultimately show ?thesis
    using assms(2,3,4)
    by (auto simp: core_ok_def db' rows_ok_def steps_ok_def resources_ok_def events_ok_def
        events_of_def less_Suc_eq)
qed

lemma announce_created_frame [simp, frame_simps]:
  "db_tasks (announce_created b t db) = db_tasks db"
  "db_steps (announce_created b t db) = db_steps db"
  "db_deps (announce_created b t db) = db_deps db"
  "db_events (announce_created b t db) = db_events db"
  "db_resources (announce_created b t db) = db_resources db"
  "db_next_task (announce_created b t db) = db_next_task db"
  "db_next_step (announce_created b t db) = db_next_step db"
  by (simp_all add: announce_created_def)

lemma core_ok_announce [simp]: "core_ok (announce_created b t db) = core_ok db"
  by (rule core_ok_frame) simp_all

lemma store_taskE:
  assumes "store_task now uuid q ty tr replaced db = Inr (db', t)"
  obtains sds d1 d2 d3 md st where "t = new_task now uuid q ty tr replaced (first_step_name sds) (db_next_task db)"
    and "sds = (if q_steps q = [] then map Named_step (default_steps ty) else q_steps q)"
    and "insert_task t db = Inr d1"
    and "rfold (insert_resource (t_id t)) (kept_resources q ty) d1 = Inr d2"
    and "rfold (insert_step now (t_id t)) (zip [1..<1 + length sds] sds) d2 = Inr d3"
    and "db' = announce_created (q_notify_on_commit q) t
      (append_task_event now t Info ''Task created'' md st d3)"
  using assms that unfolding store_task_def Let_def rbind_eq_Inr
  by (auto simp del: upt_Suc)

text \<open>The children rows of the other tasks stay as they are.\<close>

definition children :: "nat \<Rightarrow> task_db \<Rightarrow> task_step list \<times> task_dependency list" where
  "children j db = (filter (\<lambda>s. s_task s = j) (db_steps db), filter (\<lambda>d. d_task d = j) (db_deps db))"

lemma insert_children_beside:
  assumes "j \<noteq> i"
  shows "rfold (insert_resource i) rds db = Inr db'
      \<Longrightarrow> children j db' = children j db \<and> db_tasks db' = db_tasks db"
    and "rfold (insert_step now i) xs db = Inr db''
      \<Longrightarrow> children j db'' = children j db \<and> db_tasks db'' = db_tasks db"
proof -
  assume "rfold (insert_resource i) rds db = Inr db'"
  then show "children j db' = children j db \<and> db_tasks db' = db_tasks db"
    by (rule rfold_invariant [where P = "\<lambda>x. children j x = children j db \<and> db_tasks x = db_tasks db"])
      (auto simp: children_def dest: insert_resource_frame)
next
  assume "rfold (insert_step now i) xs db = Inr db''"
  then show "children j db'' = children j db \<and> db_tasks db'' = db_tasks db"
    by (rule rfold_invariant [where P = "\<lambda>x. children j x = children j db \<and> db_tasks x = db_tasks db"])
      (use assms in \<open>auto simp: children_def insert_step_def\<close>)
qed

lemma store_task_beside:
  assumes "store_task now uuid q ty tr replaced db = Inr (db', t)"
  shows "db_tasks db' = db_tasks db @ [t]" and "t_id t = db_next_task db"
    and "j \<noteq> db_next_task db \<Longrightarrow> children j db' = children j db"
proof -
  from assms obtain sds d1 d2 d3 md st where
    t: "t = new_task now uuid q ty tr replaced (first_step_name sds) (db_next_task db)"
    and d: "insert_task t db = Inr d1"
      "rfold (insert_resource (t_id t)) (kept_resources q ty) d1 = Inr d2"
      "rfold (insert_step now (t_id t)) (zip [1..<1 + length sds] sds) d2 = Inr d3"
    and db': "db' = announce_created (q_notify_on_commit q) t
      (append_task_event now t Info ''Task created'' md st d3)"
    by (rule store_taskE)
  show i: "t_id t = db_next_task db" by (simp add: t)
  have j: "Suc (t_id t) \<noteq> t_id t" by simp
  have "db_tasks d1 = db_tasks db @ [t]" using d(1) by (auto simp: insert_task_def)
  moreover have "db_tasks d3 = db_tasks d1"
    using insert_children_beside(1) [OF j d(2)] insert_children_beside(2) [OF j d(3)] by simp
  ultimately show "db_tasks db' = db_tasks db @ [t]" by (simp add: db')
  assume "j \<noteq> db_next_task db"
  then have "children j d3 = children j d1"
    using insert_children_beside(1) [OF _ d(2)] insert_children_beside(2) [OF _ d(3)] i by simp
  moreover have "children j d1 = children j db"
    using d(1) by (auto simp: insert_task_def children_def)
  ultimately show "children j db' = children j db" by (simp add: db' children_def)
qed

lemma new_task_lineage:
  assumes "core_ok db" and "replaced_task q ty db = Inr replaced"
    and "t = new_task now uuid q ty tr replaced fs (db_next_task db)"
  shows "case t_replaces t of None \<Rightarrow> t_recovery_attempt t = 0
      | Some p \<Rightarrow> \<exists>r \<in> set (db_tasks db). t_id r = p \<and> replaces_row t r"
proof (cases replaced)
  case None
  then show ?thesis by (simp add: assms(3) new_task_def)
next
  case (Some r)
  with assms(2) have r: "r \<in> set (db_tasks db)" "t_org r = q_org q" "t_type r = ty"
    using replaced_task_row by simp_all
  moreover from this(1) assms(1) have "t_id r < db_next_task db"
    by (simp add: core_ok_def unique_ok_def)
  ultimately show ?thesis using Some by (auto simp: assms(3) new_task_def replaces_row_def)
qed

lemma store_task_core_ok:
  assumes "store_task now uuid q ty tr replaced db = Inr (db', t)" and ok: "core_ok db"
    and "replaced_task q ty db = Inr replaced"
  shows "core_ok db'"
proof -
  from assms(1) obtain sds d1 d2 d3 md st where
    t: "t = new_task now uuid q ty tr replaced (first_step_name sds) (db_next_task db)"
    and d: "insert_task t db = Inr d1"
      "rfold (insert_resource (t_id t)) (kept_resources q ty) d1 = Inr d2"
      "rfold (insert_step now (t_id t)) (zip [1..<1 + length sds] sds) d2 = Inr d3"
    and db': "db' = announce_created (q_notify_on_commit q) t
      (append_task_event now t Info ''Task created'' md st d3)"
    by (rule store_taskE)
  have c1: "core_ok d1"
    using new_task_lineage [OF ok assms(3) t]
    by (intro insert_task_core [OF d(1) ok]) (simp_all add: t)
  have d1: "db_steps d1 = db_steps db" "db_next_task d1 = Suc (t_id t)"
    using d(1) by (auto simp: insert_task_def)
  have c2: "core_ok d2 \<and> db_steps d2 = db_steps db \<and> db_next_task d2 = Suc (t_id t)"
    using d(2) by (rule rfold_invariant [where
          P = "\<lambda>x. core_ok x \<and> db_steps x = db_steps db \<and> db_next_task x = Suc (t_id t)"])
      (auto simp: c1 d1 dest: insert_resource_core insert_resource_frame)
  have "indices_below d2 (t_id t) 1"
    using ok c2 by (auto simp: indices_below_def core_ok_def steps_ok_def t)
  with c2 have "core_ok d3" by (intro insert_steps_core [OF d(3)]) auto
  from core_ok_append_event [OF this] show ?thesis unfolding db' by simp
qed

lemma create_taskE:
  assumes "create_task now uuid q db = Inr (db', t)"
  obtains ty tr replaced where "parse_task_type (q_type q) = Some ty"
    and "replaced_task q ty db = Inr replaced"
    and "store_task now uuid q ty (request_trigger q tr replaced db) replaced db = Inr (db', t)"
  using assms unfolding create_task_def rbind_eq_Inr of_option_eq_Inr by blast

lemma create_task_core_ok:
  assumes "create_task now uuid q db = Inr (db', t)" and "core_ok db"
  shows "core_ok db'"
  using assms(1) by (rule create_taskE) (rule store_task_core_ok [OF _ assms(2)])

section \<open>What an operation on one task leaves alone\<close>

definition only_task :: "task \<Rightarrow> task_db \<Rightarrow> task_db \<Rightarrow> bool" where
  "only_task t db db' \<longleftrightarrow> t \<in> set (db_tasks db)
     \<and> (\<exists>f. keeps_identity f \<and> db_tasks db' = db_tasks (save_task f t db))
     \<and> (\<forall>j. j \<noteq> t_id t \<longrightarrow> children j db' = children j db)"

lemma children_updates:
  "j \<noteq> i \<Longrightarrow> children j (skip_open_steps i db) = children j db"
  "j \<noteq> i \<Longrightarrow> children j (resolve_dependencies now i db) = children j db"
  "j \<noteq> i \<Longrightarrow> children j (reset_steps i db) = children j db"
  by (auto simp: children_def skip_open_steps_def resolve_dependencies_def reset_steps_def
      intro!: filter_update_where)

lemma children_frame [simp]:
  "children j (append_task_event now t l m md st db) = children j db"
  "children j (send_signal sg db) = children j db"
  "children j (save_task f t db) = children j db"
  by (simp_all add: children_def)

lemma update_tasks_frame [simp]:
  "db_tasks (skip_open_steps i db) = db_tasks db"
  "db_tasks (resolve_dependencies now i db) = db_tasks db"
  "db_tasks (reset_steps i db) = db_tasks db"
  by (simp_all add: skip_open_steps_def resolve_dependencies_def reset_steps_def)

lemma finalize_only:
  assumes "finalize_task_cancellation now t reason db = (db', t')" and "t \<in> set (db_tasks db)"
  shows "only_task t db db'"
proof -
  obtain m r md where "db_tasks db' = db_tasks (save_task (cancelled_columns now m r) t db)"
    and "\<forall>j. j \<noteq> t_id t \<longrightarrow> children j db' = children j db"
    using assms(1) unfolding finalize_task_cancellation_def Let_def
    by (auto simp: children_updates simp del: if_split)
  then show ?thesis
    using assms(2) keeps_identity_columns(1) [of now m r] unfolding only_task_def by blast
qed

lemma cancel_taskE:
  assumes "cancel_task now uuid org reason db = Inr (db', t')"
  obtains t where "find_locked db uuid org = Inr t" and "t \<in> set (db_tasks db)"
    and "\<not> terminal (t_status t)" and "\<not> is_restore_type (t_type t)"
    and "t_type t \<notin> {Source_unregister, Backup_config_provision, Node_lifecycle}"
    and "finalize_task_cancellation now t reason db = (db', t')"
  using assms unfolding cancel_task_def rbind_eq_Inr guard_that_eq_Inr
  by (auto dest: find_locked_in)

lemma retry_taskE:
  assumes "retry_task now uuid org reason db = Inr (db', t')"
  obtains t md where "find_locked db uuid org = Inr t" and "t \<in> set (db_tasks db)"
    and "t_status t \<in> {Failed, Timeout, Cancelled}" and "\<not> is_restore_type (t_type t)"
    and "t_type t \<noteq> Node_lifecycle"
    and "t' = retried_columns now (first_task_step db t) (t_retry_count t + 1) t"
    and "db' = send_signal (updated_signal t') (append_task_event now t' Info
          ''Task queued for retry'' md (first_task_step db t)
          (reset_steps (t_id t) (save_task (retried_columns now (first_task_step db t)
             (t_retry_count t + 1)) t db)))"
  using assms unfolding retry_task_def rbind_eq_Inr guard_that_eq_Inr Let_def
  by (auto dest: find_locked_in)

lemma start_taskE:
  assumes "start_task now uuid org db = Inr (db', t')"
  obtains t f where "find_locked db uuid org = Inr t" and "t \<in> set (db_tasks db)"
    and "t_status t = Pending"
    and "f = (\<lambda>r. r\<lparr>t_status := Running, t_started_at := Some now, t_updated_at := now\<rparr>)"
    and "t' = f t"
    and "db' = send_signal (updated_signal t') (append_task_event now t' Info ''Task started'' None
          (current_task_step (save_task f t db) t') (save_task f t db))"
  using assms unfolding start_task_def rbind_eq_Inr guard_that_eq_Inr Let_def
  by (auto dest: find_locked_in)

lemma resume_waiting_taskE:
  assumes "resume_waiting_task now uuid org db = Inr (db', t')"
  obtains t f where "find_locked db uuid org = Inr t" and "t \<in> set (db_tasks db)"
    and "t_status t \<in> {Waiting, Blocked}"
    and "\<forall>d \<in> set (db_deps db). \<not> (d_task d = t_id t \<and> d_is_active d)"
    and "f = resumed_columns now (Some (or_else (t_started_at t) now))" and "t' = f t"
    and "db' = send_signal (updated_signal t') (append_task_event now t' Info
          ''Task dependencies resolved; execution started'' None
          (current_task_step (save_task f t db) t') (save_task f t db))"
  using assms unfolding resume_waiting_task_def rbind_eq_Inr guard_that_eq_Inr Let_def
  by (auto dest: find_locked_in)

lemma complete_taskE:
  assumes "complete_task now uuid org c db = Inr (db', t')"
  obtains t where "find_locked db uuid org = Inr t" and "t \<in> set (db_tasks db)"
    and "terminal (t_status t)" and "t' = t" and "db' = db"
  | t status p where "find_locked db uuid org = Inr t" and "t \<in> set (db_tasks db)"
    and "\<not> terminal (t_status t)"
    and "parse_task_status (c_status c) = Some status" and "terminal status"
    and "progress_of (c_progress c) = Inr p"
    and "finish_task now status p c t db = (db', t')"
proof (cases "parse_task_status (c_status c)")
  case None
  then show ?thesis using assms by (simp add: complete_task_def)
next
  case (Some status)
  with assms obtain t where t: "find_locked db uuid org = Inr t" "terminal status"
    and r: "(if terminal (t_status t) then Inr (db, t) else
      rbind (progress_of (c_progress c)) (\<lambda>p. Inr (finish_task now status p c t db)))
        = (Inr (db', t') :: task task_result)"
    unfolding complete_task_def rbind_eq_Inr by (auto simp: Some)
  have m: "t \<in> set (db_tasks db)" using find_locked_in t(1) by blast
  show ?thesis
  proof (cases "terminal (t_status t)")
    case True
    with r have "t' = t" "db' = db" by simp_all
    then show ?thesis by (rule that(1) [OF t(1) m True])
  next
    case False
    with r obtain p where "progress_of (c_progress c) = Inr p"
      and "finish_task now status p c t db = (db', t')" by auto
    then show ?thesis by (rule that(2) [OF t(1) m False Some t(2)])
  qed
qed

lemma emit_frame [simp, frame_simps]:
  "db_tasks (emit_task_terminal_signal t db) = db_tasks db"
  "children j (emit_task_terminal_signal t db) = children j db"
  "core_ok (emit_task_terminal_signal t db) = core_ok db"
  by (simp_all add: emit_task_terminal_signal_def split: task_status.splits)

lemma finish_task_core_ok:
  assumes "finish_task now status p c t db = (db', t')" and "core_ok db" and "t \<in> set (db_tasks db)"
    and "terminal status" and "0 \<le> p" and "p \<le> 10000"
  shows "core_ok db'"
proof -
  let ?f = "completed_columns now status p c (Some (or_else (t_started_at t) now))"
  have "task_row_ok (?f t)"
    using row_ok [OF assms(2,3)] assms(4-6)
    by (auto simp: task_row_ok_def completed_columns_def terminal_def)
  then have "core_ok (save_task ?f t db)" by (intro core_ok_save_task assms) simp_all
  from core_ok_append_event [OF this] show ?thesis
    using assms(1) unfolding finish_task_def Let_def by auto
qed

section \<open>The operations as a step relation\<close>

text \<open>
  \<open>forward_op\<close>: every operation but the retry. Events are recorded for tasks of the store; the
  cancellation of a workflow is finalized on a locked task that is not terminal.
\<close>

inductive forward_op :: "task_db \<Rightarrow> task_db \<Rightarrow> bool" where
  op_create: "create_task now uuid q db = Inr (db', t) \<Longrightarrow> forward_op db db'"
| op_cancel: "cancel_task now uuid org reason db = Inr (db', t) \<Longrightarrow> forward_op db db'"
| op_finalize: "t \<in> set (db_tasks db) \<Longrightarrow> \<not> terminal (t_status t)
    \<Longrightarrow> finalize_task_cancellation now t reason db = (db', t') \<Longrightarrow> forward_op db db'"
| op_start: "start_task now uuid org db = Inr (db', t) \<Longrightarrow> forward_op db db'"
| op_resume: "resume_waiting_task now uuid org db = Inr (db', t) \<Longrightarrow> forward_op db db'"
| op_complete: "complete_task now uuid org c db = Inr (db', t) \<Longrightarrow> forward_op db db'"
| op_event: "append_task_step_event now t name l m md db = Inr db' \<Longrightarrow> forward_op db db'"
| op_recovery: "record_recovery_decision now t plan r db = db' \<Longrightarrow> forward_op db db'"
| op_commit: "run_on_commit db = db' \<Longrightarrow> forward_op db db'"

inductive task_op :: "task_db \<Rightarrow> task_db \<Rightarrow> bool" where
  op_forward: "forward_op db db' \<Longrightarrow> task_op db db'"
| op_retry: "retry_task now uuid org reason db = Inr (db', t) \<Longrightarrow> task_op db db'"

lemma run_on_commit_frame:
  "db_tasks (run_on_commit db) = db_tasks db \<and> children j (run_on_commit db) = children j db
   \<and> (core_ok db \<longrightarrow> core_ok (run_on_commit db))"
proof -
  let ?g = "\<lambda>i db. case task_by_id db i of None \<Rightarrow> db | Some t \<Rightarrow> send_signal (updated_signal t) db"
  have "db_tasks (fold ?g is d) = db_tasks d \<and> children j (fold ?g is d) = children j d
    \<and> core_ok (fold ?g is d) = core_ok d" for "is" d
    by (induction "is" arbitrary: d) (simp_all split: option.split)
  moreover have "core_ok (db\<lparr>db_on_commit := []\<rparr>) = core_ok db" by (rule core_ok_frame) simp_all
  ultimately show ?thesis by (simp add: run_on_commit_def children_def)
qed

lemma only_task_save:
  assumes "t \<in> set (db_tasks db)" and "keeps_identity f"
    and "db_tasks db' = db_tasks (save_task f t db)"
    and "\<And>j. j \<noteq> t_id t \<Longrightarrow> children j db' = children j db"
  shows "only_task t db db'"
  using assms by (auto simp: only_task_def)

text \<open>What a forward step does: it adds one task, works on one open task, or changes no row.\<close>

lemma forward_op_rows:
  assumes "forward_op db db'"
  shows "(\<exists>t. db_tasks db' = db_tasks db @ [t] \<and> t_id t = db_next_task db
            \<and> (\<forall>j. j \<noteq> t_id t \<longrightarrow> children j db' = children j db))
    \<or> (\<exists>t. \<not> terminal (t_status t) \<and> only_task t db db')
    \<or> (db_tasks db' = db_tasks db \<and> (\<forall>j. children j db' = children j db))"
  using assms
proof cases
  case (op_create now uuid q t)
  from op_create obtain ty tr replaced where
    st: "store_task now uuid q ty (request_trigger q tr replaced db) replaced db = Inr (db', t)"
    by (rule create_taskE)
  from store_task_beside [OF st] show ?thesis by auto
next
  case (op_cancel now uuid org reason t)
  then show ?thesis by (auto elim!: cancel_taskE dest: finalize_only)
next
  case (op_finalize t now reason t')
  then show ?thesis by (auto dest: finalize_only)
next
  case (op_start now uuid org t')
  then show ?thesis
  proof (rule start_taskE)
    fix t f
    assume "t \<in> set (db_tasks db)" "t_status t = Pending"
      "f = (\<lambda>r. r\<lparr>t_status := Running, t_started_at := Some now, t_updated_at := now\<rparr>)"
      "db' = send_signal (updated_signal t') (append_task_event now t' Info ''Task started'' None
          (current_task_step (save_task f t db) t') (save_task f t db))"
    then have "only_task t db db'" by (intro only_task_save [of t db f]) simp_all
    moreover from \<open>t_status t = Pending\<close> have "\<not> terminal (t_status t)" by simp
    ultimately show ?thesis by blast
  qed
next
  case (op_resume now uuid org t')
  then show ?thesis
  proof (rule resume_waiting_taskE)
    fix t f
    assume "t \<in> set (db_tasks db)" "t_status t \<in> {Waiting, Blocked}"
      "f = resumed_columns now (Some (or_else (t_started_at t) now))"
      "db' = send_signal (updated_signal t') (append_task_event now t' Info
          ''Task dependencies resolved; execution started'' None
          (current_task_step (save_task f t db) t') (save_task f t db))"
    then have "only_task t db db'" by (intro only_task_save [of t db f]) simp_all
    moreover from \<open>t_status t \<in> {Waiting, Blocked}\<close> have "\<not> terminal (t_status t)" by auto
    ultimately show ?thesis by blast
  qed
next
  case (op_complete now uuid org c t')
  then show ?thesis
  proof (rule complete_taskE)
    fix t status p
    assume t: "t \<in> set (db_tasks db)" "\<not> terminal (t_status t)"
      and f: "finish_task now status p c t db = (db', t')"
    from f have "only_task t db db'"
      by (intro only_task_save [OF t(1) keeps_identity_columns(4)
            [of now status p c "Some (or_else (t_started_at t) now)"]])
        (auto simp: finish_task_def Let_def)
    with t(2) show ?thesis by blast
  qed auto
next
  case (op_event now t name l m md)
  then show ?thesis by (auto simp: append_task_step_event_def Let_def split: if_splits)
next
  case (op_recovery now t plan r)
  then show ?thesis by (auto simp: record_recovery_decision_def)
next
  case op_commit
  then show ?thesis using run_on_commit_frame by blast
qed

lemma forward_op_core_ok: "forward_op db db' \<Longrightarrow> core_ok db \<Longrightarrow> core_ok db'"
proof (cases rule: forward_op.cases, assumption)
  fix now uuid q t
  assume "create_task now uuid q db = Inr (db', t)" "core_ok db"
  then show "core_ok db'" by (rule create_task_core_ok)
next
  fix now uuid org reason t
  assume "cancel_task now uuid org reason db = Inr (db', t)" "core_ok db"
  then show "core_ok db'" by (auto elim!: cancel_taskE dest: finalize_core_ok)
next
  fix t now reason t'
  assume "t \<in> set (db_tasks db)" "finalize_task_cancellation now t reason db = (db', t')" "core_ok db"
  then show "core_ok db'" by (auto dest: finalize_core_ok)
next
  fix now uuid org t'
  assume "start_task now uuid org db = Inr (db', t')" and ok: "core_ok db"
  from this(1) show "core_ok db'"
  proof (rule start_taskE)
    fix t f
    assume t: "t \<in> set (db_tasks db)" "t_status t = Pending"
      and f: "f = (\<lambda>r. r\<lparr>t_status := Running, t_started_at := Some now, t_updated_at := now\<rparr>)"
      and db': "db' = send_signal (updated_signal t') (append_task_event now t' Info ''Task started'' None
          (current_task_step (save_task f t db) t') (save_task f t db))"
    have "core_ok (save_task f t db)"
      using row_ok [OF ok t(1)] t(2) by (intro core_ok_save_task ok t) (simp_all add: f task_row_ok_def)
    from core_ok_append_event [OF this] show "core_ok db'" unfolding db' by simp
  qed
next
  fix now uuid org t'
  assume "resume_waiting_task now uuid org db = Inr (db', t')" and ok: "core_ok db"
  from this(1) show "core_ok db'"
  proof (rule resume_waiting_taskE)
    fix t f
    assume t: "t \<in> set (db_tasks db)" "t_status t \<in> {Waiting, Blocked}"
      and f: "f = resumed_columns now (Some (or_else (t_started_at t) now))"
      and db': "db' = send_signal (updated_signal t') (append_task_event now t' Info
          ''Task dependencies resolved; execution started'' None
          (current_task_step (save_task f t db) t') (save_task f t db))"
    have "core_ok (save_task f t db)"
      using row_ok [OF ok t(1)] t(2)
      by (intro core_ok_save_task ok t) (auto simp: f task_row_ok_def resumed_columns_def)
    from core_ok_append_event [OF this] show "core_ok db'" unfolding db' by simp
  qed
next
  fix now uuid org c t'
  assume "complete_task now uuid org c db = Inr (db', t')" "core_ok db"
  then show "core_ok db'"
    by (auto elim!: complete_taskE dest: finish_task_core_ok progress_of_range)
next
  fix now t name l m md
  assume "append_task_step_event now t name l m md db = Inr db'" "core_ok db"
  then show "core_ok db'"
    by (auto simp: append_task_step_event_def Let_def split: if_splits)
next
  fix now t plan r
  assume "record_recovery_decision now t plan r db = db'" "core_ok db"
  then show "core_ok db'" by (auto simp: record_recovery_decision_def)
next
  assume "run_on_commit db = db'" "core_ok db"
  then show "core_ok db'" using run_on_commit_frame by blast
qed

lemma retry_task_core_ok:
  assumes "retry_task now uuid org reason db = Inr (db', t')" and "core_ok db"
  shows "core_ok db'"
  using assms(1)
proof (rule retry_taskE)
  fix t md
  let ?f = "retried_columns now (first_task_step db t) (t_retry_count t + 1)"
  assume t: "t \<in> set (db_tasks db)"
    and db': "db' = send_signal (updated_signal t') (append_task_event now t' Info
          ''Task queued for retry'' md (first_task_step db t) (reset_steps (t_id t) (save_task ?f t db)))"
  have "core_ok (save_task ?f t db)"
    using row_ok [OF assms(2) t]
    by (intro core_ok_save_task assms t) (simp_all add: task_row_ok_def retried_columns_def)
  then show "core_ok db'" unfolding db' by (simp add: core_ok_append_event core_ok_reset)
qed

lemma task_op_core_ok: "task_op db db' \<Longrightarrow> core_ok db \<Longrightarrow> core_ok db'"
  by (cases rule: task_op.cases) (auto dest: forward_op_core_ok retry_task_core_ok)

interpretation task_system: preserved task_op core_ok
  by unfold_locales (rule task_op_core_ok)

text \<open>What is seen of a task: its row with its steps and dependencies.\<close>

definition task_view ::
  "nat \<Rightarrow> task_db \<Rightarrow> (task \<times> task_step list \<times> task_dependency list) option" where
  "task_view i db = map_option (\<lambda>t. (t, children i db)) (task_by_id db i)"

lemma task_by_id_in:
  "core_ok db \<Longrightarrow> task_by_id db i = Some t \<longleftrightarrow> t \<in> set (db_tasks db) \<and> t_id t = i"
proof
  assume "core_ok db" "t \<in> set (db_tasks db) \<and> t_id t = i"
  then show "task_by_id db i = Some t"
    unfolding task_by_id_def
    by (intro first_where_key [where key = t_id]) (auto simp: core_ok_def unique_ok_def)
qed (rule task_by_id_Some)

lemma forward_op_view:
  assumes "forward_op db db'" and "core_ok db" and "task_view i db = Some (t, cs)"
    and "terminal (t_status t)"
  shows "task_view i db' = Some (t, cs)"
proof -
  from assms(2,3) have t: "t \<in> set (db_tasks db)" "t_id t = i" and cs: "cs = children i db"
    by (auto simp: task_view_def task_by_id_in)
  have ok': "core_ok db'" using assms(1,2) by (rule forward_op_core_ok)
  from forward_op_rows [OF assms(1)]
  have "t \<in> set (db_tasks db') \<and> children i db' = children i db"
  proof (elim disjE exE conjE)
    fix n assume "db_tasks db' = db_tasks db @ [n]" "t_id n = db_next_task db"
      "\<forall>j. j \<noteq> t_id n \<longrightarrow> children j db' = children j db"
    moreover have "i < db_next_task db" using t assms(2) by (auto simp: core_ok_def unique_ok_def)
    ultimately show ?thesis using t by auto
  next
    fix u assume u: "\<not> terminal (t_status u)" and o: "only_task u db db'"
    then have "u \<in> set (db_tasks db)" by (simp add: only_task_def)
    moreover have uk: "unique_ok db" using assms(2) by (simp add: core_ok_def)
    moreover have "t \<noteq> u" using u assms(4) by auto
    ultimately have "t_id u \<noteq> i" using id_unique t by blast
    moreover have "t \<in> set (db_tasks db')"
      using o set_save_task [OF uk] t(1) \<open>t \<noteq> u\<close> by (auto simp: only_task_def)
    ultimately show ?thesis using o by (simp add: only_task_def)
  next
    assume "db_tasks db' = db_tasks db" "\<forall>j. children j db' = children j db"
    then show ?thesis using t by simp
  qed
  then show ?thesis using ok' t cs by (simp add: task_view_def task_by_id_in)
qed

definition final_view :: "task \<times> task_step list \<times> task_dependency list \<Rightarrow> bool" where
  "final_view v = terminal (t_status (fst v))"

interpretation task_life: absorbing forward_op core_ok task_view final_view
proof unfold_locales
  show "forward_op db db' \<Longrightarrow> core_ok db \<Longrightarrow> core_ok db'" for db db'
    by (rule forward_op_core_ok)
  show "forward_op db db' \<Longrightarrow> core_ok db \<Longrightarrow> task_view i db = Some v \<Longrightarrow> final_view v
      \<Longrightarrow> task_view i db' = Some v" for db db' i v
    using forward_op_view by (cases v) (auto simp: final_view_def)
qed

lemma save_task_stored:
  assumes "core_ok db" and "t \<in> set (db_tasks db)" and "keeps_identity f"
    and "core_ok db'" and "db_tasks db' = db_tasks (save_task f t db)"
  shows "task_by_id db' (t_id t) = Some (f t)"
proof -
  have "f t \<in> set (db_tasks db')"
    using set_save_task [of db t f] assms(1,2,5) by (simp add: core_ok_def)
  moreover have "t_id (f t) = t_id t" using assms(3) by (simp add: keeps_identity_def)
  ultimately show ?thesis using assms(4) by (simp add: task_by_id_in)
qed

lemma finalize_row:
  assumes "finalize_task_cancellation now t reason db = (db', t')" and "t \<in> set (db_tasks db)"
    and "core_ok db"
  shows "t_id t' = t_id t \<and> t_status t' = Cancelled \<and> t_error_code t' = Some ''TASK_CANCELLED''
    \<and> t_error_message t' =
        Some (if strip reason = [] then ''Task cancelled by user'' else strip reason)
    \<and> t_finished_at t' = Some now \<and> task_by_id db' (t_id t) = Some t' \<and> quiet db' (t_id t)
    \<and> Task_cancelled (t_uuid t) (t_org t) Cancelled \<in> set (db_signals db')"
proof -
  obtain m r where m: "m = (if strip reason = [] then ''Task cancelled by user'' else strip reason)"
    and t': "t' = cancelled_columns now m r t"
    and rows: "db_tasks db' = db_tasks (save_task (cancelled_columns now m r) t db)"
    and q: "quiet db' (t_id t)"
    and sg: "Task_cancelled (t_uuid t) (t_org t) Cancelled \<in> set (db_signals db')"
  proof
    let ?m = "if strip reason = [] then ''Task cancelled by user'' else strip reason"
    let ?r = "if or_else (t_result t) [] = [] then Some (cancellation_result_payload t) else t_result t"
    let ?d = "resolve_dependencies now (t_id t)
        (skip_open_steps (t_id t) (save_task (cancelled_columns now ?m ?r) t db))"
    show "?m = ?m" by simp
    show "t' = cancelled_columns now ?m ?r t"
      using assms(1) unfolding finalize_task_cancellation_def Let_def by simp
    show "db_tasks db' = db_tasks (save_task (cancelled_columns now ?m ?r) t db)"
      using assms(1) unfolding finalize_task_cancellation_def Let_def by (auto simp del: if_split)
    have "db_steps db' = db_steps ?d" "db_deps db' = db_deps ?d"
      using assms(1) unfolding finalize_task_cancellation_def Let_def by (auto simp del: if_split)
    then show "quiet db' (t_id t)" using cancel_quiets unfolding quiet_def by simp
    show "Task_cancelled (t_uuid t) (t_org t) Cancelled \<in> set (db_signals db')"
      using assms(1) unfolding finalize_task_cancellation_def Let_def
      by (auto simp: send_signal_def cancelled_columns_def)
  qed
  have "core_ok db'" using assms finalize_core_ok by blast
  from save_task_stored [OF assms(3,2) keeps_identity_columns(1) this rows] q sg
  show ?thesis unfolding t' m by (simp add: cancelled_columns_def)
qed

end
