(* ===== verification/Task_Claims.thy ===== *)
theory Task_Claims
  imports Task_Correct
begin

text \<open>The properties of the task services, with a small store on which they are applied.\<close>

section \<open>A small store\<close>

definition empty_db :: task_db where
  "empty_db = \<lparr>db_tasks = [], db_steps = [], db_events = [], db_resources = [], db_deps = [],
     db_operations = [], db_next_task = 1, db_next_step = 1, db_signals = [], db_on_commit = []\<rparr>"

definition example_request :: task_request where
  "example_request = \<lparr>q_org = Some 7, q_type = ''repository_operation'', q_name = ''Kopia check '',
     q_trigger = ''api'', q_payload = None,
     q_resources = [\<lparr>rd_type = Some ''repository'', rd_subtype = None, rd_ref = Some 3, rd_primary = True\<rparr>],
     q_steps = [], q_normalize = True, q_replaces = None, q_group_uuid = None,
     q_key = Some ''k1'', q_notify_on_commit = True\<rparr>"

definition task_store :: "task task_result \<Rightarrow> task_db" where
  "task_store r = (case r of Inr (db, t) \<Rightarrow> db | Inl e \<Rightarrow> empty_db)"

lemma task_store_Inr: "\<not> isl r \<Longrightarrow> \<exists>t. r = Inr (task_store r, t)"
  by (cases r) (auto simp: task_store_def)

definition ended :: "string \<Rightarrow> completion" where
  "ended s = \<lparr>c_status = s, c_progress = 50, c_result = None, c_error_code = ''E'',
     c_error_message = [], c_details_in_event = True, c_event_metadata = []\<rparr>"

definition created_db :: task_db where
  "created_db = task_store (create_task 100 ''u1'' example_request empty_db)"
definition started_db :: task_db where
  "started_db = task_store (start_task 101 ''u1'' 7 created_db)"
definition cancelled_db :: task_db where
  "cancelled_db = task_store (cancel_task 102 ''u1'' 7 [] started_db)"
definition failed_db :: task_db where
  "failed_db = task_store (complete_task 103 ''u1'' 7 (ended ''failed'') started_db)"
definition replacing_request :: task_request where
  "replacing_request = example_request\<lparr>q_trigger := ''system'', q_replaces := Some (Saved 1), q_key := None\<rparr>"
definition replaced_db :: task_db where
  "replaced_db = task_store (create_task 104 ''u2'' replacing_request failed_db)"

lemma empty_db_ok: "core_ok empty_db"
  by (simp add: core_ok_def core_defs events_ok_def events_of_def empty_db_def gapless_def)

lemma example_runs:
  "\<not> isl (create_task 100 ''u1'' example_request empty_db)"
  "\<not> isl (start_task 101 ''u1'' 7 created_db)"
  "\<not> isl (cancel_task 102 ''u1'' 7 [] started_db)"
  "\<not> isl (complete_task 103 ''u1'' 7 (ended ''failed'') started_db)"
  "\<not> isl (create_task 104 ''u2'' replacing_request failed_db)"
  by code_simp+

lemma example_steps:
  "forward_op empty_db created_db" "forward_op created_db started_db"
  "forward_op started_db cancelled_db" "forward_op started_db failed_db"
  "forward_op failed_db replaced_db"
proof -
  note ran = example_runs [THEN task_store_Inr]
  show "forward_op empty_db created_db"
    unfolding created_db_def using ran(1) by (blast intro: op_create)
  show "forward_op created_db started_db"
    unfolding started_db_def using ran(2) by (blast intro: op_start)
  show "forward_op started_db cancelled_db"
    unfolding cancelled_db_def using ran(3) by (blast intro: op_cancel)
  show "forward_op started_db failed_db"
    unfolding failed_db_def using ran(4) by (blast intro: op_complete)
  show "forward_op failed_db replaced_db"
    unfolding replaced_db_def using ran(5) by (blast intro: op_create)
qed

lemma example_run: "task_op\<^sup>*\<^sup>* empty_db replaced_db"
proof -
  have "forward_op\<^sup>*\<^sup>* empty_db replaced_db"
    by (intro converse_rtranclp_into_rtranclp [where r = forward_op, OF example_steps(1)]
        converse_rtranclp_into_rtranclp [where r = forward_op, OF example_steps(2)]
        converse_rtranclp_into_rtranclp [where r = forward_op, OF example_steps(4)] r_into_rtranclp [where r = forward_op] example_steps(5))
  then show ?thesis
    by (rule rtranclp_mono [THEN predicate2D, rotated]) (auto intro: op_forward)
qed

lemma failed_row: "map_option t_status (task_by_id failed_db 1) = Some Failed"
  by code_simp

section \<open>Properties\<close>

text \<open>
  C1. Every operation of the task services, the retry included, keeps the stores well-formed:
  unique ids, uuids, idempotency keys and replacements; a finish time exactly on terminal rows and
  a start time on every row that ran; progress within its column; gap-free event numbers per task;
  step rows with unique positions; at most one primary resource; a replacement one recovery
  attempt further than the task it replaces; and no event text that names the storage engine.
\<close>

theorem task_services_keep_stores:
  assumes "task_op\<^sup>*\<^sup>* db db'" and "core_ok db"
  shows "core_ok db'"
  using assms by (rule task_system.run_inv)

theorem task_services_keep_stores_witness: "core_ok replaced_db"
  using task_services_keep_stores [OF example_run empty_db_ok] .

text \<open>
  C2. A terminal task has its last word: no sequence of creations, starts, resumptions,
  cancellations, completions, events and recovery decisions changes its row, its steps or its
  dependencies. Only a retry can.
\<close>

theorem terminal_task_final:
  assumes "forward_op\<^sup>*\<^sup>* db db'" and "core_ok db" and "task_by_id db i = Some t"
    and "terminal (t_status t)"
  shows "task_by_id db' i = Some t \<and> children i db' = children i db"
proof -
  from assms(3,4) have "task_view i db = Some (t, children i db)" "final_view (t, children i db)"
    by (simp_all add: task_view_def final_view_def)
  from task_life.run_view [OF assms(1,2) this] show ?thesis by (auto simp: task_view_def)
qed

theorem terminal_task_final_witness:
  "map_option t_status (task_by_id replaced_db 1) = Some Failed"
proof -
  have "core_ok failed_db"
    using example_steps(1,2,4) forward_op_core_ok empty_db_ok by blast
  moreover obtain t where "task_by_id failed_db 1 = Some t" "t_status t = Failed"
    using task_by_id_Some [of failed_db 1]
    by (cases "task_by_id failed_db 1") (use failed_row in auto)
  ultimately show ?thesis
    using terminal_task_final [OF r_into_rtranclp [where r = forward_op, OF example_steps(5)]]
    by auto
qed

text \<open>
  C3. Cancelling by request: it succeeds exactly for a task of the organization that is not
  terminal and whose kind may be cancelled here; the stored row is then cancelled with the given
  (or default) reason, none of its steps stays pending or running, none of its dependencies stays
  active, and a cancellation signal is sent.
\<close>

definition cancellable :: "task \<Rightarrow> bool" where
  "cancellable t \<longleftrightarrow> \<not> terminal (t_status t) \<and> \<not> is_restore_type (t_type t)
     \<and> t_type t \<notin> {Source_unregister, Backup_config_provision, Node_lifecycle}"

lemma cancel_task_Inr:
  "(\<exists>r. cancel_task now uuid org reason db = Inr r)
     \<longleftrightarrow> (\<exists>t. locked_task db uuid org = Some t \<and> cancellable t)"
  unfolding cancel_task_def find_locked_def cancellable_def by auto

theorem cancel_task_outcome:
  assumes "core_ok db"
  shows "case cancel_task now uuid org reason db of
      Inl e \<Rightarrow> (\<forall>t. locked_task db uuid org = Some t \<longrightarrow> \<not> cancellable t)
    | Inr (db', t') \<Rightarrow> (\<exists>t. locked_task db uuid org = Some t \<and> cancellable t \<and> t_id t' = t_id t
        \<and> t_status t' = Cancelled \<and> t_error_code t' = Some ''TASK_CANCELLED''
        \<and> t_error_message t' =
            Some (if strip reason = [] then ''Task cancelled by user'' else strip reason)
        \<and> t_finished_at t' = Some now \<and> task_by_id db' (t_id t) = Some t'
        \<and> quiet db' (t_id t)
        \<and> Task_cancelled uuid (Some org) Cancelled \<in> set (db_signals db'))"
proof (cases "cancel_task now uuid org reason db")
  case (Inl e)
  then show ?thesis using cancel_task_Inr [of now uuid org reason db] by auto
next
  case (Inr r)
  obtain db' t' where r: "r = (db', t')" by (cases r)
  from Inr r obtain t where l: "find_locked db uuid org = Inr t" and m: "t \<in> set (db_tasks db)"
    and c: "cancellable t" and f: "finalize_task_cancellation now t reason db = (db', t')"
    by (auto elim!: cancel_taskE simp: cancellable_def)
  from l have l': "locked_task db uuid org = Some t" by (simp add: find_locked_def)
  note row = finalize_row [OF f m assms] and org = locked_task_Some [OF l']
  show ?thesis using row org c l' by (auto simp: Inr r)
qed

theorem cancel_task_outcome_witness:
  "\<exists>t'. cancel_task 102 ''u1'' 7 [] started_db = Inr (cancelled_db, t') \<and> quiet cancelled_db 1"
proof -
  have ok: "core_ok started_db" using example_steps(1,2) forward_op_core_ok empty_db_ok by blast
  obtain t' where t': "cancel_task 102 ''u1'' 7 [] started_db = Inr (cancelled_db, t')"
    unfolding cancelled_db_def using task_store_Inr [OF example_runs(3)] by blast
  have "map_option t_id (locked_task started_db ''u1'' 7) = Some 1" by code_simp
  with cancel_task_outcome [OF ok, where now = 102 and uuid = "''u1''" and org = 7
      and reason = "[]"] t' show ?thesis by auto
qed

text \<open>
  C4. A retry puts a failed, timed-out or cancelled task back to its start: pending, no progress,
  no error, no result and no times, one more on its retry count, every step of it pending, at its
  first step; and no other task's children change.
\<close>

theorem retry_task_outcome:
  assumes "core_ok db" and "retry_task now uuid org reason db = Inr (db', t')"
  shows "\<exists>t. locked_task db uuid org = Some t \<and> t_status t \<in> {Failed, Timeout, Cancelled}
    \<and> task_by_id db' (t_id t) = Some t' \<and> t_status t' = Pending \<and> t_progress t' = 0
    \<and> t_error_code t' = None \<and> t_error_message t' = None \<and> t_result t' = None
    \<and> t_started_at t' = None \<and> t_finished_at t' = None
    \<and> t_retry_count t' = t_retry_count t + 1
    \<and> t_current_step t' = map_option s_name (first_task_step db t)
    \<and> (\<forall>s \<in> set (db_steps db'). s_task s = t_id t \<longrightarrow> s_status s = Step_pending \<and> s_progress s = 0)
    \<and> (\<forall>j. j \<noteq> t_id t \<longrightarrow> children j db' = children j db)"
  using assms(2)
proof (rule retry_taskE)
  fix t :: task and md
  let ?f = "retried_columns now (first_task_step db t) (t_retry_count t + 1)"
  assume l: "find_locked db uuid org = Inr t" and t: "t \<in> set (db_tasks db)"
    and st: "t_status t \<in> {Failed, Timeout, Cancelled}" and t': "t' = ?f t"
    and db': "db' = send_signal (updated_signal t') (append_task_event now t' Info
          ''Task queued for retry'' md (first_task_step db t)
          (reset_steps (t_id t) (save_task ?f t db)))"
  have "core_ok db'" using assms(2,1) by (rule retry_task_core_ok)
  then have "task_by_id db' (t_id t) = Some t'"
    unfolding t' by (rule save_task_stored [where f = ?f, OF assms(1) t, rotated]) (simp_all add: db')
  moreover have "\<forall>s \<in> set (db_steps db'). s_task s = t_id t \<longrightarrow> s_status s = Step_pending \<and> s_progress s = 0"
    by (simp add: db' reset_steps_def ball_update_where)
  moreover have "\<forall>j. j \<noteq> t_id t \<longrightarrow> children j db' = children j db"
    by (simp add: db' children_updates)
  ultimately show ?thesis
    using l st by (intro exI [of _ t]) (auto simp: find_locked_def t' retried_columns_def)
qed

theorem retry_task_outcome_witness:
  "\<exists>db' t'. retry_task 105 ''u1'' 7 '' again '' cancelled_db = Inr (db', t')
     \<and> t_status t' = Pending \<and> t_retry_count t' = 1"
proof -
  have ok: "core_ok cancelled_db"
    using example_steps(1-3) forward_op_core_ok empty_db_ok by blast
  have "\<not> isl (retry_task 105 ''u1'' 7 '' again '' cancelled_db)" by code_simp
  then obtain db' t' where r: "retry_task 105 ''u1'' 7 '' again '' cancelled_db = Inr (db', t')"
    using task_store_Inr by blast
  have "map_option t_retry_count (locked_task cancelled_db ''u1'' 7) = Some 0" by code_simp
  then have "t_status t' = Pending \<and> t_retry_count t' = 1"
    using retry_task_outcome [OF ok r] by auto
  with r show ?thesis by blast
qed

text \<open>
  C5. Completion is decided once: on a terminal task it reports the stored row and changes
  nothing; on an open one it stores the given terminal status, the rounded progress and the times,
  and sends exactly one terminal signal of that status (none for a cancellation).
\<close>

definition terminal_signals :: "task \<Rightarrow> task_signal list" where
  "terminal_signals t = (case t_status t of
       Success \<Rightarrow> [Task_succeeded (t_uuid t) (t_org t)] | Failed \<Rightarrow> [Task_failed (t_uuid t) (t_org t)]
     | Timeout \<Rightarrow> [Task_timed_out (t_uuid t) (t_org t)] | _ \<Rightarrow> [])"

theorem complete_task_outcome:
  assumes "core_ok db" and "complete_task now uuid org c db = Inr (db', t')"
  shows "(terminal (t_status t') \<and> locked_task db uuid org = Some t' \<and> db' = db)
    \<or> (\<exists>t p. locked_task db uuid org = Some t \<and> \<not> terminal (t_status t)
        \<and> progress_of (c_progress c) = Inr p \<and> task_by_id db' (t_id t) = Some t'
        \<and> task_status_value (t_status t') = c_status c \<and> terminal (t_status t')
        \<and> t_progress t' = p \<and> t_finished_at t' = Some now
        \<and> t_started_at t' = Some (or_else (t_started_at t) now)
        \<and> db_signals db' = db_signals db @ updated_signal t' # terminal_signals t'
        \<and> (\<forall>j. children j db' = children j db))"
  using assms(2)
proof (rule complete_taskE)
  fix t :: task and status p
  let ?f = "completed_columns now status p c (Some (or_else (t_started_at t) now))"
  assume l: "find_locked db uuid org = Inr t" and t: "t \<in> set (db_tasks db)"
    and o: "\<not> terminal (t_status t)" and st: "parse_task_status (c_status c) = Some status" "terminal status"
    and p: "progress_of (c_progress c) = Inr p" and f: "finish_task now status p c t db = (db', t')"
  have t': "t' = ?f t" using f by (simp add: finish_task_def Let_def)
  have "core_ok db'" using assms(2,1) by (auto intro: forward_op_core_ok op_complete)
  then have "task_by_id db' (t_id t) = Some t'"
    unfolding t' using f
    by (intro save_task_stored [where f = ?f, OF assms(1) t]) (auto simp: finish_task_def Let_def)
  moreover have "task_status_value status = c_status c"
    using st(1) by (auto simp: parse_task_status_def find_Some_iff)
  moreover have "db_signals db' = db_signals db @ updated_signal t' # terminal_signals t'"
    using f unfolding t' by (auto simp: finish_task_def Let_def emit_task_terminal_signal_def
        send_signal_def terminal_signals_def split: task_status.splits)
  moreover have "\<forall>j. children j db' = children j db"
    using f by (auto simp: finish_task_def Let_def)
  ultimately show ?thesis
    using l o st p unfolding t' by (auto simp: find_locked_def completed_columns_def)
qed (auto simp: find_locked_def)

theorem complete_task_outcome_witness:
  "\<exists>t'. complete_task 103 ''u1'' 7 (ended ''failed'') started_db = Inr (failed_db, t')
     \<and> t_status t' = Failed \<and> Task_failed ''u1'' (Some 7) \<in> set (db_signals failed_db)"
proof -
  have ok: "core_ok started_db" using example_steps(1,2) forward_op_core_ok empty_db_ok by blast
  obtain t' where t': "complete_task 103 ''u1'' 7 (ended ''failed'') started_db = Inr (failed_db, t')"
    unfolding failed_db_def using task_store_Inr [OF example_runs(4)] by blast
  have "map_option t_status (locked_task started_db ''u1'' 7) = Some Running" by code_simp
  with complete_task_outcome [OF ok t'] have "task_status_value (t_status t') = ''failed''"
    by (auto simp: ended_def)
  then have "t_status t' = Failed" by (cases "t_status t'") simp_all
  moreover have "Task_failed ''u1'' (Some 7) \<in> set (db_signals failed_db)" by code_simp
  ultimately show ?thesis using t' by blast
qed

text \<open>
  The trigger of a replacement: in well-formed stores the walk along the replacement links
  finds the first task of the chain that is not a legacy retry, however long the chain, and
  returns its trigger.
\<close>

fun retry_chain :: "task_db \<Rightarrow> task \<Rightarrow> task list \<Rightarrow> bool" where
  "retry_chain db t [] = (t_trigger t \<noteq> Retry)"
| "retry_chain db t (p # ps) =
     (t_trigger t = Retry \<and> p \<in> set (db_tasks db) \<and> t_replaces t = Some (t_id p) \<and> retry_chain db p ps)"

lemma trigger_walk_chain:
  assumes "core_ok db" and "cur \<in> set (db_tasks db)" and "retry_chain db cur ps"
    and "t_org cur = t_org t" and "t_type cur = t_type t" and "\<forall>v \<in> set visited. t_id cur < v"
  shows "trigger_walk db t visited cur = last (cur # ps)"
  using assms(2-)
proof (induction ps arbitrary: cur visited)
  case Nil
  then show ?case by (simp add: trigger_walk.simps [of _ _ _ cur])
next
  case (Cons p ps)
  from Cons.prems(2) have p: "t_trigger cur = Retry" "p \<in> set (db_tasks db)"
    "t_replaces cur = Some (t_id p)" "retry_chain db p ps" by simp_all
  have "\<exists>r \<in> set (db_tasks db). t_id r = t_id p \<and> replaces_row cur r"
    using assms(1) Cons.prems(1) p(3) by (force simp: core_ok_def lineage_ok_def)
  then have "replaces_row cur p"
    using id_unique [of db] assms(1) p(2) by (auto simp: core_ok_def)
  moreover have "trigger_parent db cur = Some p"
    using p assms(1) by (simp add: trigger_parent_def task_by_id_in)
  moreover from calculation(1) have "trigger_walk db t (t_id cur # visited) p = last (p # ps)"
    using Cons.prems(3-5) by (intro Cons.IH p(2,4)) (auto simp: replaces_row_def)
  ultimately show ?case
    using Cons.prems(3-5) p(1) by (subst trigger_walk.simps) (auto simp: replaces_row_def)
qed

theorem task_trigger_source_origin:
  assumes "core_ok db" and "t \<in> set (db_tasks db)" and "retry_chain db t ps"
  shows "task_trigger_source db t = t_trigger (last (t # ps))"
proof -
  have "t_trigger (last (t # ps)) \<noteq> Retry"
    using assms(3) by (induction ps arbitrary: t) auto
  with trigger_walk_chain [OF assms, of t "[]"] show ?thesis
    by (simp add: task_trigger_source_def)
qed

definition legacy_row :: "nat \<Rightarrow> nat option \<Rightarrow> nat \<Rightarrow> trigger_type \<Rightarrow> task" where
  "legacy_row i p n tr =
     (new_task 0 (show_nat i) (example_request\<lparr>q_key := None\<rparr>) Backup tr None None i)
       \<lparr>t_replaces := p, t_recovery_attempt := n\<rparr>"

definition legacy_db :: task_db where
  "legacy_db = empty_db\<lparr>db_tasks := [legacy_row 1 None 0 System, legacy_row 2 (Some 1) 1 Retry,
     legacy_row 3 (Some 2) 2 Retry], db_next_task := 4\<rparr>"

lemma legacy_db_ok: "core_ok legacy_db"
  by (simp add: core_ok_def core_defs events_ok_def events_of_def gapless_def legacy_db_def
      legacy_row_def new_task_def task_row_ok_def task_conflict_def replaces_row_def empty_db_def
      example_request_def or_else_def)

theorem task_trigger_source_origin_witness:
  "task_trigger_source legacy_db (legacy_row 3 (Some 2) 2 Retry) = System"
  using task_trigger_source_origin [OF legacy_db_ok, of "legacy_row 3 (Some 2) 2 Retry"
      "[legacy_row 2 (Some 1) 1 Retry, legacy_row 1 None 0 System]"]
  by (simp add: legacy_db_def legacy_row_def)

end
