(* ===== verification/Civil_Time.thy ===== *)
theory Civil_Time
  imports Py_Text
begin

text \<open>
  Instants and civil time, the part of Python's \<^verbatim>\<open>datetime\<close> the program uses. An instant is
  the number of microseconds since 1970-01-01 UTC; a wall time is the same number for the clock on
  the wall of some zone. Dates follow the proleptic Gregorian calendar. The main lemma: a date
  determines its day, so the texts built from civil fields determine the minute they came from.
\<close>

definition seconds :: "int \<Rightarrow> int" where
  "seconds n = n * 1000000"

definition minute_us :: int where
  "minute_us = 60000000"

definition day_us :: int where
  "day_us = 86400000000"

section \<open>The calendar\<close>

definition leap :: "nat \<Rightarrow> bool" where
  "leap y \<longleftrightarrow> y mod 4 = 0 \<and> (y mod 100 \<noteq> 0 \<or> y mod 400 = 0)"

definition year_length :: "nat \<Rightarrow> nat" where
  "year_length y = (if leap y then 366 else 365)"

definition month_lengths :: "nat \<Rightarrow> nat list" where
  "month_lengths y = [31, if leap y then 29 else 28, 31, 30, 31, 30, 31, 31, 30, 31, 30, 31]"

lemma year_length_pos [simp]: "0 < year_length y"
  by (simp add: year_length_def)

text \<open>The year (counted from the start of its 400-year cycle) of a day, and the day within it.\<close>

function year_walk :: "nat \<Rightarrow> nat \<Rightarrow> nat \<times> nat" where
  "year_walk k r = (if r < year_length k then (k, r) else year_walk (Suc k) (r - year_length k))"
  by pat_completeness auto
termination
proof (relation "measure snd")
  fix k r :: nat
  assume "\<not> r < year_length k"
  then show "((Suc k, r - year_length k), (k, r)) \<in> measure snd"
    using year_length_pos [of k] by (simp del: year_length_pos)
qed simp

declare year_walk.simps [simp del]

fun month_walk :: "nat list \<Rightarrow> nat \<Rightarrow> nat \<Rightarrow> nat \<times> nat" where
  "month_walk [] m r = (m, r + 1)"
| "month_walk (l # ls) m r = (if r < l then (m, r + 1) else month_walk ls (m + 1) (r - l))"

text \<open>The number of days in 400 years; day 0 is 2000-01-01.\<close>

definition cycle_days :: int where
  "cycle_days = 146097"

definition civil_date :: "int \<Rightarrow> int \<times> nat \<times> nat" where
  "civil_date d =
     (let (k, r) = year_walk 0 (nat (d mod cycle_days));
          (m, dd) = month_walk (month_lengths k) 1 r
      in (2000 + 400 * (d div cycle_days) + int k, m, dd))"

definition year_in_cycle :: "int \<Rightarrow> nat" where
  "year_in_cycle y = nat ((y - 2000) mod 400)"

definition day_number :: "int \<times> nat \<times> nat \<Rightarrow> int" where
  "day_number = (\<lambda>(y, m, dd).
     cycle_days * ((y - 2000) div 400)
     + int (sum_list (map year_length [0..<year_in_cycle y]))
     + int (sum_list (take (m - 1) (month_lengths (year_in_cycle y)))) + int dd - 1)"

definition valid_date :: "int \<Rightarrow> nat \<Rightarrow> nat \<Rightarrow> bool" where
  "valid_date y m dd \<longleftrightarrow> 1 \<le> y \<and> y \<le> 9999 \<and> 1 \<le> m \<and> m \<le> 12 \<and> 1 \<le> dd
     \<and> dd \<le> month_lengths (year_in_cycle y) ! (m - 1)"

text \<open>\<^verbatim>\<open>calendar.monthrange(year, month)[1]\<close>\<close>

definition days_in_month :: "int \<Rightarrow> nat \<Rightarrow> nat" where
  "days_in_month y m = month_lengths (year_in_cycle y) ! (m - 1)"

lemma year_walk_sum:
  "year_walk k r = (k', r') \<Longrightarrow>
     sum_list (map year_length [0..<k]) + r = sum_list (map year_length [0..<k']) + r'
     \<and> r' < year_length k'"
proof (induction k r rule: year_walk.induct)
  case (1 k r)
  show ?case
  proof (cases "r < year_length k")
    case True
    with "1.prems" show ?thesis by (simp add: year_walk.simps [of k r])
  next
    case False
    with "1.prems" have "year_walk (Suc k) (r - year_length k) = (k', r')"
      by (simp add: year_walk.simps [of k r])
    with "1.IH" False show ?thesis by simp
  qed
qed

text \<open>The multiples of \<open>c\<close> below \<open>k\<close>.\<close>

definition multiples_below :: "nat \<Rightarrow> nat \<Rightarrow> nat" where
  "multiples_below c k = (k + (c - 1)) div c"

lemma multiples_below_Suc:
  assumes "0 < c"
  shows "multiples_below c (Suc k) = multiples_below c k + (if k mod c = 0 then 1 else 0)"
proof -
  have s: "Suc k + (c - 1) = k + c" using assms by simp
  have k: "k = c * (k div c) + k mod c" by simp
  have "(k + (c - 1)) div c = k div c + (k mod c + (c - 1)) div c"
    using assms by (subst k) (simp only: add.assoc div_mult_self4 [OF less_imp_neq [OF assms, symmetric]])
  moreover have "(k mod c + (c - 1)) div c = (if k mod c = 0 then 0 else 1)"
    using assms mod_less_divisor [OF assms, of k] by (auto intro!: div_nat_eqI)
  moreover have "(k + c) div c = Suc (k div c)" using assms by (simp add: div_add_self2)
  ultimately show ?thesis unfolding multiples_below_def s by simp
qed

lemma year_length_sum:
  "sum_list (map year_length [0..<k]) + multiples_below 100 k
     = 365 * k + multiples_below 4 k + multiples_below 400 k"
proof (induction k)
  case 0
  show ?case by (simp add: multiples_below_def)
next
  case (Suc k)
  have "k mod 100 = 0 \<Longrightarrow> k mod 4 = 0" "k mod 400 = 0 \<Longrightarrow> k mod 100 = 0"
    by (auto simp: mod_eq_0_iff_dvd intro: dvd_trans [of 4 100] dvd_trans [of 100 400])
  then have "year_length k + (if k mod 100 = 0 then 1 else 0)
      = 365 + (if k mod 4 = 0 then 1 else 0) + (if k mod 400 = 0 then 1 else 0)"
    by (auto simp: year_length_def leap_def)
  with Suc show ?case by (simp add: multiples_below_Suc del: upt_Suc add: upt_Suc_append)
qed

definition cycle_years :: nat where
  "cycle_years = 400"

lemma cycle_sum: "int (sum_list (map year_length [0..<cycle_years])) = cycle_days"
proof -
  have "multiples_below 100 cycle_years = 4" "multiples_below 4 cycle_years = 100"
    "multiples_below 400 cycle_years = 1" "365 * cycle_years = 146000"
    by (simp_all add: cycle_years_def multiples_below_def)
  with year_length_sum [of cycle_years] have "sum_list (map year_length [0..<cycle_years]) = 146097"
    by simp
  then show ?thesis by (simp add: cycle_days_def)
qed

lemma year_walk_bound:
  assumes "year_walk 0 r = (k, r')" and "int r < cycle_days"
  shows "k < 400"
proof -
  have "k < cycle_years"
  proof (rule ccontr)
    assume "\<not> k < cycle_years"
    then have "[0..<k] = [0..<cycle_years] @ [cycle_years..<k]"
      using upt_add_eq_append [of 0 cycle_years "k - cycle_years"] by simp
    then have "sum_list (map year_length [0..<cycle_years]) \<le> sum_list (map year_length [0..<k])"
      by simp
    with year_walk_sum [OF assms(1)] have "sum_list (map year_length [0..<cycle_years]) \<le> r" by simp
    with assms(2) cycle_sum show False by linarith
  qed
  then show ?thesis by (simp add: cycle_years_def)
qed

lemma month_walk_sum:
  "month_walk ls m r = (m', dd) \<Longrightarrow> r < sum_list ls \<Longrightarrow>
     m \<le> m' \<and> m' < m + length ls \<and> 1 \<le> dd \<and> dd \<le> ls ! (m' - m)
     \<and> r = sum_list (take (m' - m) ls) + dd - 1"
proof (induction ls m r rule: month_walk.induct)
  case (1 m r)
  then show ?case by simp
next
  case (2 l ls m r)
  show ?case
  proof (cases "r < l")
    case True
    with 2 show ?thesis by auto
  next
    case False
    with 2 have *: "m + 1 \<le> m'" "m' < m + 1 + length ls" "1 \<le> dd" "dd \<le> ls ! (m' - (m + 1))"
      "r - l = sum_list (take (m' - (m + 1)) ls) + dd - 1" by auto
    then have "m' - m = Suc (m' - (m + 1))" by simp
    with * False show ?thesis by simp
  qed
qed

lemma month_lengths_sum: "sum_list (month_lengths k) = year_length k"
  by (simp add: month_lengths_def year_length_def)

text \<open>A date determines its day.\<close>

lemma day_number_civil_date [simp]: "day_number (civil_date d) = d"
proof -
  obtain k r where k: "year_walk 0 (nat (d mod cycle_days)) = (k, r)" by fastforce
  obtain m dd where m: "month_walk (month_lengths k) 1 r = (m, dd)" by fastforce
  have pos: "0 < cycle_days" by (simp add: cycle_days_def)
  have k400: "k < 400" using k pos by (intro year_walk_bound [OF k]) simp
  note sum = year_walk_sum [OF k, simplified]
  have r: "r = sum_list (take (m - 1) (month_lengths k)) + dd - 1" "1 \<le> dd"
    using month_walk_sum [OF m] sum by (simp_all add: month_lengths_sum)
  let ?e = "d div cycle_days"
  have y: "(400 * ?e + int k) div 400 = ?e" "(400 * ?e + int k) mod 400 = int k"
    using k400 by simp_all
  have "day_number (civil_date d) = cycle_days * ?e + int (sum_list (map year_length [0..<k]))
      + int (sum_list (take (m - 1) (month_lengths k))) + int dd - 1"
    using k400 by (simp add: civil_date_def k m [simplified] day_number_def year_in_cycle_def)
  also have "\<dots> = cycle_days * ?e + int (sum_list (map year_length [0..<k]) + r)"
    using r by simp
  also have "int (sum_list (map year_length [0..<k]) + r) = d mod cycle_days"
    using sum pos by (metis nat_0_le pos_mod_sign)
  finally show ?thesis by simp
qed

lemma civil_date_valid:
  assumes "civil_date d = (y, m, dd)"
  shows "1 \<le> m \<and> m \<le> 12 \<and> 1 \<le> dd \<and> dd \<le> 31 \<and> dd \<le> days_in_month y m"
proof -
  obtain k r where k: "year_walk 0 (nat (d mod cycle_days)) = (k, r)" by fastforce
  have pos: "0 < cycle_days" by (simp add: cycle_days_def)
  have k400: "k < 400" using k pos by (intro year_walk_bound [OF k]) simp
  from assms have m: "month_walk (month_lengths k) 1 r = (m, dd)"
    and y: "y = 2000 + 400 * (d div cycle_days) + int k"
    by (auto simp: civil_date_def k split: prod.splits)
  have "year_in_cycle y = k" using k400 by (simp add: year_in_cycle_def y)
  moreover have "length (month_lengths k) = 12" "\<forall>l \<in> set (month_lengths k). l \<le> 31"
    by (simp_all add: month_lengths_def)
  moreover have "1 \<le> m" "m < 1 + 12" "1 \<le> dd" "dd \<le> month_lengths k ! (m - 1)"
    using month_walk_sum [OF m] year_walk_sum [OF k] calculation(2) by (simp_all add: month_lengths_sum)
  moreover from calculation have "month_lengths k ! (m - 1) \<in> set (month_lengths k)"
    by (intro nth_mem) simp
  ultimately show ?thesis by (fastforce simp: days_in_month_def)
qed

section \<open>Fields and texts\<close>

text \<open>The fields of a wall time; Monday is weekday 0.\<close>

record civil =
  c_year :: int
  c_month :: nat
  c_day :: nat
  c_hour :: nat
  c_minute :: nat
  c_second :: nat
  c_micro :: int
  c_weekday :: nat

text \<open>Day 0 of the calendar is the 10957th day of the epoch, a Saturday.\<close>

definition wall_day :: "int \<Rightarrow> int" where
  "wall_day w = w div day_us - 10957"

definition civil_of :: "int \<Rightarrow> civil" where
  "civil_of w =
     (let (y, m, dd) = civil_date (wall_day w); u = w mod day_us in
      \<lparr>c_year = y, c_month = m, c_day = dd, c_hour = nat (u div 3600000000),
       c_minute = nat (u div 60000000 mod 60), c_second = nat (u div 1000000 mod 60),
       c_micro = u mod 1000000, c_weekday = nat ((wall_day w + 5) mod 7)\<rparr>)"

definition digit_char :: "nat \<Rightarrow> char" where
  "digit_char n = char_of (48 + n mod 10)"

definition pad2 :: "nat \<Rightarrow> string" where
  "pad2 n = [digit_char (n div 10), digit_char n]"

definition pad4 :: "nat \<Rightarrow> string" where
  "pad4 n = [digit_char (n div 1000), digit_char (n div 100), digit_char (n div 10), digit_char n]"

definition pad6 :: "int \<Rightarrow> string" where
  "pad6 n = map (\<lambda>k. digit_char (nat (n div k mod 10))) [100000, 10000, 1000, 100, 10, 1]"

lemma digit_char_eq: "digit_char a = digit_char b \<longleftrightarrow> a mod 10 = b mod 10"
proof
  assume "digit_char a = digit_char b"
  then have "(of_char (digit_char a) :: nat) = of_char (digit_char b)" by simp
  then show "a mod 10 = b mod 10" by (simp add: digit_char_def)
qed (simp add: digit_char_def)

lemma pad2_eq: "a < 100 \<Longrightarrow> b < 100 \<Longrightarrow> pad2 a = pad2 b \<longleftrightarrow> a = b"
proof -
  assume "a < 100" "b < 100"
  then have "a div 10 mod 10 = a div 10" "b div 10 mod 10 = b div 10" by simp_all
  then show ?thesis
    by (auto simp: pad2_def digit_char_eq) (metis div_mult_mod_eq)
qed

lemma length_pad2 [simp]: "length (pad2 n) = 2"
  by (simp add: pad2_def)

text \<open>\<^verbatim>\<open>strftime("%Y%m%d%H%M")\<close>: the year without padding, as the C library prints it.\<close>

definition stamp_minute :: "int \<Rightarrow> string" where
  "stamp_minute w = (let c = civil_of w in
     show_int (c_year c) @ pad2 (c_month c) @ pad2 (c_day c) @ pad2 (c_hour c) @ pad2 (c_minute c))"

text \<open>\<^verbatim>\<open>isoformat()\<close> of an aware time in UTC.\<close>

definition iso_utc :: "int \<Rightarrow> string" where
  "iso_utc t = (let c = civil_of t in
     pad4 (nat (c_year c)) @ ''-'' @ pad2 (c_month c) @ ''-'' @ pad2 (c_day c) @ ''T''
     @ pad2 (c_hour c) @ '':'' @ pad2 (c_minute c) @ '':'' @ pad2 (c_second c)
     @ (if c_micro c = 0 then [] else ''.'' @ pad6 (c_micro c)) @ ''+00:00'')"

text \<open>\<^verbatim>\<open>isocalendar()\<close>: the ISO year and week; weeks start on Monday, week 1 has the first Thursday.\<close>

definition iso_week1_monday :: "int \<Rightarrow> int" where
  "iso_week1_monday y =
     (let first = day_number (y, 1, 1); wd = (first + 5) mod 7; monday = first - wd
      in if wd > 3 then monday + 7 else monday)"

definition iso_week :: "int \<Rightarrow> int \<times> int" where
  "iso_week w =
     (let today = wall_day w; y = fst (civil_date today);
          week = (today - iso_week1_monday y) div 7
      in if week < 0 then (y - 1, (today - iso_week1_monday (y - 1)) div 7 + 1)
         else if week \<ge> 52 \<and> today \<ge> iso_week1_monday (y + 1) then (y + 1, 1)
         else (y, week + 1))"

section \<open>The minute of a time\<close>

definition floor_minute :: "int \<Rightarrow> int" where
  "floor_minute t = t - t mod minute_us"

lemma floor_minute_idem [simp]: "floor_minute (floor_minute t) = floor_minute t"
  by (simp add: floor_minute_def)

lemma div_in_blocks:
  fixes m n x :: int
  assumes "0 < m" and "0 < n"
  shows "x div m = x div (m * n) * n + x mod (m * n) div m"
proof -
  have "x mod (m * n) div m = x div m mod n"
    using assms by (simp add: zmod_zmult2_eq div_add1_eq)
  then show ?thesis using assms by (simp add: zdiv_zmult2_eq)
qed

lemma same_quotient:
  fixes a b m n :: int
  assumes "0 < n" and "a div (m * n) = b div (m * n)" and "a div m mod n = b div m mod n"
  shows "a div m = b div m"
  using assms by (metis div_mult_mod_eq order_less_imp_le zdiv_zmult2_eq)

lemma hour_minute_us: "(3600000000::int) = minute_us * 60" "(60000000::int) = minute_us"
  by (simp_all add: minute_us_def)

lemma civil_of_time:
  "c_hour (civil_of w) = nat (w mod day_us div (minute_us * 60))"
  "c_minute (civil_of w) = nat (w mod day_us div minute_us mod 60)"
  unfolding civil_of_def Let_def hour_minute_us by (simp_all split: prod.split)

lemma civil_of_hour_minute:
  "c_hour (civil_of w) < 24" "c_minute (civil_of w) < 60"
proof -
  have "w mod day_us < 24 * 3600000000" by (simp add: day_us_def)
  then have "w mod day_us div (minute_us * 60) < 24"
    unfolding hour_minute_us(1) [symmetric] by (simp add: div_less_iff_less_mult)
  then show "c_hour (civil_of w) < 24" "c_minute (civil_of w) < 60"
    by (simp_all add: civil_of_time nat_less_iff)
qed

lemma time_of_day_minute:
  assumes "c_hour (civil_of v) = c_hour (civil_of w)" "c_minute (civil_of v) = c_minute (civil_of w)"
  shows "v mod day_us div minute_us = w mod day_us div minute_us"
proof (rule same_quotient)
  have pos: "0 \<le> x mod day_us" "0 < minute_us" for x by (simp_all add: day_us_def minute_us_def)
  show "(0::int) < 60" by simp
  have "0 \<le> x mod day_us div (minute_us * 60)" for x
    using pos by (simp add: pos_imp_zdiv_nonneg_iff)
  then show "v mod day_us div (minute_us * 60) = w mod day_us div (minute_us * 60)"
    using assms(1) by (simp add: civil_of_time eq_nat_nat_iff)
  show "v mod day_us div minute_us mod 60 = w mod day_us div minute_us mod 60"
    using assms(2) by (simp add: civil_of_time eq_nat_nat_iff)
qed

text \<open>The stamp tells two wall times apart exactly when they lie in different minutes.\<close>

lemma stamp_minute_inj:
  assumes "stamp_minute v = stamp_minute w"
    and "1 \<le> c_year (civil_of v)" and "1 \<le> c_year (civil_of w)"
  shows "floor_minute v = floor_minute w"
proof -
  obtain yv mv dv where v: "civil_date (wall_day v) = (yv, mv, dv)" by (metis prod_cases3)
  obtain yw mw dw where w: "civil_date (wall_day w) = (yw, mw, dw)" by (metis prod_cases3)
  note bv = civil_date_valid [OF v] and bw = civil_date_valid [OF w]
  have c: "c_year (civil_of v) = yv" "c_month (civil_of v) = mv" "c_day (civil_of v) = dv"
    "c_year (civil_of w) = yw" "c_month (civil_of w) = mw" "c_day (civil_of w) = dw"
    by (simp_all add: civil_of_def v w Let_def)
  note hm = civil_of_hour_minute [of v] civil_of_hour_minute [of w]
  from assms(1) have "show_int yv = show_int yw" and m: "pad2 mv = pad2 mw" "pad2 dv = pad2 dw"
    and h: "pad2 (c_hour (civil_of v)) = pad2 (c_hour (civil_of w))"
      "pad2 (c_minute (civil_of v)) = pad2 (c_minute (civil_of w))"
    by (auto simp: stamp_minute_def Let_def c)
  then have "yv = yw" using assms(2,3) by (simp add: c show_int_def)
  moreover have "mv = mw" "dv = dw" using m bv bw by (simp_all add: pad2_eq)
  ultimately have "wall_day v = wall_day w"
    using v w by (metis day_number_civil_date)
  then have d: "v div day_us = w div day_us" by (simp add: wall_day_def)
  have "c_hour (civil_of v) = c_hour (civil_of w)" "c_minute (civil_of v) = c_minute (civil_of w)"
    using h hm by (simp_all add: pad2_eq)
  then have "(v mod day_us) div minute_us = (w mod day_us) div minute_us"
    by (rule time_of_day_minute)
  moreover have "x div minute_us = x div day_us * 1440 + (x mod day_us) div minute_us" for x
    using div_in_blocks [of minute_us 1440 x] by (simp add: day_us_def minute_us_def)
  ultimately have "v div minute_us = w div minute_us" using d by metis
  then show ?thesis
    by (simp add: floor_minute_def minus_mod_eq_div_mult)
qed

end
