(* ===== verification/Node_Model.thy ===== *)
theory Node_Model
  imports Py_Value Civil_Time
begin

text \<open>
  The nodes and node tasks of \<^verbatim>\<open>apps/node\<close> (\<^verbatim>\<open>models/node.py\<close>,
  \<^verbatim>\<open>models/node_task.py\<close>), the settings of \<^verbatim>\<open>conf.py\<close> that govern them, and the
  decision helpers of \<^verbatim>\<open>services/internal/task.py\<close>: watchdog deadlines, delivery protocol,
  progress merging and route state. A UUID primary key is a natural number; times are in
  microseconds.
\<close>

section \<open>Rows\<close>

datatype node_role = Agent_role | Proxy_role | Gateway_role

datatype node_status =
  Node_active | Node_upgrading | Node_restarting | Node_verifying | Node_verification_pending
| Node_removing | Node_cleaning_up | Node_failed | Node_upgrade_failed | Node_deregistration_failed

datatype availability = Online | Offline

datatype scope = Scope_organization | Scope_platform

record node =
  n_id :: nat
  n_org :: "int option"
  n_scope :: scope
  n_role :: node_role
  n_status :: node_status
  n_availability :: availability
  n_last_seen_at :: "int option"
  n_updated_at :: int
  n_metadata :: json
  n_is_deleted :: bool

datatype ntask_status = N_pending | N_running | N_success | N_failed | N_timeout | N_canceled

fun ntask_status_value :: "ntask_status \<Rightarrow> string" where
  "ntask_status_value N_pending = ''pending''"
| "ntask_status_value N_running = ''running''"
| "ntask_status_value N_success = ''success''"
| "ntask_status_value N_failed = ''failed''"
| "ntask_status_value N_timeout = ''timeout''"
| "ntask_status_value N_canceled = ''canceled''"

record node_task =
  k_id :: nat
  k_org :: "int option"
  k_requesting_org :: "int option"
  k_node :: nat
  k_correlation_type :: string
  k_correlation_id :: string
  k_parent_task :: "nat option"
  k_kind :: string
  k_payload :: dict
  k_result :: dict
  k_status :: ntask_status
  k_dispatched_at :: "int option"
  k_accepted_at :: "int option"
  k_last_delivery_at :: "int option"
  k_delivery_attempts :: nat
  k_last_progress_at :: "int option"
  k_cancel_requested_at :: "int option"
  k_watchdog_deadline_at :: int
  k_last_error :: string
  k_created_at :: int
  k_updated_at :: int

definition active :: "ntask_status \<Rightarrow> bool" where
  "active s \<longleftrightarrow> s = N_pending \<or> s = N_running"

definition n_terminal :: "ntask_status \<Rightarrow> bool" where
  "n_terminal s \<longleftrightarrow> s \<in> {N_success, N_failed, N_timeout, N_canceled}"

lemma active_simps [simp, status_simps]:
  "active N_pending" "active N_running" "\<not> active N_success" "\<not> active N_failed"
  "\<not> active N_timeout" "\<not> active N_canceled"
  by (simp_all add: active_def)

lemma n_terminal_not_active [simp]: "n_terminal s = (\<not> active s)"
  by (cases s) (simp_all add: n_terminal_def)

text \<open>The settings, in seconds.\<close>

record node_conf =
  cf_task_watchdog :: int
  cf_insight_watchdog :: int
  cf_repository_initialize_watchdog :: int
  cf_automatic_probe_watchdog :: int
  cf_source_nas_probe_timeout :: int
  cf_snapshot_delete_watchdog :: int
  cf_command_ack_max_age :: int
  cf_route_reconnect_grace :: int
  cf_path_size_watchdog :: int
  cf_cancel_grace :: int
  cf_reconnect_grace :: int
  cf_offline_task_fail :: int
  cf_lifecycle_detached_timeout :: int
  cf_upgrade_download_stall :: int
  cf_uplink_projection_grace :: int
  cf_result_uplink_projection_grace :: int
  cf_backup_activity_lease :: int
  cf_restore_activity_lease :: int
  cf_agent_loc_ttl :: int
  cf_command_ack_timeout :: int
  cf_command_ack_max_retries :: int

text \<open>
  What an operation reads besides the database: the clock, the settings, and the Redis facts of
  \<^verbatim>\<open>redis_store\<close> (which agents have a live WebSocket route, which still hold a location
  lease, whether a WebSocket process is alive and a recovery hold is on, the route session of an
  agent, the last uplink frame of a task: when it was received, in seconds, and its message type).
\<close>

record env =
  ev_now :: int
  ev_conf :: node_conf
  ev_routable :: "nat \<Rightarrow> bool"
  ev_location :: "nat \<Rightarrow> bool"
  ev_live_instance :: bool
  ev_recovery_hold :: bool
  ev_session :: "nat \<Rightarrow> string option"
  ev_uplink :: "nat \<Rightarrow> (rat \<times> string) option"

definition after :: "env \<Rightarrow> int \<Rightarrow> int" where
  "after e secs = ev_now e + seconds secs"

section \<open>Kinds of work\<close>

definition lifecycle_type :: string where
  "lifecycle_type = ''node.lifecycle''"

definition is_backup_task :: "node_task \<Rightarrow> bool" where
  "is_backup_task t \<longleftrightarrow> k_correlation_type t = ''protection.backup''
     \<and> k_kind t \<in> set [''backup.run'', ''backup.snapshot.create'']"

definition is_restore_work :: "string \<Rightarrow> string \<Rightarrow> bool" where
  "is_restore_work ctype kind \<longleftrightarrow>
     ctype = ''restore.record'' \<and> kind \<in> set [''restore.run'', ''kopia.restore'']"

definition is_insight_operation :: "string \<Rightarrow> string \<Rightarrow> bool" where
  "is_insight_operation ctype kind \<longleftrightarrow>
     (ctype = ''lens_bridge.snapshot_browse'' \<and> kind = ''lens.snapshot.browse'')
     \<or> (ctype = ''lens_bridge.scope_resolve'' \<and> kind = ''lens.snapshot.scope.resolve'')"

definition is_source_nas_probe :: "string \<Rightarrow> string \<Rightarrow> bool" where
  "is_source_nas_probe ctype kind \<longleftrightarrow> ctype = ''source.connection_probe'' \<and> kind = ''nas.test''"

definition is_repository_initialize :: "string \<Rightarrow> string \<Rightarrow> bool" where
  "is_repository_initialize ctype kind \<longleftrightarrow> kind = ''repo.initialize''
     \<and> ctype \<in> set [''repository_create'', ''protection.backup_config'', ''storage_repository'']"

definition is_lifecycle :: "node_task \<Rightarrow> bool" where
  "is_lifecycle t \<longleftrightarrow> k_correlation_type t = lifecycle_type"

definition is_path_size :: "string \<Rightarrow> string \<Rightarrow> bool" where
  "is_path_size ctype kind \<longleftrightarrow> ctype = ''protection.path_size'' \<and> kind = ''path.size''"

definition is_repository_status :: "string \<Rightarrow> string \<Rightarrow> bool" where
  "is_repository_status ctype kind \<longleftrightarrow>
     ctype \<in> set [''storage.repository_health'', ''storage_repository''] \<and> kind = ''repo.status''"

definition ack_durable :: "(string \<times> string) list" where
  "ack_durable =
     [(''protection.backup'', ''backup.run''),
      (''protection.backup'', ''backup.snapshot.create''),
      (''protection.backup.policy_prepare'', ''repository.policy.apply''),
      (''protection.snapshot_delete'', ''snapshot.delete''),
      (''protection.backup_config_reset'', ''snapshot.delete''),
      (''source.connection_probe'', ''nas.test''),
      (''storage.repository_health'', ''repo.status''),
      (''repository_create'', ''repo.initialize''),
      (''protection.backup_config'', ''repo.initialize'')]"

section \<open>Watchdog deadlines\<close>

text \<open>\<^verbatim>\<open>isinstance(v, int)\<close>: booleans are integers in Python.\<close>

definition as_integer :: "json \<Rightarrow> int option" where
  "as_integer v = (case v of JInt i \<Rightarrow> Some i | JBool b \<Rightarrow> Some (if b then 1 else 0) | _ \<Rightarrow> None)"

text \<open>The execution budget of a command, in seconds, by correlation and kind.\<close>

definition watchdog_budget :: "node_conf \<Rightarrow> string \<Rightarrow> string \<Rightarrow> dict \<Rightarrow> int" where
  "watchdog_budget cf ctype kind payload =
     (let health = as_integer (dget payload ''health_timeout_seconds'') in
      if is_repository_status ctype kind \<and> 0 < or_else health 0
      then max (cf_task_watchdog cf) (or_else health 0 + 60)
      else if is_insight_operation ctype kind then max 1 (cf_insight_watchdog cf)
      else if is_restore_work ctype kind then cf_restore_activity_lease cf
      else if is_repository_initialize ctype kind then max 1 (cf_repository_initialize_watchdog cf)
      else if is_path_size ctype kind then max 1 (cf_path_size_watchdog cf)
      else if is_source_nas_probe ctype kind then max 1 (cf_source_nas_probe_timeout cf)
      else if ctype \<in> set [''source.connection_probe'', ''storage.repository_health'']
      then max 1 (cf_automatic_probe_watchdog cf)
      else if ctype \<in> set [''protection.snapshot_delete'', ''protection.backup_config_reset'']
        \<and> kind = ''snapshot.delete''
      then max 1 (cf_snapshot_delete_watchdog cf)
      else if ctype = lifecycle_type then cf_lifecycle_detached_timeout cf
      else if ctype = ''protection.backup''
        \<and> kind \<in> set [''backup.run'', ''backup.snapshot.create'']
      then cf_backup_activity_lease cf
      else if ctype = ''protection.backup.policy_prepare'' \<and> kind = ''repository.policy.apply''
      then cf_backup_activity_lease cf
      else cf_task_watchdog cf)"

definition initial_watchdog_deadline :: "node_conf \<Rightarrow> string \<Rightarrow> string \<Rightarrow> dict \<Rightarrow> int \<Rightarrow> int" where
  "initial_watchdog_deadline cf ctype kind payload from_time =
     from_time + seconds (watchdog_budget cf ctype kind payload)"

definition source_nas_probe_started_at :: "node_task \<Rightarrow> int" where
  "source_nas_probe_started_at t =
     or_else (first_some (k_accepted_at t) (first_some (k_dispatched_at t) (k_last_progress_at t)))
       (k_created_at t)"

section \<open>Delivery protocol\<close>

definition node_capabilities :: "node \<Rightarrow> string list" where
  "node_capabilities n =
     (let metadata = as_dict (n_metadata n);
          inventory = as_dict (dget metadata ''inventory'')
      in case dget_or inventory ''capabilities'' (dget_or metadata ''capabilities'' (JList [])) of
           JList vs \<Rightarrow> filter (\<lambda>s. s \<noteq> []) (map (\<lambda>v. strip (text_or_empty v)) vs)
         | _ \<Rightarrow> [])"

definition ack_capability :: string where
  "ack_capability = ''task_command_ack_v1''"

definition protocol_key :: string where
  "protocol_key = ''_delivery_protocol''"

definition task_uses_command_ack :: "node \<Rightarrow> node_task \<Rightarrow> bool" where
  "task_uses_command_ack n t =
     (if (k_correlation_type t, k_kind t) \<notin> set ack_durable then False
      else let selected = text_or_empty (dget (k_result t) protocol_key) in
        if selected = ''command_ack_v1'' then True
        else if selected = ''legacy'' then False
        else if k_status t = N_pending \<and> k_accepted_at t = None \<and> 0 < k_delivery_attempts t then True
        else ack_capability \<in> set (node_capabilities n))"

definition ddel :: "string \<Rightarrow> dict \<Rightarrow> dict" where
  "ddel key d = filter (\<lambda>(k, v). k \<noteq> key) d"

lemma dget_ddel [simp, value_simps]: "dget (ddel k d) k' = (if k' = k then JNull else dget d k')"
  by (induction d) (auto simp: ddel_def dget_def)

definition without_delivery_runtime_state :: "dict \<Rightarrow> dict" where
  "without_delivery_runtime_state d =
     ddel protocol_key
       (if dget d ''diagnostic_error_code'' \<in> set [JStr ''AGENT_CONNECTION_UNSTABLE'',
             JStr ''AGENT_UNAVAILABLE'', JStr ''AGENT_DELIVERY_FAILED'']
        then ddel ''diagnostic_error_code'' d else d)"

text \<open>A text occurs in another.\<close>

definition occurs :: "string \<Rightarrow> string \<Rightarrow> bool" where
  "occurs s t = sublist s t"

definition delivery_diagnostic_error_code :: "string \<Rightarrow> string" where
  "delivery_diagnostic_error_code reason =
     (let r = lower reason in
      if occurs ''reconnecting'' r then ''AGENT_CONNECTION_UNSTABLE''
      else if occurs ''not routable'' r \<or> (occurs ''agent'' r \<and> occurs ''unavailable'' r)
      then ''AGENT_UNAVAILABLE''
      else ''AGENT_DELIVERY_FAILED'')"

section \<open>Progress\<close>

definition substantive_backup_progress :: "dict \<Rightarrow> bool" where
  "substantive_backup_progress p \<longleftrightarrow> p \<noteq> [] \<and>
     ((\<exists>key \<in> set [''hashed_bytes'', ''uploaded_bytes'', ''kopia_percent'', ''percent''].
         dget p key \<noteq> JNull \<and> dget p key \<noteq> JStr [])
      \<or> lower (strip (text_or_empty (jor (dget p ''kopia_phase'') (dget p ''phase''))))
          \<in> set [''hashing'', ''uploading'', ''restoring'', ''snapshot_created'',
            ''restore_completed'', ''repository_ready'', ''snapshot_start'', ''kopia_snapshot'',
            ''kopia_transfer''])"

definition local_detached :: "json \<Rightarrow> bool" where
  "local_detached v = (strip (text_or_empty v) = ''local_detached'')"

definition has_detached_marker :: "node_task \<Rightarrow> bool" where
  "has_detached_marker t =
     (is_lifecycle t \<and>
      (local_detached (dget (k_result t) ''mode'')
       \<or> (is_dict (dget (k_result t) ''last_progress'')
          \<and> local_detached (dget (as_dict (dget (k_result t) ''last_progress'')) ''mode''))))"

definition download_snapshot :: "json \<Rightarrow> dict option" where
  "download_snapshot progress =
     (if is_dict progress \<and> text_or_empty (dget (as_dict progress) ''phase'') = ''download''
        \<and> is_dict (dget (as_dict progress) ''download'')
      then Some (as_dict (dget (as_dict progress) ''download'')) else None)"

definition upgrade_download_capability :: string where
  "upgrade_download_capability = ''agent_upgrade_download_progress_v1''"

definition uses_upgrade_download_progress :: "node \<Rightarrow> node_task \<Rightarrow> bool" where
  "uses_upgrade_download_progress n t =
     (if k_correlation_type t \<noteq> lifecycle_type \<or> k_kind t \<noteq> ''agent.upgrade'' then False
      else download_snapshot (dget (k_result t) ''last_progress'') \<noteq> None
        \<or> upgrade_download_capability \<in> set (node_capabilities n))"

definition download_progress_advanced :: "json \<Rightarrow> json \<Rightarrow> bool" where
  "download_progress_advanced incoming existing =
     (case download_snapshot incoming of
        None \<Rightarrow> False
      | Some current \<Rightarrow>
          (case download_snapshot existing of
             None \<Rightarrow> True
           | Some previous \<Rightarrow>
               (case (int_or (dget current ''downloaded_bytes'') 0,
                      int_or (dget previous ''downloaded_bytes'') 0,
                      int_or (dget current ''attempt'') 0,
                      int_or (dget previous ''attempt'') 0) of
                  (Some cb, Some pb, Some ca, Some pa) \<Rightarrow>
                    cb > pb \<or> ca > pa
                    \<or> text_or_empty (dget current ''state'') \<noteq> text_or_empty (dget previous ''state'')
                | _ \<Rightarrow> False)))"

definition stale_sequence :: "dict \<Rightarrow> dict \<Rightarrow> bool" where
  "stale_sequence incoming existing =
     (case (as_integer (dget incoming ''progress_sequence''),
            as_integer (dget existing ''progress_sequence'')) of
        (Some i, Some x) \<Rightarrow> i > 0 \<and> x > 0 \<and> i \<le> x
      | _ \<Rightarrow> False)"

definition should_apply_progress :: "node_task \<Rightarrow> dict \<Rightarrow> json \<Rightarrow> bool" where
  "should_apply_progress t incoming existing =
     (if \<not> is_backup_task t then True
      else if is_dict existing \<and> stale_sequence incoming (as_dict existing) then False
      else if substantive_backup_progress incoming then True
      else \<not> is_dict existing \<or> \<not> substantive_backup_progress (as_dict existing))"

definition merge_progress :: "node_task \<Rightarrow> dict \<Rightarrow> dict \<Rightarrow> int \<Rightarrow> dict" where
  "merge_progress t progress merged now =
     (let existing = dget merged ''last_progress'' in
      if \<not> should_apply_progress t progress (if is_dict existing then existing else JNull) then merged
      else
        let merged = dset merged ''last_progress'' (JObj progress);
            mode = strip (text_or_empty (dget progress ''mode''))
        in if mode \<noteq> ''local_detached'' then merged
           else
             let merged = dset merged ''mode'' (JStr mode);
                 target = strip (text_or_empty (dget progress ''target_version''));
                 merged = (if target = [] then merged else dset merged ''target_version'' (JStr target))
             in if truthy (dget merged ''detached_at'') then merged
                else dset merged ''detached_at'' (JStr (iso_utc now)))"

text \<open>A detached command gets the lifecycle deadline and remembers when it detached.\<close>

definition apply_detached_running_state :: "node_conf \<Rightarrow> int \<Rightarrow> node_task \<Rightarrow> node_task" where
  "apply_detached_running_state cf now t =
     (if \<not> local_detached (dget (k_result t) ''mode'') then t
      else t\<lparr>k_result := (if truthy (dget (k_result t) ''detached_at'') then k_result t
                        else dset (k_result t) ''detached_at'' (JStr (iso_utc now))),
             k_watchdog_deadline_at := now + seconds (cf_lifecycle_detached_timeout cf),
             k_last_progress_at := Some now\<rparr>)"

section \<open>Routes\<close>

datatype route_state = Route_online | Route_reconnecting | Route_offline

definition last_seen_within_grace :: "env \<Rightarrow> node \<Rightarrow> bool" where
  "last_seen_within_grace e n =
     (case n_last_seen_at n of None \<Rightarrow> False
      | Some seen \<Rightarrow> ev_now e - seen < seconds (max 0 (cf_reconnect_grace (ev_conf e))))"

definition task_within_route_grace :: "env \<Rightarrow> node_task \<Rightarrow> bool" where
  "task_within_route_grace e t =
     (ev_now e - k_created_at t < seconds (max 0 (cf_route_reconnect_grace (ev_conf e))))"

definition is_pre_dispatch_lifecycle :: "node_task \<Rightarrow> bool" where
  "is_pre_dispatch_lifecycle t \<longleftrightarrow>
     k_correlation_type t = lifecycle_type \<and> k_kind t \<in> set [''agent.upgrade'', ''agent.uninstall'']
     \<and> k_dispatched_at t = None \<and> k_accepted_at t = None \<and> k_delivery_attempts t = 0"

definition node_route_state :: "env \<Rightarrow> node \<Rightarrow> node_task \<Rightarrow> route_state" where
  "node_route_state e n t =
     (if n_role n \<noteq> Agent_role \<and> n_role n \<noteq> Proxy_role then Route_online
      else if ev_recovery_hold e then Route_reconnecting
      else if ev_routable e (n_id n) then Route_online
      else if is_pre_dispatch_lifecycle t \<and> task_within_route_grace e t then Route_reconnecting
      else if n_availability n = Online \<and> last_seen_within_grace e n \<and> task_within_route_grace e t
      then Route_reconnecting
      else Route_offline)"

definition is_managed_workspace_restore :: "node_task \<Rightarrow> bool" where
  "is_managed_workspace_restore t \<longleftrightarrow>
     k_kind t \<in> set [''restore.run'', ''kopia.restore''] \<and> k_correlation_type t = ''restore.record''
     \<and> strip (k_correlation_id t) \<noteq> []
     \<and> dget (k_payload t) ''workspace_kind'' = JStr ''managed_restore''
     \<and> strip (text_or_empty (dget (k_payload t) ''workspace_uid'')) \<noteq> []
     \<and> strip (text_or_empty (dget (k_payload t) ''managed_workspace_path'')) \<noteq> []"

end
