(* ===== verification/Node_Task.thy ===== *)
theory Node_Task
  imports Node_Model "HOL-Library.Product_Lexorder"
begin

text \<open>
  The write path of node tasks, \<^verbatim>\<open>apps/node/services/internal/task.py\<close>: creation, delivery
  failures, durable acceptance, progress, completion, cancellation and the sweeps, with the
  projections of \<^verbatim>\<open>task_offline_reconcile.py\<close>. What leaves the database (the Redis hot
  record and stream, cancel commands, redeliveries, follow-ups of other components) is recorded in
  an outbox, oldest first.
\<close>

section \<open>The store\<close>

datatype projection =
  Project_source_probe nat
| Project_repository_health nat
| Project_repository_create nat
| Project_backup_config_provision nat
| Project_snapshot_delete nat
| Project_lifecycle nat
| Project_backup_advance nat
| Project_restore nat
| Project_backup_result nat

datatype effect =
  Sync_info nat ntask_status
| Push_stream nat dict
| Send_cancel nat
| Send_command nat dict
| Clear_location nat
| Schedule_redelivery nat
| Sync_upgrade_operation nat
| Sync_remove_operation nat
| Sync_pipeline nat
| Heal_upgrade nat
| Queue_projection projection

record fleet =
  fl_nodes :: "node list"
  fl_tasks :: "node_task list"
  fl_outbox :: "effect list"

definition emit :: "effect \<Rightarrow> fleet \<Rightarrow> fleet" where
  "emit x db = db\<lparr>fl_outbox := fl_outbox db @ [x]\<rparr>"

definition node_by_id :: "fleet \<Rightarrow> nat \<Rightarrow> node option" where
  "node_by_id db i = first_where (\<lambda>n. n_id n = i) (fl_nodes db)"

definition ntask_by_id :: "fleet \<Rightarrow> nat \<Rightarrow> node_task option" where
  "ntask_by_id db i = first_where (\<lambda>t. k_id t = i) (fl_tasks db)"

text \<open>\<^verbatim>\<open>NodeTask.objects.select_for_update().filter(pk=..., node_id=...).first()\<close>\<close>

definition ntask_on_node :: "fleet \<Rightarrow> nat \<Rightarrow> nat \<Rightarrow> node_task option" where
  "ntask_on_node db i node = first_where (\<lambda>t. k_id t = i \<and> k_node t = node) (fl_tasks db)"

definition save_ntask :: "node_task \<Rightarrow> fleet \<Rightarrow> fleet" where
  "save_ntask t db = db\<lparr>fl_tasks := update_where (\<lambda>r. k_id r = k_id t) (\<lambda>r. t) (fl_tasks db)\<rparr>"

section \<open>The node status follows its latest lifecycle task\<close>

definition upgrade_node_status :: "node_task \<Rightarrow> node_status" where
  "upgrade_node_status t =
     (if k_status t = N_success then Node_active
      else if \<not> active (k_status t) then Node_upgrade_failed
      else if k_status t = N_pending then Node_upgrading
      else if \<not> (local_detached (dget (k_result t) ''mode'')
        \<or> (is_dict (dget (k_result t) ''last_progress'')
           \<and> local_detached (dget (as_dict (dget (k_result t) ''last_progress'')) ''mode'')))
      then Node_upgrading
      else if truthy (dget (k_result t) ''verify_started_at'') then Node_verifying
      else if truthy (dget (k_result t) ''reconnect_session_id'')
        \<or> truthy (dget (k_result t) ''inventory_session_id'') then Node_verification_pending
      else Node_restarting)"

definition removal_node_status :: "node_task \<Rightarrow> node_status" where
  "removal_node_status t =
     (if active (k_status t) then Node_removing
      else if k_status t = N_success then Node_cleaning_up else Node_deregistration_failed)"

definition update_node_status :: "nat \<Rightarrow> node_status \<Rightarrow> fleet \<Rightarrow> fleet" where
  "update_node_status i st db =
     (let db = db\<lparr>fl_nodes := update_where (\<lambda>n. n_id n = i \<and> n_status n \<noteq> st)
                   (\<lambda>n. n\<lparr>n_status := st\<rparr>) (fl_nodes db)\<rparr>
      in case first_where (\<lambda>n. n_id n = i \<and> n_role n = Agent_role \<and> \<not> n_is_deleted n) (fl_nodes db) of
           None \<Rightarrow> db | Some n \<Rightarrow> emit (Sync_pipeline i) db)"

text \<open>The newest upgrade or removal command of a node, by creation and then by id.\<close>

definition lifecycle_tasks :: "fleet \<Rightarrow> nat \<Rightarrow> node_task list" where
  "lifecycle_tasks db node =
     filter (\<lambda>t. k_node t = node \<and> k_correlation_type t = lifecycle_type
               \<and> k_kind t \<in> set [''agent.upgrade'', ''agent.uninstall'']) (fl_tasks db)"

definition latest_lifecycle :: "fleet \<Rightarrow> nat \<Rightarrow> nat option" where
  "latest_lifecycle db node =
     (case rev (sort_key (\<lambda>t. (k_created_at t, k_id t)) (lifecycle_tasks db node)) of
        [] \<Rightarrow> None | t # _ \<Rightarrow> Some (k_id t))"

definition project_node_lifecycle_task :: "node_task \<Rightarrow> node_status option \<Rightarrow> fleet \<Rightarrow> fleet" where
  "project_node_lifecycle_task t override db =
     (if k_correlation_type t \<noteq> lifecycle_type then db
      else
        let db = (if k_kind t = ''agent.upgrade'' then emit (Sync_upgrade_operation (k_id t)) db else db) in
        if latest_lifecycle db (k_node t) \<noteq> Some (k_id t) then db
        else if k_kind t = ''agent.upgrade''
        then update_node_status (k_node t) (or_else override (upgrade_node_status t)) db
        else if k_kind t \<noteq> ''agent.uninstall'' then db
        else
          let db = update_node_status (k_node t) (or_else override (removal_node_status t)) db
          in if truthy (dget (k_payload t) ''source_unregister_task_id'') then db
             else emit (Sync_remove_operation (k_id t)) db)"

text \<open>\<^verbatim>\<open>_sync_task_info\<close> projects the lifecycle even when the hot record cannot be written.\<close>

definition sync_task_info :: "node_task \<Rightarrow> fleet \<Rightarrow> fleet" where
  "sync_task_info t db =
     project_node_lifecycle_task t None (emit (Sync_info (k_id t) (k_status t)) db)"

definition terminal_stream_message :: "node_task \<Rightarrow> dict" where
  "terminal_stream_message t =
     [(''status'', JStr (ntask_status_value (k_status t))), (''result'', JObj (k_result t)),
      (''error'', JStr (k_last_error t))]"

text \<open>\<^verbatim>\<open>sync_platform_tasks_for_node_task\<close>: which component hears of a terminal node task.\<close>

definition platform_projection :: "node_task \<Rightarrow> projection option" where
  "platform_projection t =
     (let ct = k_correlation_type t in
      if ct = ''source.connection_probe'' then Some (Project_source_probe (k_id t))
      else if ct = ''storage.repository_health'' then Some (Project_repository_health (k_id t))
      else if ct = ''repository_create'' then Some (Project_repository_create (k_id t))
      else if ct = ''protection.backup_config''
      then map_option Project_backup_config_provision (k_parent_task t)
      else if ct \<in> set [''protection.snapshot_delete'', ''protection.backup_config_reset'']
      then Some (Project_snapshot_delete (k_id t))
      else if ct = lifecycle_type then Some (Project_lifecycle (k_id t))
      else if ct = ''protection.backup'' then Some (Project_backup_advance (k_id t))
      else if ct = ''restore.record'' then Some (Project_restore (k_id t))
      else None)"

definition sync_platform_tasks :: "node_task \<Rightarrow> fleet \<Rightarrow> fleet" where
  "sync_platform_tasks t db =
     (case platform_projection t of
        None \<Rightarrow> db
      | Some (Project_lifecycle i) \<Rightarrow> project_node_lifecycle_task t None db
      | Some p \<Rightarrow> emit (Queue_projection p) db)"

definition project_terminal :: "node_task \<Rightarrow> fleet \<Rightarrow> fleet" where
  "project_terminal t db =
     (if k_correlation_type t = ''protection.backup.policy_prepare''
      then emit (Queue_projection (Project_backup_result (k_id t))) db
      else sync_platform_tasks t db)"

section \<open>Creation and delivery\<close>

datatype ntask_error = Node_org_mismatch | Requester_required | Task_not_found

definition create_agent_task ::
  "env \<Rightarrow> nat \<Rightarrow> int option \<Rightarrow> node \<Rightarrow> string \<Rightarrow> dict \<Rightarrow> string \<Rightarrow> string \<Rightarrow> int option \<Rightarrow> nat option
     \<Rightarrow> fleet \<Rightarrow> (ntask_error, fleet \<times> node_task) result" where
  "create_agent_task e uid org n kind payload ctype cid requester parent db =
     rbind (guard_that (n_org n = org \<and> (org = None \<longrightarrow> n_scope n = Scope_platform)) Node_org_mismatch) (\<lambda>_.
     rbind (guard_that (org \<noteq> None \<or> requester \<noteq> None
              \<or> kind \<in> set [''agent.upgrade'', ''agent.uninstall'', ''lens.gateway.browse''])
            Requester_required) (\<lambda>_.
     let t = \<lparr>k_id = uid, k_org = org, k_requesting_org = first_some requester org, k_node = n_id n,
              k_correlation_type = ctype, k_correlation_id = cid, k_parent_task = parent,
              k_kind = kind, k_payload = payload, k_result = [], k_status = N_pending,
              k_dispatched_at = None, k_accepted_at = None, k_last_delivery_at = None,
              k_delivery_attempts = 0, k_last_progress_at = None, k_cancel_requested_at = None,
              k_watchdog_deadline_at =
                initial_watchdog_deadline (ev_conf e) ctype kind payload (ev_now e),
              k_last_error = [], k_created_at = ev_now e, k_updated_at = ev_now e\<rparr>
     in Inr (project_node_lifecycle_task t None (db\<lparr>fl_tasks := fl_tasks db @ [t]\<rparr>), t)))"

text \<open>\<^verbatim>\<open>_persist_delivery_protocol\<close>: chosen once per task; the answer is whether ACKs are used.\<close>

definition persist_delivery_protocol :: "env \<Rightarrow> nat \<Rightarrow> fleet \<Rightarrow> fleet \<times> bool" where
  "persist_delivery_protocol e i db =
     (case ntask_by_id db i of
        None \<Rightarrow> (db, False)
      | Some t \<Rightarrow>
          if (k_correlation_type t, k_kind t) \<notin> set ack_durable then (db, False)
          else if k_status t \<noteq> N_pending \<or> k_accepted_at t \<noteq> None then (db, False)
          else
            let selected = text_or_empty (dget (k_result t) protocol_key) in
            if selected = ''command_ack_v1'' \<or> selected = ''legacy''
            then (db, selected = ''command_ack_v1'')
            else
              let uses_ack = (0 < k_delivery_attempts t
                    \<or> (case node_by_id db (k_node t) of None \<Rightarrow> False
                       | Some n \<Rightarrow> ack_capability \<in> set (node_capabilities n)));
                  t' = t\<lparr>k_result := dset (k_result t) protocol_key
                           (JStr (if uses_ack then ''command_ack_v1'' else ''legacy'')),
                         k_watchdog_deadline_at :=
                           (if uses_ack then after e (max 1 (cf_command_ack_max_age (ev_conf e)))
                            else k_watchdog_deadline_at t),
                         k_updated_at := ev_now e\<rparr>
              in (save_ntask t' db, uses_ack))"

text \<open>\<^verbatim>\<open>_capture_upgrade_session_baseline\<close>\<close>

definition capture_upgrade_baseline :: "env \<Rightarrow> node_task \<Rightarrow> fleet \<Rightarrow> fleet \<times> node_task" where
  "capture_upgrade_baseline e t db =
     (if k_correlation_type t \<noteq> lifecycle_type \<or> k_kind t \<noteq> ''agent.upgrade'' then (db, t)
      else case ev_session e (k_node t) of
        None \<Rightarrow> (db, t)
      | Some s \<Rightarrow>
          if s = [] \<or> strip (text_or_empty (dget (k_payload t) ''pre_upgrade_session_id'')) = s
          then (db, t)
          else
            let payload = dset (k_payload t) ''pre_upgrade_session_id'' (JStr s);
                ok = (\<lambda>r. k_id r = k_id t \<and> k_status r = N_pending \<and> k_accepted_at r = None
                          \<and> k_dispatched_at r = None)
            in (db\<lparr>fl_tasks := update_where ok
                     (\<lambda>r. r\<lparr>k_payload := payload, k_updated_at := ev_now e\<rparr>) (fl_tasks db)\<rparr>,
                if count_where ok (fl_tasks db) = 0 then t else t\<lparr>k_payload := payload\<rparr>))"

definition mark_task_reconnecting :: "env \<Rightarrow> nat \<Rightarrow> fleet \<Rightarrow> fleet" where
  "mark_task_reconnecting e i db =
     (case ntask_by_id db i of
        None \<Rightarrow> db
      | Some t \<Rightarrow>
          if k_status t \<noteq> N_pending then sync_task_info t db
          else
            let t' = t\<lparr>k_last_error := ''agent websocket is reconnecting'',
                       k_result := dset (k_result t) ''diagnostic_error_code''
                                     (JStr ''AGENT_CONNECTION_UNSTABLE''),
                       k_updated_at := ev_now e\<rparr>;
                db = sync_task_info t' (save_ntask t' db)
            in case node_by_id db (k_node t) of
                 None \<Rightarrow> db
               | Some n \<Rightarrow> if task_uses_command_ack n t' then db else emit (Schedule_redelivery i) db)"

definition fail_task_delivery :: "env \<Rightarrow> nat \<Rightarrow> dict \<Rightarrow> string \<Rightarrow> fleet \<Rightarrow> fleet" where
  "fail_task_delivery e i known_result reason db =
     (case ntask_by_id db i of
        None \<Rightarrow> db
      | Some t \<Rightarrow>
          if k_status t \<noteq> N_pending \<or> k_accepted_at t \<noteq> None then db
          else
            let t' = t\<lparr>k_status := N_failed, k_last_error := take 2000 reason,
                       k_result := dset (without_delivery_runtime_state known_result)
                         ''diagnostic_error_code'' (JStr (delivery_diagnostic_error_code reason)),
                       k_updated_at := ev_now e\<rparr>;
                db = emit (Push_stream i (terminal_stream_message t'))
                       (sync_task_info t' (save_ntask t' db))
            in if k_correlation_type t' \<in> set [''source.connection_probe'',
                   ''storage.repository_health'', ''protection.snapshot_delete'',
                   ''protection.backup_config_reset'']
               then project_terminal t' db else db)"

section \<open>Acceptance and progress\<close>

definition accept_task :: "env \<Rightarrow> nat \<Rightarrow> nat \<Rightarrow> fleet \<Rightarrow> (ntask_error, fleet \<times> node_task) result" where
  "accept_task e i node db =
     (case ntask_on_node db i node of
        None \<Rightarrow> Inl Task_not_found
      | Some t \<Rightarrow>
          if n_terminal (k_status t) then Inr (db, t)
          else
            let now = ev_now e;
                t' = t\<lparr>k_status := N_running,
                       k_accepted_at := Some (or_else (k_accepted_at t) now),
                       k_last_progress_at := Some (or_else (k_last_progress_at t) now),
                       k_watchdog_deadline_at := initial_watchdog_deadline (ev_conf e)
                         (k_correlation_type t) (k_kind t) (k_payload t) now,
                       k_last_error := [],
                       k_result := without_delivery_runtime_state (k_result t),
                       k_updated_at := now\<rparr>;
                db = sync_task_info t' (save_ntask t' db)
            in Inr (emit (Push_stream i [(''status'', JStr ''running''), (''accepted'', JBool True)]) db, t'))"

text \<open>When the execution of an absolute-deadline command began.\<close>

definition repository_initialize_started_at :: "node_task \<Rightarrow> int" where
  "repository_initialize_started_at t =
     or_else (first_some (k_accepted_at t) (first_some (k_dispatched_at t) (k_last_progress_at t)))
       (k_created_at t)"

text \<open>
  The deadline a progress frame sets: by the kind of work it is renewed, kept absolute from the
  start of the execution, or moved only when a download advances. \<open>t\<close> is the row as read,
  \<open>accepted\<close> its acceptance after the frame.
\<close>

definition progress_deadline :: "env \<Rightarrow> node \<Rightarrow> node_task \<Rightarrow> int \<Rightarrow> json \<Rightarrow> int" where
  "progress_deadline e n t accepted progress =
     (let cf = ev_conf e; now = ev_now e; ct = k_correlation_type t; kind = k_kind t;
          from_time = (\<lambda>s. initial_watchdog_deadline cf ct kind (k_payload t) s) in
      if is_repository_status ct kind \<and> truthy (dget (k_payload t) ''health_timeout_seconds'')
      then from_time accepted
      else if is_backup_task t then now + seconds (cf_backup_activity_lease cf)
      else if is_source_nas_probe ct kind
      then source_nas_probe_started_at t + seconds (max 1 (cf_source_nas_probe_timeout cf))
      else if is_repository_initialize ct kind then from_time (repository_initialize_started_at t)
      else if is_path_size ct kind then from_time accepted
      else if is_insight_operation ct kind then from_time accepted
      else if uses_upgrade_download_progress n
                (t\<lparr>k_result := without_delivery_runtime_state (k_result t)\<rparr>)
      then (if download_progress_advanced progress (dget (k_result t) ''last_progress'')
            then now + seconds (max 1 (cf_upgrade_download_stall cf))
            else k_watchdog_deadline_at t)
      else from_time now)"

definition progressed_row :: "env \<Rightarrow> node \<Rightarrow> node_task \<Rightarrow> dict \<Rightarrow> node_task" where
  "progressed_row e n t progress =
     (let now = ev_now e;
          accepted = or_else (k_accepted_at t) now;
          t1 = t\<lparr>k_status := N_running, k_accepted_at := Some accepted,
                 k_last_progress_at := Some now,
                 k_result := without_delivery_runtime_state (k_result t),
                 k_watchdog_deadline_at := progress_deadline e n t accepted (JObj progress),
                 k_updated_at := now\<rparr>
      in if progress = [] then t1
         else
           let t2 = t1\<lparr>k_result := merge_progress t1 progress (k_result t1) now\<rparr>
           in if has_detached_marker t2 then apply_detached_running_state (ev_conf e) now t2 else t2)"

definition record_task_progress ::
  "env \<Rightarrow> nat \<Rightarrow> nat \<Rightarrow> dict \<Rightarrow> bool \<Rightarrow> fleet \<Rightarrow> (ntask_error, fleet \<times> node_task) result" where
  "record_task_progress e i node progress alive db =
     (case (ntask_on_node db i node, node_by_id db node) of
        (Some t, Some n) \<Rightarrow>
          if \<not> active (k_status t) then Inr (db, t)
          else
            let t' = progressed_row e n t progress;
                db = sync_task_info t' (save_ntask t' db)
            in Inr (emit (Push_stream i [(''status'', JStr (ntask_status_value (k_status t'))),
                       (''alive'', JBool alive), (''progress'', JObj progress)]) db, t')
      | _ \<Rightarrow> Inl Task_not_found)"

section \<open>Completion\<close>

text \<open>\<^verbatim>\<open>_incoming_terminal_status\<close>; \<open>None\<close> is the running report.\<close>

definition succeeded_word :: "string \<Rightarrow> bool" where
  "succeeded_word s \<longleftrightarrow> s \<in> set [''success'', ''succeeded'', ''ok'']"

definition canceled_word :: "string \<Rightarrow> bool" where
  "canceled_word s \<longleftrightarrow> s \<in> set [''canceled'', ''cancelled'']"

definition incoming_terminal_status :: "string \<Rightarrow> ntask_status option" where
  "incoming_terminal_status incoming =
     (if incoming = ''running'' then None
      else if succeeded_word incoming then Some N_success
      else if canceled_word incoming then Some N_canceled
      else Some N_failed)"

definition terminal_error_matches :: "node_task \<Rightarrow> string \<Rightarrow> string \<Rightarrow> bool" where
  "terminal_error_matches t incoming err =
     (if k_status t = N_success then k_last_error t = [] \<and> err = []
      else if k_status t = N_canceled
      then lower (strip err) \<in> set [[], ''canceled'', ''cancelled'']
        \<or> k_last_error t = take 2000 err
      else k_last_error t = take 2000 (if err = [] then incoming else err))"

definition backup_identity :: "dict \<Rightarrow> string" where
  "backup_identity result' =
     strip (text_or_empty (jor (dget result' ''kopia_snapshot_id'') (dget result' ''snapshot_id'')))"

definition sealed :: "node_task \<Rightarrow> bool" where
  "sealed t \<longleftrightarrow> truthy (dget (k_result t) ''lifecycle_terminal_sealed'')"

text \<open>What a result frame amounts to; \<open>Apply\<close> carries the normalized status and result.\<close>

datatype verdict =
  Ignore_no_identity | Retransmission | Late_result | Keep_terminal
| Report_running | Apply string dict

definition executor_stop :: "node_task \<Rightarrow> string \<Rightarrow> dict \<Rightarrow> string \<Rightarrow> bool" where
  "executor_stop t incoming result' err \<longleftrightarrow>
     k_status t = N_canceled \<and> is_managed_workspace_restore t
     \<and> dget result' ''executor_finished'' = JBool True
     \<and> dget result' ''completion_source'' = JStr ''agent_executor''
     \<and> (incoming_terminal_status incoming = Some N_canceled
        \<or> (incoming_terminal_status incoming = Some N_failed \<and> canceled_word (lower (strip err))))"

definition frame_verdict :: "node_task \<Rightarrow> string \<Rightarrow> dict \<Rightarrow> string \<Rightarrow> verdict" where
  "frame_verdict t incoming result' err =
     (let st = incoming_terminal_status incoming in
      if is_lifecycle t \<and> sealed t
        \<and> ((k_status t = N_success \<and> st = Some N_success)
           \<or> (k_status t \<in> {N_failed, N_timeout} \<and> st = Some N_failed))
      then Retransmission
      else if is_lifecycle t \<and> k_kind t \<in> set [''agent.upgrade'', ''agent.uninstall'']
        \<and> k_status t \<in> {N_failed, N_timeout} \<and> st = Some N_success \<and> has_detached_marker t
      then Late_result
      else if st = Some (k_status t) \<and> py_eq (JObj (k_result t)) (JObj result')
        \<and> terminal_error_matches t incoming err
      then Retransmission
      else if n_terminal (k_status t)
        \<and> (truthy (dget (k_result t) ''delivery_timeout_sealed'')
           \<or> (k_status t = N_success \<and> \<not> succeeded_word incoming)
           \<or> (k_status t = N_canceled \<and> \<not> canceled_word incoming))
      then Keep_terminal
      else if incoming = ''running'' then Report_running
      else Apply incoming result')"

text \<open>
  A late backup success must name its snapshot; the proof that a canceled restore has really
  stopped is read as the cancellation it confirms.
\<close>

definition completion_verdict :: "node_task \<Rightarrow> string \<Rightarrow> dict \<Rightarrow> string \<Rightarrow> verdict" where
  "completion_verdict t status result' err =
     (let given = lower status; stop = executor_stop t given result' err in
      if k_status t \<in> {N_failed, N_timeout} \<and> succeeded_word given \<and> is_backup_task t
        \<and> backup_identity result' = []
      then Ignore_no_identity
      else frame_verdict t (if stop then ''canceled'' else given)
             (if stop then dupdate (k_result t) result' else result') err)"

definition running_row :: "env \<Rightarrow> node_task \<Rightarrow> dict \<Rightarrow> string \<Rightarrow> bool \<Rightarrow> node_task" where
  "running_row e t result' err replace_result =
     (let t1 = t\<lparr>k_status := N_running,
                 k_accepted_at := Some (or_else (k_accepted_at t) (ev_now e)),
                 k_result := (if replace_result then result'
                   else dupdate (without_delivery_runtime_state (k_result t)) result'),
                 k_last_error := (if err = [] then k_last_error t else take 2000 err),
                 k_updated_at := ev_now e\<rparr>
      in if has_detached_marker t1 then apply_detached_running_state (ev_conf e) (ev_now e) t1 else t1)"

definition completed_row :: "env \<Rightarrow> node_task \<Rightarrow> string \<Rightarrow> dict \<Rightarrow> string \<Rightarrow> node_task" where
  "completed_row e t incoming result' err =
     (let t1 = t\<lparr>k_accepted_at := Some (or_else (k_accepted_at t) (ev_now e)),
                 k_status := (if succeeded_word incoming then N_success
                   else if canceled_word incoming then N_canceled else N_failed),
                 k_last_error := (if succeeded_word incoming then []
                   else if canceled_word incoming then k_last_error t
                   else take 2000 (if err = [] then incoming else err)),
                 k_result := (if result' = [] then without_delivery_runtime_state (k_result t)
                              else result'),
                 k_updated_at := ev_now e\<rparr>
      in if is_lifecycle t \<and> k_kind t \<in> set [''agent.upgrade'', ''agent.uninstall'']
         then t1\<lparr>k_result := dset (k_result t1) ''lifecycle_terminal_sealed'' (JBool True)\<rparr> else t1)"

definition late_row :: "env \<Rightarrow> node_task \<Rightarrow> string \<Rightarrow> dict \<Rightarrow> node_task" where
  "late_row e t status result' =
     t\<lparr>k_result := dset (k_result t) ''late_result''
          (JObj [(''received_at'', JStr (iso_utc (ev_now e))), (''status'', JStr (lower status)),
                 (''result'', JObj result')]),
       k_updated_at := ev_now e\<rparr>"

definition complete_node_task ::
  "env \<Rightarrow> nat \<Rightarrow> nat \<Rightarrow> string \<Rightarrow> dict \<Rightarrow> string \<Rightarrow> bool \<Rightarrow> fleet
     \<Rightarrow> (ntask_error, fleet \<times> node_task \<times> verdict) result" where
  "complete_node_task e i node status result' err replace_result db =
     (case ntask_on_node db i node of
        None \<Rightarrow> Inl Task_not_found
      | Some t \<Rightarrow>
          let v = completion_verdict t status result' err in
          (case v of
             Late_result \<Rightarrow>
               let t' = late_row e t status result'; db = save_ntask t' db
               in Inr (case node_by_id db node of None \<Rightarrow> db | Some n \<Rightarrow> emit (Heal_upgrade i) db, t', v)
           | Report_running \<Rightarrow>
               let t' = running_row e t result' err replace_result;
                   db = sync_task_info t' (save_ntask t' db)
               in Inr (emit (Push_stream i (terminal_stream_message t' @ [(''alive'', JBool True)])) db, t', v)
           | Apply incoming r \<Rightarrow>
               let t' = completed_row e t incoming r err;
                   db = sync_task_info t' (save_ntask t' db)
               in Inr (emit (Push_stream i (terminal_stream_message t')) db, t', v)
           | _ \<Rightarrow> Inr (db, t, v)))"

section \<open>Cancellation\<close>

definition cancel_node_task :: "env \<Rightarrow> nat \<Rightarrow> string \<Rightarrow> fleet \<Rightarrow> fleet \<times> node_task option" where
  "cancel_node_task e i reason db =
     (case ntask_by_id db i of
        None \<Rightarrow> (db, None)
      | Some t \<Rightarrow>
          if \<not> active (k_status t) then (db, Some t)
          else if k_status t = N_pending then
            let t' = t\<lparr>k_status := N_canceled, k_last_error := take 2000 reason, k_updated_at := ev_now e\<rparr>;
                db = sync_task_info t' (emit (Send_cancel i) (save_ntask t' db))
            in (emit (Push_stream i (terminal_stream_message t')) db, Some t')
          else
            let requested = or_else (k_cancel_requested_at t) (ev_now e);
                t' = t\<lparr>k_last_error := take 2000 reason, k_cancel_requested_at := Some requested,
                       k_result := dset (dset (k_result t) ''cancel_requested'' (JBool True))
                         ''cancel_requested_at'' (JStr (iso_utc requested)),
                       k_updated_at := ev_now e\<rparr>;
                db = sync_task_info t' (emit (Send_cancel i) (save_ntask t' db))
            in (emit (Push_stream i (terminal_stream_message t'
                   @ [(''cancel_requested'', JBool True), (''alive'', JBool True)])) db, Some t'))"

text \<open>A loop that looks each row up again, in its own transaction, and handles it.\<close>

fun sweep_loop :: "(node_task \<Rightarrow> fleet \<Rightarrow> (fleet \<times> bool) option) \<Rightarrow> nat list \<Rightarrow> fleet \<times> nat \<Rightarrow> fleet \<times> nat" where
  "sweep_loop h [] st = st"
| "sweep_loop h (i # is) (db, n) =
     (case ntask_by_id db i of
        None \<Rightarrow> sweep_loop h is (db, n)
      | Some t \<Rightarrow>
          (case h t db of
             None \<Rightarrow> sweep_loop h is (db, n)
           | Some (db', marked) \<Rightarrow> sweep_loop h is (db', if marked then Suc n else n)))"

definition cancel_expired :: "env \<Rightarrow> node_task \<Rightarrow> bool" where
  "cancel_expired e t \<longleftrightarrow> active (k_status t) \<and>
     (case k_cancel_requested_at t of None \<Rightarrow> False
      | Some r \<Rightarrow> r \<le> ev_now e - seconds (max 1 (cf_cancel_grace (ev_conf e))))"

definition seal_canceled :: "env \<Rightarrow> node_task \<Rightarrow> node_task" where
  "seal_canceled e t =
     t\<lparr>k_status := N_canceled,
       k_result := dset (dset (dset (dset (k_result t) ''cancel_requested'' (JBool True))
           ''cancel_requested_at'' (JStr (iso_utc (or_else (k_cancel_requested_at t) 0))))
           ''cancel_finalized_by'' (JStr ''grace_timeout''))
           ''cancel_finalized_at'' (JStr (iso_utc (ev_now e))),
       k_updated_at := ev_now e\<rparr>"

definition finish_cancel :: "env \<Rightarrow> node_task \<Rightarrow> fleet \<Rightarrow> (fleet \<times> bool) option" where
  "finish_cancel e t db =
     (if \<not> cancel_expired e t then None
      else
        let t' = seal_canceled e t;
            db = sync_task_info t' (save_ntask t' db);
            db = emit (Push_stream (k_id t) (terminal_stream_message t')) db
        in Some (project_terminal t' db, True))"

definition sweep_cancel_grace_expired :: "env \<Rightarrow> nat \<Rightarrow> fleet \<Rightarrow> fleet \<times> nat" where
  "sweep_cancel_grace_expired e limit db =
     (let due = sort_key (\<lambda>t. (or_else (k_cancel_requested_at t) 0, k_id t))
                  (filter (cancel_expired e) (fl_tasks db))
      in sweep_loop (finish_cancel e) (map k_id (take (max 1 limit) due)) (db, 0))"

text \<open>The rows were selected, active and locked, by the query; none of them changes before its turn.\<close>

definition fail_for_node :: "env \<Rightarrow> string \<Rightarrow> node_task \<Rightarrow> fleet \<Rightarrow> (fleet \<times> bool) option" where
  "fail_for_node e reason t db =
     (if \<not> active (k_status t) \<or> has_detached_marker t then None
      else
        let t' = t\<lparr>k_status := N_failed, k_last_error := take 2000 reason, k_updated_at := ev_now e\<rparr>;
            db = sync_task_info t' (save_ntask t' db);
            db = emit (Push_stream (k_id t) (terminal_stream_message t')) db
        in Some (sync_platform_tasks t' db, True))"

definition fail_active_tasks_for_node :: "env \<Rightarrow> nat \<Rightarrow> string \<Rightarrow> fleet \<Rightarrow> fleet \<times> nat" where
  "fail_active_tasks_for_node e node reason db =
     (let rows = rev (sort_key (\<lambda>t. (k_created_at t, k_id t))
                  (filter (\<lambda>t. k_node t = node \<and> active (k_status t)) (fl_tasks db)))
      in sweep_loop (fail_for_node e reason) (map k_id rows) (db, 0))"

section \<open>The watchdog\<close>

definition overdue :: "env \<Rightarrow> node_task \<Rightarrow> bool" where
  "overdue e t \<longleftrightarrow> active (k_status t) \<and> k_watchdog_deadline_at t < ev_now e"

text \<open>The query leaves the detached lifecycle commands to their own coordinator.\<close>

definition detached_column :: "node_task \<Rightarrow> bool" where
  "detached_column t \<longleftrightarrow> is_lifecycle t
     \<and> (dget (k_result t) ''mode'' = JStr ''local_detached''
        \<or> dget (as_dict (dget (k_result t) ''last_progress'')) ''mode'' = JStr ''local_detached'')"

definition awaiting_acceptance :: "node \<Rightarrow> node_task \<Rightarrow> bool" where
  "awaiting_acceptance n t \<longleftrightarrow> k_status t = N_pending \<and> k_accepted_at t = None
     \<and> (0 < k_delivery_attempts t \<or> task_uses_command_ack n t)"

text \<open>The seconds left for an uplink frame that was received but not yet applied.\<close>

definition projection_grace :: "env \<Rightarrow> node \<Rightarrow> node_task \<Rightarrow> int option" where
  "projection_grace e n t =
     (let (received, message_type) = or_else (ev_uplink e (k_id t)) (0, []);
          is_result = occurs ''result'' (lower message_type);
          age = max 0 (of_int (ev_now e) / 1000000 - received);
          grace = (if is_result then cf_result_uplink_projection_grace (ev_conf e)
                   else cf_uplink_projection_grace (ev_conf e));
          bounded = (is_source_nas_probe (k_correlation_type t) (k_kind t)
                     \<or> is_repository_initialize (k_correlation_type t) (k_kind t))
      in if received > 0 \<and> age < of_int grace
            \<and> (\<not> bounded \<or> is_result)
            \<and> (\<not> uses_upgrade_download_progress n t \<or> is_result)
         then Some (max 1 (trunc_rat (of_int grace - age))) else None)"

definition timed_out_row :: "env \<Rightarrow> node \<Rightarrow> node_task \<Rightarrow> node_task" where
  "timed_out_row e n t =
     (let t' = t\<lparr>k_status := N_timeout, k_updated_at := ev_now e\<rparr> in
      if occurs ''result'' (lower (snd (or_else (ev_uplink e (k_id t)) (0, []))))
      then t'\<lparr>k_result := dset (k_result t) ''diagnostic_error_code'' (JStr ''RESULT_ACK_TIMEOUT''),
              k_last_error := ''result acknowledgement timeout''\<rparr>
      else if uses_upgrade_download_progress n t
        \<and> download_snapshot (dget (k_result t) ''last_progress'') \<noteq> None
      then t'\<lparr>k_result := dset (k_result t) ''diagnostic_error_code''
                (JStr ''AGENT_PACKAGE_DOWNLOAD_PROGRESS_TIMEOUT''),
              k_last_error := ''Agent package download stopped making progress''\<rparr>
      else t'\<lparr>k_last_error := ''watchdog timeout (no progress)''\<rparr>)"

definition watch_task :: "env \<Rightarrow> node_task \<Rightarrow> fleet \<Rightarrow> (fleet \<times> bool) option" where
  "watch_task e t db =
     (case node_by_id db (k_node t) of
        None \<Rightarrow> None
      | Some n \<Rightarrow>
          if \<not> overdue e t \<or> has_detached_marker t \<or> awaiting_acceptance n t then None
          else case projection_grace e n t of
            Some remaining \<Rightarrow>
              Some (save_ntask (t\<lparr>k_watchdog_deadline_at := after e remaining,
                                  k_updated_at := ev_now e\<rparr>) db, False)
          | None \<Rightarrow>
              let t' = timed_out_row e n t;
                  db = sync_task_info t' (emit (Send_cancel (k_id t)) (save_ntask t' db));
                  db = emit (Push_stream (k_id t) (terminal_stream_message t')) db
              in Some (sync_platform_tasks t' db, True))"

definition sweep_watchdog_timeouts :: "env \<Rightarrow> nat \<Rightarrow> fleet \<Rightarrow> fleet \<times> nat" where
  "sweep_watchdog_timeouts e limit db =
     (let due = sort_key (\<lambda>t. (k_watchdog_deadline_at t, k_id t))
                  (filter (\<lambda>t. overdue e t \<and> \<not> detached_column t) (fl_tasks db))
      in sweep_loop (watch_task e) (map k_id (take limit due)) (db, 0))"

section \<open>Offline nodes\<close>

datatype connection = Connected | Reconnecting | Disconnected

definition within_agent_lease :: "env \<Rightarrow> node \<Rightarrow> bool" where
  "within_agent_lease e n =
     (case n_last_seen_at n of None \<Rightarrow> False
      | Some seen \<Rightarrow> ev_now e - seen < seconds (cf_agent_loc_ttl (ev_conf e)))"

text \<open>
  \<^verbatim>\<open>agent_connection_status\<close> of \<^verbatim>\<open>node_registry.py\<close>; a live route or a remaining location
  lease counts as connected.
\<close>

definition agent_connection_status :: "env \<Rightarrow> node \<Rightarrow> connection" where
  "agent_connection_status e n =
     (if n_role n \<noteq> Agent_role \<and> n_role n \<noteq> Proxy_role
      then (if n_availability n = Online then Connected else Disconnected)
      else if n_availability n \<noteq> Online then Disconnected
      else if ev_routable e (n_id n) \<or> ev_location e (n_id n) then Connected
      else if within_agent_lease e n then Reconnecting else Disconnected)"

definition offline_stale_threshold :: "node_conf \<Rightarrow> int" where
  "offline_stale_threshold cf = cf_reconnect_grace cf + cf_offline_task_fail cf"

definition offline_finalization_ready :: "env \<Rightarrow> bool" where
  "offline_finalization_ready e \<longleftrightarrow> ev_live_instance e \<and> \<not> ev_recovery_hold e"

definition is_node_offline_stale :: "env \<Rightarrow> node \<Rightarrow> bool" where
  "is_node_offline_stale e n \<longleftrightarrow>
     offline_finalization_ready e \<and> agent_connection_status e n = Disconnected
     \<and> ev_now e - or_else (n_last_seen_at n) (n_updated_at n)
         \<ge> seconds (offline_stale_threshold (ev_conf e))"

datatype execution_state =
  Idle | Exec_running | Exec_reconnecting | Offline_stale | Offline_pending

text \<open>\<open>busy\<close>: the product task exists and is pending or running.\<close>

definition task_execution_state :: "env \<Rightarrow> node option \<Rightarrow> bool \<Rightarrow> execution_state" where
  "task_execution_state e n busy =
     (if \<not> busy then Idle
      else case n of
        None \<Rightarrow> Exec_running
      | Some n \<Rightarrow>
          (case agent_connection_status e n of
             Reconnecting \<Rightarrow> Exec_reconnecting
           | Disconnected \<Rightarrow> if is_node_offline_stale e n then Offline_stale else Offline_pending
           | Connected \<Rightarrow> Exec_running))"

definition execution_state_blocks :: "env \<Rightarrow> node \<Rightarrow> bool \<Rightarrow> bool" where
  "execution_state_blocks e n busy \<longleftrightarrow>
     busy \<and> task_execution_state e (Some n) busy \<in> {Exec_running, Exec_reconnecting, Offline_pending}"

definition agent_offline_reason :: string where
  "agent_offline_reason = ''Agent went offline during task execution.''"

definition fail_offline :: "env \<Rightarrow> nat \<Rightarrow> string option \<Rightarrow> fleet \<Rightarrow> fleet \<times> bool" where
  "fail_offline e i reason db =
     (if \<not> offline_finalization_ready e then (db, False)
      else case ntask_by_id db i of
        None \<Rightarrow> (db, False)
      | Some t \<Rightarrow>
          if \<not> active (k_status t) then (sync_platform_tasks t db, False)
          else
            let t' = t\<lparr>k_status := N_failed,
                       k_last_error := take 2000 (if or_else reason [] = [] then agent_offline_reason
                         else the reason), k_updated_at := ev_now e\<rparr>
            in (sync_platform_tasks t' (save_ntask t' db), True))"

definition offline_nodes :: "nat \<Rightarrow> fleet \<Rightarrow> node list" where
  "offline_nodes limit db =
     take (max 1 (limit * 4))
       (sort_key (\<lambda>n. (case n_last_seen_at n of None \<Rightarrow> (1::nat, 0) | Some s \<Rightarrow> (0, s), n_id n))
          (filter (\<lambda>n. \<not> n_is_deleted n) (fl_nodes db)))"

fun fail_offline_tasks :: "env \<Rightarrow> nat list \<Rightarrow> fleet \<times> nat \<Rightarrow> fleet \<times> nat" where
  "fail_offline_tasks e [] st = st"
| "fail_offline_tasks e (i # is) (db, n) =
     (let (db', failed) = fail_offline e i None db
      in fail_offline_tasks e is (db', if failed then Suc n else n))"

fun reconcile_nodes :: "env \<Rightarrow> nat \<Rightarrow> nat list \<Rightarrow> fleet \<times> nat \<times> nat \<times> nat \<Rightarrow> fleet \<times> nat \<times> nat \<times> nat" where
  "reconcile_nodes e limit [] st = st"
| "reconcile_nodes e limit (i # is) (db, checked, stale, failed) =
     (case first_where (\<lambda>n. n_id n = i \<and> \<not> n_is_deleted n) (fl_nodes db) of
        None \<Rightarrow> reconcile_nodes e limit is (db, checked, stale, failed)
      | Some n \<Rightarrow>
          if \<not> is_node_offline_stale e n
          then reconcile_nodes e limit is (db, Suc checked, stale, failed)
          else
            let rows = take (max 1 limit) (sort_key (\<lambda>t. (k_updated_at t, k_id t))
                         (filter (\<lambda>t. k_node t = i \<and> active (k_status t)) (fl_tasks db)));
                (db', failed') = fail_offline_tasks e (map k_id rows) (db, failed)
            in if limit \<le> failed' then (db', Suc checked, Suc stale, failed')
               else reconcile_nodes e limit is (db', Suc checked, Suc stale, failed'))"

text \<open>Nodes checked, nodes stale, node tasks failed.\<close>

definition reconcile_offline_stale_node_tasks :: "env \<Rightarrow> nat \<Rightarrow> fleet \<Rightarrow> fleet \<times> nat \<times> nat \<times> nat" where
  "reconcile_offline_stale_node_tasks e limit db =
     (if \<not> offline_finalization_ready e then (db, 0, 0, 0)
      else reconcile_nodes e limit (map n_id (offline_nodes limit db)) (db, 0, 0, 0))"

end
