(* ===== verification/Node_Correct.thy ===== *)
theory Node_Correct
  imports Node_Task Interfaces
begin

text \<open>
  What the node-task services keep: a successful or canceled command stays so under every
  operation, the sweeps leave nothing behind that they are responsible for, a result frame that is
  repeated changes nothing, and the deadlines of bounded commands do not move with heartbeats.
\<close>

section \<open>What an operation does to the task table\<close>

lemma emit_frame_tasks [simp, frame_simps]:
  "fl_tasks (emit x db) = fl_tasks db" "fl_nodes (emit x db) = fl_nodes db"
  by (simp_all add: emit_def)

lemma update_node_status_tasks [simp, frame_simps]:
  "fl_tasks (update_node_status i st db) = fl_tasks db"
  by (simp add: update_node_status_def Let_def split: option.split)

lemma project_node_lifecycle_tasks [simp, frame_simps]:
  "fl_tasks (project_node_lifecycle_task t ov db) = fl_tasks db"
  by (simp add: project_node_lifecycle_task_def Let_def)

lemma sync_task_info_tasks [simp, frame_simps]: "fl_tasks (sync_task_info t db) = fl_tasks db"
  by (simp add: sync_task_info_def)

lemma sync_platform_tasks_tasks [simp, frame_simps]:
  "fl_tasks (sync_platform_tasks t db) = fl_tasks db"
  by (simp add: sync_platform_tasks_def split: option.split projection.split)

lemma project_terminal_tasks [simp, frame_simps]: "fl_tasks (project_terminal t db) = fl_tasks db"
  by (simp add: project_terminal_def)

definition ids_distinct :: "fleet \<Rightarrow> bool" where
  "ids_distinct db \<longleftrightarrow> distinct (map k_id (fl_tasks db))"

lemma ntask_by_id_iff:
  "ids_distinct db \<Longrightarrow> ntask_by_id db i = Some t \<longleftrightarrow> t \<in> set (fl_tasks db) \<and> k_id t = i"
  unfolding ntask_by_id_def
  by (auto dest: first_where_Some intro: first_where_key [where key = k_id] simp: ids_distinct_def)

lemma ntask_on_node_Some:
  "ntask_on_node db i node = Some t \<Longrightarrow> t \<in> set (fl_tasks db) \<and> k_id t = i \<and> k_node t = node"
  unfolding ntask_on_node_def by (drule first_where_Some) simp

lemma ntask_by_id_Some: "ntask_by_id db i = Some t \<Longrightarrow> t \<in> set (fl_tasks db) \<and> k_id t = i"
  unfolding ntask_by_id_def by (drule first_where_Some) simp

text \<open>A change of rows that is allowed, row by row.\<close>

definition rows_by :: "(node_task \<Rightarrow> node_task \<Rightarrow> bool) \<Rightarrow> fleet \<Rightarrow> fleet \<Rightarrow> bool" where
  "rows_by ok db db' \<longleftrightarrow> list_all2 ok (fl_tasks db) (fl_tasks db')"

lemma rows_by_refl: "(\<And>t. ok t t) \<Longrightarrow> fl_tasks db' = fl_tasks db \<Longrightarrow> rows_by ok db db'"
  by (simp add: rows_by_def list.rel_refl)

lemma rows_by_trans:
  assumes "\<And>a b c. ok a b \<Longrightarrow> ok b c \<Longrightarrow> ok a c" and "rows_by ok x y" and "rows_by ok y z"
  shows "rows_by ok x z"
  using assms(2,3) unfolding rows_by_def
  by (rule list_all2_trans [rotated]) (rule assms(1))

lemma rows_by_save:
  assumes "ids_distinct db" and "t \<in> set (fl_tasks db)" and "k_id t' = k_id t" and "ok t t'"
    and "\<And>r. ok r r" and "fl_tasks db' = fl_tasks (save_ntask t' db)"
  shows "rows_by ok db db'"
proof -
  have "ok r (if k_id r = k_id t' then t' else r)" if "r \<in> set (fl_tasks db)" for r
  proof (cases "k_id r = k_id t")
    case True
    then have "r = t" using assms(1,2) that by (auto simp: ids_distinct_def distinct_map inj_on_def)
    with assms(3,4) show ?thesis by simp
  next
    case False
    with assms(3,5) show ?thesis by simp
  qed
  then show ?thesis
    by (simp add: rows_by_def assms(6) save_ntask_def update_where_def list_all2_map2 list.rel_map
        list_all2_same)
qed

lemma rows_by_ids:
  assumes "rows_by ok db db'" and "\<And>a b. ok a b \<Longrightarrow> k_id b = k_id a"
  shows "map k_id (fl_tasks db') = map k_id (fl_tasks db)"
proof -
  have "list_all2 (\<lambda>a b. k_id a = k_id b) (fl_tasks db) (fl_tasks db')"
    using assms by (auto simp: rows_by_def elim!: list_all2_mono)
  then show ?thesis by (simp add: list_all2_conv_all_nth list_eq_iff_nth_eq)
qed

section \<open>A settled command stays settled\<close>

definition settled :: "ntask_status \<Rightarrow> bool" where
  "settled s \<longleftrightarrow> s = N_success \<or> s = N_canceled"

text \<open>
  What no operation changes of a command: its identity and kind, its delivery attempts, and that it
  is no longer pending; the protocol of a command that was already delivered is not set to legacy.
\<close>

definition legacy_marked :: "node_task \<Rightarrow> bool" where
  "legacy_marked t \<longleftrightarrow> text_or_empty (dget (k_result t) protocol_key) = ''legacy''"

definition same_command :: "node_task \<Rightarrow> node_task \<Rightarrow> bool" where
  [simp]: "same_command t t' \<longleftrightarrow> k_id t' = k_id t \<and> k_node t' = k_node t
     \<and> k_correlation_type t' = k_correlation_type t \<and> k_kind t' = k_kind t
     \<and> k_delivery_attempts t' = k_delivery_attempts t
     \<and> (k_status t' = N_pending \<longrightarrow> k_status t = N_pending
          \<and> (legacy_marked t' \<longrightarrow> legacy_marked t \<or> k_delivery_attempts t = 0))"

definition keeps_settled :: "node_task \<Rightarrow> node_task \<Rightarrow> bool" where
  "keeps_settled t t' \<longleftrightarrow> same_command t t' \<and> (settled (k_status t) \<longrightarrow> k_status t' = k_status t)"

lemma settled_simps [simp]:
  "settled N_success" "settled N_canceled" "\<not> settled N_failed" "\<not> settled N_timeout"
  "\<not> settled N_pending" "\<not> settled N_running"
  by (simp_all add: settled_def)

lemma settled_not_active: "settled s \<Longrightarrow> \<not> active s"
  by (cases s) auto

lemma keeps_settled_refl [simp]: "keeps_settled t t"
  by (simp add: keeps_settled_def)

lemma keeps_settled_trans: "keeps_settled a b \<Longrightarrow> keeps_settled b c \<Longrightarrow> keeps_settled a c"
  by (cases "k_status c = N_pending"; cases "legacy_marked c"; cases "settled (k_status a)";
      simp add: keeps_settled_def; (elim conjE)?; simp?; (elim disjE; simp)?)

abbreviation settles :: "fleet \<Rightarrow> fleet \<Rightarrow> bool" where
  "settles \<equiv> rows_by keeps_settled"

lemma settles_save:
  assumes "ids_distinct db" and "t \<in> set (fl_tasks db)" and "keeps_settled t t'"
    and "fl_tasks db' = fl_tasks (save_ntask t' db)"
  shows "settles db db'"
proof (rule rows_by_save)
  show "k_id t' = k_id t" using assms(3) by (simp add: keeps_settled_def)
qed (use assms in simp_all)

lemma settles_refl: "fl_tasks db' = fl_tasks db \<Longrightarrow> settles db db'"
  by (rule rows_by_refl) simp_all

lemma settles_trans: "settles x y \<Longrightarrow> settles y z \<Longrightarrow> settles x z"
  by (rule rows_by_trans [of keeps_settled]) (rule keeps_settled_trans)

lemma settles_distinct: "settles db db' \<Longrightarrow> ids_distinct db \<Longrightarrow> ids_distinct db'"
  unfolding ids_distinct_def by (drule rows_by_ids) (simp_all add: keeps_settled_def)

lemma keeps_settled_active:
  "active (k_status t) \<Longrightarrow> same_command t t' \<Longrightarrow> keeps_settled t t'"
  using settled_not_active by (auto simp: keeps_settled_def)

lemma settles_active:
  assumes "ids_distinct db" and "ntask_by_id db i = Some t" and "active (k_status t)"
    and "same_command t t'" and "fl_tasks db' = fl_tasks (save_ntask t' db)"
  shows "settles db db'"
  using assms ntask_by_id_Some by (intro settles_save [of db t]) (auto intro: keeps_settled_active)

lemma detached_row [simp]:
  "k_id (apply_detached_running_state cf now t) = k_id t"
  "k_node (apply_detached_running_state cf now t) = k_node t"
  "k_correlation_type (apply_detached_running_state cf now t) = k_correlation_type t" "k_kind (apply_detached_running_state cf now t) = k_kind t"
  "k_delivery_attempts (apply_detached_running_state cf now t) = k_delivery_attempts t"
  "k_status (apply_detached_running_state cf now t) = k_status t"
  by (simp_all add: apply_detached_running_state_def)

lemma progressed_row_columns [simp]:
  "k_id (progressed_row e n t p) = k_id t" "k_node (progressed_row e n t p) = k_node t"
  "k_correlation_type (progressed_row e n t p) = k_correlation_type t" "k_kind (progressed_row e n t p) = k_kind t"
  "k_delivery_attempts (progressed_row e n t p) = k_delivery_attempts t"
  "k_status (progressed_row e n t p) = N_running"
  by (simp_all add: progressed_row_def Let_def)

lemma running_row_columns [simp]:
  "k_id (running_row e t r err rep) = k_id t" "k_node (running_row e t r err rep) = k_node t"
  "k_correlation_type (running_row e t r err rep) = k_correlation_type t" "k_kind (running_row e t r err rep) = k_kind t"
  "k_delivery_attempts (running_row e t r err rep) = k_delivery_attempts t"
  "k_status (running_row e t r err rep) = N_running"
  by (simp_all add: running_row_def Let_def)

lemma completed_row_columns [simp]:
  "k_id (completed_row e t inc r err) = k_id t" "k_node (completed_row e t inc r err) = k_node t"
  "k_correlation_type (completed_row e t inc r err) = k_correlation_type t" "k_kind (completed_row e t inc r err) = k_kind t"
  "k_delivery_attempts (completed_row e t inc r err) = k_delivery_attempts t"
  "k_status (completed_row e t inc r err) =
     (if succeeded_word inc then N_success else if canceled_word inc then N_canceled else N_failed)"
  by (simp_all add: completed_row_def Let_def)

lemma other_row_columns [simp]:
  "k_id (late_row e t s r) = k_id t" "k_node (late_row e t s r) = k_node t"
  "k_correlation_type (late_row e t s r) = k_correlation_type t" "k_kind (late_row e t s r) = k_kind t"
  "k_delivery_attempts (late_row e t s r) = k_delivery_attempts t"
  "k_status (late_row e t s r) = k_status t"
  "k_id (seal_canceled e t) = k_id t" "k_node (seal_canceled e t) = k_node t"
  "k_correlation_type (seal_canceled e t) = k_correlation_type t" "k_kind (seal_canceled e t) = k_kind t"
  "k_delivery_attempts (seal_canceled e t) = k_delivery_attempts t"
  "k_status (seal_canceled e t) = N_canceled"
  "k_id (timed_out_row e n t) = k_id t" "k_node (timed_out_row e n t) = k_node t"
  "k_correlation_type (timed_out_row e n t) = k_correlation_type t" "k_kind (timed_out_row e n t) = k_kind t"
  "k_delivery_attempts (timed_out_row e n t) = k_delivery_attempts t"
  "k_status (timed_out_row e n t) = N_timeout"
  by (simp_all add: late_row_def seal_canceled_def timed_out_row_def Let_def)

lemma legacy_marked_frame [simp]:
  "legacy_marked (late_row e t s r) = legacy_marked t"
  "legacy_marked (t\<lparr>k_watchdog_deadline_at := w, k_updated_at := u\<rparr>) = legacy_marked t"
  "legacy_marked (t\<lparr>k_last_error := x, k_result := dset (k_result t) ''diagnostic_error_code'' v,
     k_updated_at := u\<rparr>) = legacy_marked t"
  by (simp_all add: legacy_marked_def late_row_def protocol_key_def)

lemma accept_task_settles:
  assumes "accept_task e i node db = Inr (db', t')" and "ids_distinct db"
  shows "settles db db'"
proof -
  from assms(1) obtain t where t: "ntask_on_node db i node = Some t"
    by (cases "ntask_on_node db i node") (simp_all add: accept_task_def)
  show ?thesis
  proof (cases "active (k_status t)")
    case False
    then show ?thesis using assms(1) t by (auto simp: accept_task_def intro: settles_refl)
  next
    case True
    then show ?thesis
      using assms ntask_on_node_Some [OF t] t
      by (intro settles_save [of db t t']) (auto simp: accept_task_def Let_def intro!: keeps_settled_active)
  qed
qed

lemma record_task_progress_settles:
  assumes "record_task_progress e i node p alive db = Inr (db', t')" and "ids_distinct db"
  shows "settles db db'"
proof -
  from assms(1) obtain t n where t: "ntask_on_node db i node = Some t" "node_by_id db node = Some n"
    by (auto simp: record_task_progress_def split: option.splits)
  show ?thesis
  proof (cases "active (k_status t)")
    case False
    then show ?thesis using assms(1) t by (auto simp: record_task_progress_def intro: settles_refl)
  next
    case True
    then show ?thesis
      using assms ntask_on_node_Some [OF t(1)] t
      by (intro settles_save [of db t "progressed_row e n t p"])
        (auto simp: record_task_progress_def Let_def intro!: keeps_settled_active)
  qed
qed

text \<open>The verdict of a frame on a settled command is never to run or to fail it.\<close>

lemma incoming_words:
  "incoming_terminal_status inc = Some N_success \<longleftrightarrow> succeeded_word inc"
  "succeeded_word inc \<Longrightarrow> \<not> canceled_word inc"
  "succeeded_word inc \<Longrightarrow> inc \<noteq> ''running''"
  "canceled_word inc \<Longrightarrow> inc \<noteq> ''running''"
  by (auto simp: incoming_terminal_status_def succeeded_word_def canceled_word_def)

lemma frame_verdict_settled:
  assumes "n_terminal (k_status t)"
  shows "frame_verdict t inc r err = Apply inc' r' \<Longrightarrow> inc' = inc
      \<and> (k_status t = N_success \<longrightarrow> succeeded_word inc) \<and> (k_status t = N_canceled \<longrightarrow> canceled_word inc)"
    and "frame_verdict t inc r err = Report_running \<Longrightarrow>
      k_status t \<noteq> N_success \<and> k_status t \<noteq> N_canceled"
    and "frame_verdict t inc r err = Late_result \<Longrightarrow> k_status t \<in> {N_failed, N_timeout}"
  using assms incoming_words(3,4) [of inc]
  unfolding frame_verdict_def Let_def by (auto split: if_split_asm)

lemma verdict_settled:
  assumes "settled (k_status t)"
  shows "completion_verdict t s r err = Apply inc r' \<Longrightarrow>
      (k_status t = N_success \<and> succeeded_word inc) \<or> (k_status t = N_canceled \<and> canceled_word inc)"
    and "completion_verdict t s r err \<noteq> Report_running"
    and "completion_verdict t s r err \<noteq> Late_result"
proof -
  have n: "n_terminal (k_status t)" using assms settled_not_active by simp
  let ?stop = "executor_stop t (lower s) r err"
  define inc' where "inc' = (if ?stop then ''canceled'' else lower s)"
  define r'' where "r'' = (if ?stop then dupdate (k_result t) r else r)"
  have v: "completion_verdict t s r err = Ignore_no_identity
      \<or> completion_verdict t s r err = frame_verdict t inc' r'' err"
    unfolding completion_verdict_def Let_def inc'_def r''_def by (simp only: if_cancel split: if_split) blast
  show "completion_verdict t s r err = Apply inc r' \<Longrightarrow>
      (k_status t = N_success \<and> succeeded_word inc) \<or> (k_status t = N_canceled \<and> canceled_word inc)"
    using v frame_verdict_settled(1) [OF n, of inc' r'' err inc r'] assms by (auto simp: settled_def)
  show "completion_verdict t s r err \<noteq> Report_running"
    using v frame_verdict_settled(2) [OF n, of inc' r'' err] assms by (auto simp: settled_def)
  show "completion_verdict t s r err \<noteq> Late_result"
    using v frame_verdict_settled(3) [OF n, of inc' r'' err] assms by (auto simp: settled_def)
qed

lemma complete_node_task_settles:
  assumes "complete_node_task e i node s r err rep db = Inr (db', t', v)" and "ids_distinct db"
  shows "settles db db'"
proof -
  from assms(1) obtain t where t: "ntask_on_node db i node = Some t"
    by (cases "ntask_on_node db i node") (simp_all add: complete_node_task_def)
  note m = ntask_on_node_Some [OF t]
  let ?v = "completion_verdict t s r err"
  have save: "settles db db'" if "fl_tasks db' = fl_tasks (save_ntask x db)" "keeps_settled t x" for x
    using that m assms(2) by (intro settles_save [of db t x]) simp_all
  show ?thesis
  proof (cases ?v)
    case Late_result
    with assms(1) t have "fl_tasks db' = fl_tasks (save_ntask (late_row e t s r) db)"
      by (auto simp: complete_node_task_def Let_def split: option.splits)
    then show ?thesis by (rule save) (simp add: keeps_settled_def)
  next
    case Report_running
    with assms(1) t have "fl_tasks db' = fl_tasks (save_ntask (running_row e t r err rep) db)"
      by (auto simp: complete_node_task_def Let_def)
    then show ?thesis using Report_running verdict_settled(2) by (intro save) (auto simp: keeps_settled_def)
  next
    case (Apply inc r')
    with assms(1) t have "fl_tasks db' = fl_tasks (save_ntask (completed_row e t inc r' err) db)"
      by (auto simp: complete_node_task_def Let_def)
    then show ?thesis
      using verdict_settled(1) [OF _ Apply] incoming_words(2)
      by (intro save) (auto simp: keeps_settled_def settled_def split: if_split_asm)
  qed (use assms(1) t in \<open>auto simp: complete_node_task_def intro: settles_refl\<close>)
qed

lemma cancel_node_task_settles:
  assumes "cancel_node_task e i reason db = (db', x)" and "ids_distinct db"
  shows "settles db db'"
proof (cases "ntask_by_id db i")
  case None
  then show ?thesis using assms(1) by (auto simp: cancel_node_task_def intro: settles_refl)
next
  case (Some t)
  show ?thesis
  proof (cases "active (k_status t)")
    case False
    then show ?thesis using assms(1) Some by (auto simp: cancel_node_task_def intro: settles_refl)
  next
    case True
    then have "\<exists>t'. x = Some t' \<and> same_command t t'
        \<and> fl_tasks db' = fl_tasks (save_ntask t' db)"
      using assms(1) Some by (auto simp: cancel_node_task_def Let_def split: if_splits)
    then show ?thesis using settles_active [OF assms(2) Some True] by blast
  qed
qed

section \<open>Sweeps\<close>

lemma save_ntask_rows:
  assumes "ids_distinct db" and "t \<in> set (fl_tasks db)" and "k_id t' = k_id t"
  shows "set (fl_tasks (save_ntask t' db)) = insert t' (set (fl_tasks db) - {t})"
proof -
  have "(if k_id r = k_id t' then t' else r) = (if r = t then t' else r)" if "r \<in> set (fl_tasks db)" for r
    using assms that by (auto simp: ids_distinct_def distinct_map inj_on_def)
  then show ?thesis using assms(2) by (force simp: save_ntask_def set_update_where)
qed

lemma save_ntask_ids:
  "map k_id (fl_tasks (save_ntask t' db)) = map k_id (fl_tasks db)"
  unfolding save_ntask_def update_where_def by simp

text \<open>
  What a handler must do for the sweep: each row it takes becomes good, each row it leaves is
  already good, and it keeps what it relies on.
\<close>

definition handles :: "(fleet \<Rightarrow> bool) \<Rightarrow> (node_task \<Rightarrow> bool) \<Rightarrow> (node_task \<Rightarrow> fleet \<Rightarrow> (fleet \<times> bool) option) \<Rightarrow> bool" where
  "handles ok good h \<longleftrightarrow> (\<forall>db t. ok db \<longrightarrow> ids_distinct db \<longrightarrow> t \<in> set (fl_tasks db) \<longrightarrow>
     (case h t db of
        None \<Rightarrow> good t
      | Some (db', m) \<Rightarrow> ok db' \<and> (\<exists>t'. k_id t' = k_id t \<and> good t'
          \<and> fl_tasks db' = fl_tasks (save_ntask t' db))))"

lemma sweep_loop_good:
  assumes "handles ok good h" and "ok db" and "ids_distinct db"
    and "\<forall>t \<in> set (fl_tasks db). k_id t \<in> G \<longrightarrow> good t"
    and "sweep_loop h is (db, n) = (db', n')"
  shows "ids_distinct db' \<and> ok db'
    \<and> (\<forall>t \<in> set (fl_tasks db'). k_id t \<in> G \<union> set is \<longrightarrow> good t)
    \<and> (\<forall>t \<in> set (fl_tasks db'). k_id t \<notin> set is \<longrightarrow> t \<in> set (fl_tasks db))"
  using assms(2-5)
proof (induction "is" arbitrary: db n G)
  case Nil
  then show ?case by simp
next
  case (Cons i "is")
  show ?case
  proof (cases "ntask_by_id db i")
    case None
    then have "\<forall>t \<in> set (fl_tasks db). k_id t \<noteq> i"
      by (auto simp: ntask_by_id_def first_where_None)
    then have "\<forall>t \<in> set (fl_tasks db). k_id t \<in> insert i G \<longrightarrow> good t" using Cons.prems(3) by auto
    from Cons.IH [OF Cons.prems(1,2) this] Cons.prems(4) None show ?thesis by auto
  next
    case (Some t)
    note t = ntask_by_id_Some [OF Some]
    note hd = assms(1) [unfolded handles_def, rule_format, OF Cons.prems(1,2), of t]
    show ?thesis
    proof (cases "h t db")
      case None
      with hd t have "good t" by simp
      then have "\<forall>t \<in> set (fl_tasks db). k_id t \<in> insert i G \<longrightarrow> good t"
        using Cons.prems(2,3) t by (auto simp: ids_distinct_def distinct_map inj_on_def)
      from Cons.IH [OF Cons.prems(1,2) this] Cons.prems(4) None Some show ?thesis by auto
    next
      case (Some r)
      obtain d m where r: "r = (d, m)" by (cases r)
      with hd t Some obtain t' where t': "k_id t' = k_id t" "good t'" "ok d"
        and d: "fl_tasks d = fl_tasks (save_ntask t' db)" by auto
      have rows: "set (fl_tasks d) = insert t' (set (fl_tasks db) - {t})"
        unfolding d using t t'(1) Cons.prems(2) by (intro save_ntask_rows) auto
      have u: "ids_distinct d"
        using Cons.prems(2) save_ntask_ids [of t' db] by (simp add: ids_distinct_def d)
      have "\<forall>x \<in> set (fl_tasks d). k_id x \<in> insert i G \<longrightarrow> good x"
        using rows Cons.prems(2,3) t t' by (auto simp: ids_distinct_def distinct_map inj_on_def)
      from Cons.IH [OF t'(3) u this] Cons.prems(4) \<open>ntask_by_id db i = Some t\<close> Some r rows t t'(1)
      show ?thesis by auto
    qed
  qed
qed

lemma sweep_loop_covers:
  assumes "handles ok good h" and "ok db" and "ids_distinct db"
    and "sweep_loop h is (db, n) = (db', n')"
  shows "ids_distinct db'" and "ok db'"
    and "t \<in> set (fl_tasks db') \<Longrightarrow> k_id t \<in> set is \<Longrightarrow> good t"
    and "t \<in> set (fl_tasks db') \<Longrightarrow> k_id t \<notin> set is \<Longrightarrow> t \<in> set (fl_tasks db)"
  using sweep_loop_good [OF assms(1-3) _ assms(4), of "{}"] by blast+

lemma sweep_loop_settles:
  assumes "\<And>t db db' m. h t db = Some (db', m) \<Longrightarrow>
      active (k_status t) \<and> (\<exists>t'. same_command t t'
        \<and> fl_tasks db' = fl_tasks (save_ntask t' db))"
    and "ids_distinct db" and "sweep_loop h is (db, n) = (db', n')"
  shows "settles db db'"
  using assms(2,3)
proof (induction "is" arbitrary: db n)
  case Nil
  then show ?case by (auto intro: settles_refl)
next
  case (Cons i "is")
  show ?case
  proof (cases "ntask_by_id db i")
    case None
    then show ?thesis using Cons by simp
  next
    case t: (Some t)
    show ?thesis
    proof (cases "h t db")
      case None
      then show ?thesis using Cons t by simp
    next
      case (Some r)
      obtain d m where r: "r = (d, m)" by (cases r)
      with assms(1) Some t have "settles db d"
        using settles_active [OF Cons.prems(1) t] by blast
      moreover have "settles d db'"
        using Cons.IH [OF settles_distinct [OF calculation Cons.prems(1)]] Cons.prems(2) t Some r
        by simp
      ultimately show ?thesis by (rule settles_trans)
    qed
  qed
qed

lemma finish_cancel_row:
  "finish_cancel e t db = Some (db', m) \<Longrightarrow> cancel_expired e t
     \<and> fl_tasks db' = fl_tasks (save_ntask (seal_canceled e t) db) \<and> m"
  by (auto simp: finish_cancel_def Let_def split: if_splits)

lemma watch_task_row:
  assumes "watch_task e t db = Some (db', m)"
  shows "overdue e t \<and> (\<exists>t'. same_command t t'
      \<and> fl_tasks db' = fl_tasks (save_ntask t' db)
      \<and> (k_status t' = N_timeout \<or> (\<exists>rem \<ge> 1. k_watchdog_deadline_at t' = after e rem
           \<and> k_status t' = k_status t)))"
proof -
  obtain n where n: "node_by_id db (k_node t) = Some n" "overdue e t" "\<not> has_detached_marker t"
    "\<not> awaiting_acceptance n t"
    using assms by (auto simp: watch_task_def split: option.splits if_splits)
  show ?thesis
  proof (cases "projection_grace e n t")
    case None
    with assms n have "fl_tasks db' = fl_tasks (save_ntask (timed_out_row e n t) db)"
      by (auto simp: watch_task_def Let_def)
    then show ?thesis using n(2) by (intro conjI exI [of _ "timed_out_row e n t"]) simp_all
  next
    case (Some rem)
    then have "rem \<ge> 1" by (auto simp: projection_grace_def Let_def split: prod.splits if_splits)
    let ?t = "t\<lparr>k_watchdog_deadline_at := after e rem, k_updated_at := ev_now e\<rparr>"
    from assms n Some have "fl_tasks db' = fl_tasks (save_ntask ?t db)"
      by (auto simp: watch_task_def)
    then show ?thesis using n(2) \<open>rem \<ge> 1\<close> by (intro conjI exI [of _ ?t]) auto
  qed
qed

lemma sweep_cancel_settles:
  "sweep_cancel_grace_expired e limit db = (db', n) \<Longrightarrow> ids_distinct db \<Longrightarrow> settles db db'"
  unfolding sweep_cancel_grace_expired_def Let_def
  by (rule sweep_loop_settles [rotated])
    (auto dest!: finish_cancel_row simp: cancel_expired_def intro: exI [of _ "seal_canceled e _"])

lemma sweep_watchdog_settles:
  "sweep_watchdog_timeouts e limit db = (db', n) \<Longrightarrow> ids_distinct db \<Longrightarrow> settles db db'"
  unfolding sweep_watchdog_timeouts_def Let_def
  by (rule sweep_loop_settles [rotated]) (auto dest!: watch_task_row simp: overdue_def simp del: same_command_def)

lemma fail_active_settles:
  assumes "fail_active_tasks_for_node e node reason db = (db', n)" and "ids_distinct db"
  shows "settles db db'"
proof (rule sweep_loop_settles)
  show "ids_distinct db" by fact
  show "sweep_loop (fail_for_node e reason) (map k_id (rev (sort_key (\<lambda>t. (k_created_at t, k_id t))
      (filter (\<lambda>t. k_node t = node \<and> active (k_status t)) (fl_tasks db))))) (db, 0) = (db', n)"
    using assms(1) by (simp add: fail_active_tasks_for_node_def Let_def)
  fix t db db' m
  assume "fail_for_node e reason t db = Some (db', m)"
  then have "active (k_status t)" "fl_tasks db' = fl_tasks (save_ntask
      (t\<lparr>k_status := N_failed, k_last_error := take 2000 reason, k_updated_at := ev_now e\<rparr>) db)"
    by (auto simp: fail_for_node_def Let_def split: if_splits)
  then show "active (k_status t) \<and> (\<exists>t'. same_command t t'
        \<and> fl_tasks db' = fl_tasks (save_ntask t' db))"
    by (intro conjI exI [of _ "t\<lparr>k_status := N_failed, k_last_error := take 2000 reason,
      k_updated_at := ev_now e\<rparr>"]) simp_all
qed

lemma fail_offline_settles:
  assumes "fail_offline e i reason db = (db', b)" and "ids_distinct db"
  shows "settles db db'"
proof (cases "offline_finalization_ready e \<and> (\<exists>t. ntask_by_id db i = Some t \<and> active (k_status t))")
  case True
  then obtain t where t: "ntask_by_id db i = Some t" "active (k_status t)" by blast
  let ?t = "t\<lparr>k_status := N_failed, k_last_error := take 2000 (if or_else reason [] = []
      then agent_offline_reason else the reason), k_updated_at := ev_now e\<rparr>"
  from t have "fl_tasks db' = fl_tasks (save_ntask ?t db)"
    using assms(1) True by (auto simp: fail_offline_def Let_def)
  then have "\<exists>t'. same_command t t' \<and> fl_tasks db' = fl_tasks (save_ntask t' db)"
    by (intro exI [of _ ?t]) simp
  then show ?thesis using settles_active [OF assms(2) t] by blast
next
  case False
  then show ?thesis using assms(1)
    by (auto simp: fail_offline_def split: option.splits if_splits intro!: settles_refl)
qed

lemma fail_offline_tasks_settles:
  "fail_offline_tasks e is (db, n) = (db', n') \<Longrightarrow> ids_distinct db \<Longrightarrow> settles db db'"
proof (induction "is" arbitrary: db n)
  case Nil
  then show ?case by (auto intro: settles_refl)
next
  case (Cons i "is")
  obtain d b where d: "fail_offline e i None db = (d, b)" by (metis surj_pair)
  note s = fail_offline_settles [OF d Cons.prems(2)]
  from d Cons.prems(1) have "fail_offline_tasks e is (d, if b then Suc n else n) = (db', n')" by simp
  from settles_trans [OF s Cons.IH [OF this settles_distinct [OF s Cons.prems(2)]]] show ?case .
qed

lemma reconcile_nodes_settles:
  "reconcile_nodes e limit is (db, c, s, f) = (db', x) \<Longrightarrow> ids_distinct db \<Longrightarrow> settles db db'"
proof (induction "is" arbitrary: db c s f)
  case Nil
  then show ?case by (auto intro: settles_refl)
next
  case (Cons i "is")
  show ?case
  proof (cases "first_where (\<lambda>n. n_id n = i \<and> \<not> n_is_deleted n) (fl_nodes db)")
    case None
    with Cons show ?thesis by simp
  next
    case (Some n)
    let ?rows = "take (max 1 limit) (sort_key (\<lambda>t. (k_updated_at t, k_id t))
        (filter (\<lambda>t. k_node t = i \<and> active (k_status t)) (fl_tasks db)))"
    obtain d f' where d: "fail_offline_tasks e (map k_id ?rows) (db, f) = (d, f')" by (metis surj_pair)
    note st = fail_offline_tasks_settles [OF d Cons.prems(2)]
    show ?thesis
    proof (cases "is_node_offline_stale e n")
      case False
      with Cons Some show ?thesis by simp
    next
      case True
      show ?thesis
      proof (cases "limit \<le> f'")
        case True
        with Cons.prems(1) Some d \<open>is_node_offline_stale e n\<close> have "db' = d" by simp
        with st show ?thesis by simp
      next
        case False
        with Cons.prems(1) Some d \<open>is_node_offline_stale e n\<close>
        have "reconcile_nodes e limit is (d, Suc c, Suc s, f') = (db', x)" by simp
        from settles_trans [OF st Cons.IH [OF this settles_distinct [OF st Cons.prems(2)]]]
        show ?thesis .
      qed
    qed
  qed
qed

lemma reconcile_offline_settles:
  "reconcile_offline_stale_node_tasks e limit db = (db', x) \<Longrightarrow> ids_distinct db \<Longrightarrow> settles db db'"
  by (auto simp: reconcile_offline_stale_node_tasks_def intro: settles_refl
      dest: reconcile_nodes_settles split: if_splits)

section \<open>The operations as a step relation\<close>

text \<open>A new command takes a fresh UUID.\<close>

inductive node_op :: "fleet \<Rightarrow> fleet \<Rightarrow> bool" where
  nop_create: "create_agent_task e uid org n kind payload ct cid req parent db = Inr (db', t)
    \<Longrightarrow> uid \<notin> k_id ` set (fl_tasks db) \<Longrightarrow> node_op db db'"
| nop_protocol: "persist_delivery_protocol e i db = (db', b) \<Longrightarrow> node_op db db'"
| nop_reconnecting: "mark_task_reconnecting e i db = db' \<Longrightarrow> node_op db db'"
| nop_undelivered: "fail_task_delivery e i known reason db = db' \<Longrightarrow> node_op db db'"
| nop_accept: "accept_task e i node db = Inr (db', t) \<Longrightarrow> node_op db db'"
| nop_progress: "record_task_progress e i node p alive db = Inr (db', t) \<Longrightarrow> node_op db db'"
| nop_complete: "complete_node_task e i node s r err rep db = Inr (db', t, v) \<Longrightarrow> node_op db db'"
| nop_cancel: "cancel_node_task e i reason db = (db', x) \<Longrightarrow> node_op db db'"
| nop_sweep_cancel: "sweep_cancel_grace_expired e limit db = (db', m) \<Longrightarrow> node_op db db'"
| nop_sweep_watchdog: "sweep_watchdog_timeouts e limit db = (db', m) \<Longrightarrow> node_op db db'"
| nop_node_lost: "fail_active_tasks_for_node e node reason db = (db', m) \<Longrightarrow> node_op db db'"
| nop_offline: "fail_offline e i r db = (db', b) \<Longrightarrow> node_op db db'"
| nop_reconcile: "reconcile_offline_stale_node_tasks e limit db = (db', c) \<Longrightarrow> node_op db db'"

lemma persist_settles:
  assumes "persist_delivery_protocol e i db = (db', b)" and "ids_distinct db"
  shows "settles db db'"
proof (cases "ntask_by_id db i")
  case None
  then show ?thesis using assms(1) by (auto simp: persist_delivery_protocol_def intro: settles_refl)
next
  case (Some t)
  note t = ntask_by_id_Some [OF Some]
  have "fl_tasks db' = fl_tasks db \<or> (\<exists>t'. keeps_settled t t' \<and> fl_tasks db' = fl_tasks (save_ntask t' db))"
  proof (cases "(k_correlation_type t, k_kind t) \<notin> set ack_durable
      \<or> k_status t \<noteq> N_pending \<or> k_accepted_at t \<noteq> None
      \<or> text_or_empty (dget (k_result t) protocol_key) \<in> {''command_ack_v1'', ''legacy''}")
    case True
    then show ?thesis using assms(1) Some
      by (auto simp: persist_delivery_protocol_def Let_def split: if_split_asm)
  next
    case False
    define a where "a \<longleftrightarrow> 0 < k_delivery_attempts t \<or> (case node_by_id db (k_node t) of None \<Rightarrow> False
      | Some n \<Rightarrow> ack_capability \<in> set (node_capabilities n))"
    define x where "x = t\<lparr>k_result := dset (k_result t) protocol_key
        (JStr (if a then ''command_ack_v1'' else ''legacy'')),
      k_watchdog_deadline_at := (if a then after e (max 1 (cf_command_ack_max_age (ev_conf e)))
        else k_watchdog_deadline_at t), k_updated_at := ev_now e\<rparr>"
    from False have "db' = save_ntask x db"
      using assms(1) Some by (auto simp: persist_delivery_protocol_def Let_def x_def a_def)
    moreover have "keeps_settled t x"
      by (simp add: keeps_settled_def x_def legacy_marked_def a_def)
    ultimately show ?thesis by blast
  qed
  then show ?thesis using settles_save [OF assms(2)] t settles_refl by blast
qed

lemma mark_reconnecting_settles:
  assumes "mark_task_reconnecting e i db = db'" and "ids_distinct db"
  shows "settles db db'"
proof (cases "ntask_by_id db i")
  case None
  then show ?thesis using assms(1) by (auto simp: mark_task_reconnecting_def intro: settles_refl)
next
  case (Some t)
  show ?thesis
  proof (cases "k_status t = N_pending")
    case False
    then show ?thesis using assms(1) Some
      by (auto simp: mark_task_reconnecting_def intro!: settles_refl)
  next
    case True
    then have "\<exists>t'. same_command t t' \<and> fl_tasks db' = fl_tasks (save_ntask t' db)"
      using assms(1) Some by (auto simp: mark_task_reconnecting_def Let_def split: option.splits
          intro!: exI [of _ "t\<lparr>k_last_error := ''agent websocket is reconnecting'',
            k_result := dset (k_result t) ''diagnostic_error_code'' (JStr ''AGENT_CONNECTION_UNSTABLE''),
            k_updated_at := ev_now e\<rparr>"])
    then show ?thesis using settles_active [OF assms(2) Some] True by auto
  qed
qed

lemma fail_delivery_settles:
  assumes "fail_task_delivery e i known reason db = db'" and "ids_distinct db"
  shows "settles db db'"
proof (cases "ntask_by_id db i")
  case None
  then show ?thesis using assms(1) by (auto simp: fail_task_delivery_def intro: settles_refl)
next
  case (Some t)
  show ?thesis
  proof (cases "k_status t = N_pending \<and> k_accepted_at t = None")
    case False
    then show ?thesis using assms(1) Some
      by (auto simp: fail_task_delivery_def intro!: settles_refl)
  next
    case True
    let ?t = "t\<lparr>k_status := N_failed, k_last_error := take 2000 reason,
       k_result := dset (without_delivery_runtime_state known)
         ''diagnostic_error_code'' (JStr (delivery_diagnostic_error_code reason)),
       k_updated_at := ev_now e\<rparr>"
    from True have "fl_tasks db' = fl_tasks (save_ntask ?t db)"
      using assms(1) Some by (auto simp: fail_task_delivery_def Let_def)
    then show ?thesis
      using settles_active [OF assms(2) Some, of ?t db'] True by simp
  qed
qed

lemma node_op_settles:
  assumes "node_op db db'" and "ids_distinct db"
  shows "settles db db' \<or> (\<exists>t. fl_tasks db' = fl_tasks db @ [t] \<and> k_id t \<notin> k_id ` set (fl_tasks db)
       \<and> k_delivery_attempts t = 0)"
  using assms(1)
proof cases
  case (nop_create e uid org n kind payload ct cid req parent t)
  then have "fl_tasks db' = fl_tasks db @ [t]" "k_id t = uid" "k_delivery_attempts t = 0"
    by (auto simp: create_agent_task_def Let_def)
  with nop_create(2) show ?thesis by auto
qed (use assms(2) in \<open>blast intro: persist_settles mark_reconnecting_settles fail_delivery_settles
    accept_task_settles record_task_progress_settles complete_node_task_settles
    cancel_node_task_settles sweep_cancel_settles sweep_watchdog_settles fail_active_settles
    fail_offline_settles reconcile_offline_settles\<close>)+

lemma node_op_distinct: "node_op db db' \<Longrightarrow> ids_distinct db \<Longrightarrow> ids_distinct db'"
  using node_op_settles settles_distinct by (fastforce simp: ids_distinct_def)

text \<open>What is final of a command: its status, once it is settled.\<close>

definition ntask_status_of :: "nat \<Rightarrow> fleet \<Rightarrow> ntask_status option" where
  "ntask_status_of i db = map_option k_status (ntask_by_id db i)"

lemma settles_status:
  assumes "settles db db'" and "ids_distinct db" and "ntask_status_of i db = Some s" and "settled s"
  shows "ntask_status_of i db' = Some s"
proof -
  from assms(2,3) obtain t where t: "t \<in> set (fl_tasks db)" "k_id t = i" "k_status t = s"
    by (auto simp: ntask_status_of_def ntask_by_id_iff)
  then obtain j where j: "j < length (fl_tasks db)" "fl_tasks db ! j = t" by (auto simp: in_set_conv_nth)
  with assms(1) have "keeps_settled t (fl_tasks db' ! j)" "j < length (fl_tasks db')"
    by (auto simp: rows_by_def list_all2_conv_all_nth)
  with t assms(4) have "fl_tasks db' ! j \<in> set (fl_tasks db')" "k_id (fl_tasks db' ! j) = i"
    "k_status (fl_tasks db' ! j) = s" by (auto simp: keeps_settled_def)
  with settles_distinct [OF assms(1,2)] have "ntask_by_id db' i = Some (fl_tasks db' ! j)"
    by (simp add: ntask_by_id_iff)
  then show ?thesis using \<open>k_status (fl_tasks db' ! j) = s\<close> by (simp add: ntask_status_of_def)
qed

interpretation command_life: absorbing node_op ids_distinct ntask_status_of settled
proof unfold_locales
  show "node_op db db' \<Longrightarrow> ids_distinct db \<Longrightarrow> ids_distinct db'" for db db' by (rule node_op_distinct)
  fix db db' i s
  assume op: "node_op db db'" and u: "ids_distinct db" and s: "ntask_status_of i db = Some s" "settled s"
  from node_op_settles [OF op u] show "ntask_status_of i db' = Some s"
  proof
    assume "settles db db'"
    then show ?thesis using u s by (rule settles_status)
  next
    assume "\<exists>t. fl_tasks db' = fl_tasks db @ [t] \<and> k_id t \<notin> k_id ` set (fl_tasks db)
      \<and> k_delivery_attempts t = 0"
    then obtain t where "fl_tasks db' = fl_tasks db @ [t]" by blast
    moreover have "ids_distinct db'" using op u by (rule node_op_distinct)
    ultimately show ?thesis using s u by (auto simp: ntask_status_of_def ntask_by_id_iff)
  qed
qed

end
