(* ===== verification/Node_Delivery.thy ===== *)
theory Node_Delivery
  imports Node_Correct
begin

text \<open>
  The delivery of commands to Agents (\<^verbatim>\<open>deliver_agent_task\<close> and its retries in
  \<^verbatim>\<open>apps/node/services/internal/task.py\<close>): the protected delivery payload, the attempt that is
  claimed before the command is published, the sweep that redelivers what no Agent accepted and
  gives up after a bounded number of attempts. A dispatcher works on the copy of the row it read,
  which may be older than the row; the functions take that copy beside the store.
\<close>

section \<open>The protected payload\<close>

text \<open>
  What lies outside the repository: Fernet encryption of the JSON text (\<open>co_seal\<close>,
  \<open>co_open\<close>; \<open>None\<close> when decryption or parsing raises) and the channel layer, which sends a
  command or raises one of the errors in \<^verbatim>\<open>_DOWNLINK_ERRORS\<close> with a text.
\<close>

record courier =
  co_seal :: "dict \<Rightarrow> string"
  co_open :: "string \<Rightarrow> json option"
  co_send :: "nat \<Rightarrow> string option"

definition secret_key :: string where
  "secret_key = ''_delivery_secret''"

definition protect_delivery_payload :: "courier \<Rightarrow> dict \<Rightarrow> dict \<Rightarrow> dict" where
  "protect_delivery_payload co delivery persisted =
     dset persisted secret_key
       (JObj [(''alg'', JStr ''fernet-json-v1''), (''ciphertext'', JStr (co_seal co delivery))])"

definition resolve_delivery_payload :: "courier \<Rightarrow> dict \<Rightarrow> (string, dict option) result" where
  "resolve_delivery_payload co payload =
     (let envelope = dget payload secret_key in
      if envelope = JNull then Inr None
      else if \<not> is_dict envelope \<or> dget (as_dict envelope) ''alg'' \<noteq> JStr ''fernet-json-v1''
      then Inl ''agent task delivery envelope is invalid''
      else case co_open co (text_or_empty (dget (as_dict envelope) ''ciphertext'')) of
        None \<Rightarrow> Inl ''agent task delivery envelope cannot be decrypted''
      | Some v \<Rightarrow> if is_dict v then Inr (Some (as_dict v))
                  else Inl ''agent task delivery envelope is invalid'')"

text \<open>The cache size of the node's repository, \<^verbatim>\<open>repository_cache_policy.py\<close>.\<close>

definition node_kopia_cache_size_mb :: "node \<Rightarrow> int" where
  "node_kopia_cache_size_mb n =
     (let metadata = as_dict (n_metadata n);
          policy = dget metadata ''performance_policy'';
          settings = (if is_dict policy then dget (as_dict policy) ''settings'' else JNull);
          settings = as_dict (if is_dict settings then settings else dget metadata ''perf_settings'')
      in case dget_or settings ''kopiaCacheMb'' (dget settings ''kopia_cache_mb'') of
           JInt i \<Rightarrow> if 0 \<le> i \<and> i \<le> 65536 then i else 8192
         | _ \<Rightarrow> 8192)"

definition attach_node_kopia_cache_policy :: "node \<Rightarrow> dict \<Rightarrow> dict" where
  "attach_node_kopia_cache_policy n payload =
     (if n_role n \<noteq> Agent_role \<and> n_role n \<noteq> Proxy_role then payload
      else if \<not> is_dict (dget payload ''repository'') then payload
      else dset payload ''kopia_cache_size_mb'' (JInt (node_kopia_cache_size_mb n)))"

section \<open>One delivery\<close>

text \<open>The dispatcher's copy after \<^verbatim>\<open>_persist_delivery_protocol\<close> has locked the row.\<close>

definition refreshed_copy :: "node_task \<Rightarrow> fleet \<Rightarrow> node_task" where
  "refreshed_copy t db =
     (if (k_correlation_type t, k_kind t) \<notin> set ack_durable then t
      else case ntask_by_id db (k_id t) of
        None \<Rightarrow> t
      | Some r \<Rightarrow>
          let t = t\<lparr>k_status := k_status r, k_accepted_at := k_accepted_at r, k_result := k_result r\<rparr>
          in if k_status r \<noteq> N_pending \<or> k_accepted_at r \<noteq> None then t
             else t\<lparr>k_watchdog_deadline_at := k_watchdog_deadline_at r,
                    k_delivery_attempts := k_delivery_attempts r\<rparr>)"

text \<open>A downlink error: an ACK command stays pending for the sweep, any other fails.\<close>

definition delivery_failed :: "env \<Rightarrow> node_task \<Rightarrow> bool \<Rightarrow> string \<Rightarrow> fleet \<Rightarrow> fleet" where
  "delivery_failed e t uses_ack reason db =
     (if uses_ack then
        let code = JStr (delivery_diagnostic_error_code reason);
            db = db\<lparr>fl_tasks := update_where (\<lambda>r. k_id r = k_id t \<and> k_status r = N_pending)
                   (\<lambda>r. r\<lparr>k_last_error := take 2000 reason,
                          k_result := dset (k_result t) ''diagnostic_error_code'' code,
                          k_updated_at := ev_now e\<rparr>) (fl_tasks db)\<rparr>
        in case ntask_by_id db (k_id t) of None \<Rightarrow> db | Some r \<Rightarrow> sync_task_info r db
      else fail_task_delivery e (k_id t) (k_result t) reason db)"

text \<open>The payload that is sent, when it is not the stored one.\<close>

definition outgoing_payload :: "node \<Rightarrow> node_task \<Rightarrow> dict option \<Rightarrow> dict option" where
  "outgoing_payload n t delivery =
     (let delivery = (if delivery = None \<and> k_correlation_type t = lifecycle_type
                        \<and> k_kind t = ''agent.upgrade'' \<and> has_key (k_payload t) ''pre_upgrade_session_id''
                      then Some (ddel ''pre_upgrade_session_id'' (k_payload t)) else delivery);
          candidate = or_else delivery (k_payload t)
      in if is_dict (dget candidate ''repository'') \<and> (n_role n = Agent_role \<or> n_role n = Proxy_role)
         then Some (attach_node_kopia_cache_policy n candidate) else delivery)"

text \<open>
  An ACK delivery is claimed by a conditional update on the attempt count the dispatcher knows;
  \<open>None\<close> when another dispatcher was first or the row is no longer waiting.
\<close>

definition claimable :: "node_task \<Rightarrow> node_task \<Rightarrow> bool" where
  "claimable t r \<longleftrightarrow> k_id r = k_id t \<and> k_status r = N_pending \<and> k_accepted_at r = None
     \<and> k_delivery_attempts r = k_delivery_attempts t"

definition claim_delivery :: "env \<Rightarrow> node_task \<Rightarrow> fleet \<Rightarrow> fleet option" where
  "claim_delivery e t db =
     (if count_where (claimable t) (fl_tasks db) = 0 then None
      else Some (db\<lparr>fl_tasks := update_where (claimable t)
             (\<lambda>r. r\<lparr>k_last_delivery_at := Some (ev_now e),
                    k_delivery_attempts := Suc (k_delivery_attempts r), k_last_error := [],
                    k_dispatched_at := (if k_dispatched_at t = None then Some (ev_now e)
                                        else k_dispatched_at r)\<rparr>) (fl_tasks db)\<rparr>))"

text \<open>A legacy command runs as soon as it has been sent.\<close>

definition start_legacy :: "env \<Rightarrow> node_task \<Rightarrow> fleet \<Rightarrow> fleet" where
  "start_legacy e t db =
     db\<lparr>fl_tasks := update_where
         (\<lambda>r. k_id r = k_id t \<and> k_status r = N_pending \<and> k_accepted_at r = None)
         (\<lambda>r. r\<lparr>k_status := N_running, k_dispatched_at := Some (ev_now e),
                k_last_delivery_at := Some (ev_now e),
                k_delivery_attempts := Suc (k_delivery_attempts r),
                k_last_progress_at := Some (ev_now e),
                k_watchdog_deadline_at := initial_watchdog_deadline (ev_conf e)
                  (k_correlation_type t) (k_kind t) (k_payload t) (ev_now e),
                k_result := without_delivery_runtime_state (k_result t)\<rparr>) (fl_tasks db)\<rparr>"

definition publish_command :: "env \<Rightarrow> courier \<Rightarrow> node_task \<Rightarrow> bool \<Rightarrow> dict \<Rightarrow> fleet \<Rightarrow> fleet" where
  "publish_command e co t uses_ack payload db =
     (case co_send co (k_id t) of
        Some reason \<Rightarrow> delivery_failed e t uses_ack reason db
      | None \<Rightarrow>
          let db = emit (Send_command (k_id t) payload) db;
              db = (if uses_ack then db else start_legacy e t db)
          in case ntask_by_id db (k_id t) of None \<Rightarrow> db | Some r \<Rightarrow> sync_task_info r db)"

definition attempt_delivery ::
  "env \<Rightarrow> courier \<Rightarrow> node \<Rightarrow> node_task \<Rightarrow> dict option \<Rightarrow> bool \<Rightarrow> fleet \<Rightarrow> fleet" where
  "attempt_delivery e co n t given uses_ack db =
     (case (case given of Some p \<Rightarrow> Inr (Some p) | None \<Rightarrow> resolve_delivery_payload co (k_payload t)) of
        Inl reason \<Rightarrow> delivery_failed e t uses_ack reason db
      | Inr delivery \<Rightarrow>
          (case node_route_state e n t of
             Route_reconnecting \<Rightarrow>
               if given \<noteq> None
               then fail_task_delivery e (k_id t) (k_result t)
                      ''agent websocket is reconnecting; retry the credential-bearing task'' db
               else mark_task_reconnecting e (k_id t) db
           | Route_offline \<Rightarrow>
               delivery_failed e t uses_ack ''agent websocket is not routable''
                 (emit (Clear_location (k_node t)) db)
           | Route_online \<Rightarrow>
               let (db, t) = capture_upgrade_baseline e t db;
                   payload = or_else (outgoing_payload n t delivery) (k_payload t)
               in if uses_ack
                  then (case claim_delivery e t db of
                          None \<Rightarrow> db
                        | Some db \<Rightarrow> publish_command e co t True payload db)
                  else publish_command e co t False payload db))"

text \<open>
  \<^verbatim>\<open>_deliver_agent_task\<close>. The answer is the dispatcher's object: its copy when nothing was
  tried, otherwise the row as it is now.
\<close>

definition deliver_copy ::
  "env \<Rightarrow> courier \<Rightarrow> node_task \<Rightarrow> dict option \<Rightarrow> bool \<Rightarrow> fleet \<Rightarrow> (ntask_error, fleet \<times> node_task) result" where
  "deliver_copy e co t given again db =
     (if k_status t \<noteq> N_pending \<or> k_accepted_at t \<noteq> None then Inr (db, t)
      else case ntask_by_id db (k_id t) of
        None \<Rightarrow> Inl Task_not_found
      | Some _ \<Rightarrow>
          let (db, uses_ack) = persist_delivery_protocol e (k_id t) db;
              t = refreshed_copy t db
          in if k_status t \<noteq> N_pending \<or> k_accepted_at t \<noteq> None then Inr (db, t)
             else if uses_ack \<and> 0 < k_delivery_attempts t \<and> \<not> again then Inr (db, t)
             else case node_by_id db (k_node t) of
               None \<Rightarrow> Inl Task_not_found
             | Some n \<Rightarrow>
                 let db = attempt_delivery e co n t given uses_ack db
                 in Inr (db, or_else (ntask_by_id db (k_id t)) t))"

text \<open>A managed restore is delivered under the lock of its row, with the row's own contents.\<close>

definition deliver_agent_task ::
  "env \<Rightarrow> courier \<Rightarrow> node_task \<Rightarrow> dict option \<Rightarrow> bool \<Rightarrow> fleet \<Rightarrow> (ntask_error, fleet \<times> node_task) result" where
  "deliver_agent_task e co t given again db =
     (if is_managed_workspace_restore t
      then rbind (of_option Task_not_found (ntask_by_id db (k_id t)))
             (\<lambda>r. deliver_copy e co r given again db)
      else deliver_copy e co t given again db)"

definition redeliver_pending_agent_task ::
  "env \<Rightarrow> courier \<Rightarrow> nat \<Rightarrow> fleet \<Rightarrow> (ntask_error, fleet \<times> node_task option) result" where
  "redeliver_pending_agent_task e co i db =
     (case ntask_by_id db i of
        None \<Rightarrow> Inr (db, None)
      | Some t \<Rightarrow>
          if k_status t \<noteq> N_pending then Inr (db, Some t)
          else rbind (deliver_agent_task e co t None False db) (\<lambda>(db, t). Inr (db, Some t)))"

text \<open>\<^verbatim>\<open>dispatch_task\<close> creates a command and delivers it once the creation has committed.\<close>

definition dispatch_task ::
  "env \<Rightarrow> courier \<Rightarrow> nat \<Rightarrow> int option \<Rightarrow> node \<Rightarrow> string \<Rightarrow> dict \<Rightarrow> string \<Rightarrow> string \<Rightarrow> int option
     \<Rightarrow> nat option \<Rightarrow> fleet \<Rightarrow> (ntask_error, fleet \<times> node_task) result" where
  "dispatch_task e co uid org n kind payload ctype cid requester parent db =
     rbind (create_agent_task e uid org n kind payload ctype cid requester parent db)
       (\<lambda>(db, t). rbind (deliver_agent_task e co t None False db) (\<lambda>(db, _). Inr (db, t)))"

section \<open>Commands no Agent accepted\<close>

definition timeout_unaccepted_task :: "env \<Rightarrow> nat \<Rightarrow> string \<Rightarrow> string \<Rightarrow> fleet \<Rightarrow> fleet \<times> bool" where
  "timeout_unaccepted_task e i code message db =
     (case first_where (\<lambda>t. k_id t = i \<and> k_status t = N_pending \<and> k_accepted_at t = None) (fl_tasks db) of
        None \<Rightarrow> (db, False)
      | Some t \<Rightarrow>
          let result' = dset (dset (dset (ddel protocol_key (k_result t))
                ''diagnostic_error_code'' (JStr code)) ''delivery_timeout_sealed'' (JBool True))
                ''delivery_attempt_count'' (JInt (int (k_delivery_attempts t)));
              t' = t\<lparr>k_status := N_timeout, k_last_error := code @ '': '' @ message,
                     k_result := result', k_updated_at := ev_now e\<rparr>;
              db = sync_task_info t' (emit (Send_cancel i) (save_ntask t' db));
              db = emit (Push_stream i (terminal_stream_message t')) db
          in (project_terminal t' db, True))"

definition ack_candidate :: "node_task \<Rightarrow> bool" where
  "ack_candidate t \<longleftrightarrow> (k_correlation_type t, k_kind t) \<in> set ack_durable
     \<and> k_status t = N_pending \<and> k_accepted_at t = None
     \<and> dget (k_result t) protocol_key \<noteq> JStr ''legacy''"

definition ack_max_age :: "env \<Rightarrow> int" where
  "ack_max_age e = seconds (max 1 (cf_command_ack_max_age (ev_conf e)))"

definition ack_max_attempts :: "node_conf \<Rightarrow> nat" where
  "ack_max_attempts cf = 1 + nat (cf_command_ack_max_retries cf)"

text \<open>While the WebSocket service recovers, the waiting ACK commands get their window again.\<close>

definition extend_waiting :: "env \<Rightarrow> fleet \<Rightarrow> fleet" where
  "extend_waiting e db =
     db\<lparr>fl_tasks := update_where
         (\<lambda>t. ack_candidate t
            \<and> (dget (k_result t) protocol_key = JStr ''command_ack_v1'' \<or> 0 < k_delivery_attempts t)
            \<and> k_watchdog_deadline_at t < ev_now e + ack_max_age e div 2)
         (\<lambda>t. t\<lparr>k_watchdog_deadline_at := ev_now e + ack_max_age e, k_updated_at := ev_now e\<rparr>)
         (fl_tasks db)\<rparr>"

definition expiry_reason :: "env \<Rightarrow> node \<Rightarrow> node_task \<Rightarrow> string \<times> string" where
  "expiry_reason e n t =
     (if node_route_state e n t = Route_online
      then (''AGENT_ACK_TIMEOUT'', ''Agent did not durably accept task.command'')
      else if n_availability n = Online \<and> last_seen_within_grace e n
      then (''AGENT_CONNECTION_UNSTABLE'', ''Agent connection remained unstable during delivery'')
      else (''AGENT_UNAVAILABLE'', ''Agent remained unavailable during delivery''))"

record ack_report =
  ar_candidates :: nat
  ar_redelivered :: nat
  ar_timed_out :: nat
  ar_hold :: bool

text \<open>One candidate of the sweep, with the copy the query returned.\<close>

definition reconcile_candidate ::
  "env \<Rightarrow> courier \<Rightarrow> node_task \<Rightarrow> fleet \<times> ack_report \<Rightarrow> (ntask_error, fleet \<times> ack_report) result" where
  "reconcile_candidate e co t st =
     (case st of (db, r) \<Rightarrow>
        let (db, uses_ack) = persist_delivery_protocol e (k_id t) db;
            t = refreshed_copy t db
        in if \<not> uses_ack then Inr (db, r)
           else case node_by_id db (k_node t) of
             None \<Rightarrow> Inl Task_not_found
           | Some n \<Rightarrow>
               let r = r\<lparr>ar_candidates := Suc (ar_candidates r)\<rparr>;
                   waited = ev_now e - or_else (k_last_delivery_at t) (k_created_at t);
                   expire = (\<lambda>(code, message). let (db, done') = timeout_unaccepted_task e (k_id t) code message db
                     in Inr (db, if done' then r\<lparr>ar_timed_out := Suc (ar_timed_out r)\<rparr> else r))
               in if k_watchdog_deadline_at t \<le> ev_now e then expire (expiry_reason e n t)
                  else if node_route_state e n t \<noteq> Route_online then Inr (db, r)
                  else if waited < seconds (max 1 (cf_command_ack_timeout (ev_conf e))) then Inr (db, r)
                  else if ack_max_attempts (ev_conf e) \<le> k_delivery_attempts t
                  then expire (''AGENT_ACK_TIMEOUT'', ''Agent did not durably accept task.command'')
                  else rbind (deliver_agent_task e co t None True db) (\<lambda>(db, t').
                    Inr (db, if k_delivery_attempts t < k_delivery_attempts t'
                             then r\<lparr>ar_redelivered := Suc (ar_redelivered r)\<rparr> else r)))"

definition reconcile_unaccepted_agent_tasks ::
  "env \<Rightarrow> courier \<Rightarrow> nat \<Rightarrow> fleet \<Rightarrow> (ntask_error, fleet \<times> ack_report) result" where
  "reconcile_unaccepted_agent_tasks e co limit db =
     (if ev_recovery_hold e
      then Inr (extend_waiting e db, \<lparr>ar_candidates = 0, ar_redelivered = 0, ar_timed_out = 0, ar_hold = True\<rparr>)
      else
        let candidates = take (max 1 limit)
              (sort_key (\<lambda>t. (k_created_at t, k_id t)) (filter ack_candidate (fl_tasks db)))
        in rfold (reconcile_candidate e co) candidates
             (db, \<lparr>ar_candidates = 0, ar_redelivered = 0, ar_timed_out = 0, ar_hold = False\<rparr>))"

end
