(* ===== verification/Delivery_Correct.thy ===== *)
theory Delivery_Correct
  imports Node_Delivery
begin

text \<open>
  How often a command is published: the number of \<open>Send_command\<close> effects of a durable command
  never exceeds its delivery attempts, and these never exceed the configured retries, whatever
  dispatchers, sweeps and Agents do in between.
\<close>

section \<open>Commands published\<close>

fun is_send :: "nat \<Rightarrow> effect \<Rightarrow> bool" where
  "is_send i (Send_command j p) = (j = i)"
| "is_send i x = False"

definition sends :: "nat \<Rightarrow> fleet \<Rightarrow> nat" where
  "sends i db = count_where (is_send i) (fl_outbox db)"

lemma sends_emit [simp]: "sends i (emit x db) = sends i db + (if is_send i x then 1 else 0)"
  by (simp add: sends_def emit_def count_where_def)

lemma sends_frame [simp]:
  "sends i (db\<lparr>fl_tasks := ts\<rparr>) = sends i db" "sends i (db\<lparr>fl_nodes := ns\<rparr>) = sends i db"
  "sends i (save_ntask t db) = sends i db"
  by (simp_all add: sends_def save_ntask_def)

lemma sends_update_node_status [simp]: "sends i (update_node_status j st db) = sends i db"
  by (simp add: update_node_status_def Let_def split: option.split)

lemma sends_project_lifecycle [simp]: "sends i (project_node_lifecycle_task t ov db) = sends i db"
  by (simp add: project_node_lifecycle_task_def Let_def)

lemma sends_sync [simp]: "sends i (sync_task_info t db) = sends i db"
  by (simp add: sync_task_info_def)

lemma sends_platform [simp]: "sends i (sync_platform_tasks t db) = sends i db"
  by (simp add: sync_platform_tasks_def split: option.split projection.split)

lemma sends_terminal [simp]: "sends i (project_terminal t db) = sends i db"
  by (simp add: project_terminal_def)

lemma sends_mark [simp]: "sends j (mark_task_reconnecting e i db) = sends j db"
  by (simp add: mark_task_reconnecting_def Let_def split: option.split)

lemma sends_fail_delivery [simp]: "sends j (fail_task_delivery e i known reason db) = sends j db"
  by (simp add: fail_task_delivery_def Let_def split: option.split)

lemma sends_persist [simp]: "sends j (fst (persist_delivery_protocol e i db)) = sends j db"
  by (simp add: persist_delivery_protocol_def Let_def split: option.split)

lemma sends_baseline [simp]: "sends j (fst (capture_upgrade_baseline e t db)) = sends j db"
  by (simp add: capture_upgrade_baseline_def Let_def split: option.split)

lemma sends_sweep_loop:
  assumes "\<And>t db db' m. h t db = Some (db', m) \<Longrightarrow> sends i db' = sends i db"
  shows "sends i (fst (sweep_loop h ids st)) = sends i (fst st)"
proof (induction ids arbitrary: st)
  case Nil
  then show ?case by simp
next
  case (Cons j js)
  obtain db n where st: "st = (db, n)" by (cases st)
  show ?case
  proof (cases "ntask_by_id db j")
    case None
    then show ?thesis by (simp add: st Cons.IH)
  next
    case (Some t)
    then show ?thesis
    proof (cases "h t db")
      case None
      with Some show ?thesis by (simp add: st Cons.IH)
    next
      case (Some r)
      obtain d m where "r = (d, m)" by (cases r)
      with Some \<open>ntask_by_id db j = Some t\<close> show ?thesis
        using assms [of t db d m] by (simp add: st Cons.IH)
    qed
  qed
qed

lemma sends_finish_cancel: "finish_cancel e t db = Some (db', m) \<Longrightarrow> sends i db' = sends i db"
  by (auto simp: finish_cancel_def Let_def split: if_splits)

lemma sends_fail_for_node: "fail_for_node e reason t db = Some (db', m) \<Longrightarrow> sends i db' = sends i db"
  by (auto simp: fail_for_node_def Let_def split: if_splits)

lemma sends_watch_task: "watch_task e t db = Some (db', m) \<Longrightarrow> sends i db' = sends i db"
  by (auto simp: watch_task_def Let_def split: option.splits if_splits)

lemma sends_fail_offline: "sends j (fst (fail_offline e i r db)) = sends j db"
  by (simp add: fail_offline_def Let_def split: option.split)

lemma sends_fail_offline_tasks: "fail_offline_tasks e js (db, n) = (db', n') \<Longrightarrow> sends j db' = sends j db"
proof (induction js arbitrary: db n)
  case (Cons i js)
  obtain d b where "fail_offline e i None db = (d, b)" by (metis surj_pair)
  with Cons sends_fail_offline [of j e i None db] show ?case by simp
qed simp

lemma sends_reconcile_nodes:
  "reconcile_nodes e limit is (db, c, s, f) = (db', x) \<Longrightarrow> sends j db' = sends j db"
proof (induction "is" arbitrary: db c s f)
  case (Cons i js)
  show ?case
  proof (cases "first_where (\<lambda>n. n_id n = i \<and> \<not> n_is_deleted n) (fl_nodes db)")
    case None
    with Cons show ?thesis by simp
  next
    case (Some n)
    let ?rows = "take (max 1 limit) (sort_key (\<lambda>t. (k_updated_at t, k_id t))
        (filter (\<lambda>t. k_node t = i \<and> active (k_status t)) (fl_tasks db)))"
    obtain d f' where d: "fail_offline_tasks e (map k_id ?rows) (db, f) = (d, f')" by (metis surj_pair)
    have "db' = d \<or> (\<exists>c s f. reconcile_nodes e limit js (d, c, s, f) = (db', x))
        \<or> (\<exists>c s f. reconcile_nodes e limit js (db, c, s, f) = (db', x))"
      using Cons.prems Some d by (auto split: if_split_asm)
    then show ?thesis using Cons.IH sends_fail_offline_tasks [OF d, of j] by metis
  qed
qed simp

lemma sends_record_progress:
  "record_task_progress e i node p alive db = Inr (db', t) \<Longrightarrow> sends j db' = sends j db"
  by (auto simp: record_task_progress_def Let_def split: option.splits if_splits)

lemma sends_accept: "accept_task e i node db = Inr (db', t) \<Longrightarrow> sends j db' = sends j db"
  by (auto simp: accept_task_def Let_def split: option.splits if_splits)

lemma sends_complete:
  "complete_node_task e i node s r err rep db = Inr (db', t, v) \<Longrightarrow> sends j db' = sends j db"
  by (auto simp: complete_node_task_def Let_def split: option.splits verdict.splits)

lemma sends_cancel: "cancel_node_task e i reason db = (db', x) \<Longrightarrow> sends j db' = sends j db"
  by (auto simp: cancel_node_task_def Let_def split: option.splits if_splits)

lemma sends_create:
  "create_agent_task e uid org n kind payload ct cid req parent db = Inr (db', t) \<Longrightarrow> sends j db' = sends j db"
  by (auto simp: create_agent_task_def Let_def)

lemma sends_sweeps:
  "sends j (fst (sweep_cancel_grace_expired e limit db)) = sends j db"
  "sends j (fst (sweep_watchdog_timeouts e limit db)) = sends j db"
  "sends j (fst (fail_active_tasks_for_node e node reason db)) = sends j db"
  by (simp_all only: sweep_cancel_grace_expired_def sweep_watchdog_timeouts_def
      fail_active_tasks_for_node_def Let_def sends_sweep_loop [OF sends_finish_cancel]
      sends_sweep_loop [OF sends_watch_task] sends_sweep_loop [OF sends_fail_for_node] fst_conv)

lemma sends_reconcile: "sends j (fst (reconcile_offline_stale_node_tasks e limit db)) = sends j db"
proof -
  obtain db' x where "reconcile_nodes e limit (map n_id (offline_nodes limit db)) (db, 0, 0, 0) = (db', x)"
    by (metis surj_pair)
  with sends_reconcile_nodes [OF this] show ?thesis by (simp add: reconcile_offline_stale_node_tasks_def)
qed

lemma node_op_sends:
  assumes "node_op db db'"
  shows "sends j db' = sends j db"
  using assms
proof cases
  case (nop_create e uid org n kind payload ct cid req parent t)
  then show ?thesis by (simp add: sends_create)
next
  case (nop_protocol e i b)
  then show ?thesis using sends_persist [of j e i db] by simp
next
  case (nop_offline e i r b)
  then show ?thesis using sends_fail_offline [of j e i r db] by simp
next
  case (nop_sweep_cancel e limit m)
  then show ?thesis using sends_sweeps(1) [of j e limit db] by simp
next
  case (nop_sweep_watchdog e limit m)
  then show ?thesis using sends_sweeps(2) [of j e limit db] by simp
next
  case (nop_node_lost e node reason m)
  then show ?thesis using sends_sweeps(3) [of j e node reason db] by simp
next
  case (nop_reconcile e limit c)
  then show ?thesis using sends_reconcile [of j e limit db] by simp
qed (auto dest: sends_accept sends_record_progress sends_complete sends_cancel)

section \<open>The bound\<close>

definition durable :: "node_task \<Rightarrow> bool" where
  "durable t \<longleftrightarrow> (k_correlation_type t, k_kind t) \<in> set ack_durable"

definition row_bounded :: "node_conf \<Rightarrow> nat \<Rightarrow> node_task \<Rightarrow> bool" where
  "row_bounded cf n t \<longleftrightarrow> (durable t \<longrightarrow>
     n \<le> k_delivery_attempts t \<and> k_delivery_attempts t \<le> ack_max_attempts cf
     \<and> (k_status t = N_pending \<and> legacy_marked t \<longrightarrow> k_delivery_attempts t = 0))"

definition delivery_bounded :: "node_conf \<Rightarrow> fleet \<Rightarrow> bool" where
  "delivery_bounded cf db \<longleftrightarrow> ids_distinct db
     \<and> (\<forall>t \<in> set (fl_tasks db). row_bounded cf (sends (k_id t) db) t)
     \<and> (\<forall>i. i \<notin> k_id ` set (fl_tasks db) \<longrightarrow> sends i db = 0)"

lemma row_bounded_keeps:
  assumes "row_bounded cf n t" and "keeps_settled t t'"
  shows "row_bounded cf n t'"
proof (cases "durable t")
  case True
  with assms(1) have t: "n \<le> k_delivery_attempts t" "k_delivery_attempts t \<le> ack_max_attempts cf"
    "k_status t = N_pending \<and> legacy_marked t \<longrightarrow> k_delivery_attempts t = 0"
    by (simp_all add: row_bounded_def)
  from assms(2) have t': "k_delivery_attempts t' = k_delivery_attempts t"
    "k_status t' = N_pending \<longrightarrow> k_status t = N_pending
       \<and> (legacy_marked t' \<longrightarrow> legacy_marked t \<or> k_delivery_attempts t = 0)"
    by (simp_all add: keeps_settled_def)
  show ?thesis unfolding row_bounded_def t'(1) using t t'(2) by blast
next
  case False
  with assms(2) show ?thesis by (simp add: row_bounded_def keeps_settled_def durable_def)
qed

lemma bounded_settles:
  assumes "delivery_bounded cf db" and "settles db db'" and "\<And>i. sends i db' = sends i db"
  shows "delivery_bounded cf db'"
proof -
  have u: "ids_distinct db" using assms(1) by (simp add: delivery_bounded_def)
  have ids: "map k_id (fl_tasks db') = map k_id (fl_tasks db)"
    using assms(2) by (rule rows_by_ids) (simp add: keeps_settled_def)
  have "row_bounded cf (sends (k_id t') db') t'" if t': "t' \<in> set (fl_tasks db')" for t'
  proof -
    from t' obtain j where j: "j < length (fl_tasks db')" "t' = fl_tasks db' ! j"
      by (auto simp: in_set_conv_nth)
    with assms(2) have k: "keeps_settled (fl_tasks db ! j) t'" "j < length (fl_tasks db)"
      by (auto simp: rows_by_def list_all2_conv_all_nth)
    then have "row_bounded cf (sends (k_id (fl_tasks db ! j)) db) (fl_tasks db ! j)"
      using assms(1) by (simp add: delivery_bounded_def)
    from row_bounded_keeps [OF this k(1)] show ?thesis
      using k(1) by (simp add: assms(3) keeps_settled_def)
  qed
  moreover have "k_id ` set (fl_tasks db') = k_id ` set (fl_tasks db)"
    using ids by (metis list.set_map)
  ultimately show ?thesis
    using assms settles_distinct [OF assms(2) u] by (simp add: delivery_bounded_def)
qed

section \<open>What a delivery does to the bound\<close>

lemma bounded_update:
  assumes "delivery_bounded cf db" and "\<And>r. p r \<Longrightarrow> k_id (f r) = k_id r"
    and "\<And>r. r \<in> set (fl_tasks db) \<Longrightarrow> p r \<Longrightarrow> row_bounded cf (sends (k_id r) db) (f r)"
  shows "delivery_bounded cf (db\<lparr>fl_tasks := update_where p f (fl_tasks db)\<rparr>)"
proof -
  have ids: "map k_id (update_where p f (fl_tasks db)) = map k_id (fl_tasks db)"
    using assms(2) by (rule map_update_where)
  then have "k_id ` set (update_where p f (fl_tasks db)) = k_id ` set (fl_tasks db)"
    by (metis list.set_map)
  then show ?thesis
    using assms ids by (auto simp: delivery_bounded_def ids_distinct_def ball_update_where)
qed

lemma bounded_same_tables:
  assumes "delivery_bounded cf db" and "fl_tasks db' = fl_tasks db" and "\<And>i. sends i db' = sends i db"
  shows "delivery_bounded cf db'"
  using assms by (simp add: delivery_bounded_def ids_distinct_def)

lemma bounded_emit_send:
  assumes "delivery_bounded cf db" and "r \<in> set (fl_tasks db)"
    and "durable r \<Longrightarrow> sends (k_id r) db < k_delivery_attempts r"
  shows "delivery_bounded cf (emit (Send_command (k_id r) p) db)"
proof -
  have "row_bounded cf (sends (k_id t) (emit (Send_command (k_id r) p) db)) t"
    if t: "t \<in> set (fl_tasks db)" for t
  proof (cases "k_id t = k_id r")
    case True
    with t assms(1,2) have "t = r" by (auto simp: delivery_bounded_def ids_distinct_def distinct_map inj_on_def)
    moreover have "row_bounded cf (sends (k_id r) db) r" using assms(1,2) by (simp add: delivery_bounded_def)
    ultimately show ?thesis using assms(3) by (auto simp: row_bounded_def)
  next
    case False
    then show ?thesis using assms(1) t by (simp add: delivery_bounded_def)
  qed
  then show ?thesis using assms(1,2) by (auto simp: delivery_bounded_def ids_distinct_def)
qed

text \<open>The copy a dispatcher holds once the protocol has been read under the lock.\<close>

definition current_copy :: "node_task \<Rightarrow> node_task \<Rightarrow> bool" where
  "current_copy t r \<longleftrightarrow> k_id r = k_id t \<and> k_correlation_type r = k_correlation_type t
     \<and> k_kind r = k_kind t
     \<and> (durable t \<longrightarrow> k_result r = k_result t \<and> k_delivery_attempts r = k_delivery_attempts t
          \<and> k_status r = N_pending \<and> k_accepted_at r = None)"

lemma current_copy_durable: "current_copy t r \<Longrightarrow> durable r = durable t"
  by (simp add: current_copy_def durable_def)

lemma only_row:
  assumes "ids_distinct db" and "r \<in> set (fl_tasks db)" and "r' \<in> set (fl_tasks db)" and "k_id r' = k_id r"
  shows "r' = r"
  using assms by (auto simp: ids_distinct_def distinct_map inj_on_def)

text \<open>A change of the dispatcher's row alone.\<close>

lemma bounded_own_row:
  assumes "delivery_bounded cf db" and "r \<in> set (fl_tasks db)"
    and "\<And>x. p x \<Longrightarrow> k_id x = k_id r \<and> k_id (f x) = k_id x"
    and "row_bounded cf (sends (k_id r) db) (f r)"
  shows "delivery_bounded cf (db\<lparr>fl_tasks := update_where p f (fl_tasks db)\<rparr>)"
proof (rule bounded_update)
  fix x assume "x \<in> set (fl_tasks db)" and "p x"
  moreover have "ids_distinct db" using assms(1) by (simp add: delivery_bounded_def)
  ultimately have "x = r" using assms(2,3) only_row by blast
  with assms(4) show "row_bounded cf (sends (k_id x) db) (f x)" by simp
qed (use assms in auto)

lemma bounded_ids: "delivery_bounded cf db \<Longrightarrow> ids_distinct db"
  by (simp add: delivery_bounded_def)

lemma bounded_fail_delivery:
  assumes "delivery_bounded cf db"
  shows "delivery_bounded cf (fail_task_delivery e i known reason db)"
  using assms fail_delivery_settles [OF refl bounded_ids [OF assms]] by (rule bounded_settles) simp

lemma bounded_mark:
  assumes "delivery_bounded cf db"
  shows "delivery_bounded cf (mark_task_reconnecting e i db)"
  using assms mark_reconnecting_settles [OF refl bounded_ids [OF assms]] by (rule bounded_settles) simp

lemma bounded_sync_row:
  "delivery_bounded cf db \<Longrightarrow>
     delivery_bounded cf (case ntask_by_id db i of None \<Rightarrow> db | Some r \<Rightarrow> sync_task_info r db)"
  by (auto split: option.split intro: bounded_same_tables)

lemma bounded_delivery_failed:
  assumes "delivery_bounded cf db" and "r \<in> set (fl_tasks db)" and "k_id r = k_id t"
    and "uses_ack \<Longrightarrow> k_result r = k_result t"
  shows "delivery_bounded cf (delivery_failed e t uses_ack reason db)"
proof (cases uses_ack)
  case True
  have "row_bounded cf (sends (k_id r) db) r" using assms(1,2) by (simp add: delivery_bounded_def)
  then have "row_bounded cf (sends (k_id r) db) (r\<lparr>k_last_error := x,
      k_result := dset (k_result t) ''diagnostic_error_code'' v, k_updated_at := u\<rparr>)" for x v u
    using assms(4) True by (simp add: row_bounded_def durable_def legacy_marked_def protocol_key_def)
  then have "delivery_bounded cf (db\<lparr>fl_tasks :=
      update_where (\<lambda>r. k_id r = k_id t \<and> k_status r = N_pending)
        (\<lambda>r. r\<lparr>k_last_error := x, k_result := dset (k_result t) ''diagnostic_error_code'' v,
               k_updated_at := u\<rparr>) (fl_tasks db)\<rparr>)" for x v u
    using assms(3) by (intro bounded_own_row [OF assms(1,2)]) auto
  then show ?thesis
    unfolding delivery_failed_def Let_def if_P [OF True] by (intro bounded_sync_row)
next
  case False
  with bounded_fail_delivery [OF assms(1)] show ?thesis by (simp add: delivery_failed_def)
qed

text \<open>The claim of an attempt, and the start of a legacy command.\<close>

lemma claim_row:
  assumes "delivery_bounded cf db" and "r \<in> set (fl_tasks db)" and "current_copy t r" and "durable t"
    and "k_delivery_attempts t < ack_max_attempts cf" and "\<not> legacy_marked t"
    and "claim_delivery e t db = Some db'"
  obtains r' where "delivery_bounded cf db'" and "r' \<in> set (fl_tasks db')" and "k_id r' = k_id t"
    and "k_result r' = k_result t" and "durable r'" and "sends (k_id t) db' < k_delivery_attempts r'"
proof -
  define f :: "node_task \<Rightarrow> node_task" where "f = (\<lambda>r. r\<lparr>k_last_delivery_at := Some (ev_now e),
      k_delivery_attempts := Suc (k_delivery_attempts r), k_last_error := [],
      k_dispatched_at := (if k_dispatched_at t = None then Some (ev_now e) else k_dispatched_at r)\<rparr>)"
  have db': "db' = db\<lparr>fl_tasks := update_where (claimable t) f (fl_tasks db)\<rparr>"
    using assms(7) by (simp add: claim_delivery_def f_def split: if_splits)
  have f: "k_id (f x) = k_id x" "k_result (f x) = k_result x" "durable (f x) = durable x"
    "k_delivery_attempts (f x) = Suc (k_delivery_attempts x)" "legacy_marked (f x) = legacy_marked x" for x
    by (simp_all add: f_def durable_def legacy_marked_def)
  have r: "claimable t r" "k_id r = k_id t" "k_result r = k_result t" "durable r"
    "k_delivery_attempts r = k_delivery_attempts t"
    using assms(3,4) current_copy_durable [OF assms(3)] by (simp_all add: current_copy_def claimable_def)
  then have l: "\<not> legacy_marked r" using assms(6) by (simp add: legacy_marked_def)
  have b: "sends (k_id r) db \<le> k_delivery_attempts r"
    using assms(1,2) r(4) by (simp add: delivery_bounded_def row_bounded_def)
  show thesis
  proof (rule that)
    show "delivery_bounded cf db'"
      unfolding db' using assms(1,2)
    proof (rule bounded_own_row)
      show "row_bounded cf (sends (k_id r) db) (f r)"
        using b l assms(5) r(5) by (simp add: row_bounded_def f)
    qed (simp add: claimable_def r(2) f)
    show "f r \<in> set (fl_tasks db')" using assms(2) r(1) by (force simp: db' set_update_where)
    show "sends (k_id t) db' < k_delivery_attempts (f r)" using b r(2) by (simp add: f db')
  qed (use r f in simp_all)
qed

lemma bounded_publish_ack:
  assumes "delivery_bounded cf db" and "r \<in> set (fl_tasks db)" and "current_copy t r" and "durable t"
    and "k_delivery_attempts t < ack_max_attempts cf" and "\<not> legacy_marked t"
    and "claim_delivery e t db = Some db'"
  shows "delivery_bounded cf (publish_command e co t True payload db')"
proof -
  obtain r' where r': "delivery_bounded cf db'" "r' \<in> set (fl_tasks db')" "k_id r' = k_id t"
    "k_result r' = k_result t" "durable r'" "sends (k_id t) db' < k_delivery_attempts r'"
    using assms by (rule claim_row)
  show ?thesis
  proof (cases "co_send co (k_id t)")
    case None
    have "delivery_bounded cf (emit (Send_command (k_id t) payload) db')"
      using bounded_emit_send [OF r'(1,2)] r'(3,6) by simp
    then show ?thesis using None by (simp add: publish_command_def Let_def bounded_sync_row)
  next
    case (Some reason)
    then show ?thesis
      using bounded_delivery_failed [OF r'(1-3)] r'(4) by (simp add: publish_command_def)
  qed
qed

lemma bounded_publish_legacy:
  assumes "delivery_bounded cf db" and "r \<in> set (fl_tasks db)" and "current_copy t r"
    and "durable t \<Longrightarrow> legacy_marked t"
  shows "delivery_bounded cf (publish_command e co t False payload db)"
proof (cases "co_send co (k_id t)")
  case None
  have r: "k_id r = k_id t" "durable r = durable t"
    using assms(3) current_copy_durable [OF assms(3)] by (simp_all add: current_copy_def)
  have b: "row_bounded cf (sends (k_id r) db) r" using assms(1,2) by (simp add: delivery_bounded_def)
  define p :: "node_task \<Rightarrow> bool" where "p = (\<lambda>x. k_id x = k_id t \<and> k_status x = N_pending \<and> k_accepted_at x = None)"
  define f :: "node_task \<Rightarrow> node_task" where "f = (\<lambda>r. r\<lparr>k_status := N_running,
      k_dispatched_at := Some (ev_now e), k_last_delivery_at := Some (ev_now e),
      k_delivery_attempts := Suc (k_delivery_attempts r), k_last_progress_at := Some (ev_now e),
      k_watchdog_deadline_at := initial_watchdog_deadline (ev_conf e) (k_correlation_type t)
        (k_kind t) (k_payload t) (ev_now e),
      k_result := without_delivery_runtime_state (k_result t)\<rparr>)"
  have f: "k_id (f x) = k_id x" "durable (f x) = durable x" "k_status (f x) = N_running"
    "k_delivery_attempts (f x) = Suc (k_delivery_attempts x)" for x
    by (simp_all add: f_def durable_def)
  have start: "start_legacy e t (emit x d) = emit x (d\<lparr>fl_tasks := update_where p f (fl_tasks d)\<rparr>)" for x d
    by (simp add: start_legacy_def emit_def p_def f_def)
  have d: "p r \<and> k_delivery_attempts r = 0" if "durable t"
    using that assms(3,4) b r by (simp add: current_copy_def row_bounded_def p_def legacy_marked_def)
  let ?db = "db\<lparr>fl_tasks := update_where p f (fl_tasks db)\<rparr>"
  have "delivery_bounded cf ?db"
    using assms(1,2)
  proof (rule bounded_own_row)
    show "row_bounded cf (sends (k_id r) db) (f r)"
      using b d r by (auto simp: row_bounded_def f ack_max_attempts_def)
  qed (simp add: p_def r f)
  moreover have "(if p r then f r else r) \<in> set (fl_tasks ?db)"
    using assms(2) by (simp add: set_update_where)
  moreover have "sends (k_id r) db < Suc 0" if "durable t" using that b d r by (auto simp: row_bounded_def)
  ultimately have "delivery_bounded cf (emit (Send_command (k_id t) payload) ?db)"
    using bounded_emit_send [of cf ?db "if p r then f r else r" payload] d r
    by (auto simp: f split: if_split_asm)
  then show ?thesis unfolding publish_command_def None Let_def option.case if_False start
    by (rule bounded_sync_row)
next
  case (Some reason)
  then show ?thesis
    using bounded_delivery_failed [OF assms(1,2), of t False] assms(3)
    by (simp add: publish_command_def current_copy_def)
qed

lemma durable_not_upgrade: "durable t \<Longrightarrow> k_correlation_type t \<noteq> lifecycle_type"
  by (auto simp: durable_def ack_durable_def lifecycle_type_def)

lemma baseline_durable: "durable t \<Longrightarrow> capture_upgrade_baseline e t db = (db, t)"
  using durable_not_upgrade by (simp add: capture_upgrade_baseline_def)

lemma bounded_baseline:
  assumes "delivery_bounded cf db" and "r \<in> set (fl_tasks db)" and "current_copy t r"
    and "\<not> durable t" and "capture_upgrade_baseline e t db = (db', t')"
  obtains r' where "delivery_bounded cf db'" and "r' \<in> set (fl_tasks db')" and "current_copy t' r'"
    and "\<not> durable t'"
proof (cases "db' = db \<and> t' = t")
  case True
  with assms that show ?thesis by blast
next
  case False
  define p :: "node_task \<Rightarrow> bool" where "p = (\<lambda>r. k_id r = k_id t \<and> k_status r = N_pending \<and> k_accepted_at r = None
      \<and> k_dispatched_at r = None)"
  obtain payload where
    d: "db' = db\<lparr>fl_tasks := update_where p (\<lambda>r. r\<lparr>k_payload := payload, k_updated_at := ev_now e\<rparr>) (fl_tasks db)\<rparr>"
      "t' = t \<or> t' = t\<lparr>k_payload := payload\<rparr>"
    using assms(5) False by (auto simp: capture_upgrade_baseline_def p_def Let_def split: option.splits if_splits)
  let ?f = "\<lambda>r :: node_task. r\<lparr>k_payload := payload, k_updated_at := ev_now e\<rparr>"
  have r: "k_id r = k_id t" "\<not> durable r"
    using assms(3,4) by (simp_all add: current_copy_def durable_def)
  have "delivery_bounded cf db'"
    unfolding d(1) using assms(1,2)
  proof (rule bounded_own_row)
    show "row_bounded cf (sends (k_id r) db) (?f r)"
      using r(2) by (simp add: row_bounded_def durable_def)
  qed (simp add: p_def r(1))
  moreover have "(if p r then ?f r else r) \<in> set (fl_tasks db')"
    using assms(2) by (simp add: d(1) set_update_where)
  moreover have "current_copy t' (if p r then ?f r else r)"
    using assms(3,4) d(2) by (auto simp: current_copy_def durable_def)
  moreover have "\<not> durable t'" using assms(4) d(2) by (auto simp: durable_def)
  ultimately show ?thesis by (rule that)
qed

lemma bounded_attempt:
  assumes "delivery_bounded cf db" and "r \<in> set (fl_tasks db)" and "current_copy t r"
    and "uses_ack \<Longrightarrow> durable t \<and> k_delivery_attempts t < ack_max_attempts cf \<and> \<not> legacy_marked t"
    and "\<not> uses_ack \<Longrightarrow> durable t \<Longrightarrow> legacy_marked t"
  shows "delivery_bounded cf (attempt_delivery e co n t given uses_ack db)"
proof -
  have failed: "delivery_bounded cf (delivery_failed e t uses_ack reason d)"
    if "delivery_bounded cf d" "fl_tasks d = fl_tasks db" for d reason
    using that assms(2-4) by (intro bounded_delivery_failed [of cf d r]) (auto simp: current_copy_def)
  have clear: "delivery_bounded cf (emit (Clear_location j) db)" for j
    using assms(1) by (rule bounded_same_tables) simp_all
  obtain db1 t1 where b: "capture_upgrade_baseline e t db = (db1, t1)" by (metis surj_pair)
  have ack: "delivery_bounded cf (publish_command e co t True payload d)"
    if "uses_ack" "claim_delivery e t db = Some d" for payload d
    using that assms by (intro bounded_publish_ack [of cf db r]) auto
  have legacy: "delivery_bounded cf (publish_command e co t1 False payload db1)" if "\<not> uses_ack" for payload
  proof (cases "durable t")
    case True
    with b that assms show ?thesis
      by (intro bounded_publish_legacy [of cf db1 r]) (auto simp: baseline_durable)
  next
    case False
    then show ?thesis
      using bounded_baseline [OF assms(1-3) False b] bounded_publish_legacy by metis
  qed
  have "uses_ack \<Longrightarrow> db1 = db \<and> t1 = t" using assms(4) b by (simp add: baseline_durable)
  then have "delivery_bounded cf (if uses_ack then case claim_delivery e t1 db1 of None \<Rightarrow> db1
      | Some d \<Rightarrow> publish_command e co t1 True payload d else publish_command e co t1 False payload db1)" for payload
    using ack legacy assms(1) by (auto split: option.split)
  then show ?thesis
    unfolding attempt_delivery_def b Let_def
    using failed [OF assms(1) refl] failed [OF clear] bounded_mark [OF assms(1)] bounded_fail_delivery [OF assms(1)]
    by (auto split: sum.split route_state.split)
qed

section \<open>Dispatchers\<close>

text \<open>A copy was read from the store at some time; what never changes of a row still agrees.\<close>

definition copy_of :: "node_task \<Rightarrow> fleet \<Rightarrow> bool" where
  "copy_of t db \<longleftrightarrow> (\<exists>r \<in> set (fl_tasks db). k_id r = k_id t
     \<and> k_correlation_type r = k_correlation_type t \<and> k_kind r = k_kind t)"

lemma copy_of_row: "t \<in> set (fl_tasks db) \<Longrightarrow> copy_of t db"
  by (auto simp: copy_of_def)

lemma copy_of_settles:
  assumes "copy_of t db" and "settles db db'"
  shows "copy_of t db'"
proof -
  from assms(1) obtain j where j: "j < length (fl_tasks db)" "k_id (fl_tasks db ! j) = k_id t"
    "k_correlation_type (fl_tasks db ! j) = k_correlation_type t" "k_kind (fl_tasks db ! j) = k_kind t"
    by (auto simp: copy_of_def in_set_conv_nth)
  with assms(2) have "keeps_settled (fl_tasks db ! j) (fl_tasks db' ! j)" "j < length (fl_tasks db')"
    by (auto simp: rows_by_def list_all2_conv_all_nth)
  with j show ?thesis by (auto simp: copy_of_def keeps_settled_def intro!: bexI [of _ "fl_tasks db' ! j"])
qed

lemma bounded_persist:
  assumes "delivery_bounded cf db" and "persist_delivery_protocol e i db = (db', b)"
  shows "delivery_bounded cf db'"
  using assms(1) persist_settles [OF assms(2) bounded_ids [OF assms(1)]]
  by (rule bounded_settles) (use sends_persist [of _ e i db] assms(2) in simp)

text \<open>What the lock of \<^verbatim>\<open>_persist_delivery_protocol\<close> gives a dispatcher.\<close>

lemma persist_answer:
  assumes "ids_distinct db" and "persist_delivery_protocol e i db = (db', b)"
    and "r \<in> set (fl_tasks db')" and "k_id r = i" and "k_status r = N_pending" and "k_accepted_at r = None"
  shows "b \<longleftrightarrow> durable r \<and> text_or_empty (dget (k_result r) protocol_key) = ''command_ack_v1''"
    and "durable r \<Longrightarrow> \<not> b \<Longrightarrow> legacy_marked r"
proof -
  have u: "ids_distinct db'" using persist_settles [OF assms(2,1)] assms(1) by (rule settles_distinct)
  have "i \<in> k_id ` set (fl_tasks db)"
    using rows_by_ids [OF persist_settles [OF assms(2,1)]] assms(3,4)
    by (metis image_eqI keeps_settled_def list.set_map same_command_def)
  then obtain t where t: "ntask_by_id db i = Some t" using assms(1) by (auto simp: ntask_by_id_iff)
  note m = ntask_by_id_Some [OF t]
  have r: "ntask_by_id db' i = Some r" using u assms(3,4) by (simp add: ntask_by_id_iff)
  have same: "r = t" if "db' = db" using that r t by simp
  have saved: "r = x" if "db' = save_ntask x db" "k_id x = i" for x
  proof -
    have "x \<in> set (fl_tasks db')" using that m by (force simp: save_ntask_def set_update_where)
    with u assms(3,4) that(2) show ?thesis by (intro only_row) simp_all
  qed
  have "(b \<longleftrightarrow> durable r \<and> text_or_empty (dget (k_result r) protocol_key) = ''command_ack_v1'')
      \<and> (durable r \<longrightarrow> \<not> b \<longrightarrow> legacy_marked r)"
  proof (cases "durable t \<and> k_status t = N_pending \<and> k_accepted_at t = None
      \<and> text_or_empty (dget (k_result t) protocol_key) \<notin> {''command_ack_v1'', ''legacy''}")
    case False
    then have "db' = db" "b = (durable t \<and> k_status t = N_pending \<and> k_accepted_at t = None
        \<and> text_or_empty (dget (k_result t) protocol_key) = ''command_ack_v1'')"
      using assms(2) t by (auto simp: persist_delivery_protocol_def durable_def Let_def split: if_split_asm)
    with same False assms(5,6) show ?thesis by (auto simp: legacy_marked_def)
  next
    case True
    define x where "x = t\<lparr>k_result := dset (k_result t) protocol_key
        (JStr (if b then ''command_ack_v1'' else ''legacy'')),
      k_watchdog_deadline_at := (if b then after e (max 1 (cf_command_ack_max_age (ev_conf e)))
        else k_watchdog_deadline_at t), k_updated_at := ev_now e\<rparr>"
    have "db' = save_ntask x db"
      using True assms(2) t by (auto simp: persist_delivery_protocol_def durable_def Let_def x_def)
    then have "r = x" using saved m by (simp add: x_def)
    with True show ?thesis by (auto simp: x_def durable_def legacy_marked_def)
  qed
  then show "b \<longleftrightarrow> durable r \<and> text_or_empty (dget (k_result r) protocol_key) = ''command_ack_v1''"
    "durable r \<Longrightarrow> \<not> b \<Longrightarrow> legacy_marked r" by blast+
qed

lemma persist_durable:
  "persist_delivery_protocol e i db = (db', True) \<Longrightarrow> \<exists>t. ntask_by_id db i = Some t \<and> durable t"
  by (auto simp: persist_delivery_protocol_def durable_def split: option.splits if_splits)

lemma copy_of_durable:
  assumes "copy_of t db" and "ids_distinct db" and "ntask_by_id db (k_id t) = Some r"
  shows "durable r = durable t"
  using assms only_row by (fastforce simp: copy_of_def durable_def ntask_by_id_iff)

text \<open>The copy after the lock, when the command is still waiting.\<close>

lemma refreshed_current:
  assumes "delivery_bounded cf db" and "copy_of t db" and "persist_delivery_protocol e (k_id t) db = (db', b)"
    and "k_status (refreshed_copy t db') = N_pending" and "k_accepted_at (refreshed_copy t db') = None"
  obtains r where "r \<in> set (fl_tasks db')" and "current_copy (refreshed_copy t db') r"
    and "b \<Longrightarrow> durable (refreshed_copy t db') \<and> \<not> legacy_marked (refreshed_copy t db')"
    and "\<not> b \<Longrightarrow> durable (refreshed_copy t db') \<Longrightarrow> legacy_marked (refreshed_copy t db')"
proof -
  have u: "ids_distinct db" using assms(1) by (rule bounded_ids)
  note st = persist_settles [OF assms(3) u]
  note u' = settles_distinct [OF st u]
  from copy_of_settles [OF assms(2) st] obtain r where r: "r \<in> set (fl_tasks db')" "k_id r = k_id t"
    "k_correlation_type r = k_correlation_type t" "k_kind r = k_kind t" by (auto simp: copy_of_def)
  with u' have n: "ntask_by_id db' (k_id t) = Some r" by (simp add: ntask_by_id_iff)
  let ?t = "refreshed_copy t db'"
  have d: "durable ?t = durable r"
    using r n by (simp add: refreshed_copy_def durable_def Let_def)
  show thesis
  proof (cases "durable t")
    case True
    then have p: "k_status r = N_pending" "k_accepted_at r = None"
      using assms(4,5) n by (auto simp: refreshed_copy_def durable_def Let_def split: if_split_asm)
    have c: "current_copy ?t r"
      using True n r p by (simp add: refreshed_copy_def durable_def current_copy_def Let_def)
    have e: "k_result ?t = k_result r" using True n p by (simp add: refreshed_copy_def durable_def Let_def)
    show thesis
      using persist_answer [OF u assms(3) r(1,2) p] d e
      by (intro that [OF r(1) c]) (auto simp: legacy_marked_def)
  next
    case False
    then have t: "?t = t" by (simp add: refreshed_copy_def durable_def)
    have nb: "\<not> b"
      using persist_durable [of e "k_id t" db db'] assms(3) copy_of_durable [OF assms(2) u] False by auto
    have "current_copy ?t r" using False r by (simp add: t current_copy_def)
    with that [OF r(1)] nb False t show thesis by simp
  qed
qed

lemma bounded_deliver_copy:
  assumes "delivery_bounded cf db" and "copy_of t db" and "deliver_copy e co t given again db = Inr (db', t')"
    and "again \<Longrightarrow> persist_delivery_protocol e (k_id t) db = (db, True)
      \<and> k_delivery_attempts (refreshed_copy t db) < ack_max_attempts cf"
  shows "delivery_bounded cf db'"
proof (cases "k_status t \<noteq> N_pending \<or> k_accepted_at t \<noteq> None")
  case True
  with assms(1,3) show ?thesis by (auto simp: deliver_copy_def)
next
  case False
  obtain d b where p: "persist_delivery_protocol e (k_id t) db = (d, b)" by (metis surj_pair)
  note bd = bounded_persist [OF assms(1) p]
  let ?t = "refreshed_copy t d"
  from assms(3) False p have "db' = d \<or> (k_status ?t = N_pending \<and> k_accepted_at ?t = None
      \<and> (b \<longrightarrow> 0 < k_delivery_attempts ?t \<longrightarrow> again)
      \<and> (\<exists>n. db' = attempt_delivery e co n ?t given b d))"
    by (auto simp: deliver_copy_def Let_def split: option.splits if_splits)
  then show ?thesis
  proof
    assume "db' = d" with bd show ?thesis by simp
  next
    assume a: "k_status ?t = N_pending \<and> k_accepted_at ?t = None
      \<and> (b \<longrightarrow> 0 < k_delivery_attempts ?t \<longrightarrow> again) \<and> (\<exists>n. db' = attempt_delivery e co n ?t given b d)"
    then obtain n where n: "db' = attempt_delivery e co n ?t given b d" by blast
    from a obtain r where r: "r \<in> set (fl_tasks d)" "current_copy ?t r"
      "b \<Longrightarrow> durable ?t \<and> \<not> legacy_marked ?t" "\<not> b \<Longrightarrow> durable ?t \<Longrightarrow> legacy_marked ?t"
      using refreshed_current [OF assms(1,2) p] by blast
    have "k_delivery_attempts ?t < ack_max_attempts cf" if b
    proof (cases "k_delivery_attempts ?t = 0")
      case True
      then show ?thesis by (simp add: ack_max_attempts_def)
    next
      case False
      with a that have again by simp
      with assms(4) p show ?thesis by simp
    qed
    then show ?thesis unfolding n using bd r by (intro bounded_attempt [of cf d r]) auto
  qed
qed

lemma bounded_deliver:
  assumes "delivery_bounded cf db" and "copy_of t db"
    and "deliver_agent_task e co t given again db = Inr (db', t')"
    and "again \<Longrightarrow> persist_delivery_protocol e (k_id t) db = (db, True)
      \<and> k_delivery_attempts (refreshed_copy t db) < ack_max_attempts cf"
  shows "delivery_bounded cf db'"
proof (cases "is_managed_workspace_restore t")
  case False
  with assms(3) have "deliver_copy e co t given again db = Inr (db', t')"
    by (simp add: deliver_agent_task_def)
  from bounded_deliver_copy [OF assms(1,2) this assms(4)] show ?thesis .
next
  case True
  then have nd: "\<not> durable t"
    by (auto simp: durable_def ack_durable_def is_managed_workspace_restore_def)
  from True assms(3) obtain r where r: "ntask_by_id db (k_id t) = Some r"
    "deliver_copy e co r given again db = Inr (db', t')" by (auto simp: deliver_agent_task_def)
  have u: "ids_distinct db" using assms(1) by (rule bounded_ids)
  have "\<not> durable r" using copy_of_durable [OF assms(2) u r(1)] nd by simp
  then have "\<not> again" using persist_durable assms(4) r(1) by fastforce
  then show ?thesis
    using bounded_deliver_copy [OF assms(1) copy_of_row r(2)] ntask_by_id_Some [OF r(1)] by blast
qed

lemma timeout_unaccepted_settles:
  assumes "timeout_unaccepted_task e i code message db = (db', b)" and "ids_distinct db"
  shows "settles db db' \<and> (\<forall>j. sends j db' = sends j db)"
proof (cases "first_where (\<lambda>t. k_id t = i \<and> k_status t = N_pending \<and> k_accepted_at t = None) (fl_tasks db)")
  case None
  then show ?thesis using assms(1) by (auto simp: timeout_unaccepted_task_def intro: settles_refl)
next
  case (Some t)
  note m = first_where_Some [OF Some]
  define x where "x = t\<lparr>k_status := N_timeout, k_last_error := code @ '': '' @ message,
    k_result := dset (dset (dset (ddel protocol_key (k_result t)) ''diagnostic_error_code'' (JStr code))
      ''delivery_timeout_sealed'' (JBool True)) ''delivery_attempt_count''
      (JInt (int (k_delivery_attempts t))), k_updated_at := ev_now e\<rparr>"
  from Some assms(1) have "fl_tasks db' = fl_tasks (save_ntask x db)" "\<forall>j. sends j db' = sends j db"
    by (auto simp: timeout_unaccepted_task_def Let_def x_def)
  moreover have "keeps_settled t x" using m by (simp add: keeps_settled_def x_def)
  ultimately show ?thesis using settles_save [OF assms(2)] m by blast
qed

text \<open>The protocol is chosen once: reading it again changes nothing.\<close>

lemma persist_again:
  assumes "ids_distinct db" and "persist_delivery_protocol e i db = (d, True)"
  obtains r where "persist_delivery_protocol e i d = (d, True)" and "ntask_by_id d i = Some r"
    and "k_status r = N_pending" and "k_accepted_at r = None" and "durable r"
proof -
  obtain t where t: "ntask_by_id db i = Some t" "durable t" using persist_durable [OF assms(2)] by blast
  then have p: "k_status t = N_pending" "k_accepted_at t = None"
    using assms(2) by (auto simp: persist_delivery_protocol_def durable_def split: if_splits)
  note m = ntask_by_id_Some [OF t(1)]
  note u = settles_distinct [OF persist_settles [OF assms(2,1)] assms(1)]
  have "\<exists>r. ntask_by_id d i = Some r \<and> k_status r = N_pending \<and> k_accepted_at r = None
    \<and> k_correlation_type r = k_correlation_type t \<and> k_kind r = k_kind t"
  proof (cases "d = db")
    case True
    with t p show ?thesis by simp
  next
    case False
    define x where "x = t\<lparr>k_result := dset (k_result t) protocol_key (JStr ''command_ack_v1''),
      k_watchdog_deadline_at := after e (max 1 (cf_command_ack_max_age (ev_conf e))), k_updated_at := ev_now e\<rparr>"
    have "d = save_ntask x db"
      using False assms(2) t p by (auto simp: persist_delivery_protocol_def durable_def Let_def x_def split: if_split_asm)
    then have "x \<in> set (fl_tasks d)" using m by (force simp: save_ntask_def set_update_where x_def)
    with u have "ntask_by_id d i = Some x" using m by (simp add: ntask_by_id_iff x_def)
    with p show ?thesis by (auto simp: x_def)
  qed
  then obtain r where r: "ntask_by_id d i = Some r" "k_status r = N_pending" "k_accepted_at r = None"
    "k_correlation_type r = k_correlation_type t" "k_kind r = k_kind t" by blast
  then have dr: "durable r" using t(2) by (simp add: durable_def)
  have "text_or_empty (dget (k_result r) protocol_key) = ''command_ack_v1''"
    using persist_answer(1) [OF assms, of r] r ntask_by_id_Some [OF r(1)] by simp
  then have "persist_delivery_protocol e i d = (d, True)"
    using r dr by (simp add: persist_delivery_protocol_def durable_def)
  with r dr that show thesis by blast
qed

lemma refreshed_again:
  assumes "ntask_by_id d (k_id t) = Some r" and "k_status r = N_pending" and "k_accepted_at r = None"
  shows "k_delivery_attempts (refreshed_copy (refreshed_copy t d) d) = k_delivery_attempts (refreshed_copy t d)"
    and "k_id (refreshed_copy t d) = k_id t"
    and "copy_of t d \<Longrightarrow> copy_of (refreshed_copy t d) d"
  using assms by (auto simp: refreshed_copy_def copy_of_def Let_def)

lemma bounded_candidate:
  assumes "delivery_bounded (ev_conf e) db" and "copy_of t db"
    and "reconcile_candidate e co t (db, r) = Inr (db', r')"
  shows "delivery_bounded (ev_conf e) db'"
proof -
  obtain d b where p: "persist_delivery_protocol e (k_id t) db = (d, b)" by (metis surj_pair)
  note bd = bounded_persist [OF assms(1) p]
  have u: "ids_distinct db" using assms(1) by (rule bounded_ids)
  show ?thesis
  proof (cases b)
    case False
    with assms(3) p bd show ?thesis by (simp add: reconcile_candidate_def)
  next
    case True
    with p have p: "persist_delivery_protocol e (k_id t) db = (d, True)" by simp
    obtain x where x: "persist_delivery_protocol e (k_id t) d = (d, True)" "ntask_by_id d (k_id t) = Some x"
      "k_status x = N_pending" "k_accepted_at x = None" using persist_again [OF u p] by metis
    let ?t = "refreshed_copy t d"
    note again = refreshed_again [OF x(2-4)]
    have c: "copy_of ?t d" using again(3) copy_of_settles [OF assms(2) persist_settles [OF p u]] by simp
    have "db' = d \<or> (\<exists>code message b. timeout_unaccepted_task e (k_id ?t) code message d = (db', b))
      \<or> (k_delivery_attempts ?t < ack_max_attempts (ev_conf e)
          \<and> (\<exists>t'. deliver_agent_task e co ?t None True d = Inr (db', t')))"
      using assms(3) p
      by (auto simp: reconcile_candidate_def Let_def split: option.splits prod.splits if_split_asm)
    then consider "db' = d" | code message b where "timeout_unaccepted_task e (k_id ?t) code message d = (db', b)"
      | t' where "k_delivery_attempts ?t < ack_max_attempts (ev_conf e)"
          "deliver_agent_task e co ?t None True d = Inr (db', t')" by blast
    then show ?thesis
    proof cases
      case 1
      with bd show ?thesis by simp
    next
      case (2 code message b)
      from timeout_unaccepted_settles [OF 2 bounded_ids [OF bd]] bd show ?thesis
        by (auto intro: bounded_settles)
    next
      case (3 t')
      have "persist_delivery_protocol e (k_id ?t) d = (d, True)
          \<and> k_delivery_attempts (refreshed_copy ?t d) < ack_max_attempts (ev_conf e)"
        using again x(1) 3(1) by simp
      with bounded_deliver [OF bd c 3(2)] show ?thesis by blast
    qed
  qed
qed

text \<open>Identities and kinds of the rows, which no delivery changes.\<close>

definition kinds :: "fleet \<Rightarrow> (nat \<times> string \<times> string) list" where
  "kinds db = map (\<lambda>t. (k_id t, k_correlation_type t, k_kind t)) (fl_tasks db)"

lemma copy_of_kinds: "copy_of t db \<longleftrightarrow> (k_id t, k_correlation_type t, k_kind t) \<in> set (kinds db)"
  unfolding copy_of_def kinds_def set_map image_iff prod.inject by metis

lemma kinds_settles: "settles db db' \<Longrightarrow> kinds db' = kinds db"
  by (auto simp: kinds_def rows_by_def list_all2_conv_all_nth list_eq_iff_nth_eq keeps_settled_def)

lemma kinds_update:
  "(\<And>r. p r \<Longrightarrow> k_id (f r) = k_id r \<and> k_correlation_type (f r) = k_correlation_type r \<and> k_kind (f r) = k_kind r)
     \<Longrightarrow> kinds (db\<lparr>fl_tasks := update_where p f (fl_tasks db)\<rparr>) = kinds db"
  unfolding kinds_def by (simp add: map_update_where)

lemma kinds_frame [simp]:
  "kinds (emit x db) = kinds db" "kinds (sync_task_info t db) = kinds db"
  by (simp_all add: kinds_def)

lemma kinds_sync_row [simp]:
  "kinds (case ntask_by_id db i of None \<Rightarrow> db | Some r \<Rightarrow> sync_task_info r db) = kinds db"
  by (simp split: option.split)

lemma kinds_failed:
  assumes "ids_distinct db"
  shows "kinds (delivery_failed e t uses_ack reason db) = kinds db"
  using kinds_settles [OF fail_delivery_settles [OF refl assms]]
  by (simp add: delivery_failed_def Let_def kinds_update)

lemma ids_kinds: "kinds db' = kinds db \<Longrightarrow> ids_distinct db' = ids_distinct db"
proof -
  have "map k_id (fl_tasks d) = map fst (kinds d)" for d by (simp add: kinds_def)
  then show "kinds db' = kinds db \<Longrightarrow> ids_distinct db' = ids_distinct db" by (simp add: ids_distinct_def)
qed

lemma kinds_publish:
  assumes "ids_distinct db"
  shows "kinds (publish_command e co t uses_ack payload db) = kinds db"
proof (cases "co_send co (k_id t)")
  case None
  have "kinds (if uses_ack then d else start_legacy e t d) = kinds d" for d
    by (simp add: start_legacy_def kinds_update)
  then show ?thesis by (simp add: publish_command_def None Let_def)
next
  case (Some reason)
  then show ?thesis using kinds_failed [OF assms] by (simp add: publish_command_def)
qed

lemma kinds_claim: "claim_delivery e t db = Some d \<Longrightarrow> kinds d = kinds db"
  by (auto simp: claim_delivery_def kinds_update split: if_splits)

lemma kinds_baseline: "kinds (fst (capture_upgrade_baseline e t db)) = kinds db"
  by (simp add: capture_upgrade_baseline_def Let_def kinds_update split: option.split)

lemma kinds_attempt:
  assumes "ids_distinct db"
  shows "kinds (attempt_delivery e co n t given uses_ack db) = kinds db"
proof -
  obtain d t1 where b: "capture_upgrade_baseline e t db = (d, t1)" by (metis surj_pair)
  have k: "kinds d = kinds db" using kinds_baseline [of e t db] b by simp
  have u: "ids_distinct d" using ids_kinds [OF k] assms by simp
  have "kinds (publish_command e co t1 True payload c) = kinds db" if c: "claim_delivery e t1 d = Some c" for payload c
    using kinds_publish [of c] kinds_claim [OF c] ids_kinds [OF kinds_claim [OF c]] u k by simp
  then have "kinds (if uses_ack then case claim_delivery e t1 d of None \<Rightarrow> d
      | Some c \<Rightarrow> publish_command e co t1 True payload c else publish_command e co t1 False payload d) = kinds db"
    for payload using k kinds_publish [OF u] by (simp split: option.split)
  moreover have "kinds (delivery_failed e t uses_ack reason db) = kinds db"
    "kinds (delivery_failed e t uses_ack reason (emit x db)) = kinds db"
    "kinds (fail_task_delivery e i known reason db) = kinds db"
    "kinds (mark_task_reconnecting e i db) = kinds db" for reason x i known
    using assms kinds_failed [of "emit x db"] kinds_settles [OF fail_delivery_settles [OF refl assms]]
      kinds_settles [OF mark_reconnecting_settles [OF refl assms]] kinds_failed [OF assms]
    by (simp_all add: ids_distinct_def)
  ultimately show ?thesis
    unfolding attempt_delivery_def b Let_def by (auto split: sum.split route_state.split)
qed

lemma kinds_persist:
  "ids_distinct db \<Longrightarrow> persist_delivery_protocol e i db = (d, b) \<Longrightarrow> kinds d = kinds db"
  using persist_settles kinds_settles by blast

lemma kinds_deliver_copy:
  assumes "ids_distinct db" and "deliver_copy e co t given again db = Inr (db', t')"
  shows "kinds db' = kinds db"
proof -
  obtain d b where p: "persist_delivery_protocol e (k_id t) db = (d, b)" by (metis surj_pair)
  note k = kinds_persist [OF assms(1) p]
  from assms(2) p have "db' = db \<or> db' = d
      \<or> (\<exists>n. db' = attempt_delivery e co n (refreshed_copy t d) given b d)"
    by (auto simp: deliver_copy_def Let_def split: option.splits if_splits)
  then show ?thesis using k kinds_attempt ids_kinds [OF k] assms(1) by auto
qed

lemma kinds_deliver:
  assumes "ids_distinct db" and "deliver_agent_task e co t given again db = Inr (db', t')"
  shows "kinds db' = kinds db"
  using assms(2) kinds_deliver_copy [OF assms(1)]
  by (auto simp: deliver_agent_task_def split: if_splits)

lemma kinds_candidate:
  assumes "ids_distinct db" and "reconcile_candidate e co t (db, r) = Inr (db', r')"
  shows "kinds db' = kinds db"
proof -
  obtain d b where p: "persist_delivery_protocol e (k_id t) db = (d, b)" by (metis surj_pair)
  note k = kinds_persist [OF assms(1) p]
  have u: "ids_distinct d" using ids_kinds [OF k] assms(1) by simp
  have "db' = d \<or> (\<exists>i code message b. timeout_unaccepted_task e i code message d = (db', b))
    \<or> (\<exists>t t'. deliver_agent_task e co t None True d = Inr (db', t'))"
    using assms(2) p
    by (auto simp: reconcile_candidate_def Let_def split: option.splits prod.splits if_split_asm)
  then show ?thesis
    using k kinds_deliver [OF u] timeout_unaccepted_settles [OF _ u] kinds_settles by metis
qed

section \<open>The step relation\<close>

inductive delivery_op :: "node_conf \<Rightarrow> fleet \<Rightarrow> fleet \<Rightarrow> bool" for cf where
  dop_other: "node_op db db' \<Longrightarrow> delivery_op cf db db'"
| dop_deliver: "deliver_agent_task e co t given False db = Inr (db', t') \<Longrightarrow> copy_of t db
    \<Longrightarrow> ev_conf e = cf \<Longrightarrow> delivery_op cf db db'"
| dop_redeliver: "redeliver_pending_agent_task e co i db = Inr (db', x) \<Longrightarrow> ev_conf e = cf
    \<Longrightarrow> delivery_op cf db db'"
| dop_dispatch: "dispatch_task e co uid org n kind payload ct cid req parent db = Inr (db', t)
    \<Longrightarrow> uid \<notin> k_id ` set (fl_tasks db) \<Longrightarrow> ev_conf e = cf \<Longrightarrow> delivery_op cf db db'"
| dop_reconcile: "reconcile_unaccepted_agent_tasks e co limit db = Inr (db', r) \<Longrightarrow> ev_conf e = cf
    \<Longrightarrow> delivery_op cf db db'"

lemma bounded_node_op:
  assumes "node_op db db'" and "delivery_bounded cf db"
  shows "delivery_bounded cf db'"
  using node_op_settles [OF assms(1) bounded_ids [OF assms(2)]]
proof
  assume "settles db db'"
  with assms(2) show ?thesis by (rule bounded_settles) (rule node_op_sends [OF assms(1)])
next
  assume "\<exists>t. fl_tasks db' = fl_tasks db @ [t] \<and> k_id t \<notin> k_id ` set (fl_tasks db)
    \<and> k_delivery_attempts t = 0"
  then obtain t where t: "fl_tasks db' = fl_tasks db @ [t]" "k_id t \<notin> k_id ` set (fl_tasks db)"
    "k_delivery_attempts t = 0" by blast
  with assms(2) have "row_bounded cf (sends (k_id t) db') t"
    by (simp add: delivery_bounded_def row_bounded_def node_op_sends [OF assms(1)])
  with t assms(2) show ?thesis
    by (auto simp: delivery_bounded_def node_op_sends [OF assms(1)] ids_distinct_def)
qed

lemma bounded_loop:
  assumes "delivery_bounded (ev_conf e) db" and "\<forall>t \<in> set ts. copy_of t db"
    and "rfold (reconcile_candidate e co) ts (db, r) = Inr (db', r')"
  shows "delivery_bounded (ev_conf e) db'"
proof -
  have "delivery_bounded (ev_conf e) (fst (db', r')) \<and> kinds (fst (db', r')) = kinds db"
    using assms(3)
  proof (rule rfold_invariant)
    fix t s s' assume t: "t \<in> set ts" and s: "delivery_bounded (ev_conf e) (fst s) \<and> kinds (fst s) = kinds db"
      and st: "reconcile_candidate e co t s = Inr s'"
    obtain d r d' r' where eq: "s = (d, r)" "s' = (d', r')" by (metis surj_pair)
    have "copy_of t d" using t s assms(2) by (simp add: eq copy_of_kinds)
    then show "delivery_bounded (ev_conf e) (fst s') \<and> kinds (fst s') = kinds db"
      using s st bounded_candidate [of e d t co r d' r'] kinds_candidate [OF bounded_ids, of "ev_conf e" d e co t r d' r']
      by (simp add: eq)
  qed (use assms(1) in simp)
  then show ?thesis by simp
qed

lemma bounded_reconcile:
  assumes "delivery_bounded (ev_conf e) db"
    and "reconcile_unaccepted_agent_tasks e co limit db = Inr (db', r)"
  shows "delivery_bounded (ev_conf e) db'"
proof (cases "ev_recovery_hold e")
  case True
  have "row_bounded cf n (t\<lparr>k_watchdog_deadline_at := w, k_updated_at := u\<rparr>) = row_bounded cf n t" for cf n t w u
    by (simp add: row_bounded_def durable_def)
  then have "delivery_bounded (ev_conf e) (extend_waiting e db)"
    unfolding extend_waiting_def using assms(1)
    by (intro bounded_update) (simp_all add: delivery_bounded_def)
  with assms(2) True show ?thesis by (simp add: reconcile_unaccepted_agent_tasks_def)
next
  case False
  let ?ts = "take (max 1 limit) (sort_key (\<lambda>t. (k_created_at t, k_id t)) (filter ack_candidate (fl_tasks db)))"
  have "\<forall>t \<in> set ?ts. copy_of t db" by (auto dest!: in_set_takeD intro: copy_of_row)
  with assms False show ?thesis
    by (auto simp: reconcile_unaccepted_agent_tasks_def Let_def intro: bounded_loop)
qed

lemma bounded_step:
  assumes "delivery_op cf db db'" and "delivery_bounded cf db"
  shows "delivery_bounded cf db'"
  using assms(1)
proof cases
  case dop_other
  then show ?thesis using assms(2) by (rule bounded_node_op)
next
  case (dop_deliver e co t given t')
  from bounded_deliver [OF assms(2) dop_deliver(2,1)] show ?thesis by simp
next
  case (dop_redeliver e co i x)
  then consider "db' = db" | t t' where "ntask_by_id db i = Some t"
      "deliver_agent_task e co t None False db = Inr (db', t')"
    by (auto simp: redeliver_pending_agent_task_def split: option.splits if_splits)
  then show ?thesis
  proof cases
    case 1
    with assms(2) show ?thesis by simp
  next
    case (2 t t')
    then have "copy_of t db" using ntask_by_id_Some copy_of_row by blast
    from bounded_deliver [OF assms(2) this 2(2)] show ?thesis by simp
  qed
next
  case (dop_dispatch e co uid org n kind payload ct cid req parent t)
  then obtain d t' where d: "create_agent_task e uid org n kind payload ct cid req parent db = Inr (d, t)"
    "deliver_agent_task e co t None False d = Inr (db', t')"
    by (auto simp: dispatch_task_def)
  have "delivery_bounded cf d"
    using nop_create [OF d(1) dop_dispatch(2)] assms(2) by (rule bounded_node_op)
  moreover have "copy_of t d"
    using d(1) by (intro copy_of_row) (auto simp: create_agent_task_def Let_def)
  ultimately show ?thesis using bounded_deliver [OF _ _ d(2)] by blast
next
  case (dop_reconcile e co limit r)
  then show ?thesis using bounded_reconcile assms(2) by blast
qed

interpretation delivery_system: preserved "delivery_op cf" "delivery_bounded cf" for cf
  by unfold_locales (rule bounded_step)

end
