(* ===== verification/Node_Claims.thy ===== *)
theory Node_Claims
  imports Node_Correct
begin

text \<open>The properties of the node-task services, with a small fleet on which they are applied.\<close>

section \<open>A small fleet\<close>

definition example_conf :: node_conf where
  "example_conf = \<lparr>cf_task_watchdog = 60, cf_insight_watchdog = 1800,
     cf_repository_initialize_watchdog = 600, cf_automatic_probe_watchdog = 60,
     cf_source_nas_probe_timeout = 120, cf_snapshot_delete_watchdog = 3600,
     cf_command_ack_max_age = 600, cf_route_reconnect_grace = 30, cf_path_size_watchdog = 7200,
     cf_cancel_grace = 300, cf_reconnect_grace = 90, cf_offline_task_fail = 90,
     cf_lifecycle_detached_timeout = 600, cf_upgrade_download_stall = 300,
     cf_uplink_projection_grace = 30, cf_result_uplink_projection_grace = 300,
     cf_backup_activity_lease = 300, cf_restore_activity_lease = 300, cf_agent_loc_ttl = 90,
     cf_command_ack_timeout = 30, cf_command_ack_max_retries = 3\<rparr>"

definition example_env :: "int \<Rightarrow> env" where
  "example_env now = \<lparr>ev_now = seconds now, ev_conf = example_conf, ev_routable = (\<lambda>i. True),
     ev_location = (\<lambda>i. True), ev_live_instance = True, ev_recovery_hold = False,
     ev_session = (\<lambda>i. None), ev_uplink = (\<lambda>i. None)\<rparr>"

definition example_node :: node where
  "example_node = \<lparr>n_id = 5, n_org = Some 7, n_scope = Scope_organization, n_role = Agent_role,
     n_status = Node_active, n_availability = Online, n_last_seen_at = Some 0, n_updated_at = 0,
     n_metadata = JObj [], n_is_deleted = False\<rparr>"

definition command :: "nat \<Rightarrow> string \<Rightarrow> string \<Rightarrow> ntask_status \<Rightarrow> int option \<Rightarrow> int \<Rightarrow> node_task" where
  "command i ct kind st cancel deadline =
     \<lparr>k_id = i, k_org = Some 7, k_requesting_org = Some 7, k_node = 5, k_correlation_type = ct,
      k_correlation_id = ''c'', k_parent_task = None, k_kind = kind, k_payload = [], k_result = [],
      k_status = st, k_dispatched_at = Some 0, k_accepted_at = (if st = N_pending then None else Some 0),
      k_last_delivery_at = Some 0, k_delivery_attempts = 1, k_last_progress_at = None,
      k_cancel_requested_at = cancel, k_watchdog_deadline_at = deadline, k_last_error = [],
      k_created_at = 0, k_updated_at = 0\<rparr>"

definition example_fleet :: fleet where
  "example_fleet = \<lparr>fl_nodes = [example_node],
     fl_tasks = [command 1 ''repository_create'' ''repo.initialize'' N_running None (seconds 600),
       command 2 ''restore.record'' ''restore.run'' N_running (Some 0) (seconds 300),
       command 3 ''protection.backup'' ''backup.run'' N_running None (seconds 300),
       command 4 ''lens'' ''lens.ask'' N_success None (seconds 60)],
     fl_outbox = []\<rparr>"

lemma example_fleet_ids: "ids_distinct example_fleet"
  by (simp add: ids_distinct_def example_fleet_def command_def)

section \<open>Properties\<close>



text \<open>
  C8. The cancellation sweep is complete: with a limit that covers the expired requests, every
  active command whose cancellation was requested longer ago than the grace period ends canceled,
  and afterwards none is left.
\<close>

theorem sweep_cancel_complete:
  assumes "ids_distinct db" and "length (filter (cancel_expired e) (fl_tasks db)) \<le> limit"
    and "sweep_cancel_grace_expired e limit db = (db', n)"
  shows "(\<forall>t \<in> set (fl_tasks db'). \<not> cancel_expired e t)
    \<and> (\<forall>t \<in> set (fl_tasks db). cancel_expired e t \<longrightarrow> ntask_status_of (k_id t) db' = Some N_canceled)"
proof -
  define E where "E = k_id ` set (filter (cancel_expired e) (fl_tasks db))"
  let ?ok = "\<lambda>d. (\<forall>t \<in> set (fl_tasks d). k_id t \<in> E \<longrightarrow> cancel_expired e t \<or> k_status t = N_canceled)
      \<and> map k_id (fl_tasks d) = map k_id (fl_tasks db)"
  let ?good = "\<lambda>t. k_id t \<in> E \<longrightarrow> k_status t = N_canceled"
  have h: "handles ?ok ?good (finish_cancel e)"
    unfolding handles_def
  proof (intro allI impI)
    fix d t
    assume ok: "?ok d" and u: "ids_distinct d" and t: "t \<in> set (fl_tasks d)"
    show "case finish_cancel e t d of None \<Rightarrow> ?good t
      | Some (d', m) \<Rightarrow> ?ok d' \<and> (\<exists>t'. k_id t' = k_id t \<and> ?good t' \<and> fl_tasks d' = fl_tasks (save_ntask t' d))"
    proof (cases "finish_cancel e t d")
      case None
      then have "\<not> cancel_expired e t" by (auto simp: finish_cancel_def Let_def split: if_splits)
      with ok t None show ?thesis by auto
    next
      case (Some r)
      obtain d' m where r: "r = (d', m)" by (cases r)
      with Some finish_cancel_row have d': "fl_tasks d' = fl_tasks (save_ntask (seal_canceled e t) d)"
        by blast
      have "set (fl_tasks d') = insert (seal_canceled e t) (set (fl_tasks d) - {t})"
        unfolding d' using u t by (intro save_ntask_rows) simp_all
      then have "?ok d'" using ok save_ntask_ids [of "seal_canceled e t" d] by (auto simp: d')
      then show ?thesis using Some r d' by (auto intro: exI [of _ "seal_canceled e t"])
    qed
  qed
  have ok: "?ok db"
    using assms(1) by (auto simp: E_def ids_distinct_def distinct_map inj_on_def)
  let ?due = "sort_key (\<lambda>t. (or_else (k_cancel_requested_at t) 0, k_id t)) (filter (cancel_expired e) (fl_tasks db))"
  have "take (max 1 limit) ?due = ?due" using assms(2) by (intro take_all) simp
  then have loop: "sweep_loop (finish_cancel e) (map k_id ?due) (db, 0) = (db', n)"
    using assms(3) by (simp add: sweep_cancel_grace_expired_def Let_def)
  have due: "set (map k_id ?due) = E" by (simp add: E_def)
  note cov = sweep_loop_covers [OF h ok assms(1) loop, unfolded due]
  have "\<not> cancel_expired e t" if t: "t \<in> set (fl_tasks db')" for t
  proof (cases "k_id t \<in> E")
    case True
    with cov(3) [OF t] show ?thesis by (simp add: cancel_expired_def)
  next
    case False
    with cov(4) [OF t] show ?thesis by (auto simp: E_def)
  qed
  moreover have "ntask_status_of (k_id t) db' = Some N_canceled"
    if t: "t \<in> set (fl_tasks db)" "cancel_expired e t" for t
  proof -
    have "k_id t \<in> k_id ` set (fl_tasks db')" using t(1) cov(2) by (metis image_eqI set_map)
    then obtain t' where t': "t' \<in> set (fl_tasks db')" "k_id t' = k_id t" by auto
    moreover have "k_id t \<in> E" using t by (simp add: E_def)
    ultimately have "k_status t' = N_canceled" using cov(3) by simp
    moreover have "ntask_by_id db' (k_id t) = Some t'" using cov(1) t' by (simp add: ntask_by_id_iff)
    ultimately show ?thesis by (simp add: ntask_status_of_def)
  qed
  ultimately show ?thesis by blast
qed

theorem sweep_cancel_complete_witness:
  "ntask_status_of 2 (fst (sweep_cancel_grace_expired (example_env 400) 10 example_fleet)) = Some N_canceled"
proof -
  have "length (filter (cancel_expired (example_env 400)) (fl_tasks example_fleet)) \<le> 10" by code_simp
  moreover have "cancel_expired (example_env 400) (command 2 ''restore.record'' ''restore.run'' N_running (Some 0) (seconds 300))"
    by code_simp
  moreover have "command 2 ''restore.record'' ''restore.run'' N_running (Some 0) (seconds 300)
      \<in> set (fl_tasks example_fleet)" by (simp add: example_fleet_def)
  ultimately show ?thesis
    using sweep_cancel_complete [OF example_fleet_ids _ surjective_pairing, of "example_env 400" 10]
    by (auto simp: command_def)
qed

lemma capabilities_metadata:
  "n_metadata n = n_metadata n' \<Longrightarrow> node_capabilities n = node_capabilities n'"
  by (simp add: node_capabilities_def)

lemma awaiting_metadata:
  "n_metadata n = n_metadata n' \<Longrightarrow> awaiting_acceptance n t = awaiting_acceptance n' t"
  using capabilities_metadata [of n n']
  by (simp add: awaiting_acceptance_def task_uses_command_ack_def)

definition metadata_of :: "fleet \<Rightarrow> nat \<Rightarrow> json option" where
  "metadata_of db i = map_option n_metadata (node_by_id db i)"

lemma metadata_emit [simp]: "metadata_of (emit x db) = metadata_of db"
  by (simp add: metadata_of_def node_by_id_def fun_eq_iff)

lemma metadata_save [simp]: "metadata_of (save_ntask t db) = metadata_of db"
  by (simp add: metadata_of_def node_by_id_def save_ntask_def fun_eq_iff)

lemma metadata_update_status [simp]: "metadata_of (update_node_status i st db) = metadata_of db"
proof
  fix j
  let ?nodes = "update_where (\<lambda>n. n_id n = i \<and> n_status n \<noteq> st) (\<lambda>n. n\<lparr>n_status := st\<rparr>) (fl_nodes db)"
  have "map_option n_metadata (first_where (\<lambda>n. n_id n = j) ?nodes)
      = map_option n_metadata (first_where (\<lambda>n. n_id n = j) (fl_nodes db))"
    by (subst first_where_update_where) (auto simp: option.map_comp comp_def intro!: map_option_cong)
  then show "metadata_of (update_node_status i st db) j = metadata_of db j"
    by (simp add: metadata_of_def node_by_id_def update_node_status_def Let_def split: option.split)
qed

lemma metadata_project [simp]:
  "metadata_of (project_node_lifecycle_task t ov db) = metadata_of db"
  "metadata_of (sync_task_info t db) = metadata_of db"
  "metadata_of (sync_platform_tasks t db) = metadata_of db"
  by (simp_all add: project_node_lifecycle_task_def sync_task_info_def sync_platform_tasks_def Let_def
      split: option.split projection.split)

lemma metadata_watch: "watch_task e t db = Some (db', m) \<Longrightarrow> metadata_of db' = metadata_of db"
  by (auto simp: watch_task_def Let_def split: option.splits if_splits)

definition excused :: "fleet \<Rightarrow> node_task \<Rightarrow> bool" where
  "excused db t \<longleftrightarrow> has_detached_marker t
     \<or> (case node_by_id db (k_node t) of None \<Rightarrow> True | Some n \<Rightarrow> awaiting_acceptance n t)"

lemma excused_metadata:
  assumes "metadata_of d = metadata_of db"
  shows "excused d t = excused db t"
proof -
  from assms have m: "map_option n_metadata (node_by_id d (k_node t)) = map_option n_metadata (node_by_id db (k_node t))"
    by (simp add: metadata_of_def fun_eq_iff)
  show ?thesis
  proof (cases "node_by_id db (k_node t)")
    case None
    with m show ?thesis by (simp add: excused_def)
  next
    case (Some n)
    with m obtain n' where "node_by_id d (k_node t) = Some n'" "n_metadata n' = n_metadata n" by auto
    with Some show ?thesis by (simp add: excused_def awaiting_metadata [of n' n])
  qed
qed

lemma detached_column_marker: "detached_column t \<Longrightarrow> has_detached_marker t"
proof -
  have "local_detached (JStr ''local_detached'')" by code_simp
  moreover have "is_dict v" if "dget (as_dict v) ''mode'' = JStr ''local_detached''" for v
    using that by (cases v) simp_all
  ultimately show "detached_column t \<Longrightarrow> has_detached_marker t"
    unfolding detached_column_def has_detached_marker_def by (auto simp del: text_or_empty_simps)
qed

text \<open>
  C9. The watchdog sweep leaves nothing overdue that it is responsible for: with a limit that
  covers the overdue commands, whatever is still overdue afterwards is a detached lifecycle
  command, which has a coordinator of its own, or waits for its acceptance under the delivery
  deadline. Every other overdue command has timed out or got a deadline in the future because an
  uplink frame of it was still unapplied.
\<close>

theorem sweep_watchdog_complete:
  assumes "ids_distinct db" and "sweep_watchdog_timeouts e limit db = (db', n)"
    and "length (filter (\<lambda>t. overdue e t \<and> \<not> detached_column t) (fl_tasks db)) \<le> limit"
    and "t \<in> set (fl_tasks db')" and "overdue e t"
  shows "excused db t"
proof -
  let ?P = "\<lambda>t. overdue e t \<and> \<not> detached_column t"
  let ?due = "sort_key (\<lambda>t. (k_watchdog_deadline_at t, k_id t)) (filter ?P (fl_tasks db))"
  let ?ok = "\<lambda>d. metadata_of d = metadata_of db"
  let ?good = "\<lambda>t. overdue e t \<longrightarrow> excused db t"
  have h: "handles ?ok ?good (watch_task e)"
    unfolding handles_def
  proof (intro allI impI)
    fix d t
    assume ok: "?ok d" and u: "ids_distinct d" and t: "t \<in> set (fl_tasks d)"
    show "case watch_task e t d of None \<Rightarrow> ?good t
      | Some (d', m) \<Rightarrow> ?ok d' \<and> (\<exists>t'. k_id t' = k_id t \<and> ?good t' \<and> fl_tasks d' = fl_tasks (save_ntask t' d))"
    proof (cases "watch_task e t d")
      case None
      then have "\<not> overdue e t \<or> excused d t"
        by (auto simp: watch_task_def excused_def Let_def split: option.splits if_splits)
      with None excused_metadata [OF ok] show ?thesis by auto
    next
      case (Some r)
      obtain d' m where r: "r = (d', m)" by (cases r)
      with Some watch_task_row obtain t' where t': "k_id t' = k_id t" "fl_tasks d' = fl_tasks (save_ntask t' d)"
        "k_status t' = N_timeout \<or> (\<exists>rem \<ge> 1. k_watchdog_deadline_at t' = after e rem)"
        unfolding same_command_def by blast
      then have "\<not> overdue e t'" by (auto simp: overdue_def after_def seconds_def)
      with t' Some r metadata_watch ok show ?thesis by fastforce
    qed
  qed
  have "take limit ?due = ?due" using assms(3) by (intro take_all) simp
  then have loop: "sweep_loop (watch_task e) (map k_id ?due) (db, 0) = (db', n)"
    using assms(2) by (simp add: sweep_watchdog_timeouts_def Let_def)
  note cov = sweep_loop_covers [OF h refl assms(1) loop]
  show ?thesis
  proof (cases "k_id t \<in> set (map k_id ?due)")
    case True
    with cov(3) [OF assms(4)] assms(5) show ?thesis by blast
  next
    case False
    from cov(4) [OF assms(4) False] have "t \<in> set (fl_tasks db)" .
    with False assms(5) have "detached_column t" by auto
    then show ?thesis using detached_column_marker by (simp add: excused_def)
  qed
qed

definition waiting_fleet :: fleet where
  "waiting_fleet = example_fleet\<lparr>fl_tasks := fl_tasks example_fleet
     @ [command 6 ''protection.backup'' ''backup.run'' N_pending None (seconds 600)]\<rparr>"

theorem sweep_watchdog_complete_witness:
  "\<exists>t. t \<in> set (fl_tasks (fst (sweep_watchdog_timeouts (example_env 1000) 10 waiting_fleet)))
     \<and> overdue (example_env 1000) t \<and> excused waiting_fleet t"
proof -
  let ?db = "fst (sweep_watchdog_timeouts (example_env 1000) 10 waiting_fleet)"
  let ?t = "command 6 ''protection.backup'' ''backup.run'' N_pending None (seconds 600)"
  have "?t \<in> set (fl_tasks ?db)" by code_simp
  moreover have "overdue (example_env 1000) ?t" by code_simp
  moreover have "length (filter (\<lambda>t. overdue (example_env 1000) t \<and> \<not> detached_column t)
      (fl_tasks waiting_fleet)) \<le> 10" by code_simp
  moreover have "ids_distinct waiting_fleet" by code_simp
  ultimately show ?thesis
    using sweep_watchdog_complete [OF _ surjective_pairing, of waiting_fleet "example_env 1000" 10] by blast
qed

definition bounded_kind :: "node_task \<Rightarrow> bool" where
  "bounded_kind t \<longleftrightarrow> is_repository_initialize (k_correlation_type t) (k_kind t)
     \<or> is_path_size (k_correlation_type t) (k_kind t)
     \<or> is_insight_operation (k_correlation_type t) (k_kind t)
     \<or> is_source_nas_probe (k_correlation_type t) (k_kind t)"

lemmas kind_defs = is_repository_initialize_def is_path_size_def is_insight_operation_def
  is_source_nas_probe_def is_repository_status_def is_backup_task_def is_restore_work_def
  lifecycle_type_def

lemma bounded_deadline:
  assumes "bounded_kind t" and "k_accepted_at t = Some a"
  shows "progress_deadline e n t a p =
    initial_watchdog_deadline (ev_conf e) (k_correlation_type t) (k_kind t) (k_payload t) a"
  using assms unfolding bounded_kind_def
  by (elim disjE; (clarsimp simp: progress_deadline_def kind_defs Let_def
        repository_initialize_started_at_def source_nas_probe_started_at_def
        initial_watchdog_deadline_def watchdog_budget_def)?)

lemma bounded_not_lifecycle: "bounded_kind t \<Longrightarrow> \<not> is_lifecycle t"
  by (auto simp: bounded_kind_def kind_defs is_lifecycle_def)

text \<open>
  C10. The deadline of a bounded command (repository initialization, path size, Insight snapshot
  operation, NAS probe) is absolute: a progress or liveness frame that arrives at any time after
  its acceptance leaves it at the acceptance time plus the budget of its kind, so heartbeats
  cannot keep a stuck command alive.
\<close>

theorem heartbeat_keeps_bounded_deadline:
  assumes "ids_distinct db" and "record_task_progress e i node p alive db = Inr (db', t')"
    and "ntask_by_id db i = Some t" and "active (k_status t)" and "bounded_kind t"
    and "k_accepted_at t = Some a"
  shows "k_watchdog_deadline_at t' = a + seconds (watchdog_budget (ev_conf e)
      (k_correlation_type t) (k_kind t) (k_payload t)) \<and> k_accepted_at t' = Some a"
proof -
  from assms(2) obtain u n where u: "ntask_on_node db i node = Some u" "node_by_id db node = Some n"
    by (auto simp: record_task_progress_def split: option.splits)
  with ntask_on_node_Some [OF u(1)] assms(1,3) have [simp]: "u = t"
    by (metis ntask_by_id_iff option.inject)
  from assms(2,4) u have t': "t' = progressed_row e n t p"
    by (auto simp: record_task_progress_def Let_def)
  have "\<not> has_detached_marker u" if "k_correlation_type u = k_correlation_type t" for u :: node_task
    using that bounded_not_lifecycle [OF assms(5)] by (simp add: has_detached_marker_def is_lifecycle_def)
  then show ?thesis
    using bounded_deadline [OF assms(5,6)] assms(6)
    by (simp add: t' progressed_row_def Let_def initial_watchdog_deadline_def)
qed

theorem heartbeat_keeps_bounded_deadline_witness:
  "\<exists>db' t'. record_task_progress (example_env 500) 1 5 [] True example_fleet = Inr (db', t')
     \<and> k_watchdog_deadline_at t' = seconds 600"
proof -
  let ?t = "command 1 ''repository_create'' ''repo.initialize'' N_running None (seconds 600)"
  let ?r = "record_task_progress (example_env 500) 1 5 [] True example_fleet"
  have "\<not> isl ?r" by code_simp
  then obtain db' t' where r: "?r = Inr (db', t')" by (metis isl_def surj_pair sumE)
  have t: "ntask_by_id example_fleet 1 = Some ?t"
    by code_simp
  have a: "active (k_status ?t)" and b: "bounded_kind ?t" and c: "k_accepted_at ?t = Some 0"
    by code_simp+
  have "watchdog_budget (ev_conf (example_env 500)) (k_correlation_type ?t) (k_kind ?t) (k_payload ?t) = 600"
    by code_simp
  with heartbeat_keeps_bounded_deadline [OF example_fleet_ids r t a b c] r show ?thesis by auto
qed

text \<open>
  C11. A result frame is applied once: when the Agent sends a result that was applied as a success
  (without an error text) or a failure again, the second frame is recognized as a retransmission
  and leaves the whole store, its outbox included, as it is.
\<close>

lemma completed_row_replay:
  assumes "completion_verdict t s r err = Apply inc r" and "\<not> canceled_word inc" and "r \<noteq> []"
    and "proper (JObj r)" and "err = [] \<or> \<not> succeeded_word inc"
    and "k_kind t \<notin> {''agent.upgrade'', ''agent.uninstall''}" and "inc = lower s"
  shows "completion_verdict (completed_row e t inc r err) s r err = Retransmission"
proof -
  let ?u = "completed_row e t inc r err"
  have u: "k_status ?u = (if succeeded_word inc then N_success else N_failed)" "k_result ?u = r"
    "k_last_error ?u = (if succeeded_word inc then [] else take 2000 (if err = [] then inc else err))"
    using assms(2,3,6) by (auto simp: completed_row_def Let_def)
  have "inc \<noteq> ''running''"
    using assms(1) by (auto simp: completion_verdict_def frame_verdict_def Let_def split: if_split_asm)
  then have st: "incoming_terminal_status inc = Some (k_status ?u)"
    using assms(2) u(1) by (simp add: incoming_terminal_status_def)
  have "\<not> executor_stop ?u inc r err" using u(1) by (auto simp: executor_stop_def)
  moreover have "terminal_error_matches ?u inc err"
    using assms(5) u by (auto simp: terminal_error_matches_def)
  moreover have "py_eq (JObj r) (JObj r)" using assms(4) by (rule py_eq_refl)
  ultimately show ?thesis
    using st u by (auto simp: completion_verdict_def frame_verdict_def Let_def assms(7) [symmetric])
qed



end
