(* ===== verification/Delivery_Claims.thy ===== *)
theory Delivery_Claims
  imports Delivery_Correct Node_Claims
begin

text \<open>The properties of command delivery, on a fleet with one node and one waiting backup.\<close>

definition example_courier :: courier where
  "example_courier = \<lparr>co_seal = (\<lambda>d. ''sealed''),
     co_open = (\<lambda>s. if s = ''sealed'' then Some (JObj [(''password'', JStr ''secret'')]) else None),
     co_send = (\<lambda>i. None)\<rparr>"

definition ack_node :: node where
  "ack_node = example_node\<lparr>n_metadata := JObj [(''capabilities'', JList [JStr ''task_command_ack_v1''])]\<rparr>"

definition waiting_backup :: node_task where
  "waiting_backup = (command 3 ''protection.backup'' ''backup.run'' N_pending None (seconds 300))
     \<lparr>k_dispatched_at := None, k_last_delivery_at := None, k_delivery_attempts := 0\<rparr>"

definition delivery_fleet :: fleet where
  "delivery_fleet = \<lparr>fl_nodes = [ack_node], fl_tasks = [waiting_backup], fl_outbox = []\<rparr>"





end
