(* ===== verification/Source_Fence.thy ===== *)
theory Source_Fence
  imports Task_Correct Node_Task "HOL-Library.Product_Lexorder" "HOL-Library.List_Lexorder"
    "HOL-Library.Char_ord"
begin

text \<open>
  The exclusion between source control (reset, deregistration) and product work on one backup
  source, \<^verbatim>\<open>apps/source/services/internal/source_operation_fence.py\<close>, with
  \<^verbatim>\<open>restore_task_is_stopping\<close> of \<^verbatim>\<open>apps/restore/services/interface.py\<close>. The state joins
  the task store, the fleet with its node tasks, and the columns read of NAS sources and restore
  records. Taking a row lock leaves no trace in the store; what matters is that the row exists.
\<close>

record nas_source =
  ns_id :: int
  ns_org :: "int option"
  ns_deleted :: bool
  ns_bound :: "int option"

record restore_record =
  rr_id :: int
  rr_org :: int
  rr_requesting_org :: int
  rr_exec_org :: "int option"
  rr_exec_node :: nat
  rr_task_uuid :: string
  rr_task_id :: nat
  rr_created_at :: int

record platform =
  pf_tasks :: task_db
  pf_fleet :: fleet
  pf_nas :: "nas_source list"
  pf_restores :: "restore_record list"

datatype fence_error =
  Unsupported_source
| Source_not_found
| Bad_payload
| Control_active string
| Backup_running string string
| Restore_running string string

definition task_active :: "task_status \<Rightarrow> bool" where
  "task_active s \<longleftrightarrow> s \<in> {Pending, Waiting, Blocked, Running}"

definition source_control_type :: "task_type \<Rightarrow> bool" where
  "source_control_type ty \<longleftrightarrow> ty \<in> {Backup_config_reset, Source_unregister}"

definition backup_node_type :: "string \<Rightarrow> bool" where
  "backup_node_type ct \<longleftrightarrow> ct \<in> set [''protection.backup'', ''protection.backup.policy_prepare'']"

lemma task_active_terminal [simp, status_simps]: "task_active s \<longleftrightarrow> \<not> terminal s"
  by (cases s) (simp_all add: task_active_def)

text \<open>\<^verbatim>\<open>order_by("created_at", "id").first()\<close>\<close>

definition by_creation :: "task list \<Rightarrow> task list" where
  "by_creation ts = sort_key (\<lambda>t. (t_created_at t, t_id t)) ts"

section \<open>Commands that are being stopped\<close>

text \<open>A cancelled command counts as running until its grace is over.\<close>

definition stopping_command :: "env \<Rightarrow> int \<Rightarrow> node_task \<Rightarrow> bool" where
  "stopping_command e org t \<longleftrightarrow> k_org t = Some org \<and> backup_node_type (k_correlation_type t)
     \<and> active (k_status t)
     \<and> (case k_cancel_requested_at t of None \<Rightarrow> False
        | Some r \<Rightarrow> r > ev_now e - seconds (max 1 (cf_cancel_grace (ev_conf e))))"

definition stopping_backup_task_uuids :: "env \<Rightarrow> int \<Rightarrow> 'a platform_scheme \<Rightarrow> int list" where
  "stopping_backup_task_uuids e org pf =
     List.map_filter (\<lambda>t. if stopping_command e org t then parse_uuid (k_correlation_id t) else None)
       (fl_tasks (pf_fleet pf))"

definition product_task_is_stopping :: "env \<Rightarrow> int \<Rightarrow> task option \<Rightarrow> 'a platform_scheme \<Rightarrow> bool" where
  "product_task_is_stopping e org task pf =
     (case task of None \<Rightarrow> False
      | Some t \<Rightarrow> t_status t = Cancelled
          \<and> (\<exists>k \<in> set (fl_tasks (pf_fleet pf)). stopping_command e org k \<and> k_correlation_id k = t_uuid t))"

text \<open>A cancelled restore is stopping while a command of it is active on the node that runs it.\<close>

definition restore_record_of :: "task \<Rightarrow> 'a platform_scheme \<Rightarrow> restore_record option" where
  "restore_record_of t pf =
     (case rev (sort_key (\<lambda>r. (rr_created_at r, rr_id r))
             (filter (\<lambda>r. Some (rr_org r) = t_org t \<and> rr_task_uuid r = t_uuid t) (pf_restores pf))) of
        [] \<Rightarrow> None | r # _ \<Rightarrow> Some r)"

definition executes_restore :: "task \<Rightarrow> restore_record option \<Rightarrow> node_task \<Rightarrow> bool" where
  "executes_restore t record k \<longleftrightarrow> k_org k = t_org t
     \<or> (case record of None \<Rightarrow> False
        | Some r \<Rightarrow> k_org k = rr_exec_org r \<and> k_node k = rr_exec_node r
            \<and> k_requesting_org k = Some (rr_requesting_org r))"

definition restore_task_is_stopping :: "task \<Rightarrow> 'a platform_scheme \<Rightarrow> bool" where
  "restore_task_is_stopping t pf \<longleftrightarrow> t_status t = Cancelled
     \<and> (\<exists>k \<in> set (fl_tasks (pf_fleet pf)). executes_restore t (restore_record_of t pf) k
          \<and> k_correlation_id k = t_uuid t \<and> active (k_status k))"

section \<open>Sources and the tasks that own them\<close>

text \<open>\<^verbatim>\<open>lock_source_identity\<close>\<close>

definition lock_source_identity ::
  "int \<Rightarrow> string \<Rightarrow> int \<Rightarrow> 'a platform_scheme \<Rightarrow> (fence_error, unit) result" where
  "lock_source_identity org st ref pf =
     (if st = ''agent'' then
        guard_that (\<exists>n \<in> set (fl_nodes (pf_fleet pf)). n_org n = Some org \<and> n_role n = Agent_role
            \<and> int (n_id n) = ref \<and> \<not> n_is_deleted n) Source_not_found
      else if st = ''nas'' then
        guard_that (\<exists>s \<in> set (pf_nas pf). ns_org s = Some org \<and> ns_id s = ref \<and> \<not> ns_deleted s)
          Source_not_found
      else Inl Unsupported_source)"

definition task_resources :: "task_db \<Rightarrow> task \<Rightarrow> task_resource list" where
  "task_resources db t = filter (\<lambda>r. r_task r = t_id t) (db_resources db)"

definition names_source :: "string \<Rightarrow> int \<Rightarrow> task_resource \<Rightarrow> bool" where
  "names_source st ref r \<longleftrightarrow> r_type r = ''backup_source'' \<and> r_subtype r = st \<and> r_ref r = ref"

text \<open>Older rows of Agent sources have no subtype.\<close>

definition owns_source :: "task_db \<Rightarrow> string \<Rightarrow> int \<Rightarrow> task \<Rightarrow> bool" where
  "owns_source db st ref t \<longleftrightarrow>
     (\<exists>r \<in> set (task_resources db t). r_type r = ''backup_source'' \<and> r_ref r = ref
        \<and> (r_subtype r = st \<or> (st = ''agent'' \<and> r_subtype r = [])))"

definition control_task :: "task_db \<Rightarrow> int \<Rightarrow> string \<Rightarrow> int \<Rightarrow> nat option \<Rightarrow> task \<Rightarrow> bool" where
  "control_task db org st ref allowed t \<longleftrightarrow> t_org t = Some org \<and> source_control_type (t_type t)
     \<and> task_active (t_status t) \<and> list_ex (names_source st ref) (task_resources db t)
     \<and> allowed \<noteq> Some (t_id t)"

definition active_source_control_task ::
  "int \<Rightarrow> string \<Rightarrow> int \<Rightarrow> nat option \<Rightarrow> 'a platform_scheme \<Rightarrow> task option" where
  "active_source_control_task org st ref allowed pf =
     (let db = pf_tasks pf
      in first_where (\<lambda>t. True) (by_creation (filter (control_task db org st ref allowed) (db_tasks db))))"

text \<open>A backup task that names the source in its request only predates the resource rows.\<close>

definition request_names_source :: "string \<Rightarrow> int \<Rightarrow> task \<Rightarrow> (fence_error, bool) result" where
  "request_names_source st ref t =
     (let payload = or_else (t_request t) [] in
      if text_or_empty (dget payload ''source_type'') \<noteq> st then Inr False
      else rbind (of_option Bad_payload (int_or (dget payload ''source_ref_id'') 0)) (\<lambda>i. Inr (i = ref)))"

fun first_owner :: "task_db \<Rightarrow> string \<Rightarrow> int \<Rightarrow> task list \<Rightarrow> (fence_error, task option) result" where
  "first_owner db st ref [] = Inr None"
| "first_owner db st ref (t # ts) =
     (if owns_source db st ref t then Inr (Some t)
      else rbind (request_names_source st ref t)
        (\<lambda>named. if named then Inr (Some t) else first_owner db st ref ts))"

definition backup_candidate :: "env \<Rightarrow> int \<Rightarrow> 'a platform_scheme \<Rightarrow> task \<Rightarrow> bool" where
  "backup_candidate e org pf t \<longleftrightarrow> t_org t = Some org \<and> t_type t = Backup
     \<and> (task_active (t_status t)
        \<or> (t_status t = Cancelled
           \<and> (case parse_uuid (t_uuid t) of None \<Rightarrow> False
              | Some i \<Rightarrow> i \<in> set (stopping_backup_task_uuids e org pf))))"

definition active_source_backup_task ::
  "env \<Rightarrow> int \<Rightarrow> string \<Rightarrow> int \<Rightarrow> 'a platform_scheme \<Rightarrow> (fence_error, task option) result" where
  "active_source_backup_task e org st ref pf =
     (let db = pf_tasks pf
      in first_owner db st ref (by_creation (filter (backup_candidate e org pf) (db_tasks db))))"

definition restore_task_in :: "int \<Rightarrow> task \<Rightarrow> bool" where
  "restore_task_in org t \<longleftrightarrow> t_org t = Some org \<and> is_restore_type (t_type t)"

definition active_source_restore_task :: "int \<Rightarrow> string \<Rightarrow> int \<Rightarrow> 'a platform_scheme \<Rightarrow> task option" where
  "active_source_restore_task org st ref pf =
     (let db = pf_tasks pf;
          running = by_creation (filter (\<lambda>t. restore_task_in org t \<and> task_active (t_status t)) (db_tasks db));
          cancelled = by_creation (filter (\<lambda>t. restore_task_in org t \<and> t_status t = Cancelled) (db_tasks db))
      in first_some (first_where (owns_source db st ref) running)
           (first_where (\<lambda>t. restore_task_is_stopping t pf \<and> owns_source db st ref t) cancelled))"

section \<open>The fences\<close>

definition shown_status :: "bool \<Rightarrow> task \<Rightarrow> string" where
  "shown_status stopping t = (if stopping then ''stopping'' else task_status_value (t_status t))"

definition refuse_backup ::
  "env \<Rightarrow> int \<Rightarrow> 'a platform_scheme \<Rightarrow> string \<times> int \<Rightarrow> unit \<Rightarrow> (fence_error, unit) result" where
  "refuse_backup e org pf = (\<lambda>(st, ref) u.
     rbind (active_source_backup_task e org st ref pf) (\<lambda>blocker.
       case blocker of None \<Rightarrow> Inr ()
       | Some t \<Rightarrow> Inl (Backup_running (t_uuid t) (shown_status (product_task_is_stopping e org (Some t) pf) t))))"

text \<open>All sources are locked, in one order, before any of them is examined.\<close>

definition assert_no_active_backup_for_sources ::
  "env \<Rightarrow> int \<Rightarrow> (string \<times> int) list \<Rightarrow> 'a platform_scheme \<Rightarrow> (fence_error, unit) result" where
  "assert_no_active_backup_for_sources e org sources pf =
     (let identities = sort (remdups sources)
      in rbind (rfold (\<lambda>(st, ref) u. lock_source_identity org st ref pf) identities ())
           (rfold (refuse_backup e org pf) identities))"

definition assert_no_active_backup_for_source ::
  "env \<Rightarrow> int \<Rightarrow> string \<Rightarrow> int \<Rightarrow> 'a platform_scheme \<Rightarrow> (fence_error, unit) result" where
  "assert_no_active_backup_for_source e org st ref pf =
     assert_no_active_backup_for_sources e org [(st, ref)] pf"

definition assert_no_active_restore_for_source ::
  "int \<Rightarrow> string \<Rightarrow> int \<Rightarrow> 'a platform_scheme \<Rightarrow> (fence_error, unit) result" where
  "assert_no_active_restore_for_source org st ref pf =
     rbind (lock_source_identity org st ref pf) (\<lambda>_.
       case active_source_restore_task org st ref pf of
         None \<Rightarrow> Inr ()
       | Some t \<Rightarrow> Inl (Restore_running (t_uuid t) (shown_status (restore_task_is_stopping t pf) t)))"

definition assert_source_product_operation_allowed ::
  "int \<Rightarrow> string \<Rightarrow> int \<Rightarrow> nat option \<Rightarrow> 'a platform_scheme \<Rightarrow> (fence_error, unit) result" where
  "assert_source_product_operation_allowed org st ref allowed pf =
     rbind (lock_source_identity org st ref pf) (\<lambda>_.
       case active_source_control_task org st ref allowed pf of
         None \<Rightarrow> Inr ()
       | Some t \<Rightarrow> Inl (Control_active (t_uuid t)))"

end
