(* ===== verification/Fence_Claims.thy ===== *)
theory Fence_Claims
  imports Source_Fence Task_Claims Node_Claims
begin

text \<open>
  The fences hold for as long as the work they protect: a control task that was created for a
  source keeps every later admission out until it is terminal, whatever happens to other tasks.
\<close>

section \<open>What the task services keep of a task and its resources\<close>

lemma insert_resources_mono:
  assumes "rfold (insert_resource i) rds db = Inr db'"
  shows "set (db_resources db) \<subseteq> set (db_resources db')"
  using assms
  by (rule rfold_invariant [where P = "\<lambda>x. set (db_resources db) \<subseteq> set (db_resources x)"])
    (auto simp: insert_resource_def Let_def)

lemma insert_resources_row:
  assumes "rfold (insert_resource i) rds db = Inr db'" and "rd \<in> set rds"
    and "rd_type rd = Some ty" and "rd_ref rd = Some ref"
  shows "\<exists>r \<in> set (db_resources db'). r_task r = i \<and> r_type r = ty
     \<and> r_subtype r = or_else (rd_subtype rd) [] \<and> r_ref r = ref"
  using assms(1,2)
proof (induction rds arbitrary: db)
  case Nil
  then show ?case by simp
next
  case (Cons x xs)
  from Cons.prems(1) obtain d where d: "insert_resource i x db = Inr d"
    "rfold (insert_resource i) xs d = Inr db'" by auto
  show ?case
  proof (cases "rd = x")
    case True
    then have "\<exists>r \<in> set (db_resources d). r_task r = i \<and> r_type r = ty
        \<and> r_subtype r = or_else (rd_subtype rd) [] \<and> r_ref r = ref"
      using d(1) assms(3,4) by (auto simp: insert_resource_def Let_def)
    then show ?thesis using insert_resources_mono [OF d(2)] by blast
  next
    case False
    with Cons.prems(2) Cons.IH [OF d(2)] show ?thesis by simp
  qed
qed

lemma insert_steps_resources:
  assumes "rfold (insert_step now i) xs db = Inr db'"
  shows "db_resources db' = db_resources db"
  using assms
  by (rule rfold_invariant [where P = "\<lambda>x. db_resources x = db_resources db"])
    (auto dest: insert_step_frame)

lemma store_task_resources:
  assumes "store_task now uuid q ty tr replaced db = Inr (db', t)"
  shows "set (db_resources db) \<subseteq> set (db_resources db')"
    and "rd \<in> set (kept_resources q ty) \<Longrightarrow> rd_type rd = Some x \<Longrightarrow> rd_ref rd = Some ref \<Longrightarrow>
      \<exists>r \<in> set (db_resources db'). r_task r = t_id t \<and> r_type r = x
        \<and> r_subtype r = or_else (rd_subtype rd) [] \<and> r_ref r = ref"
proof -
  from assms obtain sds d1 d2 d3 md st where
    d: "insert_task t db = Inr d1" "rfold (insert_resource (t_id t)) (kept_resources q ty) d1 = Inr d2"
      "rfold (insert_step now (t_id t)) (zip [1..<1 + length sds] sds) d2 = Inr d3"
    and db': "db' = announce_created (q_notify_on_commit q) t
      (append_task_event now t Info ''Task created'' md st d3)"
    by (rule store_taskE)
  have r: "db_resources db' = db_resources d2" using insert_steps_resources [OF d(3)] by (simp add: db')
  have "db_resources d1 = db_resources db" using d(1) by (auto simp: insert_task_def)
  then show "set (db_resources db) \<subseteq> set (db_resources db')"
    using insert_resources_mono [OF d(2)] r by simp
  show "rd \<in> set (kept_resources q ty) \<Longrightarrow> rd_type rd = Some x \<Longrightarrow> rd_ref rd = Some ref \<Longrightarrow>
      \<exists>r \<in> set (db_resources db'). r_task r = t_id t \<and> r_type r = x
        \<and> r_subtype r = or_else (rd_subtype rd) [] \<and> r_ref r = ref"
    using insert_resources_row [OF d(2)] r by simp
qed

lemma finish_task_resources:
  "finish_task now status p c t db = (db', t') \<Longrightarrow> db_resources db' = db_resources db"
  by (auto simp: finish_task_def Let_def emit_task_terminal_signal_def send_signal_def
      split: task_status.splits)

lemma finalize_resources:
  "finalize_task_cancellation now t reason db = (db', t') \<Longrightarrow> db_resources db' = db_resources db"
  unfolding finalize_task_cancellation_def Let_def
  by (auto simp: resolve_dependencies_def skip_open_steps_def simp del: if_split)

lemma run_on_commit_resources: "db_resources (run_on_commit db) = db_resources db"
proof -
  let ?g = "\<lambda>i db. case task_by_id db i of None \<Rightarrow> db | Some t \<Rightarrow> send_signal (updated_signal t) db"
  have "db_resources (fold ?g is d) = db_resources d" for "is" d
    by (induction "is" arbitrary: d) (simp_all split: option.split)
  then show ?thesis by (simp add: run_on_commit_def)
qed

lemma forward_op_resources: "forward_op db db' \<Longrightarrow> set (db_resources db) \<subseteq> set (db_resources db')"
proof (induction rule: forward_op.induct)
  case (op_create now uuid q db db' t)
  then show ?case by (auto elim!: create_taskE dest: store_task_resources(1))
next
  case (op_cancel now uuid org reason db db' t)
  then show ?case by (auto elim!: cancel_taskE dest: finalize_resources)
next
  case (op_complete now uuid org c db db' t)
  then show ?case by (auto elim!: complete_taskE dest: finish_task_resources)
next
  case (op_event now t name l m md db db')
  then show ?case by (auto simp: append_task_step_event_def Let_def split: if_splits)
next
  case (op_recovery now t plan r db db')
  then show ?case by (auto simp: record_recovery_decision_def)
next
  case (op_commit db db')
  then show ?case using run_on_commit_resources by auto
qed (auto elim!: start_taskE resume_waiting_taskE dest: finalize_resources)

lemma task_op_resources: "task_op db db' \<Longrightarrow> set (db_resources db) \<subseteq> set (db_resources db')"
  by (induction rule: task_op.induct)
    (auto dest: forward_op_resources elim!: retry_taskE simp: reset_steps_def)

lemma only_task_row:
  assumes "only_task u db db'" and "unique_ok db" and "t \<in> set (db_tasks db)"
  shows "\<exists>t' \<in> set (db_tasks db'). t_id t' = t_id t \<and> t_org t' = t_org t \<and> t_type t' = t_type t"
proof -
  from assms(1) obtain f where f: "keeps_identity f" "u \<in> set (db_tasks db)"
    "db_tasks db' = db_tasks (save_task f u db)" by (auto simp: only_task_def)
  from set_save_task [OF assms(2) f(2), of f] f(1,3) assms(3) show ?thesis
    by (cases "t = u") (auto simp: keeps_identity_def)
qed

lemma task_op_row:
  assumes "task_op db db'" and "core_ok db" and "t \<in> set (db_tasks db)"
  shows "\<exists>t' \<in> set (db_tasks db'). t_id t' = t_id t \<and> t_org t' = t_org t \<and> t_type t' = t_type t"
  using assms(1)
proof cases
  case op_forward
  from forward_op_rows [OF this] assms(2,3) show ?thesis
    by (auto simp: core_ok_def dest!: only_task_row)
next
  case (op_retry now uuid org reason t')
  then show ?thesis
  proof (rule retry_taskE)
    fix u md
    let ?f = "retried_columns now (first_task_step db u) (t_retry_count u + 1)"
    assume "u \<in> set (db_tasks db)" "db' = send_signal (updated_signal t') (append_task_event now t' Info
        ''Task queued for retry'' md (first_task_step db u) (reset_steps (t_id u) (save_task ?f u db)))"
    then have "only_task u db db'" by (intro only_task_save [of u db ?f]) (simp_all add: children_updates)
    then show ?thesis using assms(2,3) by (intro only_task_row) (simp_all add: core_ok_def)
  qed
qed

text \<open>The record a control task leaves in the store: its row and the resource row of its source.\<close>

definition control_record :: "nat \<times> int \<times> task_type \<times> string \<times> int \<Rightarrow> task_db \<Rightarrow> bool" where
  "control_record = (\<lambda>(i, org, ty, st, ref) db.
     (\<exists>t \<in> set (db_tasks db). t_id t = i \<and> t_org t = Some org \<and> t_type t = ty)
     \<and> (\<exists>r \<in> set (db_resources db). r_task r = i \<and> names_source st ref r))"

interpretation control_records: persisting task_op core_ok control_record
proof unfold_locales
  fix db db' k
  assume op: "task_op db db'" and ok: "core_ok db" and c: "control_record k db"
  obtain i org ty st ref where k: "k = (i, org, ty, st, ref)" by (metis prod_cases5)
  show "control_record k db'"
    using task_op_row [OF op ok] task_op_resources [OF op] c by (fastforce simp: control_record_def k)
qed

section \<open>What the fences refuse\<close>

lemma first_where_ex: "x \<in> set xs \<Longrightarrow> p x \<Longrightarrow> \<exists>y. first_where p xs = Some y \<and> y \<in> set xs \<and> p y"
proof (cases "first_where p xs")
  case (Some y)
  then show ?thesis using first_where_Some [OF Some] by blast
qed (auto simp: first_where_None)

lemma control_task_found:
  assumes "t \<in> set (db_tasks (pf_tasks pf))" and "control_task (pf_tasks pf) org st ref allowed t"
  shows "\<exists>b \<in> set (db_tasks (pf_tasks pf)). active_source_control_task org st ref allowed pf = Some b
     \<and> control_task (pf_tasks pf) org st ref allowed b"
  using first_where_ex [of t "by_creation (filter (control_task (pf_tasks pf) org st ref allowed)
      (db_tasks (pf_tasks pf)))" "\<lambda>t. True"] assms
  by (auto simp: active_source_control_task_def Let_def by_creation_def)

lemma product_operation_refused:
  assumes "t \<in> set (db_tasks (pf_tasks pf))" and "control_task (pf_tasks pf) org st ref allowed t"
  shows "isl (assert_source_product_operation_allowed org st ref allowed pf)"
  using control_task_found [OF assms]
  by (cases "lock_source_identity org st ref pf") (auto simp: assert_source_product_operation_allowed_def)

lemma rfold_unit:
  fixes g :: "'a \<Rightarrow> unit \<Rightarrow> ('e, unit) result"
  shows "rfold g xs () = Inr () \<longleftrightarrow> (\<forall>x \<in> set xs. g x () = Inr ())"
  by (induction xs) auto

lemma first_owner_None:
  "first_owner db st ref ts = Inr None \<longleftrightarrow>
     (\<forall>t \<in> set ts. \<not> owns_source db st ref t \<and> request_names_source st ref t = Inr False)"
  by (induction ts) (auto split: if_splits)

lemma no_backup_found:
  "active_source_backup_task e org st ref pf = Inr None \<longleftrightarrow>
     (\<forall>t \<in> set (db_tasks (pf_tasks pf)). backup_candidate e org pf t
        \<longrightarrow> \<not> owns_source (pf_tasks pf) st ref t \<and> request_names_source st ref t = Inr False)"
  by (auto simp: active_source_backup_task_def Let_def first_owner_None by_creation_def)

lemma backup_not_refused:
  "refuse_backup e org pf (st, ref) () = Inr () \<longleftrightarrow> active_source_backup_task e org st ref pf = Inr None"
  by (auto simp: refuse_backup_def split: option.splits)

lemma created_control_record:
  assumes "create_task now uuid q db = Inr (db', t)" and "rd \<in> set (q_resources q)"
    and "rd_type rd = Some ''backup_source''" and "rd_subtype rd = Some st" and "rd_ref rd = Some ref"
    and "t_org t = Some org"
  shows "control_record (t_id t, org, t_type t, st, ref) db'"
  using assms(1)
proof (rule create_taskE)
  fix ty tr replaced
  assume s: "store_task now uuid q ty (request_trigger q tr replaced db) replaced db = Inr (db', t)"
  have "rd \<in> set (kept_resources q ty)" using assms(2,3) by (simp add: kept_resources_def)
  from store_task_resources(2) [OF s this assms(3,5)] assms(4)
  have "\<exists>r \<in> set (db_resources db'). r_task r = t_id t \<and> names_source st ref r"
    by (auto simp: names_source_def)
  then show ?thesis using store_task_beside(1) [OF s] assms(6) by (auto simp: control_record_def)
qed

lemma control_record_refuses:
  assumes "control_record (i, org, ty, st, ref) (pf_tasks pf)" and "core_ok (pf_tasks pf)"
    and "source_control_type ty" and "task_by_id (pf_tasks pf) i = Some t"
    and "\<not> terminal (t_status t)" and "allowed \<noteq> Some i"
  shows "isl (assert_source_product_operation_allowed org st ref allowed pf)"
proof (rule product_operation_refused)
  have t: "t \<in> set (db_tasks (pf_tasks pf))" "t_id t = i" using task_by_id_Some [OF assms(4)] by simp_all
  then show "t \<in> set (db_tasks (pf_tasks pf))" by simp
  from assms(1) obtain t' r where t': "t' \<in> set (db_tasks (pf_tasks pf))" "t_id t' = i"
      "t_org t' = Some org" "t_type t' = ty"
    and r: "r \<in> set (db_resources (pf_tasks pf))" "r_task r = i" "names_source st ref r"
    by (auto simp: control_record_def)
  have "t' = t" using id_unique [OF _ t'(1) t(1)] assms(2) t'(2) t(2) by (simp add: core_ok_def)
  then show "control_task (pf_tasks pf) org st ref allowed t"
    using t t' r assms(3,5,6) by (auto simp: control_task_def task_resources_def list_ex_iff)
qed

section \<open>A source with a reset\<close>

definition reset_request :: task_request where
  "reset_request = example_request\<lparr>q_type := ''backup_config_reset'',
     q_resources := [\<lparr>rd_type = Some ''backup_source'', rd_subtype = Some ''agent'', rd_ref = Some 5,
       rd_primary = True\<rparr>], q_key := None\<rparr>"

definition backup_request :: task_request where
  "backup_request = reset_request\<lparr>q_type := ''backup''\<rparr>"

definition reset_db :: task_db where
  "reset_db = task_store (create_task 100 ''u1'' reset_request empty_db)"
definition reset_started_db :: task_db where
  "reset_started_db = task_store (start_task 101 ''u1'' 7 reset_db)"
definition backup_db :: task_db where
  "backup_db = task_store (create_task 100 ''00000000-0000-0000-0000-0000000000a1'' backup_request empty_db)"

definition platform_with :: "task_db \<Rightarrow> platform" where
  "platform_with db = \<lparr>pf_tasks = db, pf_fleet = example_fleet, pf_nas = [], pf_restores = []\<rparr>"

lemma reset_runs:
  "\<not> isl (create_task 100 ''u1'' reset_request empty_db)"
  "\<not> isl (start_task 101 ''u1'' 7 reset_db)"
  by code_simp+

section \<open>Properties\<close>

text \<open>
  C14. A control task fences its source: once a reset or a deregistration was created for a
  source, every later product operation on that source is refused, at any point of any sequence
  of task operations at which the control task is not terminal, unless the operation is run by
  that very task.
\<close>

theorem control_task_fences_source:
  assumes "create_task now uuid q db = Inr (db', t)" and "core_ok db"
    and "source_control_type (t_type t)" and "t_org t = Some org"
    and "rd \<in> set (q_resources q)" and "rd_type rd = Some ''backup_source''"
    and "rd_subtype rd = Some st" and "rd_ref rd = Some ref"
    and "task_op\<^sup>*\<^sup>* db' (pf_tasks pf)"
    and "task_by_id (pf_tasks pf) (t_id t) = Some u" and "\<not> terminal (t_status u)"
    and "allowed \<noteq> Some (t_id t)"
  shows "isl (assert_source_product_operation_allowed org st ref allowed pf)"
proof (rule control_record_refuses)
  have ok: "core_ok db'" using create_task_core_ok assms(1,2) by blast
  show "control_record (t_id t, org, t_type t, st, ref) (pf_tasks pf)"
    using control_records.run_fact [OF assms(9) ok created_control_record [OF assms(1,5-8,4)]] .
  show "core_ok (pf_tasks pf)" using task_system.run_inv [OF assms(9) ok] .
qed (use assms in auto)

theorem control_task_fences_source_witness:
  "isl (assert_source_product_operation_allowed 7 ''agent'' 5 None (platform_with reset_started_db))"
proof -
  obtain t where t: "create_task 100 ''u1'' reset_request empty_db = Inr (reset_db, t)"
    unfolding reset_db_def using task_store_Inr [OF reset_runs(1)] by blast
  obtain u where u: "start_task 101 ''u1'' 7 reset_db = Inr (reset_started_db, u)"
    unfolding reset_started_db_def using task_store_Inr [OF reset_runs(2)] by blast
  have facts: "(case create_task 100 ''u1'' reset_request empty_db of Inl e \<Rightarrow> False
      | Inr (d, t) \<Rightarrow> t_id t = 1 \<and> t_type t = Backup_config_reset \<and> t_org t = Some 7)"
    by code_simp
  have "map_option t_status (task_by_id reset_started_db 1) = Some Running" by code_simp
  then obtain v where v: "task_by_id reset_started_db 1 = Some v" "t_status v = Running" by auto
  have "task_op\<^sup>*\<^sup>* reset_db reset_started_db"
    using u by (intro r_into_rtranclp [where r = task_op]) (blast intro: op_forward op_start)
  then show ?thesis
    using control_task_fences_source [OF t empty_db_ok, where org = 7
        and rd = "\<lparr>rd_type = Some ''backup_source'', rd_subtype = Some ''agent'', rd_ref = Some 5,
          rd_primary = True\<rparr>" and st = "''agent''" and ref = 5
        and pf = "platform_with reset_started_db" and u = v and allowed = None] v facts t
    by (simp add: reset_request_def platform_with_def source_control_type_def)
qed

text \<open>
  C15. The backup fence over several sources does not depend on their order or repetition, and it
  lets the operation pass exactly when every source exists and no active or stopping backup task
  of the organization owns one of them, by its resource rows or by its request.
\<close>

theorem backup_fence_characterized:
  "(set ys = set xs \<longrightarrow> assert_no_active_backup_for_sources e org ys pf
        = assert_no_active_backup_for_sources e org xs pf)
   \<and> (assert_no_active_backup_for_sources e org xs pf = Inr ()
      \<longleftrightarrow> (\<forall>(st, ref) \<in> set xs. lock_source_identity org st ref pf = Inr ()
            \<and> (\<forall>t \<in> set (db_tasks (pf_tasks pf)). backup_candidate e org pf t
                 \<longrightarrow> \<not> owns_source (pf_tasks pf) st ref t \<and> request_names_source st ref t = Inr False)))"
proof
  have "sort (remdups ys) = sort (remdups xs)" if "set ys = set xs"
    using that by (metis sorted_list_of_set_sort_remdups)
  then show "set ys = set xs \<longrightarrow> assert_no_active_backup_for_sources e org ys pf
        = assert_no_active_backup_for_sources e org xs pf"
    by (simp add: assert_no_active_backup_for_sources_def)
  have "assert_no_active_backup_for_sources e org xs pf = Inr () \<longleftrightarrow>
      (\<forall>s \<in> set xs. (\<lambda>(st, ref) u. lock_source_identity org st ref pf) s () = Inr ())
      \<and> (\<forall>s \<in> set xs. refuse_backup e org pf s () = Inr ())"
    by (simp add: assert_no_active_backup_for_sources_def Let_def rfold_unit)
  also have "\<dots> \<longleftrightarrow> (\<forall>(st, ref) \<in> set xs. lock_source_identity org st ref pf = Inr ()
      \<and> active_source_backup_task e org st ref pf = Inr None)"
    by (auto simp: backup_not_refused)
  finally show "assert_no_active_backup_for_sources e org xs pf = Inr () \<longleftrightarrow>
      (\<forall>(st, ref) \<in> set xs. lock_source_identity org st ref pf = Inr ()
            \<and> (\<forall>t \<in> set (db_tasks (pf_tasks pf)). backup_candidate e org pf t
                 \<longrightarrow> \<not> owns_source (pf_tasks pf) st ref t \<and> request_names_source st ref t = Inr False))"
    by (simp only: no_backup_found)
qed

theorem backup_fence_characterized_witness:
  "assert_no_active_backup_for_sources (example_env 10) 7 [(''agent'', 5), (''agent'', 5)] (platform_with reset_db)
     = Inr ()
   \<and> isl (assert_no_active_backup_for_sources (example_env 10) 7 [(''agent'', 5)] (platform_with backup_db))"
proof
  have "assert_no_active_backup_for_sources (example_env 10) 7 [(''agent'', 5)] (platform_with reset_db) = Inr ()"
    by code_simp
  then show "assert_no_active_backup_for_sources (example_env 10) 7 [(''agent'', 5), (''agent'', 5)]
      (platform_with reset_db) = Inr ()"
    using backup_fence_characterized [THEN conjunct1, rule_format,
        where ys = "[(''agent'', 5), (''agent'', 5)]" and xs = "[(''agent'', 5)]"
        and pf = "platform_with reset_db"] by simp
  show "isl (assert_no_active_backup_for_sources (example_env 10) 7 [(''agent'', 5)] (platform_with backup_db))"
    by code_simp
qed

end
