(* ===== verification/Endpoints.thy ===== *)
theory Endpoints
  imports Py_Value
begin

text \<open>
  The S3 endpoints of a repository, \<^verbatim>\<open>apps/storage/services/internal/repository_endpoints.py\<close>:
  host normalisation, the choice between the external and the internal endpoint, and the compact
  form in which a repository stores them.
\<close>

datatype endpoint_error = Bad_endpoint_type | External_required | Internal_unavailable

record endpoint_choice =
  ep_type :: string
  ep_endpoint :: string
  ep_external :: string
  ep_internal :: string

definition strip_tail :: "char \<Rightarrow> string \<Rightarrow> string" where
  "strip_tail c s = rstrip_by (\<lambda>x. x = c) s"

definition starts_with :: "string \<Rightarrow> string \<Rightarrow> bool" where
  "starts_with p s \<longleftrightarrow> take (length p) s = p"

definition without_scheme :: "string \<Rightarrow> string" where
  "without_scheme raw =
     (if starts_with ''https://'' (lower raw) then drop 8 raw
      else if starts_with ''http://'' (lower raw) then drop 7 raw else raw)"

definition normalize_s3_endpoint_host :: "json \<Rightarrow> string" where
  "normalize_s3_endpoint_host value =
     strip_tail CHR ''.'' (lower (strip_tail CHR ''/'' (strip (without_scheme (strip (text_or_empty value))))))"

definition or_text :: "string \<Rightarrow> string \<Rightarrow> string" where
  "or_text s d = (if s = [] then d else s)"

definition endpoint_type_text :: "json \<Rightarrow> string" where
  "endpoint_type_text v = lower (strip (or_text (text_or_empty v) ''external''))"

definition s3_endpoint_snapshot :: "json \<Rightarrow> json \<Rightarrow> json \<Rightarrow> (endpoint_error, endpoint_choice) result" where
  "s3_endpoint_snapshot external_endpoint internal_endpoint endpoint_type =
     (let external = normalize_s3_endpoint_host external_endpoint;
          internal = or_text (normalize_s3_endpoint_host internal_endpoint) external;
          requested = endpoint_type_text endpoint_type in
      rbind (guard_that (requested \<in> {''external'', ''internal''}) Bad_endpoint_type) (\<lambda>_.
      rbind (guard_that (external \<noteq> []) External_required) (\<lambda>_.
      let ty = (if external = internal then ''external'' else requested) in
      Inr \<lparr>ep_type = ty, ep_endpoint = (if ty = ''internal'' then internal else external),
           ep_external = external, ep_internal = internal\<rparr>)))"

definition dpop :: "string \<Rightarrow> dict \<Rightarrow> dict" where
  "dpop k d = filter (\<lambda>(a, b). a \<noteq> k) d"

text \<open>A missing argument is \<open>None\<close>; what is passed may itself be empty.\<close>

definition compact_s3_repository_endpoints ::
  "json \<Rightarrow> json \<Rightarrow> json option \<Rightarrow> json option \<Rightarrow> (endpoint_error, dict) result" where
  "compact_s3_repository_endpoints config s3_platform external_endpoint internal_endpoint =
     (let value = as_dict config;
          external = normalize_s3_endpoint_host
            (or_else external_endpoint (jor (dget value ''endpoint'') (dget value ''external_endpoint'')));
          internal = or_text (normalize_s3_endpoint_host
            (or_else internal_endpoint (dget value ''internal_endpoint''))) external in
      rbind (guard_that (external \<noteq> []) External_required) (\<lambda>_.
      let value = dset value ''endpoint'' (JStr external);
          value = dpop ''internal_endpoint'' (dpop ''external_endpoint'' (dpop ''endpoint_type'' value)) in
      Inr (if lower (strip (text_or_empty s3_platform)) \<noteq> ''custom'' \<and> internal \<noteq> external
           then dset (dset value ''external_endpoint'' (JStr external)) ''internal_endpoint'' (JStr internal)
           else value)))"

definition repository_data_endpoint :: "json \<Rightarrow> json \<Rightarrow> json \<Rightarrow> (endpoint_error, string) result" where
  "repository_data_endpoint config endpoint_type endpoint =
     (let value = as_dict config; snapshotted = normalize_s3_endpoint_host endpoint in
      if snapshotted \<noteq> [] then Inr snapshotted
      else
        let external = jor (dget value ''endpoint'') (dget value ''external_endpoint'') in
        rbind (if endpoint_type_text endpoint_type = ''internal'' then
                 let internal = normalize_s3_endpoint_host (dget value ''internal_endpoint'') in
                 if internal = [] \<or> internal = normalize_s3_endpoint_host external then Inl Internal_unavailable
                 else Inr (JStr internal)
               else Inr (jor (dget value ''internal_endpoint'') external)) (\<lambda>internal.
        rbind (s3_endpoint_snapshot external internal endpoint_type) (\<lambda>c. Inr (ep_endpoint c))))"

definition repository_control_endpoint :: "json \<Rightarrow> string" where
  "repository_control_endpoint config =
     (let value = as_dict config in
      normalize_s3_endpoint_host (jor (dget value ''endpoint'') (dget value ''external_endpoint'')))"

section \<open>Normalized hosts\<close>

lemma map_of_dpop: "map_of (dpop k d) x = (if x = k then None else map_of d x)"
  by (induction d) (auto simp: dpop_def)

lemma dget_dpop: "dget (dpop k d) x = (if x = k then JNull else dget d x)"
  by (simp add: dget_def map_of_dpop)

lemma jor_text: "s \<noteq> [] \<Longrightarrow> jor (JStr s) v = JStr s"
  by (simp add: jor_def)

text \<open>A stored endpoint is stable when normalising it again changes nothing.\<close>

definition stable_host :: "string \<Rightarrow> bool" where
  "stable_host h \<longleftrightarrow> normalize_s3_endpoint_host (JStr h) = h"

end
