(* ===== verification/Location.thy ===== *)
theory Location
  imports Endpoints Source_Fence
begin

text \<open>
  Where a repository lives, \<^verbatim>\<open>apps/storage/services/internal/repository_location.py\<close>: the physical
  namespace and root of each repository type, and the claims that keep two repositories from
  writing to overlapping places. The SHA-256 of a text is the parameter \<open>digest\<close>. Locked rows are
  existence checks; the notification of a release is recorded.
\<close>

section \<open>The tables\<close>

datatype repository_type = Repo_s3 | Repo_nas | Repo_proxy_fs

datatype repository_status =
  Repo_creating | Repo_create_failed | Repo_created | Repo_removing | Repo_remove_failed | Repo_removed

datatype repository_health = Health_online | Health_offline | Health_unverified

datatype claim_scope = Scope_repository | Scope_direct_nas_agent

datatype claim_state =
  Claim_reserved | Claim_initializing | Claim_owned | Claim_residual | Claim_released

record repository =
  rp_id :: int
  rp_org :: int
  rp_type :: repository_type
  rp_status :: repository_status
  rp_health :: repository_health
  rp_config :: json
  rp_nas_protocol :: "string option"
  rp_bind_node :: "int option"
  rp_s3_platform :: "string option"
  rp_s3_bucket :: "string option"
  rp_usage_known :: bool
  rp_usage_at :: "int option"
  rp_usage_bytes :: int

record location_namespace =
  ln_id :: nat
  ln_key :: string
  ln_kind :: string
  ln_hint :: string

record location_claim =
  lc_id :: nat
  lc_org :: int
  lc_repository :: int
  lc_namespace :: nat
  lc_scope :: claim_scope
  lc_root :: string
  lc_owner_node :: "int option"
  lc_state :: claim_state
  lc_initialized_at :: "int option"
  lc_last_verified_at :: "int option"
  lc_resolved_at :: "int option"
  lc_verified_at :: "int option"
  lc_legacy :: bool
  lc_released_at :: "int option"
  lc_updated_at :: int

record storage = platform +
  st_repositories :: "repository list"
  st_namespaces :: "location_namespace list"
  st_claims :: "location_claim list"
  st_next_namespace :: nat
  st_next_claim :: nat
  st_notices :: "(int \<times> int) list"

record location_spec =
  sp_kind :: string
  sp_key :: string
  sp_hint :: string
  sp_root :: string
  sp_scope :: claim_scope
  sp_owner_node :: "int option"

datatype location_error =
  Root_required
| Path_not_child
| Location_unavailable
| Location_conflict "int option"
| Repository_gone
| Not_removed
| Operation_active
| Agent_operation_active
| No_residual

definition active_claim :: "claim_state \<Rightarrow> bool" where
  "active_claim s \<longleftrightarrow> s \<in> {Claim_reserved, Claim_initializing, Claim_owned, Claim_residual}"

section \<open>Paths\<close>

definition path_parts :: "string \<Rightarrow> string list" where
  "path_parts v = slash_parts (replace_char CHR 0x5C CHR ''/'' v)"

definition roots_overlap :: "string \<Rightarrow> string \<Rightarrow> bool" where
  "roots_overlap left right =
     (let l = path_parts left; r = path_parts right; shorter = min (length l) (length r)
      in take shorter l = take shorter r)"

definition normalize_root :: "string \<Rightarrow> (location_error, string) result" where
  "normalize_root v = (let parts = path_parts (strip v) in
     if parts = [] then Inl Root_required else Inr (join_with CHR ''/'' parts))"

definition normalize_s3_root :: "json \<Rightarrow> string" where
  "normalize_s3_root v = (let parts = path_parts (strip (text_or_empty v)) in
     if parts = [] then ''/'' else join_with CHR ''/'' parts)"

definition normalize_absolute_path :: "json \<Rightarrow> (location_error, string) result" where
  "normalize_absolute_path v =
     (let n = normpath (replace_char CHR 0x5C CHR ''/'' (strip (text_or_empty v))) in
      if \<not> prefix ''/'' n \<or> n = ''/'' then Inl Path_not_child else Inr n)"

definition normalize_share :: "json \<Rightarrow> string" where
  "normalize_share v =
     or_text (strip_tail CHR ''/'' (CHR ''/'' # join_with CHR ''/'' (path_parts
       (replace_char CHR 0x5C CHR ''/'' (strip (text_or_empty v)))))) ''/''"

definition normalize_host :: "string \<Rightarrow> string" where
  "normalize_host v = strip_tail CHR ''.'' (lower (strip_tail CHR ''/'' (strip v)))"

section \<open>Identities\<close>

text \<open>\<^verbatim>\<open>json.dumps\<close> of a flat object with sorted keys, in ASCII.\<close>

definition json_char :: "char \<Rightarrow> string" where
  "json_char c = (let n = (of_char c :: nat) in
     if n = 34 then [CHR 0x5C, CHR 0x22]
     else if n = 92 then [CHR 0x5C, CHR 0x5C]
     else if n = 8 then [CHR 0x5C, CHR ''b'']
     else if n = 9 then [CHR 0x5C, CHR ''t'']
     else if n = 10 then [CHR 0x5C, CHR ''n'']
     else if n = 12 then [CHR 0x5C, CHR ''f'']
     else if n = 13 then [CHR 0x5C, CHR ''r'']
     else if n < 32 \<or> 126 < n then [CHR 0x5C, CHR ''u'', CHR ''0'', CHR ''0'', hex_digit (n div 16), hex_digit (n mod 16)]
     else [c])"

definition json_string :: "string \<Rightarrow> string" where
  "json_string s = CHR 0x22 # concat (map json_char s) @ [CHR 0x22]"

datatype field_value = Null_field | Int_field int | Text_field string

fun json_field :: "field_value \<Rightarrow> string" where
  "json_field Null_field = ''null''"
| "json_field (Int_field i) = show_int i"
| "json_field (Text_field s) = json_string s"

definition json_object :: "(string \<times> field_value) list \<Rightarrow> string" where
  "json_object fs = CHR ''{'' # join_with CHR '',''
     (map (\<lambda>(k, v). json_string k @ CHR '':'' # json_field v) (sort_key fst fs)) @ ''}''"

definition namespace_key :: "(string \<Rightarrow> string) \<Rightarrow> (string \<times> field_value) list \<Rightarrow> string" where
  "namespace_key digest identity = digest (json_object identity)"

definition strip_slashes :: "string \<Rightarrow> string" where
  "strip_slashes s = strip_by (\<lambda>c. c = CHR ''/'') s"

definition join_hint :: "string list \<Rightarrow> string" where
  "join_hint parts = join_with CHR ''/'' (map (strip_slashes \<circ> strip) (filter (\<lambda>p. p \<noteq> []) parts))"

section \<open>The place of a repository\<close>

definition nas_proxy_repository_subdir :: "repository \<Rightarrow> string" where
  "nas_proxy_repository_subdir r = ''hp-repos/storage-'' @ show_int (rp_id r)"

text \<open>\<^verbatim>\<open>int(x or 0) or None\<close>\<close>

definition nonzero :: "int option \<Rightarrow> int option" where
  "nonzero x = (if x = Some 0 then None else x)"

definition s3_identity ::
  "(string \<Rightarrow> string) \<Rightarrow> repository \<Rightarrow> string option \<Rightarrow> bool \<Rightarrow> (string \<times> field_value) list" where
  "s3_identity digest r owner_id resolved =
     (let config = as_dict (rp_config r);
          endpoint = normalize_host (repository_control_endpoint (JObj config));
          bucket = lower (strip (or_else (rp_s3_bucket r) []));
          platform = lower (strip (or_text (or_else (rp_s3_platform r) []) ''custom''));
          owner = strip (or_else owner_id []) in
      if resolved then
        (if owner \<noteq> [] then
           [(''kind'', Text_field ''s3''), (''platform'', Text_field platform), (''owner'', Text_field owner),
            (''bucket'', Text_field bucket)]
           @ (if platform = ''custom'' then [(''endpoint'', Text_field endpoint)] else [])
         else [(''kind'', Text_field ''s3''), (''endpoint'', Text_field endpoint), (''bucket'', Text_field bucket)])
      else [(''kind'', Text_field ''s3''), (''endpoint'', Text_field endpoint), (''bucket'', Text_field bucket),
            (''provisional_credential'',
              Text_field (digest (strip (text_or_empty (dget config ''access_key_id'')))))])"

definition s3_location :: "(string \<Rightarrow> string) \<Rightarrow> repository \<Rightarrow> string option \<Rightarrow> bool \<Rightarrow> location_spec" where
  "s3_location digest r owner_id resolved =
     (let config = as_dict (rp_config r) in
      \<lparr>sp_kind = ''s3'', sp_key = namespace_key digest (s3_identity digest r owner_id resolved),
       sp_hint = join_hint [normalize_host (repository_control_endpoint (JObj config)),
         lower (strip (or_else (rp_s3_bucket r) []))],
       sp_root = normalize_s3_root (dget config ''prefix''),
       sp_scope = Scope_repository, sp_owner_node = None\<rparr>)"

definition nas_identity :: "repository \<Rightarrow> int option \<Rightarrow> string \<Rightarrow> string \<Rightarrow> (string \<times> field_value) list" where
  "nas_identity r node server share =
     [(''kind'', Text_field ''nas''),
      (''execution_node_id'', case node of None \<Rightarrow> Null_field | Some i \<Rightarrow> Int_field i),
      (''protocol'', Text_field (lower (strip (or_else (rp_nas_protocol r) [])))),
      (''server'', Text_field server), (''share'', Text_field share)]"

definition nas_location ::
  "(string \<Rightarrow> string) \<Rightarrow> repository \<Rightarrow> int option \<Rightarrow> string \<Rightarrow> (location_error, location_spec) result" where
  "nas_location digest r owner subdir =
     (let config = as_dict (rp_config r);
          protocol = lower (strip (or_else (rp_nas_protocol r) []));
          share = normalize_share (dget config ''share_path'');
          share = (if protocol = ''smb'' then lower share else share);
          direct = (rp_bind_node r = None);
          node = (case owner of Some i \<Rightarrow> Some i | None \<Rightarrow> nonzero (rp_bind_node r));
          server = normalize_host (text_or_empty (dget config ''server_address'')) in
      rbind (normalize_root (if direct then subdir else nas_proxy_repository_subdir r)) (\<lambda>root.
      Inr \<lparr>sp_kind = ''nas'', sp_key = namespace_key digest (nas_identity r node server share),
        sp_hint = join_hint [case node of None \<Rightarrow> [] | Some i \<Rightarrow> ''Node #'' @ show_int i, server, share],
        sp_root = root, sp_scope = (if direct then Scope_direct_nas_agent else Scope_repository),
        sp_owner_node = node\<rparr>))"

definition proxy_fs_location :: "(string \<Rightarrow> string) \<Rightarrow> repository \<Rightarrow> (location_error, location_spec) result" where
  "proxy_fs_location digest r =
     (let config = as_dict (rp_config r); node = or_else (rp_bind_node r) 0 in
      rbind (normalize_absolute_path
        (jor (dget config ''proxy_node_base_dir'') (dget config ''proxy_node_dir''))) (\<lambda>base.
      rbind (normalize_absolute_path (dget config ''proxy_node_dir'')) (\<lambda>root.
      Inr \<lparr>sp_kind = ''proxy_fs'',
        sp_key = namespace_key digest [(''kind'', Text_field ''proxy_fs''), (''node_id'', Int_field node)],
        sp_hint = ''Proxy #'' @ show_int node @ '': '' @ base, sp_root = root,
        sp_scope = Scope_repository, sp_owner_node = nonzero (rp_bind_node r)\<rparr>)))"

definition repository_location_spec ::
  "(string \<Rightarrow> string) \<Rightarrow> repository \<Rightarrow> int option \<Rightarrow> string \<Rightarrow> string option \<Rightarrow> bool \<Rightarrow>
    (location_error, location_spec option) result" where
  "repository_location_spec digest r owner subdir s3_owner resolved =
     (case rp_type r of
        Repo_s3 \<Rightarrow> Inr (Some (s3_location digest r s3_owner resolved))
      | Repo_nas \<Rightarrow> if rp_bind_node r = None \<and> owner = None then Inr None
                    else rbind (nas_location digest r owner subdir) (\<lambda>s. Inr (Some s))
      | Repo_proxy_fs \<Rightarrow> rbind (proxy_fs_location digest r) (\<lambda>s. Inr (Some s)))"

end
