(* ===== verification/Location_Claims.thy ===== *)
theory Location_Claims
  imports Location
begin

text \<open>
  The claims on physical locations, second half of \<^verbatim>\<open>repository_location.py\<close>: reservation, the
  resolution of an S3 namespace, the state changes around initialization and verification, the
  recovery by compare-and-swap and the release. Every operation is atomic: an \<open>Inl\<close> leaves the
  store as it was.
\<close>

section \<open>Reservation\<close>

definition namespace_by_key :: "'a storage_scheme \<Rightarrow> string \<Rightarrow> location_namespace option" where
  "namespace_by_key st key = first_where (\<lambda>n. ln_key n = key) (st_namespaces st)"

definition ensure_namespace :: "location_spec \<Rightarrow> 'a storage_scheme \<Rightarrow> 'a storage_scheme \<times> location_namespace" where
  "ensure_namespace spec st =
     (case namespace_by_key st (sp_key spec) of
        Some n \<Rightarrow> (st, n)
      | None \<Rightarrow>
          let n = \<lparr>ln_id = st_next_namespace st, ln_key = sp_key spec, ln_kind = sp_kind spec,
                   ln_hint = take 700 (sp_hint spec)\<rparr>
          in (st\<lparr>st_namespaces := st_namespaces st @ [n], st_next_namespace := Suc (ln_id n)\<rparr>, n))"

text \<open>The first active claim of another repository in the namespaces that overlaps a place.\<close>

definition conflicts_with :: "repository \<Rightarrow> nat list \<Rightarrow> string \<Rightarrow> location_claim \<Rightarrow> bool" where
  "conflicts_with r namespaces place c \<longleftrightarrow> lc_namespace c \<in> set namespaces \<and> active_claim (lc_state c)
     \<and> lc_repository c \<noteq> rp_id r \<and> roots_overlap place (lc_root c)"

definition repository_by_id :: "'a storage_scheme \<Rightarrow> int \<Rightarrow> repository option" where
  "repository_by_id st i = first_where (\<lambda>r. rp_id r = i) (st_repositories st)"

definition no_conflict :: "repository \<Rightarrow> nat list \<Rightarrow> string \<Rightarrow> 'a storage_scheme \<Rightarrow> (location_error, unit) result" where
  "no_conflict r namespaces place st =
     (case first_where (conflicts_with r namespaces place) (sort_key lc_id (st_claims st)) of
        None \<Rightarrow> Inr ()
      | Some c \<Rightarrow> Inl (Location_conflict (case repository_by_id st (lc_repository c) of
          None \<Rightarrow> None
        | Some r' \<Rightarrow> if rp_org r' = rp_org r then Some (rp_id r') else None)))"

definition new_claim ::
  "int \<Rightarrow> repository \<Rightarrow> location_spec \<Rightarrow> nat \<Rightarrow> int option \<Rightarrow> int option \<Rightarrow> nat \<Rightarrow> location_claim" where
  "new_claim now r spec namespace owner resolved i =
     \<lparr>lc_id = i, lc_org = rp_org r, lc_repository = rp_id r, lc_namespace = namespace,
      lc_scope = sp_scope spec, lc_root = sp_root spec, lc_owner_node = owner,
      lc_state = Claim_reserved, lc_initialized_at = None, lc_last_verified_at = None,
      lc_resolved_at = resolved, lc_verified_at = None, lc_legacy = False, lc_released_at = None,
      lc_updated_at = now\<rparr>"

definition insert_claim :: "location_claim \<Rightarrow> 'a storage_scheme \<Rightarrow> 'a storage_scheme" where
  "insert_claim c st = st\<lparr>st_claims := st_claims st @ [c], st_next_claim := Suc (lc_id c)\<rparr>"

definition reserve ::
  "int \<Rightarrow> repository \<Rightarrow> location_spec \<Rightarrow> 'a storage_scheme \<Rightarrow>
    (location_error, 'a storage_scheme \<times> location_claim) result" where
  "reserve now r spec st =
     (case ensure_namespace spec st of (st, n) \<Rightarrow>
        rbind (no_conflict r [ln_id n] (sp_root spec) st) (\<lambda>_.
        case first_where (\<lambda>c. lc_repository c = rp_id r \<and> lc_namespace c = ln_id n
               \<and> lc_scope c = sp_scope spec \<and> lc_root c = sp_root spec
               \<and> lc_owner_node c = sp_owner_node spec \<and> active_claim (lc_state c))
             (rev (sort_key lc_id (st_claims st))) of
          Some c \<Rightarrow> Inr (st, c)
        | None \<Rightarrow>
            let c = new_claim now r spec (ln_id n) (sp_owner_node spec) None (st_next_claim st)
            in Inr (insert_claim c st, c)))"

definition reserve_repository_location ::
  "(string \<Rightarrow> string) \<Rightarrow> int \<Rightarrow> repository \<Rightarrow> 'a storage_scheme \<Rightarrow>
    (location_error, 'a storage_scheme \<times> location_claim option) result" where
  "reserve_repository_location digest now r st =
     rbind (repository_location_spec digest r None [] None False) (\<lambda>spec. case spec of
         None \<Rightarrow> Inr (st, None)
       | Some s \<Rightarrow> rbind (reserve now r s st) (\<lambda>(st, c). Inr (st, Some c)))"

definition reserve_direct_nas_location ::
  "(string \<Rightarrow> string) \<Rightarrow> int \<Rightarrow> repository \<Rightarrow> int \<Rightarrow> string \<Rightarrow> 'a storage_scheme \<Rightarrow>
    (location_error, 'a storage_scheme \<times> location_claim) result" where
  "reserve_direct_nas_location digest now r node subdir st =
     rbind (repository_location_spec digest r (Some node) subdir None False) (\<lambda>spec. case spec of
         None \<Rightarrow> Inl Location_unavailable
       | Some s \<Rightarrow> reserve now r s st)"

section \<open>The namespace of an S3 repository\<close>

definition locked_repository :: "repository \<Rightarrow> 'a storage_scheme \<Rightarrow> repository option" where
  "locked_repository r st =
     first_where (\<lambda>x. rp_id x = rp_id r \<and> rp_org x = rp_org r) (st_repositories st)"

definition current_claim :: "repository \<Rightarrow> 'a storage_scheme \<Rightarrow> location_claim option" where
  "current_claim r st = first_where (\<lambda>c. lc_repository c = rp_id r \<and> lc_scope c = Scope_repository
     \<and> active_claim (lc_state c)) (sort_key lc_id (st_claims st))"

definition save_claim :: "nat \<Rightarrow> (location_claim \<Rightarrow> location_claim) \<Rightarrow> 'a storage_scheme \<Rightarrow> 'a storage_scheme" where
  "save_claim i f st = st\<lparr>st_claims := update_where (\<lambda>c. lc_id c = i) f (st_claims st)\<rparr>"

definition resolved_claim :: "int \<Rightarrow> nat \<Rightarrow> string \<Rightarrow> location_claim \<Rightarrow> location_claim" where
  "resolved_claim now namespace place c =
     c\<lparr>lc_namespace := namespace, lc_root := place, lc_resolved_at := Some now, lc_updated_at := now\<rparr>"

definition known_namespace :: "'a storage_scheme \<Rightarrow> location_spec option \<Rightarrow> nat list" where
  "known_namespace st spec = (case spec of
       None \<Rightarrow> []
     | Some s \<Rightarrow> (case namespace_by_key st (sp_key s) of None \<Rightarrow> [] | Some n \<Rightarrow> [ln_id n]))"

definition settle_claim ::
  "int \<Rightarrow> repository \<Rightarrow> location_spec \<Rightarrow> nat \<Rightarrow> nat list \<Rightarrow> 'a storage_scheme \<Rightarrow>
    (location_error, 'a storage_scheme \<times> location_claim) result" where
  "settle_claim now r spec target namespaces st =
     rbind (no_conflict r namespaces (sp_root spec) st) (\<lambda>_.
     case current_claim r st of
       None \<Rightarrow>
         let c = new_claim now r spec target None (Some now) (st_next_claim st)
         in Inr (insert_claim c st, c)
     | Some c \<Rightarrow>
         Inr (save_claim (lc_id c) (resolved_claim now target (sp_root spec)) st,
              resolved_claim now target (sp_root spec) c))"

definition resolve_s3_repository_namespace ::
  "(string \<Rightarrow> string) \<Rightarrow> int \<Rightarrow> repository \<Rightarrow> string option \<Rightarrow> 'a storage_scheme \<Rightarrow>
    (location_error, 'a storage_scheme \<times> location_claim) result" where
  "resolve_s3_repository_namespace digest now repo owner st =
     rbind (of_option Repository_gone (locked_repository repo st)) (\<lambda>r.
     rbind (repository_location_spec digest r None [] owner (strip (or_else owner []) \<noteq> [])) (\<lambda>spec.
     rbind (of_option Location_unavailable spec) (\<lambda>spec.
     case ensure_namespace spec st of (st, target) \<Rightarrow>
     rbind (repository_location_spec digest r None [] None True) (\<lambda>conservative.
       settle_claim now r spec (ln_id target)
         (ln_id target # (case current_claim r st of None \<Rightarrow> [] | Some c \<Rightarrow> [lc_namespace c])
            @ known_namespace st conservative) st))))"

section \<open>State changes\<close>

text \<open>The claims of a repository in some states, optionally of one node and one root.\<close>

definition selects_claim ::
  "repository \<Rightarrow> claim_state list \<Rightarrow> int option \<Rightarrow> string option \<Rightarrow> location_claim \<Rightarrow> bool" where
  "selects_claim r states owner place c \<longleftrightarrow> lc_repository c = rp_id r \<and> lc_state c \<in> set states
     \<and> (owner = None \<or> lc_owner_node c = owner) \<and> (place = None \<or> place = Some (lc_root c))"

definition claim_place :: "string option \<Rightarrow> (location_error, string option) result" where
  "claim_place subdir = (case subdir of
       None \<Rightarrow> Inr None | Some s \<Rightarrow> rbind (normalize_root s) (\<lambda>p. Inr (Some p)))"

definition update_claims ::
  "repository \<Rightarrow> claim_state list \<Rightarrow> int option \<Rightarrow> string option \<Rightarrow> (location_claim \<Rightarrow> location_claim)
    \<Rightarrow> 'a storage_scheme \<Rightarrow> (location_error, 'a storage_scheme) result" where
  "update_claims r states owner subdir f st =
     rbind (claim_place subdir) (\<lambda>place.
       Inr (st\<lparr>st_claims := update_where (selects_claim r states owner place) f (st_claims st)\<rparr>))"

definition active_states :: "claim_state list" where
  "active_states = [Claim_reserved, Claim_initializing, Claim_owned, Claim_residual]"

definition to_state :: "int \<Rightarrow> claim_state \<Rightarrow> location_claim \<Rightarrow> location_claim" where
  "to_state now s c = c\<lparr>lc_state := s, lc_released_at := None, lc_updated_at := now\<rparr>"

definition mark_repository_location_owned ::
  "int \<Rightarrow> repository \<Rightarrow> int option \<Rightarrow> string option \<Rightarrow> 'a storage_scheme \<Rightarrow> (location_error, 'a storage_scheme) result" where
  "mark_repository_location_owned now r owner subdir st =
     update_claims r [Claim_reserved, Claim_initializing, Claim_residual] owner subdir
       (\<lambda>c. (to_state now Claim_owned c)\<lparr>lc_initialized_at := Some now, lc_last_verified_at := Some now\<rparr>) st"

definition verified_claim :: "int \<Rightarrow> location_claim \<Rightarrow> location_claim" where
  "verified_claim now c = (to_state now Claim_owned c)\<lparr>lc_last_verified_at := Some now,
     lc_verified_at := Some now, lc_legacy := False\<rparr>"

definition mark_repository_location_ownership_verified ::
  "int \<Rightarrow> repository \<Rightarrow> int option \<Rightarrow> string option \<Rightarrow> 'a storage_scheme \<Rightarrow> (location_error, 'a storage_scheme) result" where
  "mark_repository_location_ownership_verified now r owner subdir st =
     update_claims r active_states owner subdir (verified_claim now) st"

text \<open>Compare and swap on the time of the last change.\<close>

definition recoverable :: "repository \<Rightarrow> nat \<Rightarrow> int \<Rightarrow> int option \<Rightarrow> string option \<Rightarrow> location_claim \<Rightarrow> bool" where
  "recoverable r i expected owner place c \<longleftrightarrow> selects_claim r [Claim_residual] owner place c
     \<and> lc_id c = i \<and> lc_updated_at c = expected"

definition recover_repository_location_ownership ::
  "int \<Rightarrow> repository \<Rightarrow> nat \<Rightarrow> int \<Rightarrow> int option \<Rightarrow> string option \<Rightarrow> 'a storage_scheme \<Rightarrow>
    (location_error, 'a storage_scheme \<times> bool) result" where
  "recover_repository_location_ownership now r i expected owner subdir st =
     rbind (claim_place subdir) (\<lambda>place.
       Inr (st\<lparr>st_claims := update_where (recoverable r i expected owner place)
              (\<lambda>c. (verified_claim now c)\<lparr>lc_initialized_at := Some now\<rparr>) (st_claims st)\<rparr>,
            count_where (recoverable r i expected owner place) (st_claims st) = 1))"

definition mark_repository_location_residual ::
  "int \<Rightarrow> repository \<Rightarrow> int option \<Rightarrow> string option \<Rightarrow> 'a storage_scheme \<Rightarrow> (location_error, 'a storage_scheme) result" where
  "mark_repository_location_residual now r owner subdir st =
     update_claims r active_states owner subdir (to_state now Claim_residual) st"

definition invalidate_repository_location_ownership ::
  "int \<Rightarrow> repository \<Rightarrow> int option \<Rightarrow> string option \<Rightarrow> 'a storage_scheme \<Rightarrow> (location_error, 'a storage_scheme) result" where
  "invalidate_repository_location_ownership now r owner subdir st =
     update_claims r active_states owner subdir (to_state now Claim_residual) st"

definition mark_repository_location_initializing ::
  "int \<Rightarrow> repository \<Rightarrow> int option \<Rightarrow> string option \<Rightarrow> bool \<Rightarrow> 'a storage_scheme \<Rightarrow>
    (location_error, 'a storage_scheme) result" where
  "mark_repository_location_initializing now r owner subdir include_residual st =
     update_claims r (Claim_reserved # (if include_residual then [Claim_residual] else [])) owner subdir
       (to_state now Claim_initializing) st"

definition mark_repository_location_initialization_failed ::
  "int \<Rightarrow> repository \<Rightarrow> int option \<Rightarrow> string option \<Rightarrow> 'a storage_scheme \<Rightarrow> (location_error, 'a storage_scheme) result" where
  "mark_repository_location_initialization_failed now r owner subdir st =
     update_claims r [Claim_reserved, Claim_initializing, Claim_residual] owner subdir
       (to_state now Claim_residual) st"

section \<open>Release\<close>

definition notify_released :: "repository \<Rightarrow> 'a storage_scheme \<Rightarrow> 'a storage_scheme" where
  "notify_released r st = st\<lparr>st_notices := st_notices st @ [(rp_org r, rp_id r)]\<rparr>"

definition released_claim :: "int \<Rightarrow> location_claim \<Rightarrow> location_claim" where
  "released_claim now c = c\<lparr>lc_state := Claim_released, lc_released_at := Some now, lc_updated_at := now\<rparr>"

definition release_repository_location ::
  "int \<Rightarrow> repository \<Rightarrow> int option \<Rightarrow> string option \<Rightarrow> 'a storage_scheme \<Rightarrow> (location_error, 'a storage_scheme) result" where
  "release_repository_location now r owner subdir st =
     rbind (update_claims r active_states owner subdir (released_claim now) st)
       (\<lambda>st. Inr (notify_released r st))"

definition json_names :: "json \<Rightarrow> int \<Rightarrow> bool" where
  "json_names v i \<longleftrightarrow> (case v of JInt j \<Rightarrow> j = i | JFloat q _ \<Rightarrow> q = of_int i | JStr s \<Rightarrow> s = show_int i
     | _ \<Rightarrow> False)"

definition operation_active :: "repository \<Rightarrow> 'a storage_scheme \<Rightarrow> bool" where
  "operation_active r st \<longleftrightarrow> (\<exists>t \<in> set (db_tasks (pf_tasks st)). t_status t \<in> {Pending, Running}
     \<and> (\<exists>ro \<in> set (db_operations (pf_tasks st)). ro_task ro = t_id t \<and> ro_repository ro = rp_id r))"

definition agent_operation_active :: "repository \<Rightarrow> 'a storage_scheme \<Rightarrow> bool" where
  "agent_operation_active r st \<longleftrightarrow> (\<exists>k \<in> set (fl_tasks (pf_fleet st)). k_org k = Some (rp_org r)
     \<and> active (k_status k)
     \<and> (json_names (dget (k_payload k) ''repository_id'') (rp_id r)
        \<or> json_names (dget (as_dict (dget (k_payload k) ''repository'')) ''id'') (rp_id r)))"

text \<open>The bulk update of a release does not touch \<^verbatim>\<open>updated_at\<close> here.\<close>

definition release_repository_residual_locations ::
  "int \<Rightarrow> repository \<Rightarrow> 'a storage_scheme \<Rightarrow> (location_error, 'a storage_scheme \<times> nat) result" where
  "release_repository_residual_locations now repo st =
     rbind (of_option Repository_gone (locked_repository repo st)) (\<lambda>r.
     rbind (guard_that (rp_status r = Repo_removed) Not_removed) (\<lambda>_.
     rbind (guard_that (\<not> operation_active r st) Operation_active) (\<lambda>_.
     rbind (guard_that (\<not> agent_operation_active r st) Agent_operation_active) (\<lambda>_.
     let sel = selects_claim r [Claim_residual] None None; n = count_where sel (st_claims st) in
     rbind (guard_that (n \<noteq> 0) No_residual) (\<lambda>_.
       Inr (notify_released r (st\<lparr>st_claims := update_where sel
              (\<lambda>c. c\<lparr>lc_state := Claim_released, lc_released_at := Some now\<rparr>) (st_claims st)\<rparr>), n))))))"

section \<open>Queries\<close>

definition repository_has_owned_location ::
  "repository \<Rightarrow> int option \<Rightarrow> string option \<Rightarrow> 'a storage_scheme \<Rightarrow> (location_error, bool) result" where
  "repository_has_owned_location r owner subdir st =
     rbind (claim_place subdir) (\<lambda>place. Inr (\<exists>c \<in> set (st_claims st).
       selects_claim r [Claim_owned] owner place c \<and> lc_verified_at c \<noteq> None))"

definition repository_has_legacy_location ::
  "repository \<Rightarrow> int option \<Rightarrow> string option \<Rightarrow> 'a storage_scheme \<Rightarrow> (location_error, bool) result" where
  "repository_has_legacy_location r owner subdir st =
     rbind (claim_place subdir) (\<lambda>place. Inr (\<exists>c \<in> set (st_claims st).
       selects_claim r [Claim_owned] owner place c \<and> lc_verified_at c = None \<and> lc_legacy c))"

end
