(* ===== verification/Snapshot_Usage.thy ===== *)
theory Snapshot_Usage
  imports Location_Claims "HOL-Library.Option_ord"
begin

text \<open>
  Usage leases on snapshots, \<^verbatim>\<open>apps/protection/services/snapshot_usage.py\<close>, on the tables of
  \<^verbatim>\<open>apps/protection/models\<close> and the columns read of execution targets and orphans
  (\<^verbatim>\<open>orphan_snapshot_fence.py\<close>), chat sessions and knowledge sources. A lease keeps a snapshot
  from being deleted while a restore or a chat works on it. JSON columns that the program only
  ever writes as objects are dictionaries.
\<close>

section \<open>The tables\<close>

datatype snapshot_status =
  Snap_creating | Snap_available | Snap_partial | Snap_failed | Snap_deleting | Snap_delete_failed
| Snap_deleted

datatype snapshot_trigger = By_manual | By_schedule | By_retry | By_api

datatype config_status =
  Conf_provisioning | Conf_active | Conf_provision_failed | Conf_resetting | Conf_reset_failed

datatype consumer_type = For_restore | For_chat | For_chat_update

datatype session_lifecycle =
  Session_provisioning | Session_ready | Session_failed | Session_deleting | Session_deleted

datatype cleanup_intent = Intent_none | Reset_for_retry | Delete_session

datatype cleanup_status =
  Cleanup_none | Cleanup_pending | Cleanup_running | Cleanup_blocked | Cleanup_complete

datatype knowledge_lifecycle = Knowledge_ready | Knowledge_deleting | Knowledge_deleted

record backup_config =
  bc_id :: int
  bc_org :: int
  bc_source_type :: string
  bc_source_ref :: int
  bc_policy :: "int option"
  bc_status :: config_status
  bc_repository :: int
  bc_error_code :: string

record config_directory =
  cd_id :: int
  cd_config :: int

record backup_policy =
  bp_id :: int
  bp_active :: bool
  bp_schedule :: json
  bp_retention :: json

record snapshot =
  sn_id :: int
  sn_org :: int
  sn_uid :: string
  sn_key :: string
  sn_source_type :: string
  sn_source_ref :: int
  sn_config :: int
  sn_repository :: int
  sn_task :: nat
  sn_task_uuid :: string
  sn_trigger :: snapshot_trigger
  sn_status :: snapshot_status
  sn_started_at :: "int option"
  sn_finished_at :: "int option"
  sn_expected :: int
  sn_succeeded :: int
  sn_failed :: int
  sn_size :: int
  sn_files :: int
  sn_dirs :: int
  sn_error_code :: string
  sn_error_message :: string
  sn_deleted_at :: "int option"
  sn_created_at :: int

text \<open>The consumer type is the stored text: rows of other releases may hold unknown ones.\<close>

record usage_lease =
  sl_id :: nat
  sl_org :: int
  sl_snapshot :: int
  sl_consumer_type :: string
  sl_consumer :: string
  sl_created_at :: int
  sl_reconciled_at :: "int option"

record chat_session =
  cs_id :: int
  cs_lifecycle :: session_lifecycle
  cs_teardown :: dict
  cs_knowledge :: "int option"
  cs_intent :: cleanup_intent
  cs_cleanup :: cleanup_status
  cs_next_retry_at :: "int option"

record knowledge_source =
  kn_id :: int
  kn_org :: int
  kn_lifecycle :: knowledge_lifecycle
  kn_sync_state :: dict

datatype directory_status =
  Dir_pending | Dir_dispatching | Dir_running | Dir_creating | Dir_available | Dir_failed | Dir_cancelled
| Dir_deleted

record snapshot_directory =
  sd_id :: int
  sd_snapshot :: int
  sd_org :: int
  sd_config :: int
  sd_config_dir :: int
  sd_path :: string
  sd_path_type :: string
  sd_name :: string
  sd_repository :: int
  sd_kopia_id :: "string option"
  sd_state :: directory_status
  sd_size :: int
  sd_new_original :: "int option"
  sd_new_packed :: "int option"
  sd_files :: int
  sd_dirs :: int
  sd_stats :: dict
  sd_error_code :: string
  sd_error_message :: string
  sd_locator :: json
  sd_node_task :: "nat option"

record execution_target =
  et_id :: int
  et_repository :: int
  et_active_task :: "nat option"

record cleanup_residue =
  cr_id :: int
  cr_org :: int
  cr_repository :: int
  cr_payload :: dict

record orphan_snapshot =
  os_target :: int
  os_status :: string

record protection = storage +
  pr_configs :: "backup_config list"
  pr_config_directories :: "config_directory list"
  pr_policies :: "backup_policy list"
  pr_snapshots :: "snapshot list"
  pr_next_snapshot :: int
  pr_directories :: "snapshot_directory list"
  pr_next_directory :: int
  pr_leases :: "usage_lease list"
  pr_next_lease :: nat
  pr_delete_queue :: "(nat \<times> int) list"
  pr_backup_queue :: "(nat \<times> int) list"
  pr_estimate_queue :: "(int \<times> string) list"
  pr_targets :: "execution_target list"
  pr_orphans :: "orphan_snapshot list"
  pr_sessions :: "chat_session list"
  pr_knowledge :: "knowledge_source list"
  pr_residues :: "cleanup_residue list"
  pr_delete_locks :: "(int \<times> int) list"
  pr_unregister_queue :: "nat list"

datatype usage_error =
  Unsupported_consumer
| Missing_consumer
| Snapshot_not_found
| Fenced fence_error
| Usage_conflict string
| Repository_missing
| Orphan_cleanup
| Lease_integrity
| Malformed_state

section \<open>Acquisition\<close>

fun consumer_value :: "consumer_type \<Rightarrow> string" where
  "consumer_value For_restore = ''restore''"
| "consumer_value For_chat = ''chat''"
| "consumer_value For_chat_update = ''chat_update''"

definition consumer_values :: "string list" where
  "consumer_values = map consumer_value [For_restore, For_chat, For_chat_update]"

definition consumer_id :: "string \<Rightarrow> (usage_error, string) result" where
  "consumer_id v = (if strip v = [] then Inl Missing_consumer else Inr (strip v))"

definition fenced :: "(fence_error, 'a) result \<Rightarrow> (usage_error, 'a) result" where
  "fenced r = (case r of Inl e \<Rightarrow> Inl (Fenced e) | Inr x \<Rightarrow> Inr x)"

definition snapshot_row :: "int \<Rightarrow> int \<Rightarrow> protection \<Rightarrow> snapshot option" where
  "snapshot_row org i pf = first_where (\<lambda>s. sn_org s = org \<and> sn_id s = i) (pr_snapshots pf)"

definition lease_source_type :: "snapshot \<Rightarrow> string" where
  "lease_source_type s = (if sn_source_type s = ''host'' then ''agent'' else sn_source_type s)"

definition node_removal_active :: "int \<Rightarrow> int \<Rightarrow> protection \<Rightarrow> bool" where
  "node_removal_active org ref pf \<longleftrightarrow>
     (\<exists>n \<in> set (fl_nodes (pf_fleet pf)). n_org n = Some org \<and> int (n_id n) = ref
        \<and> n_status n \<in> {Node_removing, Node_cleaning_up})
     \<or> (\<exists>t \<in> set (fl_tasks (pf_fleet pf)). k_org t = Some org \<and> int (k_node t) = ref
          \<and> k_kind t = ''agent.uninstall'' \<and> active (k_status t))"

text \<open>\<^verbatim>\<open>assert_no_orphan_cleanup\<close>\<close>

definition reconciles_snapshots :: "task_db \<Rightarrow> execution_target \<Rightarrow> bool" where
  "reconciles_snapshots db et \<longleftrightarrow> (case et_active_task et of None \<Rightarrow> False
     | Some i \<Rightarrow> \<exists>ro \<in> set (db_operations db). ro_task ro = i \<and> ro_operation_type ro = ''snapshot.reconcile'')"

definition assert_no_orphan_cleanup :: "int \<Rightarrow> protection \<Rightarrow> (usage_error, unit) result" where
  "assert_no_orphan_cleanup repo pf =
     guard_that
       (\<not> (\<exists>et \<in> set (pr_targets pf). et_repository et = repo \<and> reconciles_snapshots (pf_tasks pf) et)
        \<and> \<not> (\<exists>o' \<in> set (pr_orphans pf). os_status o' = ''deleting''
              \<and> (\<exists>et \<in> set (pr_targets pf). et_id et = os_target o' \<and> et_repository et = repo)))
       Orphan_cleanup"

definition usable :: "snapshot_status \<Rightarrow> bool" where
  "usable s \<longleftrightarrow> s \<in> {Snap_available, Snap_partial}"

definition config_resetting :: "snapshot \<Rightarrow> protection \<Rightarrow> bool" where
  "config_resetting s pf \<longleftrightarrow> (\<exists>c \<in> set (pr_configs pf). bc_org c = sn_org s \<and> bc_id c = sn_config s
     \<and> bc_status c = Conf_resetting)"

text \<open>The admission checks up to the lease itself.\<close>

definition admit_usage :: "int \<Rightarrow> int \<Rightarrow> protection \<Rightarrow> (usage_error, unit) result" where
  "admit_usage org i pf =
     rbind (of_option Snapshot_not_found (snapshot_row org i pf)) (\<lambda>s.
     let st = lease_source_type s; ref = sn_source_ref s in
     rbind (fenced (lock_source_identity org st ref pf)) (\<lambda>_.
     rbind (guard_that (active_source_control_task org st ref None pf = None)
       (Usage_conflict ''The backup source is being reset or deregistered.'')) (\<lambda>_.
     rbind (guard_that (\<not> (st = ''agent'' \<and> node_removal_active org ref pf))
       (Usage_conflict ''The backup source Agent is being removed.'')) (\<lambda>_.
     rbind (guard_that (repository_by_id pf (sn_repository s) \<noteq> None) Repository_missing) (\<lambda>_.
     rbind (assert_no_orphan_cleanup (sn_repository s) pf) (\<lambda>_.
     rbind (guard_that (usable (sn_status s)) (Usage_conflict ''Snapshot is no longer available.'')) (\<lambda>_.
       guard_that (\<not> config_resetting s pf)
         (Usage_conflict ''Snapshot configuration is being reset.''))))))))"

definition lease_key :: "usage_lease \<Rightarrow> int \<times> string \<times> string" where
  "lease_key l = (sl_snapshot l, sl_consumer_type l, sl_consumer l)"

text \<open>\<^verbatim>\<open>get_or_create\<close>, under the unique constraint on snapshot and consumer.\<close>

definition get_or_create_lease ::
  "int \<Rightarrow> int \<Rightarrow> int \<times> string \<times> string \<Rightarrow> protection \<Rightarrow> (usage_error, protection \<times> usage_lease) result" where
  "get_or_create_lease now org key pf =
     (case first_where (\<lambda>l. lease_key l = key) (pr_leases pf) of
        Some l \<Rightarrow> if sl_org l = org then Inr (pf, l) else Inl Lease_integrity
      | None \<Rightarrow>
          let l = \<lparr>sl_id = pr_next_lease pf, sl_org = org, sl_snapshot = fst key,
                   sl_consumer_type = fst (snd key), sl_consumer = snd (snd key),
                   sl_created_at = now, sl_reconciled_at = None\<rparr>
          in Inr (pf\<lparr>pr_leases := pr_leases pf @ [l], pr_next_lease := Suc (sl_id l)\<rparr>, l))"

definition acquire_snapshot_usage ::
  "int \<Rightarrow> int \<Rightarrow> int \<Rightarrow> string \<Rightarrow> string \<Rightarrow> protection \<Rightarrow> (usage_error, protection \<times> usage_lease) result" where
  "acquire_snapshot_usage now org i ctype cid pf =
     rbind (guard_that (strip ctype \<in> set consumer_values) Unsupported_consumer) (\<lambda>_.
     rbind (admit_usage org i pf) (\<lambda>_.
     rbind (consumer_id cid) (\<lambda>c.
       get_or_create_lease now org (i, strip ctype, c) pf)))"

section \<open>Release and protection\<close>

definition release_snapshot_usage ::
  "int \<Rightarrow> string \<Rightarrow> string \<Rightarrow> protection \<Rightarrow> (usage_error, protection \<times> nat) result" where
  "release_snapshot_usage i ctype cid pf =
     rbind (consumer_id cid) (\<lambda>c.
       Inr (pf\<lparr>pr_leases := filter (\<lambda>l. lease_key l \<noteq> (i, ctype, c)) (pr_leases pf)\<rparr>,
            count_where (\<lambda>l. lease_key l = (i, ctype, c)) (pr_leases pf)))"

definition release_restore_usage :: "int \<Rightarrow> int \<Rightarrow> protection \<Rightarrow> (usage_error, protection \<times> nat) result" where
  "release_restore_usage record_id i pf = release_snapshot_usage i ''restore'' (show_int record_id) pf"

definition release_chat_usage :: "int \<Rightarrow> int \<Rightarrow> protection \<Rightarrow> (usage_error, protection \<times> nat) result" where
  "release_chat_usage session i pf = release_snapshot_usage i ''chat'' (show_int session) pf"

definition snapshot_is_protected :: "int \<Rightarrow> protection \<Rightarrow> bool" where
  "snapshot_is_protected i pf \<longleftrightarrow> (\<exists>l \<in> set (pr_leases pf). sl_snapshot l = i)"

definition protected_snapshot_ids :: "int list option \<Rightarrow> protection \<Rightarrow> int list" where
  "protected_snapshot_ids is pf = (case is of
       None \<Rightarrow> remdups (map sl_snapshot (pr_leases pf))
     | Some xs \<Rightarrow> remdups (filter (\<lambda>i. i \<in> set xs) (map sl_snapshot (pr_leases pf))))"

section \<open>Reconciliation\<close>

text \<open>Work of a restore without a record, and of one with a record.\<close>

definition orphan_work_active :: "int \<Rightarrow> protection \<Rightarrow> bool" where
  "orphan_work_active i pf \<longleftrightarrow> (\<exists>t \<in> set (fl_tasks (pf_fleet pf)). active (k_status t)
     \<and> json_names (dget (k_payload t) ''restore_record_id'') i)"

definition restore_work_active :: "restore_record \<Rightarrow> protection \<Rightarrow> bool" where
  "restore_work_active r pf \<longleftrightarrow> (\<exists>t \<in> set (fl_tasks (pf_fleet pf)).
     (k_org t = Some (rr_org r) \<or> k_org t = rr_exec_org r)
     \<and> k_correlation_id t = rr_task_uuid r \<and> active (k_status t))"

definition keeps_restore :: "int \<Rightarrow> protection \<Rightarrow> bool" where
  "keeps_restore i pf = (case first_where (\<lambda>r. rr_id r = i) (pf_restores pf) of
       None \<Rightarrow> orphan_work_active i pf
     | Some r \<Rightarrow> restore_work_active r pf
         \<or> (case task_by_id (pf_tasks pf) (rr_task_id r) of None \<Rightarrow> False
            | Some t \<Rightarrow> \<not> terminal (t_status t)))"

text \<open>\<^verbatim>\<open>teardown_blocking.remote_cleanup_pending\<close>\<close>

definition forced_remote_cleanup :: "dict \<Rightarrow> dict" where
  "forced_remote_cleanup state = as_dict (dget state ''forced_remote_cleanup'')"

definition remote_cleanup_pending :: "dict \<Rightarrow> bool" where
  "remote_cleanup_pending state \<longleftrightarrow> dget (forced_remote_cleanup state) ''status'' = JStr ''pending''"

definition session_over :: "chat_session \<Rightarrow> bool" where
  "session_over s \<longleftrightarrow> cs_lifecycle s \<in> {Session_ready, Session_deleted}
     \<or> (cs_lifecycle s = Session_deleting \<and> cs_cleanup s = Cleanup_complete)
     \<or> (cs_lifecycle s = Session_failed \<and> cs_next_retry_at s = None
        \<and> cs_cleanup s \<in> {Cleanup_none, Cleanup_complete})"

definition keeps_chat :: "int \<Rightarrow> protection \<Rightarrow> bool" where
  "keeps_chat i pf = (case first_where (\<lambda>s. cs_id s = i) (pr_sessions pf) of
       None \<Rightarrow> False
     | Some s \<Rightarrow>
         if remote_cleanup_pending (cs_teardown s) then True
         else if cs_lifecycle s = Session_failed \<and> cs_knowledge s \<noteq> None \<and> cs_intent s = Intent_none
         then True
         else \<not> session_over s)"

text \<open>
  The update record must be an object and its status hashable; otherwise the run ends with the
  exception.
\<close>

fun hashable :: "json \<Rightarrow> bool" where
  "hashable (JList _) = False"
| "hashable (JObj _) = False"
| "hashable _ = True"

definition update_over :: "usage_lease \<Rightarrow> json \<Rightarrow> (usage_error, bool) result" where
  "update_over l v =
     (if truthy v \<and> \<not> is_dict v then Inl Malformed_state
      else let update = as_dict v; status = dget update ''status''
           in if \<not> hashable status then Inl Malformed_state
              else Inr (status \<in> {JStr ''complete'', JStr ''abandoned''}
                \<or> text_or_empty (dget update ''target_snapshot_id'') \<noteq> show_int (sl_snapshot l)))"

definition keeps_update :: "int \<Rightarrow> usage_lease \<Rightarrow> protection \<Rightarrow> (usage_error, bool) result" where
  "keeps_update i l pf =
     (case first_where (\<lambda>k. kn_id k = i \<and> kn_org k = sl_org l) (pr_knowledge pf) of
        None \<Rightarrow> Inr False
      | Some k \<Rightarrow>
          if kn_lifecycle k = Knowledge_deleted then Inr False
          else rbind (update_over l (dget (kn_sync_state k) ''chat_data_update''))
                 (\<lambda>over. Inr (\<not> over)))"

text \<open>One lease: whether its consumer still needs it.\<close>

definition lease_needed :: "usage_lease \<Rightarrow> protection \<Rightarrow> (usage_error, bool) result" where
  "lease_needed l pf = (case parse_int (sl_consumer l) of
       None \<Rightarrow> Inr True
     | Some i \<Rightarrow>
         if sl_consumer_type l = ''restore'' then Inr (keeps_restore i pf)
         else if sl_consumer_type l = ''chat'' then Inr (keeps_chat i pf)
         else if sl_consumer_type l = ''chat_update'' then keeps_update i l pf
         else Inr True)"

definition delete_lease :: "nat \<Rightarrow> protection \<Rightarrow> protection" where
  "delete_lease i pf = pf\<lparr>pr_leases := filter (\<lambda>l. sl_id l \<noteq> i) (pr_leases pf)\<rparr>"

text \<open>The loop; the second component is the exception that ended it, or the retained ids.\<close>

fun reconcile_leases ::
  "usage_lease list \<Rightarrow> nat list \<Rightarrow> nat \<Rightarrow> protection \<Rightarrow> protection \<times> (usage_error, nat list \<times> nat) result" where
  "reconcile_leases [] retained released pf = (pf, Inr (retained, released))"
| "reconcile_leases (l # ls) retained released pf = (case lease_needed l pf of
       Inl e \<Rightarrow> (pf, Inl e)
     | Inr True \<Rightarrow> reconcile_leases ls (retained @ [sl_id l]) released pf
     | Inr False \<Rightarrow> reconcile_leases ls retained (Suc released) (delete_lease (sl_id l) pf))"

definition lease_order :: "protection \<Rightarrow> usage_lease list" where
  "lease_order pf = sort_key (\<lambda>l. (sl_reconciled_at l, sl_id l)) (pr_leases pf)"

definition stamp_leases :: "int \<Rightarrow> nat list \<Rightarrow> protection \<Rightarrow> protection" where
  "stamp_leases now is pf = pf\<lparr>pr_leases :=
     update_where (\<lambda>l. sl_id l \<in> set is) (\<lambda>l. l\<lparr>sl_reconciled_at := Some now\<rparr>) (pr_leases pf)\<rparr>"

record usage_report =
  ur_checked :: nat
  ur_released :: nat
  ur_retained :: nat

definition reconcile_snapshot_usage_leases ::
  "int \<Rightarrow> int \<Rightarrow> protection \<Rightarrow> protection \<times> (usage_error, usage_report) result" where
  "reconcile_snapshot_usage_leases now limit pf =
     (let ls = take (nat (max 1 limit)) (lease_order pf)
      in case reconcile_leases ls [] 0 pf of
           (pf', Inl e) \<Rightarrow> (pf', Inl e)
         | (pf', Inr (retained, released)) \<Rightarrow>
             (if retained = [] then pf' else stamp_leases now retained pf',
              Inr \<lparr>ur_checked = length ls, ur_released = released, ur_retained = length retained\<rparr>))"

end
