(* ===== verification/Storage_Claims.thy ===== *)
theory Storage_Claims
  imports Location_Claims Fence_Claims
begin

text \<open>
  What the location claims promise: active claims of different repositories never share a place,
  under any sequence of reservations, resolutions, state changes, recoveries and releases.
\<close>

section \<open>Overlap\<close>

lemma take_eq_prefix: "take (min (length xs) (length ys)) xs = take (min (length xs) (length ys)) ys
   \<longleftrightarrow> prefix xs ys \<or> prefix ys xs"
proof (cases "length xs \<le> length ys")
  case True
  then have "prefix xs ys \<longleftrightarrow> take (length xs) ys = xs"
    by (metis prefix_def append_eq_conv_conj append_take_drop_id)
  moreover have "prefix ys xs \<Longrightarrow> xs = ys" using True by (auto simp: prefix_def)
  ultimately show ?thesis using True by (auto simp: min_def)
next
  case False
  then have "prefix ys xs \<longleftrightarrow> take (length ys) xs = ys"
    by (metis prefix_def append_eq_conv_conj append_take_drop_id)
  moreover have "\<not> prefix xs ys" using False prefix_length_le by fastforce
  ultimately show ?thesis using False by (auto simp: min_def)
qed

lemma roots_overlap_prefix:
  "roots_overlap a b \<longleftrightarrow> prefix (path_parts a) (path_parts b) \<or> prefix (path_parts b) (path_parts a)"
  by (simp add: roots_overlap_def Let_def take_eq_prefix)

lemma roots_overlap_sym: "roots_overlap a b \<longleftrightarrow> roots_overlap b a"
  by (auto simp: roots_overlap_prefix)

section \<open>The invariant\<close>

definition apart :: "location_claim \<Rightarrow> location_claim \<Rightarrow> bool" where
  "apart a b \<longleftrightarrow> active_claim (lc_state a) \<and> active_claim (lc_state b)
     \<and> lc_namespace a = lc_namespace b \<and> lc_repository a \<noteq> lc_repository b
       \<longrightarrow> \<not> roots_overlap (lc_root a) (lc_root b)"

definition claims_apart :: "location_claim set \<Rightarrow> bool" where
  "claims_apart cs \<longleftrightarrow> (\<forall>a \<in> cs. \<forall>b \<in> cs. apart a b)"

definition locations_ok :: "'a storage_scheme \<Rightarrow> bool" where
  "locations_ok st \<longleftrightarrow> claims_apart (set (st_claims st))
     \<and> distinct (map lc_id (st_claims st)) \<and> (\<forall>c \<in> set (st_claims st). lc_id c < st_next_claim st)
     \<and> distinct (map ln_key (st_namespaces st)) \<and> distinct (map ln_id (st_namespaces st))
     \<and> (\<forall>n \<in> set (st_namespaces st). ln_id n < st_next_namespace st)"

lemma apart_sym: "apart a b \<longleftrightarrow> apart b a"
  unfolding apart_def using roots_overlap_sym by metis

lemma active_states_active [simp]: "s \<in> set active_states \<longleftrightarrow> active_claim s"
  by (auto simp: active_states_def active_claim_def)

text \<open>A change of state that neither moves a claim nor revives a released one.\<close>

definition keeps_place :: "(location_claim \<Rightarrow> location_claim) \<Rightarrow> bool" where
  "keeps_place f \<longleftrightarrow> (\<forall>c. lc_id (f c) = lc_id c \<and> lc_repository (f c) = lc_repository c
     \<and> lc_namespace (f c) = lc_namespace c \<and> lc_root (f c) = lc_root c)"

lemma locations_ok_update:
  assumes "locations_ok st" and "keeps_place f"
    and "\<And>c. p c \<Longrightarrow> active_claim (lc_state c)"
  shows "locations_ok (st\<lparr>st_claims := update_where p f (st_claims st)\<rparr>)"
proof -
  let ?g = "\<lambda>c. if p c then f c else c"
  have g: "lc_id (?g c) = lc_id c" "lc_repository (?g c) = lc_repository c"
    "lc_namespace (?g c) = lc_namespace c" "lc_root (?g c) = lc_root c" for c
    using assms(2) by (auto simp: keeps_place_def)
  have g': "active_claim (lc_state (?g c)) \<Longrightarrow> active_claim (lc_state c)" for c
    using assms(3) [of c] by (cases "p c") simp_all
  have "apart (?g a) (?g b)" if "apart a b" for a b
    using that g g' unfolding apart_def by metis
  moreover have "map lc_id (update_where p f (st_claims st)) = map lc_id (st_claims st)"
    using g(1) by (simp add: update_where_def)
  ultimately show ?thesis using assms(1) g(1)
    by (simp add: locations_ok_def claims_apart_def ball_update_where)
qed

lemma ensure_namespace_ok:
  assumes "ensure_namespace spec st = (st', n)" and "locations_ok st"
  shows "locations_ok st' \<and> st_claims st' = st_claims st \<and> st_repositories st' = st_repositories st
    \<and> st_next_claim st' = st_next_claim st \<and> n \<in> set (st_namespaces st') \<and> ln_key n = sp_key spec"
proof (cases "namespace_by_key st (sp_key spec)")
  case None
  then have new: "\<forall>x \<in> set (st_namespaces st). ln_key x \<noteq> sp_key spec"
    by (simp add: namespace_by_key_def first_where_None)
  from assms(1) None have m: "ln_key n = sp_key spec" "ln_id n = st_next_namespace st"
    "st' = st\<lparr>st_namespaces := st_namespaces st @ [n], st_next_namespace := Suc (ln_id n)\<rparr>"
    by (auto simp: ensure_namespace_def Let_def)
  with assms(2) new show ?thesis by (auto simp: locations_ok_def less_Suc_eq)
next
  case (Some x)
  with assms show ?thesis
    unfolding ensure_namespace_def namespace_by_key_def using first_where_Some [of _ "st_namespaces st" x]
    by auto
qed

lemma no_conflict_free:
  "no_conflict r ns place st = Inr u \<longleftrightarrow> (\<forall>c \<in> set (st_claims st). \<not> conflicts_with r ns place c)"
  by (auto simp: no_conflict_def first_where_None split: option.splits dest!: first_where_Some)

lemma free_apart:
  assumes "\<not> conflicts_with r ns place c" and "lc_namespace n \<in> set ns" and "lc_repository n = rp_id r"
    and "lc_root n = place"
  shows "apart n c"
  using assms by (auto simp: conflicts_with_def apart_def)

lemma insert_claim_ok:
  assumes "locations_ok st" and "no_conflict r ns (lc_root c) st = Inr ()" and "lc_namespace c \<in> set ns"
    and "lc_repository c = rp_id r" and "lc_id c = st_next_claim st"
  shows "locations_ok (insert_claim c st)"
proof -
  have "apart c b" if "b \<in> set (st_claims st)" for b
    using assms(2-4) that by (auto simp: no_conflict_free intro: free_apart)
  moreover have "apart c c" by (simp add: apart_def)
  ultimately have "claims_apart (insert c (set (st_claims st)))"
    using assms(1) by (auto simp: claims_apart_def locations_ok_def apart_sym)
  with assms(1,5) show ?thesis by (auto simp: locations_ok_def insert_claim_def less_Suc_eq)
qed

lemma reserve_ok:
  assumes "reserve now r spec st = Inr (st', c)" and "locations_ok st"
  shows "locations_ok st' \<and> c \<in> set (st_claims st') \<and> lc_repository c = rp_id r
    \<and> lc_root c = sp_root spec \<and> active_claim (lc_state c)
    \<and> (\<exists>n \<in> set (st_namespaces st'). ln_id n = lc_namespace c \<and> ln_key n = sp_key spec)"
proof -
  obtain s n where e: "ensure_namespace spec st = (s, n)" by (cases "ensure_namespace spec st")
  note ok = ensure_namespace_ok [OF e assms(2)]
  let ?p = "\<lambda>c. lc_repository c = rp_id r \<and> lc_namespace c = ln_id n \<and> lc_scope c = sp_scope spec
    \<and> lc_root c = sp_root spec \<and> lc_owner_node c = sp_owner_node spec \<and> active_claim (lc_state c)"
  from assms(1) e have free: "no_conflict r [ln_id n] (sp_root spec) s = Inr ()"
    by (auto simp: reserve_def)
  show ?thesis
  proof (cases "first_where ?p (rev (sort_key lc_id (st_claims s)))")
    case None
    let ?c = "new_claim now r spec (ln_id n) (sp_owner_node spec) None (st_next_claim s)"
    from assms(1) e free None have "st' = insert_claim ?c s" "c = ?c" by (auto simp: reserve_def Let_def)
    moreover have "locations_ok (insert_claim ?c s)"
      using ok free by (intro insert_claim_ok [where r = r and ns = "[ln_id n]"]) (simp_all add: new_claim_def)
    ultimately show ?thesis using ok by (auto simp: insert_claim_def new_claim_def active_claim_def)
  next
    case (Some x)
    from assms(1) e free Some have "st' = s" "c = x" by (auto simp: reserve_def)
    with first_where_Some [OF Some] ok show ?thesis by auto
  qed
qed

lemma settle_claim_ok:
  assumes "settle_claim now r spec target ns st = Inr (st', c)" and "locations_ok st" and "target \<in> set ns"
  shows "locations_ok st'"
proof -
  from assms(1) have free: "no_conflict r ns (sp_root spec) st = Inr ()" by (auto simp: settle_claim_def)
  show ?thesis
  proof (cases "current_claim r st")
    case None
    let ?c = "new_claim now r spec target None (Some now) (st_next_claim st)"
    from assms(1) free None have "st' = insert_claim ?c st" by (auto simp: settle_claim_def Let_def)
    then show ?thesis using assms(2,3) free
      by (auto intro!: insert_claim_ok [where r = r and ns = ns] simp: new_claim_def)
  next
    case (Some x)
    let ?f = "resolved_claim now target (sp_root spec)"
    from assms(1) free Some have st': "st' = save_claim (lc_id x) ?f st" by (auto simp: settle_claim_def)
    from Some have x: "x \<in> set (st_claims st)" "lc_repository x = rp_id r"
      unfolding current_claim_def by (auto dest: first_where_Some)
    have only: "b = x" if "b \<in> set (st_claims st)" "lc_id b = lc_id x" for b
      using assms(2) that x(1) by (auto simp: locations_ok_def distinct_map inj_on_def)
    have rows: "set (st_claims st') \<subseteq> insert (?f x) (set (st_claims st))"
      using only by (auto simp: st' save_claim_def set_update_where)
    have "apart (?f x) b" if "b \<in> set (st_claims st)" for b
    proof (rule free_apart)
      show "\<not> conflicts_with r ns (sp_root spec) b" using free that by (simp add: no_conflict_free)
    qed (simp_all add: resolved_claim_def x(2) assms(3))
    moreover have "apart (?f x) (?f x)" by (simp add: apart_def)
    ultimately have "claims_apart (insert (?f x) (set (st_claims st)))"
      using assms(2) by (auto simp: claims_apart_def locations_ok_def apart_sym)
    then have "claims_apart (set (st_claims st'))" using rows by (auto simp: claims_apart_def)
    moreover have ids: "map lc_id (st_claims st') = map lc_id (st_claims st)"
      by (simp add: st' save_claim_def map_update_where resolved_claim_def)
    moreover have "st_next_claim st' = st_next_claim st" "st_namespaces st' = st_namespaces st"
      "st_next_namespace st' = st_next_namespace st" by (simp_all add: st' save_claim_def)
    moreover have "\<forall>b \<in> set (st_claims st'). lc_id b < st_next_claim st"
      using assms(2) ids by (metis (no_types, lifting) image_eqI image_iff list.set_map locations_ok_def)
    ultimately show ?thesis using assms(2) by (simp add: locations_ok_def)
  qed
qed

lemma resolve_ok:
  assumes "resolve_s3_repository_namespace digest now repo owner st = Inr (st', c)" and "locations_ok st"
  shows "locations_ok st'"
proof -
  from assms(1) obtain r spec where spec: "(case ensure_namespace spec st of (st, target) \<Rightarrow>
     rbind (repository_location_spec digest r None [] None True) (\<lambda>conservative.
       settle_claim now r spec (ln_id target)
         (ln_id target # (case current_claim r st of None \<Rightarrow> [] | Some c \<Rightarrow> [lc_namespace c])
            @ known_namespace st conservative) st)) = Inr (st', c)"
    unfolding resolve_s3_repository_namespace_def rbind_eq_Inr [of "of_option _ _"]
      rbind_eq_Inr [of "repository_location_spec _ _ _ _ _ (_ \<noteq> _)"] by blast
  obtain s n where e: "ensure_namespace spec st = (s, n)" by fastforce
  from spec obtain ns where rest: "settle_claim now r spec (ln_id n) ns s = Inr (st', c)" "ln_id n \<in> set ns"
    unfolding e by auto
  show ?thesis by (rule settle_claim_ok [OF rest(1) _ rest(2)]) (use ensure_namespace_ok [OF e assms(2)] in blast)
qed

section \<open>The operations as steps\<close>

inductive location_op :: "'a storage_scheme \<Rightarrow> 'a storage_scheme \<Rightarrow> bool" where
  loc_reserve: "reserve_repository_location digest now r st = Inr (st', c) \<Longrightarrow> location_op st st'"
| loc_reserve_nas: "reserve_direct_nas_location digest now r node subdir st = Inr (st', d) \<Longrightarrow> location_op st st'"
| loc_resolve: "resolve_s3_repository_namespace digest now r s3_owner st = Inr (st', d) \<Longrightarrow> location_op st st'"
| loc_owned: "mark_repository_location_owned now r owner subdir' st = Inr st' \<Longrightarrow> location_op st st'"
| loc_verified: "mark_repository_location_ownership_verified now r owner subdir' st = Inr st' \<Longrightarrow> location_op st st'"
| loc_recover: "recover_repository_location_ownership now r i expected owner subdir' st = Inr (st', ok)
    \<Longrightarrow> location_op st st'"
| loc_residual: "mark_repository_location_residual now r owner subdir' st = Inr st' \<Longrightarrow> location_op st st'"
| loc_invalidate: "invalidate_repository_location_ownership now r owner subdir' st = Inr st' \<Longrightarrow> location_op st st'"
| loc_initializing: "mark_repository_location_initializing now r owner subdir' residual st = Inr st'
    \<Longrightarrow> location_op st st'"
| loc_failed: "mark_repository_location_initialization_failed now r owner subdir' st = Inr st'
    \<Longrightarrow> location_op st st'"
| loc_release: "release_repository_location now r owner subdir' st = Inr st' \<Longrightarrow> location_op st st'"
| loc_release_residual: "release_repository_residual_locations now r st = Inr (st', n) \<Longrightarrow> location_op st st'"

lemma keeps_place_changes [simp]:
  "keeps_place (to_state now s)" "keeps_place (verified_claim now)" "keeps_place (released_claim now)"
  "keeps_place (\<lambda>c. (verified_claim now c)\<lparr>lc_initialized_at := t\<rparr>)"
  "keeps_place (\<lambda>c. (to_state now s c)\<lparr>lc_initialized_at := t, lc_last_verified_at := t\<rparr>)"
  "keeps_place (\<lambda>c. c\<lparr>lc_state := s, lc_released_at := t\<rparr>)"
  by (simp_all add: keeps_place_def to_state_def verified_claim_def released_claim_def)

lemma update_claims_ok:
  assumes "update_claims r states owner subdir f st = Inr st'" and "locations_ok st" and "keeps_place f"
    and "set states \<subseteq> set active_states"
  shows "locations_ok st'"
proof -
  from assms(1) obtain place where
    "st' = st\<lparr>st_claims := update_where (selects_claim r states owner place) f (st_claims st)\<rparr>"
    by (auto simp: update_claims_def)
  then show ?thesis using assms(4)
    by (auto intro!: locations_ok_update [OF assms(2,3)] simp: selects_claim_def)
qed

lemma notify_ok [simp]: "locations_ok (notify_released r st) = locations_ok st"
  by (simp add: locations_ok_def notify_released_def)

lemma location_op_ok: "location_op st st' \<Longrightarrow> locations_ok st \<Longrightarrow> locations_ok st'"
proof (induction rule: location_op.induct)
  case (loc_reserve digest now r st st' c)
  then show ?case
    by (auto simp: reserve_repository_location_def split: option.splits dest: reserve_ok)
next
  case (loc_reserve_nas digest now r node subdir st st' d)
  then show ?case
    by (auto simp: reserve_direct_nas_location_def split: option.splits dest: reserve_ok)
next
  case (loc_resolve digest now r s3_owner st st' d)
  then show ?case by (rule resolve_ok)
next
  case (loc_recover now r i expected owner subdir' st st' ok)
  then show ?case
    by (auto simp: recover_repository_location_ownership_def recoverable_def selects_claim_def active_claim_def
        intro!: locations_ok_update)
next
  case (loc_release_residual now r st st' n)
  then show ?case
    by (auto simp: release_repository_residual_locations_def Let_def selects_claim_def active_claim_def
        intro!: locations_ok_update)
next
  case (loc_release now r owner subdir' st st')
  then show ?case by (auto simp: release_repository_location_def dest: update_claims_ok)
qed (auto simp: mark_repository_location_owned_def mark_repository_location_ownership_verified_def
    mark_repository_location_residual_def invalidate_repository_location_ownership_def
    mark_repository_location_initializing_def mark_repository_location_initialization_failed_def
    active_claim_def split: if_splits dest: update_claims_ok)

interpretation location_system: preserved location_op locations_ok
  by unfold_locales (rule location_op_ok)

section \<open>Reserving again\<close>

lemma insort_key_snoc: "f x < f y \<Longrightarrow> insort_key f x (zs @ [y]) = insort_key f x zs @ [y]"
  by (induction zs) auto

lemma sort_key_snoc:
  assumes "\<forall>x \<in> set xs. f x < f y"
  shows "sort_key f (xs @ [y]) = sort_key f xs @ [y]"
  using assms by (induction xs) (simp_all add: insort_key_snoc)

lemma ensure_namespace_found:
  assumes "ensure_namespace spec st = (s, n)"
  shows "namespace_by_key s (sp_key spec) = Some n"
proof (cases "namespace_by_key st (sp_key spec)")
  case None
  with assms have s: "st_namespaces s = st_namespaces st @ [n]" "ln_key n = sp_key spec"
    by (auto simp: ensure_namespace_def Let_def)
  have "first_where (\<lambda>n. ln_key n = sp_key spec) (xs @ [n]) = Some n"
    if "first_where (\<lambda>n. ln_key n = sp_key spec) xs = None" for xs
    using that s(2) by (induction xs) (auto split: if_splits)
  with None s(1) show ?thesis by (simp add: namespace_by_key_def)
qed (use assms in \<open>auto simp: ensure_namespace_def\<close>)

lemma found_namespace: "namespace_by_key s (sp_key spec) = Some n \<Longrightarrow> ensure_namespace spec s = (s, n)"
  by (simp add: ensure_namespace_def)

lemma namespace_by_key_insert [simp]: "namespace_by_key (insert_claim c s) k = namespace_by_key s k"
  by (simp add: namespace_by_key_def insert_claim_def)

lemma reserve_again:
  assumes "reserve now r spec st = Inr (st', c)" and "locations_ok st"
  shows "reserve later r spec st' = Inr (st', c)"
proof -
  obtain s n where e: "ensure_namespace spec st = (s, n)" by (cases "ensure_namespace spec st")
  note ok = ensure_namespace_ok [OF e assms(2)] and e' = ensure_namespace_found [OF e]
  let ?p = "\<lambda>c. lc_repository c = rp_id r \<and> lc_namespace c = ln_id n \<and> lc_scope c = sp_scope spec
    \<and> lc_root c = sp_root spec \<and> lc_owner_node c = sp_owner_node spec \<and> active_claim (lc_state c)"
  from assms(1) e have free: "no_conflict r [ln_id n] (sp_root spec) s = Inr ()" by (auto simp: reserve_def)
  show ?thesis
  proof (cases "first_where ?p (rev (sort_key lc_id (st_claims s)))")
    case None
    let ?c = "new_claim now r spec (ln_id n) (sp_owner_node spec) None (st_next_claim s)"
    from assms(1) e free None have st': "st' = insert_claim ?c s" "c = ?c" by (auto simp: reserve_def Let_def)
    have "\<forall>x \<in> set (st_claims s). lc_id x < lc_id ?c"
      using ok unfolding locations_ok_def by (auto simp: new_claim_def)
    then have "sort_key lc_id (st_claims st') = sort_key lc_id (st_claims s) @ [?c]"
      unfolding st' insert_claim_def by (simp add: sort_key_snoc)
    moreover have "?p ?c" by (simp add: new_claim_def active_claim_def)
    ultimately have "first_where ?p (rev (sort_key lc_id (st_claims st'))) = Some ?c" by simp
    moreover have "no_conflict r [ln_id n] (sp_root spec) st' = Inr ()"
      using free by (simp add: no_conflict_free st' insert_claim_def conflicts_with_def new_claim_def)
    ultimately show ?thesis using e' by (simp add: reserve_def found_namespace st')
  next
    case (Some x)
    from assms(1) e free Some have "st' = s" "c = x" by (auto simp: reserve_def)
    then show ?thesis using e' free Some by (simp add: reserve_def found_namespace)
  qed
qed

section \<open>A small store\<close>

definition proxy_repository :: "int \<Rightarrow> string \<Rightarrow> repository" where
  "proxy_repository i dir = \<lparr>rp_id = i, rp_org = 7, rp_type = Repo_proxy_fs, rp_status = Repo_creating,
     rp_health = Health_offline, rp_config = JObj [(''proxy_node_dir'', JStr dir)], rp_nas_protocol = None,
     rp_bind_node = Some 5, rp_s3_platform = None, rp_s3_bucket = None,
     rp_usage_known = False, rp_usage_at = None, rp_usage_bytes = 0\<rparr>"

definition empty_storage :: storage where
  "empty_storage = \<lparr>pf_tasks = empty_db, pf_fleet = example_fleet, pf_nas = [], pf_restores = [],
     st_repositories = [proxy_repository 1 ''/data/a'', proxy_repository 2 ''/data/b''],
     st_namespaces = [], st_claims = [], st_next_namespace = 1, st_next_claim = 1, st_notices = []\<rparr>"

definition stored :: "(location_error, storage \<times> location_claim option) result \<Rightarrow> storage" where
  "stored r = (case r of Inl e \<Rightarrow> empty_storage | Inr (st, c) \<Rightarrow> st)"

lemma stored_Inr: "\<not> isl r \<Longrightarrow> \<exists>c. r = Inr (stored r, c)"
  by (cases r) (auto simp: stored_def)

definition one_claim :: storage where
  "one_claim = stored (reserve_repository_location id 100 (proxy_repository 1 ''/data/a'') empty_storage)"
definition two_claims :: storage where
  "two_claims = stored (reserve_repository_location id 101 (proxy_repository 2 ''/data/b'') one_claim)"

lemma example_reservations:
  "\<not> isl (reserve_repository_location id 100 (proxy_repository 1 ''/data/a'') empty_storage)"
  "\<not> isl (reserve_repository_location id 101 (proxy_repository 2 ''/data/b'') one_claim)"
  by code_simp+

lemma empty_storage_ok: "locations_ok empty_storage"
  by (simp add: locations_ok_def empty_storage_def claims_apart_def)

lemma example_location_run: "location_op\<^sup>*\<^sup>* empty_storage two_claims"
proof -
  have "location_op empty_storage one_claim"
    unfolding one_claim_def using stored_Inr [OF example_reservations(1)] by (blast intro: loc_reserve)
  moreover have "location_op one_claim two_claims"
    unfolding two_claims_def using stored_Inr [OF example_reservations(2)] by (blast intro: loc_reserve)
  ultimately show ?thesis by (rule two_steps)
qed

section \<open>Properties\<close>

text \<open>
  C19. Two repositories never share a place: after any sequence of reservations, namespace
  resolutions, state changes, recoveries and releases, the active claims of two different
  repositories in one namespace have roots of which neither lies inside the other.
\<close>

theorem locations_never_overlap:
  assumes "location_op\<^sup>*\<^sup>* st st'" and "locations_ok st"
    and "a \<in> set (st_claims st')" and "b \<in> set (st_claims st')"
    and "active_claim (lc_state a)" and "active_claim (lc_state b)"
    and "lc_namespace a = lc_namespace b" and "lc_repository a \<noteq> lc_repository b"
  shows "\<not> prefix (path_parts (lc_root a)) (path_parts (lc_root b))"
  using location_system.run_inv [OF assms(1,2)] assms(3-)
  by (auto simp: locations_ok_def claims_apart_def apart_def roots_overlap_prefix)

theorem locations_never_overlap_witness:
  "\<exists>a \<in> set (st_claims two_claims). \<exists>b \<in> set (st_claims two_claims). lc_repository a \<noteq> lc_repository b
     \<and> lc_namespace a = lc_namespace b \<and> \<not> prefix (path_parts (lc_root a)) (path_parts (lc_root b))"
proof -
  have "\<exists>a \<in> set (st_claims two_claims). \<exists>b \<in> set (st_claims two_claims). lc_repository a \<noteq> lc_repository b
     \<and> lc_namespace a = lc_namespace b \<and> active_claim (lc_state a) \<and> active_claim (lc_state b)"
    by code_simp
  then show ?thesis using locations_never_overlap [OF example_location_run empty_storage_ok] by blast
qed

text \<open>
  A reservation that succeeded can be repeated at any later time: it returns the same claim
  and changes nothing, and the claim is an active one of the repository in the namespace and at
  the root of its specification.
\<close>

theorem reserve_idempotent:
  assumes "reserve_repository_location digest now r st = Inr (st', Some c)" and "locations_ok st"
  shows "reserve_repository_location digest later r st' = Inr (st', Some c)
    \<and> c \<in> set (st_claims st') \<and> active_claim (lc_state c) \<and> lc_repository c = rp_id r
    \<and> (\<exists>spec. repository_location_spec digest r None [] None False = Inr (Some spec)
        \<and> lc_root c = sp_root spec
        \<and> (\<exists>n \<in> set (st_namespaces st'). ln_id n = lc_namespace c \<and> ln_key n = sp_key spec))"
proof -
  from assms(1) obtain spec where spec: "repository_location_spec digest r None [] None False = Inr (Some spec)"
    and res: "reserve now r spec st = Inr (st', c)"
    by (auto simp: reserve_repository_location_def split: option.splits)
  from reserve_again [OF res assms(2), of later] reserve_ok [OF res assms(2)] spec show ?thesis
    by (auto simp: reserve_repository_location_def)
qed

theorem reserve_idempotent_witness:
  "\<exists>c. reserve_repository_location id 900 (proxy_repository 1 ''/data/a'') one_claim = Inr (one_claim, Some c)"
proof -
  obtain c where c: "reserve_repository_location id 100 (proxy_repository 1 ''/data/a'') empty_storage
      = Inr (one_claim, c)"
    unfolding one_claim_def using stored_Inr [OF example_reservations(1)] by blast
  have "(case reserve_repository_location id 100 (proxy_repository 1 ''/data/a'') empty_storage of
      Inl e \<Rightarrow> False | Inr (s, c) \<Rightarrow> c \<noteq> None)" by code_simp
  with c obtain d where "c = Some d" by auto
  with reserve_idempotent [OF c [unfolded this] empty_storage_ok, where later = 900] show ?thesis by blast
qed


definition residual_storage :: storage where
  "residual_storage = (case mark_repository_location_residual 200 (proxy_repository 1 ''/data/a'') None None one_claim of
     Inl e \<Rightarrow> empty_storage | Inr st \<Rightarrow> st)"

definition recovered_storage :: storage where
  "recovered_storage = (case recover_repository_location_ownership 300 (proxy_repository 1 ''/data/a'') 1 200
     None None residual_storage of Inl e \<Rightarrow> empty_storage | Inr (st, ok) \<Rightarrow> st)"


text \<open>
  C22. What a repository stores of its S3 endpoints is enough to route to both: when the two
  hosts are stable under normalisation, the compact form gives back the external host for control
  and for external data access, and for internal access the internal host exactly where it was a
  real alternative; otherwise the internal route is refused.
\<close>

theorem endpoints_roundtrip:
  assumes "compact_s3_repository_endpoints config platform (Some outside) (Some inside) = Inr d"
    and "stable_host (normalize_s3_endpoint_host outside)"
    and "stable_host (normalize_s3_endpoint_host inside)"
  shows "let e = normalize_s3_endpoint_host outside; i = normalize_s3_endpoint_host inside in
    repository_control_endpoint (JObj d) = e
    \<and> repository_data_endpoint (JObj d) (JStr ''external'') JNull = Inr e
    \<and> repository_data_endpoint (JObj d) (JStr ''internal'') JNull =
        (if lower (strip (text_or_empty platform)) \<noteq> ''custom'' \<and> i \<noteq> [] \<and> i \<noteq> e then Inr i
         else Inl Internal_unavailable)"
proof -
  let ?e = "normalize_s3_endpoint_host outside" and ?i = "normalize_s3_endpoint_host inside"
  have null: "normalize_s3_endpoint_host JNull = []" by code_simp
  have ty: "endpoint_type_text (JStr ''external'') = ''external''" "endpoint_type_text (JStr ''internal'') = ''internal''"
    by code_simp+
  have words: "(''external'' :: string) \<noteq> ''internal''" by simp
  have st: "normalize_s3_endpoint_host (JStr ?e) = ?e" "normalize_s3_endpoint_host (JStr ?i) = ?i"
    using assms(2,3) by (simp_all add: stable_host_def)
  from assms(1) have e: "?e \<noteq> []" by (auto simp: compact_s3_repository_endpoints_def Let_def)
  define routed where "routed \<longleftrightarrow> lower (strip (text_or_empty platform)) \<noteq> ''custom'' \<and> or_text ?i ?e \<noteq> ?e"
  from assms(1) have d: "dget d ''endpoint'' = JStr ?e"
    "dget d ''internal_endpoint'' = (if routed then JStr (or_text ?i ?e) else JNull)"
    by (auto simp: compact_s3_repository_endpoints_def Let_def routed_def dget_dset dget_dpop)
  have r: "routed \<longleftrightarrow> lower (strip (text_or_empty platform)) \<noteq> ''custom'' \<and> ?i \<noteq> [] \<and> ?i \<noteq> ?e"
    by (auto simp: routed_def or_text_def)
  have i: "routed \<Longrightarrow> or_text ?i ?e = ?i" by (simp add: r or_text_def)
  have control: "repository_control_endpoint (JObj d) = ?e"
    using e by (simp add: repository_control_endpoint_def d jor_text st)
  have "repository_data_endpoint (JObj d) (JStr ''external'') JNull = Inr ?e"
    using e r i by (simp add: repository_data_endpoint_def Let_def null ty d jor_text st s3_endpoint_snapshot_def jor_def)
  moreover have "repository_data_endpoint (JObj d) (JStr ''internal'') JNull =
      (if routed then Inr ?i else Inl Internal_unavailable)"
    using e r i by (simp add: repository_data_endpoint_def Let_def null ty d jor_text st s3_endpoint_snapshot_def
        or_text_def)
  ultimately show ?thesis using control r by (simp add: Let_def)
qed

theorem endpoints_roundtrip_witness:
  "\<exists>d. compact_s3_repository_endpoints (JObj []) (JStr ''aliyun'') (Some (JStr ''https://oss.example.com/''))
        (Some (JStr ''oss-internal.example.com'')) = Inr d
     \<and> repository_data_endpoint (JObj d) (JStr ''internal'') JNull = Inr ''oss-internal.example.com''"
proof -
  let ?ext = "JStr ''https://oss.example.com/''" and ?int = "JStr ''oss-internal.example.com''"
  have n: "normalize_s3_endpoint_host ?ext = ''oss.example.com''"
    "normalize_s3_endpoint_host ?int = ''oss-internal.example.com''" by code_simp+
  have s: "stable_host ''oss.example.com''" "stable_host ''oss-internal.example.com''"
    "lower (strip ''aliyun'') = ''aliyun''" by code_simp+
  have "\<not> isl (compact_s3_repository_endpoints (JObj []) (JStr ''aliyun'') (Some ?ext) (Some ?int))" by code_simp
  then obtain d where d: "compact_s3_repository_endpoints (JObj []) (JStr ''aliyun'') (Some ?ext) (Some ?int) = Inr d"
    by (cases "compact_s3_repository_endpoints (JObj []) (JStr ''aliyun'') (Some ?ext) (Some ?int)") auto
  from endpoints_roundtrip [OF this] d show ?thesis by (simp add: n s Let_def)
qed

end
