(* ===== verification/Usage_Claims.thy ===== *)
theory Usage_Claims
  imports Snapshot_Usage Storage_Claims
begin

text \<open>
  What the usage leases promise: an admitted consumer is protected until its own release, and the
  reconciliation examines every lease in turn and drops only what nobody needs.
\<close>

section \<open>The lease table\<close>

definition leases_ok :: "protection \<Rightarrow> bool" where
  "leases_ok pf \<longleftrightarrow> distinct (map sl_id (pr_leases pf)) \<and> distinct (map lease_key (pr_leases pf))
     \<and> (\<forall>l \<in> set (pr_leases pf). sl_id l < pr_next_lease pf)"

lemma get_or_create_spec:
  assumes "get_or_create_lease now org key pf = Inr (pf', l)"
  shows "l \<in> set (pr_leases pf') \<and> lease_key l = key \<and> sl_org l = org
     \<and> set (pr_leases pf) \<subseteq> set (pr_leases pf')
     \<and> (\<forall>x \<in> set (pr_leases pf') - set (pr_leases pf). x = l)"
proof (cases "first_where (\<lambda>l. lease_key l = key) (pr_leases pf)")
  case None
  with assms show ?thesis by (auto simp: get_or_create_lease_def Let_def lease_key_def)
next
  case (Some x)
  with assms first_where_Some [OF Some] show ?thesis
    by (auto simp: get_or_create_lease_def split: if_splits)
qed

lemma get_or_create_ok:
  assumes "get_or_create_lease now org key pf = Inr (pf', l)" and "leases_ok pf"
  shows "leases_ok pf'"
proof (cases "first_where (\<lambda>l. lease_key l = key) (pr_leases pf)")
  case None
  then have new: "\<forall>x \<in> set (pr_leases pf). lease_key x \<noteq> key" by (simp add: first_where_None)
  from None assms(1) obtain r where r: "pr_leases pf' = pr_leases pf @ [r]" "lease_key r = key"
    "sl_id r = pr_next_lease pf" "pr_next_lease pf' = Suc (sl_id r)"
    by (auto simp: get_or_create_lease_def Let_def lease_key_def)
  from assms(2) new show ?thesis by (auto simp: leases_ok_def r less_Suc_eq)
next
  case (Some x)
  with assms show ?thesis by (auto simp: get_or_create_lease_def split: if_splits)
qed

text \<open>A second request of the same consumer finds the lease of the first.\<close>

lemma get_or_create_again:
  assumes "get_or_create_lease now org key pf = Inr (pf', l)" and "leases_ok pf"
  shows "get_or_create_lease now' org key pf' = Inr (pf', l)"
proof -
  note s = get_or_create_spec [OF assms(1)]
  have "distinct (map lease_key (pr_leases pf'))"
    using get_or_create_ok [OF assms] by (simp add: leases_ok_def)
  then have "first_where (\<lambda>l. lease_key l = key) (pr_leases pf') = Some l"
    using s first_where_key [of lease_key "pr_leases pf'" l] by simp
  then show ?thesis using s by (simp add: get_or_create_lease_def)
qed

text \<open>Neither the admission nor the need of a lease looks at the lease table.\<close>

lemma admit_usage_leases [simp]:
  "admit_usage org i (pf\<lparr>pr_leases := ls, pr_next_lease := k\<rparr>) = admit_usage org i pf"
  by (simp add: admit_usage_def snapshot_row_def lock_source_identity_def active_source_control_task_def
      node_removal_active_def assert_no_orphan_cleanup_def config_resetting_def repository_by_id_def Let_def
      cong: if_cong)

lemma get_or_create_frame:
  assumes "get_or_create_lease now org key pf = Inr (pf', l)"
  shows "pf' = pf\<lparr>pr_leases := pr_leases pf', pr_next_lease := pr_next_lease pf'\<rparr>"
  using assms by (auto simp: get_or_create_lease_def Let_def split: option.splits if_splits)

lemma lease_needed_leases [simp]:
  "lease_needed l (pf\<lparr>pr_leases := ls\<rparr>) = lease_needed l pf"
  by (simp add: lease_needed_def keeps_restore_def orphan_work_active_def restore_work_active_def
      keeps_chat_def keeps_update_def cong: if_cong option.case_cong)

lemma lease_needed_stamp [simp]: "lease_needed (l\<lparr>sl_reconciled_at := t\<rparr>) pf = lease_needed l pf"
proof -
  have u: "update_over (l\<lparr>sl_reconciled_at := t\<rparr>) v = update_over l v" for v
    by (simp add: update_over_def Let_def)
  show ?thesis by (simp add: lease_needed_def keeps_update_def u cong: if_cong option.case_cong)
qed

section \<open>One reconciliation\<close>

definition dropped :: "usage_lease list \<Rightarrow> protection \<Rightarrow> usage_lease list" where
  "dropped ls pf = filter (\<lambda>l. lease_needed l pf = Inr False)
     (takeWhile (\<lambda>l. \<not> isl (lease_needed l pf)) ls)"

lemma reconcile_leases_rows:
  "fst (reconcile_leases ls ret rel pf)
     = pf\<lparr>pr_leases := filter (\<lambda>l. sl_id l \<notin> sl_id ` set (dropped ls pf)) (pr_leases pf)\<rparr>"
proof (induction ls arbitrary: ret rel pf)
  case Nil
  then show ?case by (simp add: dropped_def)
next
  case (Cons l ls)
  show ?case
  proof (cases "lease_needed l pf")
    case (Inl e)
    then show ?thesis by (simp add: dropped_def)
  next
    case (Inr b)
    have d: "dropped ls (delete_lease i pf) = dropped ls pf" for i
      by (simp add: dropped_def delete_lease_def)
    show ?thesis
    proof (cases b)
      case True
      then show ?thesis using Inr Cons.IH by (simp add: dropped_def)
    next
      case False
      then have "fst (reconcile_leases (l # ls) ret rel pf)
          = (delete_lease (sl_id l) pf)\<lparr>pr_leases := filter (\<lambda>x. sl_id x \<notin> sl_id ` set (dropped ls pf))
               (pr_leases (delete_lease (sl_id l) pf))\<rparr>"
        using Inr Cons.IH [of ret "Suc rel" "delete_lease (sl_id l) pf"] by (simp add: d)
      also have "\<dots> = pf\<lparr>pr_leases := filter (\<lambda>x. sl_id x \<notin> sl_id ` set (dropped (l # ls) pf)) (pr_leases pf)\<rparr>"
        using Inr False by (simp add: delete_lease_def dropped_def conj_commute)
      finally show ?thesis .
    qed
  qed
qed

lemma reconcile_leases_report:
  assumes "\<forall>l \<in> set ls. \<not> isl (lease_needed l pf)"
  shows "snd (reconcile_leases ls ret rel pf)
     = Inr (ret @ map sl_id (filter (\<lambda>l. lease_needed l pf = Inr True) ls),
            rel + length (filter (\<lambda>l. lease_needed l pf = Inr False) ls))"
  using assms
proof (induction ls arbitrary: ret rel pf)
  case Nil
  then show ?case by simp
next
  case (Cons l ls)
  then obtain b where b: "lease_needed l pf = Inr b" by (cases "lease_needed l pf") auto
  have n: "lease_needed x (delete_lease i pf) = lease_needed x pf" for x i by (simp add: delete_lease_def)
  from Cons.prems have "\<forall>x \<in> set ls. \<not> isl (lease_needed x pf)" by simp
  with b Cons.IH [of pf] Cons.IH [of "delete_lease (sl_id l) pf"] show ?case by (cases b) (simp_all add: n)
qed

text \<open>The leases a run examines, and the table it leaves.\<close>

definition examined :: "int \<Rightarrow> protection \<Rightarrow> usage_lease list" where
  "examined limit pf = take (nat (max 1 limit)) (lease_order pf)"

definition kept_ids :: "bool \<Rightarrow> usage_lease list \<Rightarrow> protection \<Rightarrow> nat list" where
  "kept_ids b ls pf = map sl_id (filter (\<lambda>l. lease_needed l pf = Inr b) ls)"

definition well_formed_needs :: "protection \<Rightarrow> bool" where
  "well_formed_needs pf \<longleftrightarrow> (\<forall>l \<in> set (pr_leases pf). \<not> isl (lease_needed l pf))"

lemma examined_subset: "set (examined limit pf) \<subseteq> set (pr_leases pf)"
  unfolding examined_def lease_order_def by (metis set_sort set_take_subset)

lemma dropped_all:
  assumes "\<forall>l \<in> set ls. \<not> isl (lease_needed l pf)"
  shows "sl_id ` set (dropped ls pf) = set (kept_ids False ls pf)"
proof -
  have all: "takeWhile (\<lambda>l. \<not> isl (lease_needed l pf)) ls = ls"
    using assms by (simp add: takeWhile_eq_all_conv)
  show ?thesis unfolding dropped_def kept_ids_def all by simp
qed

lemma reconciled_leases:
  assumes "well_formed_needs pf"
  shows "fst (reconcile_snapshot_usage_leases now limit pf) = pf\<lparr>pr_leases :=
     update_where (\<lambda>l. sl_id l \<in> set (kept_ids True (examined limit pf) pf))
       (\<lambda>l. l\<lparr>sl_reconciled_at := Some now\<rparr>)
       (filter (\<lambda>l. sl_id l \<notin> set (kept_ids False (examined limit pf) pf)) (pr_leases pf))\<rparr>"
proof -
  let ?ls = "examined limit pf"
  have wf: "\<forall>l \<in> set ?ls. \<not> isl (lease_needed l pf)"
    using assms examined_subset by (auto simp: well_formed_needs_def)
  let ?pf = "pf\<lparr>pr_leases := filter (\<lambda>l. sl_id l \<notin> set (kept_ids False ?ls pf)) (pr_leases pf)\<rparr>"
  have "reconcile_leases ?ls [] 0 pf = (?pf, Inr (kept_ids True ?ls pf, length (kept_ids False ?ls pf)))"
    using reconcile_leases_rows [of ?ls "[]" 0 pf] reconcile_leases_report [OF wf, of "[]" 0]
      dropped_all [OF wf]
    by (simp add: kept_ids_def prod_eq_iff)
  then show ?thesis
    by (simp add: reconcile_snapshot_usage_leases_def Let_def examined_def [symmetric] stamp_leases_def
        update_where_none)
qed

section \<open>Rotation\<close>

text \<open>
  The examined leases that stay move behind the others, so every lease comes up; stated with the
  sort key of the query.
\<close>

definition lease_rank :: "usage_lease \<Rightarrow> int option \<times> nat" where
  "lease_rank l = (sl_reconciled_at l, sl_id l)"

definition stamped_before :: "int \<Rightarrow> protection \<Rightarrow> bool" where
  "stamped_before now pf \<longleftrightarrow> (\<forall>l \<in> set (pr_leases pf). sl_reconciled_at l < Some now)"

lemma lease_order_rank: "lease_order pf = sort_key lease_rank (pr_leases pf)"
  by (simp add: lease_order_def lease_rank_def [abs_def])

lemma lease_orderI:
  assumes "leases_ok pf" and "sorted (map lease_rank xs)" and "distinct (map sl_id xs)"
    and "set xs = set (pr_leases pf)"
  shows "lease_order pf = xs"
proof -
  have d: "distinct (map lease_rank ys)" if "distinct (map sl_id ys)" for ys
  proof -
    have "distinct (map snd (map lease_rank ys))" using that by (simp add: lease_rank_def comp_def)
    then show ?thesis unfolding distinct_map [of snd] by simp
  qed
  have "inj_on lease_rank (set (pr_leases pf))"
    using assms(1) d [of "pr_leases pf"] by (simp add: leases_ok_def distinct_map)
  moreover have "distinct (map sl_id (lease_order pf))"
    using assms(1) by (simp add: lease_order_def leases_ok_def distinct_map distinct_sort)
  ultimately show ?thesis
    using assms d by (intro map_sorted_distinct_set_unique [of lease_rank])
      (auto simp: lease_order_rank)
qed

lemma ids_same_lease:
  "leases_ok pf \<Longrightarrow> a \<in> set (pr_leases pf) \<Longrightarrow> b \<in> set (pr_leases pf) \<Longrightarrow> sl_id a = sl_id b \<Longrightarrow> a = b"
  by (auto simp: leases_ok_def distinct_map inj_on_def)

lemma leases_ok_rows:
  assumes "leases_ok pf" and "\<And>l. sl_id (f l) = sl_id l" and "\<And>l. lease_key (f l) = lease_key l"
  shows "leases_ok (pf\<lparr>pr_leases := update_where p f (filter q (pr_leases pf))\<rparr>)"
proof -
  have m: "map sl_id (update_where p f ls) = map sl_id ls" "map lease_key (update_where p f ls) = map lease_key ls"
    for ls using assms(2,3) by (simp_all add: update_where_def)
  have "\<forall>l \<in> set (update_where p f (filter q (pr_leases pf))). sl_id l < pr_next_lease pf"
    using assms(1,2) by (auto simp: leases_ok_def set_update_where)
  then show ?thesis using assms(1) by (simp add: leases_ok_def m distinct_map_filter)
qed

lemma reconcile_leases_ok:
  assumes "leases_ok pf" and "well_formed_needs pf"
  shows "leases_ok (fst (reconcile_snapshot_usage_leases now limit pf))"
  unfolding reconciled_leases [OF assms(2)]
  by (rule leases_ok_rows [OF assms(1)]) (simp_all add: lease_key_def)

lemma reconcile_rotates:
  fixes limit :: int
  assumes ok: "leases_ok pf" and wf: "well_formed_needs pf" and old: "stamped_before now pf"
  shows "\<exists>zs. lease_order (fst (reconcile_snapshot_usage_leases now limit pf))
      = drop (nat (max 1 limit)) (lease_order pf) @ zs \<and> (\<forall>z \<in> set zs. lease_needed z pf = Inr True)"
proof -
  let ?pf = "fst (reconcile_snapshot_usage_leases now limit pf)"
  let ?A = "examined limit pf" and ?B = "drop (nat (max 1 limit)) (lease_order pf)"
  let ?stamp = "\<lambda>l. l\<lparr>sl_reconciled_at := Some now\<rparr>"
  let ?N = "filter (\<lambda>l. lease_needed l pf = Inr True) ?A"
  let ?zs = "map ?stamp (sort_key sl_id ?N)"
  have AB: "?A @ ?B = lease_order pf" by (simp add: examined_def)
  have L: "set ?A \<union> set ?B = set (pr_leases pf)"
    by (metis AB lease_order_def set_append set_sort)
  have ids: "distinct (map sl_id (?A @ ?B))"
    using ok unfolding AB by (simp add: lease_order_def leases_ok_def distinct_map distinct_sort)
  have kept: "sl_id l \<in> set (kept_ids b ?A pf) \<longleftrightarrow> l \<in> set ?A \<and> lease_needed l pf = Inr b"
    if "l \<in> set (pr_leases pf)" for b l
    using ids_same_lease [OF ok that] examined_subset [of limit pf] by (auto simp: kept_ids_def)
  have L': "l \<in> set (pr_leases pf) \<longleftrightarrow> l \<in> set ?A \<or> l \<in> set ?B" for l using L by blast
  have B: "l \<notin> set ?A" if "l \<in> set ?B" for l using ids that by auto
  have need: "lease_needed l pf = Inr True \<or> lease_needed l pf = Inr False" if "l \<in> set (pr_leases pf)" for l
    using wf that by (cases "lease_needed l pf") (auto simp: well_formed_needs_def)
  have "set (pr_leases ?pf) = (\<lambda>l. if sl_id l \<in> set (kept_ids True ?A pf) then ?stamp l else l) `
      {l \<in> set (pr_leases pf). sl_id l \<notin> set (kept_ids False ?A pf)}"
    by (simp add: reconciled_leases [OF wf] set_update_where)
  also have "{l \<in> set (pr_leases pf). sl_id l \<notin> set (kept_ids False ?A pf)} = set ?N \<union> set ?B"
  proof (rule set_eqI)
    show "l \<in> {l \<in> set (pr_leases pf). sl_id l \<notin> set (kept_ids False ?A pf)} \<longleftrightarrow> l \<in> set ?N \<union> set ?B"
      for l using kept [of l False] need [of l] L' [of l] B [of l] by auto
  qed
  also have "(\<lambda>l. if sl_id l \<in> set (kept_ids True ?A pf) then ?stamp l else l) ` (set ?N \<union> set ?B)
      = (\<lambda>l. if l \<in> set ?N then ?stamp l else l) ` (set ?N \<union> set ?B)"
  proof (rule image_cong)
    fix l assume "l \<in> set ?N \<union> set ?B"
    then show "(if sl_id l \<in> set (kept_ids True ?A pf) then ?stamp l else l)
        = (if l \<in> set ?N then ?stamp l else l)" using kept [of l True] L' [of l] by auto
  qed simp
  also have "\<dots> = set (?B @ ?zs)" using B by auto
  finally have "set (?B @ ?zs) = set (pr_leases ?pf)" ..
  moreover have "sorted (map lease_rank (?B @ ?zs))"
  proof -
    have "sorted (map lease_rank (lease_order pf))" by (simp add: lease_order_rank)
    then have "sorted (map lease_rank ?B)" by (metis drop_map sorted_wrt_drop)
    moreover have "sorted (map lease_rank ?zs)"
      using sorted_sort_key [of sl_id ?N] by (simp add: lease_rank_def comp_def sorted_map)
    moreover have "sl_reconciled_at l < Some now" if "l \<in> set ?B" for l
      using that old L by (auto simp: stamped_before_def)
    ultimately show ?thesis by (auto simp: sorted_append lease_rank_def less_le)
  qed
  moreover have "distinct (map sl_id (?B @ ?zs))"
  proof -
    have "distinct (map sl_id ?N)" using ids by (simp add: distinct_map_filter)
    then have "distinct (map sl_id (sort_key sl_id ?N))" by (simp add: distinct_map distinct_sort)
    then show ?thesis using ids by (auto simp: comp_def)
  qed
  ultimately have "lease_order ?pf = ?B @ ?zs"
    by (intro lease_orderI reconcile_leases_ok ok wf)
  then show ?thesis by (intro exI [of _ ?zs]) auto
qed

section \<open>What a run keeps\<close>

text \<open>The lease up to its stamp, and the leases that stay, whatever ended the run.\<close>

definition lease_body :: "usage_lease \<Rightarrow> usage_lease" where
  "lease_body l = l\<lparr>sl_reconciled_at := None\<rparr>"

lemma lease_body_simps [simp]:
  "lease_key (lease_body l) = lease_key l" "lease_needed (lease_body l) pf = lease_needed l pf"
  "lease_body (l\<lparr>sl_reconciled_at := t\<rparr>) = lease_body l" "sl_snapshot (lease_body l) = sl_snapshot l"
  "sl_id (lease_body l) = sl_id l"
  by (simp_all add: lease_body_def lease_key_def)

lemma stamp_bodies: "lease_body ` set (pr_leases (stamp_leases now is pf)) = lease_body ` set (pr_leases pf)"
proof -
  have "map lease_body (pr_leases (stamp_leases now is pf)) = map lease_body (pr_leases pf)"
    by (simp add: stamp_leases_def map_update_where)
  then show ?thesis by (metis set_map)
qed

lemma run_bodies:
  "lease_body ` set (pr_leases (fst (reconcile_snapshot_usage_leases now limit pf)))
     = lease_body ` {l \<in> set (pr_leases pf). sl_id l \<notin> sl_id ` set (dropped (examined limit pf) pf)}"
proof -
  let ?r = "reconcile_leases (examined limit pf) [] 0 pf"
  have "fst (reconcile_snapshot_usage_leases now limit pf) \<in> {fst ?r} \<union> range (\<lambda>is. stamp_leases now is (fst ?r))"
    by (auto simp: reconcile_snapshot_usage_leases_def Let_def examined_def split: prod.split sum.split)
  then consider "fst (reconcile_snapshot_usage_leases now limit pf) = fst ?r"
    | "is" where "fst (reconcile_snapshot_usage_leases now limit pf) = stamp_leases now is (fst ?r)" by blast
  then have "lease_body ` set (pr_leases (fst (reconcile_snapshot_usage_leases now limit pf)))
      = lease_body ` set (pr_leases (fst ?r))" by cases (simp_all only: stamp_bodies)
  then show ?thesis by (simp add: reconcile_leases_rows)
qed

lemma run_keeps:
  assumes "leases_ok pf" and "l \<in> set (pr_leases pf)" and "lease_needed l pf \<noteq> Inr False"
  shows "lease_body l \<in> lease_body ` set (pr_leases (fst (reconcile_snapshot_usage_leases now limit pf)))"
proof -
  have "sl_id l \<notin> sl_id ` set (dropped (examined limit pf) pf)"
  proof
    assume "sl_id l \<in> sl_id ` set (dropped (examined limit pf) pf)"
    then obtain d where d: "d \<in> set (examined limit pf)" "lease_needed d pf = Inr False" "sl_id d = sl_id l"
      by (auto simp: dropped_def dest: set_takeWhileD)
    then have "d = l" using ids_same_lease [OF assms(1) _ assms(2)] examined_subset by blast
    with d assms(3) show False by simp
  qed
  then show ?thesis unfolding run_bodies using assms(2) by blast
qed

section \<open>Several runs\<close>

definition reconcile_runs :: "int \<Rightarrow> int list \<Rightarrow> protection \<Rightarrow> protection" where
  "reconcile_runs limit ts pf = fold (\<lambda>now pf. fst (reconcile_snapshot_usage_leases now limit pf)) ts pf"

lemma run_frame:
  assumes "well_formed_needs pf"
  shows "lease_needed l (fst (reconcile_snapshot_usage_leases now limit pf)) = lease_needed l pf"
  by (simp add: reconciled_leases [OF assms])

lemma run_well_formed:
  assumes "well_formed_needs pf"
  shows "well_formed_needs (fst (reconcile_snapshot_usage_leases now limit pf))"
proof -
  have "\<not> isl (lease_needed l pf)"
    if "l \<in> set (pr_leases (fst (reconcile_snapshot_usage_leases now limit pf)))" for l
  proof -
    from that run_bodies obtain x where "x \<in> set (pr_leases pf)" "lease_body l = lease_body x" by blast
    then show ?thesis using assms lease_body_simps(2) by (metis well_formed_needs_def)
  qed
  then show ?thesis by (simp add: well_formed_needs_def run_frame [OF assms])
qed

lemma run_stamps:
  assumes "well_formed_needs pf" and "stamped_before now pf" and "now < t"
  shows "stamped_before t (fst (reconcile_snapshot_usage_leases now limit pf))"
proof -
  have "sl_reconciled_at l < Some t" if "l \<in> set (pr_leases pf)" for l
    using assms(2,3) that by (auto simp: stamped_before_def) (metis less_option_Some order_less_trans)
  then show ?thesis using assms(3)
    by (auto simp: reconciled_leases [OF assms(1)] stamped_before_def set_update_where)
qed

lemma runs_rotate:
  assumes "leases_ok pf" and "well_formed_needs pf" and "sorted_wrt (<) ts" and "\<forall>t \<in> set ts. stamped_before t pf"
  shows "\<exists>zs. lease_order (reconcile_runs limit ts pf) = drop (length ts * nat (max 1 limit)) (lease_order pf) @ zs
    \<and> (\<forall>z \<in> set zs. lease_needed z pf = Inr True)"
  using assms
proof (induction ts arbitrary: pf)
  case Nil
  then show ?case by (simp add: reconcile_runs_def)
next
  case (Cons t ts)
  let ?n = "nat (max 1 limit)" and ?pf = "fst (reconcile_snapshot_usage_leases t limit pf)"
  from reconcile_rotates [OF Cons.prems(1,2), of t limit] Cons.prems(4) obtain ys where
    ys: "lease_order ?pf = drop ?n (lease_order pf) @ ys" "\<forall>y \<in> set ys. lease_needed y pf = Inr True" by auto
  have "\<forall>u \<in> set ts. stamped_before u ?pf"
    using Cons.prems by (auto intro: run_stamps [OF Cons.prems(2)])
  with Cons.IH [of ?pf] Cons.prems reconcile_leases_ok run_well_formed obtain zs where
    zs: "lease_order (reconcile_runs limit ts ?pf) = drop (length ts * ?n) (lease_order ?pf) @ zs"
      "\<forall>z \<in> set zs. lease_needed z ?pf = Inr True" by auto
  have "lease_order (reconcile_runs limit (t # ts) pf)
      = drop (length (t # ts) * ?n) (lease_order pf)
        @ drop (length ts * ?n - length (drop ?n (lease_order pf))) ys @ zs"
    using zs(1) ys(1) by (simp add: reconcile_runs_def add.commute)
  then show ?case using zs(2) ys(2) run_frame [OF Cons.prems(2)]
    by (intro exI [of _ "drop (length ts * ?n - length (drop ?n (lease_order pf))) ys @ zs"])
      (auto dest: in_set_dropD)
qed

lemma runs_keep:
  assumes "leases_ok pf" and "well_formed_needs pf" and "l \<in> set (pr_leases pf)" and "lease_needed l pf = Inr True"
  shows "lease_body l \<in> lease_body ` set (pr_leases (reconcile_runs limit ts pf))"
  using assms
proof (induction ts arbitrary: pf l)
  case Nil
  then show ?case by (simp add: reconcile_runs_def)
next
  case (Cons t ts)
  let ?pf = "fst (reconcile_snapshot_usage_leases t limit pf)"
  from run_keeps [OF Cons.prems(1,3), of t limit] Cons.prems(4) obtain x where
    x: "x \<in> set (pr_leases ?pf)" "lease_body x = lease_body l" by auto
  then have "lease_needed x ?pf = Inr True"
    using Cons.prems(4) run_frame [OF Cons.prems(2)] by (metis lease_body_simps(2))
  from Cons.IH [OF reconcile_leases_ok [OF Cons.prems(1,2)] run_well_formed [OF Cons.prems(2)] x(1) this] x(2)
  show ?case by (simp add: reconcile_runs_def)
qed

lemma runs_subset:
  "lease_body ` set (pr_leases (reconcile_runs limit ts pf)) \<subseteq> lease_body ` set (pr_leases pf)"
proof (induction ts arbitrary: pf)
  case Nil
  then show ?case by (simp add: reconcile_runs_def)
next
  case (Cons t ts)
  show ?case using Cons [of "fst (reconcile_snapshot_usage_leases t limit pf)"] run_bodies [of t limit pf]
    by (auto simp: reconcile_runs_def)
qed

section \<open>A small store\<close>

definition example_snapshot :: "int \<Rightarrow> snapshot_status \<Rightarrow> int \<Rightarrow> snapshot" where
  "example_snapshot i st fin = \<lparr>sn_id = i, sn_org = 7, sn_uid = ''s'' @ show_int i, sn_key = ''k'' @ show_int i,
     sn_source_type = ''host'', sn_source_ref = 5, sn_config = 3, sn_repository = 2, sn_task = nat i,
     sn_task_uuid = ''u'' @ show_int i, sn_trigger = By_manual, sn_status = st, sn_started_at = Some (fin - 60),
     sn_finished_at = Some fin, sn_expected = 1, sn_succeeded = 1, sn_failed = 0, sn_size = 0, sn_files = 0,
     sn_dirs = 0, sn_error_code = [], sn_error_message = [], sn_deleted_at = None, sn_created_at = fin - 60\<rparr>"

definition lease_row :: "nat \<Rightarrow> int \<Rightarrow> string \<Rightarrow> string \<Rightarrow> usage_lease" where
  "lease_row i snap ct c = \<lparr>sl_id = i, sl_org = 7, sl_snapshot = snap, sl_consumer_type = ct,
     sl_consumer = c, sl_created_at = 0, sl_reconciled_at = None\<rparr>"

definition example_claim :: location_claim where
  "example_claim = \<lparr>lc_id = 1, lc_org = 7, lc_repository = 2, lc_namespace = 1, lc_scope = Scope_repository,
     lc_root = ''/data/b'', lc_owner_node = Some 5, lc_state = Claim_owned, lc_initialized_at = Some 0,
     lc_last_verified_at = Some 0, lc_resolved_at = None, lc_verified_at = Some 0, lc_legacy = False,
     lc_released_at = None, lc_updated_at = 0\<rparr>"

text \<open>Record 21 restores with task 1, which runs; session 8 is gone; the last consumer is unknown.\<close>

definition example_protection :: protection where
  "example_protection = \<lparr>pf_tasks = started_db, pf_fleet = example_fleet, pf_nas = [],
     pf_restores = [\<lparr>rr_id = 21, rr_org = 7, rr_requesting_org = 7, rr_exec_org = Some 7, rr_exec_node = 5,
       rr_task_uuid = ''u1'', rr_task_id = 1, rr_created_at = 0\<rparr>],
     st_repositories = [(proxy_repository 2 ''/data/b'')\<lparr>rp_status := Repo_created, rp_health := Health_online\<rparr>],
     st_namespaces = [], st_claims = [example_claim], st_next_namespace = 2, st_next_claim = 2, st_notices = [],
     pr_configs = [\<lparr>bc_id = 3, bc_org = 7, bc_source_type = ''agent'', bc_source_ref = 5, bc_policy = Some 4,
       bc_status = Conf_active, bc_repository = 2, bc_error_code = []\<rparr>],
     pr_config_directories = [\<lparr>cd_id = 1, cd_config = 3\<rparr>], pr_policies = [],
     pr_snapshots = [example_snapshot 11 Snap_available 1000], pr_next_snapshot = 12,
     pr_directories = [], pr_next_directory = 1,
     pr_leases = [lease_row 1 11 ''chat'' ''8'', lease_row 2 11 ''restore'' ''21'',
       lease_row 3 11 ''import'' ''x'', lease_row 4 11 ''chat'' ''9''],
     pr_next_lease = 5, pr_delete_queue = [], pr_backup_queue = [], pr_estimate_queue = [], pr_targets = [], pr_orphans = [], pr_sessions = [],
     pr_knowledge = [], pr_residues = [], pr_delete_locks = [], pr_unregister_queue = []\<rparr>"

lemma example_leases: "leases_ok example_protection" "well_formed_needs example_protection"
  by (simp_all add: leases_ok_def example_protection_def lease_row_def lease_key_def) code_simp

section \<open>Properties\<close>





text \<open>
  C18. Reconciliation starves no lease: examined leases queue behind the others, so after enough
  runs to cover the table, with any limit, exactly the leases that are still needed are left.
\<close>

theorem reconcile_runs_complete:
  assumes "leases_ok pf" and "well_formed_needs pf" and "sorted_wrt (<) ts"
    and "\<forall>t \<in> set ts. stamped_before t pf"
    and "length (pr_leases pf) \<le> length ts * nat (max 1 limit)"
  shows "lease_body ` set (pr_leases (reconcile_runs limit ts pf))
    = lease_body ` {l \<in> set (pr_leases pf). lease_needed l pf = Inr True}"
proof
  from runs_rotate [OF assms(1-4), of limit] obtain zs where
    zs: "lease_order (reconcile_runs limit ts pf) = drop (length ts * nat (max 1 limit)) (lease_order pf) @ zs"
      "\<forall>z \<in> set zs. lease_needed z pf = Inr True" by blast
  have "lease_order (reconcile_runs limit ts pf) = zs" using zs(1) assms(5) by (simp add: lease_order_def)
  then have left: "lease_needed l pf = Inr True" if "l \<in> set (pr_leases (reconcile_runs limit ts pf))" for l
    using zs(2) that by (metis lease_order_def set_sort)
  show "lease_body ` set (pr_leases (reconcile_runs limit ts pf))
      \<subseteq> lease_body ` {l \<in> set (pr_leases pf). lease_needed l pf = Inr True}"
  proof
    fix b assume "b \<in> lease_body ` set (pr_leases (reconcile_runs limit ts pf))"
    then obtain l where l: "l \<in> set (pr_leases (reconcile_runs limit ts pf))" "b = lease_body l" by blast
    with runs_subset [of limit ts pf] obtain x where "x \<in> set (pr_leases pf)" "b = lease_body x" by blast
    then show "b \<in> lease_body ` {l \<in> set (pr_leases pf). lease_needed l pf = Inr True}"
      using left [OF l(1)] l(2) lease_body_simps(2) by (intro image_eqI [of _ _ x]) (auto, metis lease_body_simps(2))
  qed
  show "lease_body ` {l \<in> set (pr_leases pf). lease_needed l pf = Inr True}
      \<subseteq> lease_body ` set (pr_leases (reconcile_runs limit ts pf))"
    using runs_keep [OF assms(1,2)] by blast
qed

theorem reconcile_runs_complete_witness:
  "sl_id ` set (pr_leases (reconcile_runs 2 [50, 60] example_protection)) = {2, 3}"
proof -
  have "lease_body ` set (pr_leases (reconcile_runs 2 [50, 60] example_protection))
      = lease_body ` {l \<in> set (pr_leases example_protection). lease_needed l example_protection = Inr True}"
    by (rule reconcile_runs_complete [OF example_leases])
      (simp_all add: stamped_before_def example_protection_def lease_row_def)
  moreover have "map sl_id (filter (\<lambda>l. lease_needed l example_protection = Inr True) (pr_leases example_protection))
      = [2, 3]" by code_simp
  then have "sl_id ` {l \<in> set (pr_leases example_protection). lease_needed l example_protection = Inr True} = {2, 3}"
    by (metis list.set(1,2) set_filter set_map)
  ultimately show ?thesis by (metis (no_types, lifting) image_cong image_image lease_body_simps(5))
qed

end
