(* ===== verification/Workload.thy ===== *)
theory Workload
  imports Snapshot_Usage
begin

text \<open>
  The admission of data work to a repository,
  \<^verbatim>\<open>apps/storage/services/internal/repository_workload.py\<close>: a repository must exist, be created,
  have proven its place, be reachable for reading work and be free of an orphan cleanup. Taking the
  locks leaves no trace; both entry points make the same checks.
\<close>

datatype workload_error =
  Unsupported_workload
| No_repositories
| Repository_unavailable
| Ownership_unverified
| Repository_unreadable
| Orphans usage_error

definition workload_values :: "string list" where
  "workload_values = [''backup_write'', ''restore_read'', ''snapshot_delete'']"

definition direct_nas :: "repository \<Rightarrow> bool" where
  "direct_nas r \<longleftrightarrow> rp_type r = Repo_nas \<and> rp_bind_node r = None"

definition ownership_verified :: "repository \<Rightarrow> 'a storage_scheme \<Rightarrow> bool" where
  "ownership_verified r st \<longleftrightarrow> (\<exists>c \<in> set (st_claims st). lc_repository c = rp_id r
     \<and> lc_scope c = Scope_repository \<and> lc_state c = Claim_owned \<and> lc_verified_at c \<noteq> None)"

definition legacy_non_destructive :: "string \<Rightarrow> repository \<Rightarrow> 'a storage_scheme \<Rightarrow> bool" where
  "legacy_non_destructive workload r st \<longleftrightarrow> workload \<in> {''backup_write'', ''restore_read''}
     \<and> repository_has_legacy_location r None None st = Inr True"

definition require_repository_capability ::
  "string \<Rightarrow> repository \<Rightarrow> 'a storage_scheme \<Rightarrow> (workload_error, unit) result" where
  "require_repository_capability workload r st =
     rbind (guard_that (rp_status r = Repo_created) Repository_unavailable) (\<lambda>_.
     rbind (guard_that (direct_nas r \<or> ownership_verified r st \<or> legacy_non_destructive workload r st)
       Ownership_unverified) (\<lambda>_.
     guard_that (\<not> (workload \<in> {''restore_read'', ''snapshot_delete''} \<and> rp_health r \<noteq> Health_online))
       Repository_unreadable))"

definition admit_repository :: "string \<Rightarrow> protection \<Rightarrow> repository \<Rightarrow> unit \<Rightarrow> (workload_error, unit) result" where
  "admit_repository workload pf r u =
     rbind (require_repository_capability workload r pf) (\<lambda>_.
     case assert_no_orphan_cleanup (rp_id r) pf of Inl e \<Rightarrow> Inl (Orphans e) | Inr _ \<Rightarrow> Inr ())"

fun all_found :: "'a option list \<Rightarrow> 'a list option" where
  "all_found [] = Some []"
| "all_found (None # xs) = None"
| "all_found (Some x # xs) = map_option ((#) x) (all_found xs)"

definition repositories_for_workload ::
  "int \<Rightarrow> int list \<Rightarrow> string \<Rightarrow> protection \<Rightarrow> (workload_error, repository list) result" where
  "repositories_for_workload org is workload pf =
     rbind (guard_that (workload \<in> set workload_values) Unsupported_workload) (\<lambda>_.
     let ordered = sort (remdups is) in
     rbind (guard_that (ordered \<noteq> []) No_repositories) (\<lambda>_.
     rbind (of_option Repository_unavailable (all_found
       (map (\<lambda>i. first_where (\<lambda>r. rp_org r = org \<and> rp_id r = i) (st_repositories pf)) ordered))) (\<lambda>rs.
     rbind (rfold (admit_repository workload pf) rs ()) (\<lambda>_. Inr rs))))"

definition lock_repositories_for_workload ::
  "int \<Rightarrow> int list \<Rightarrow> string \<Rightarrow> protection \<Rightarrow> (workload_error, repository list) result" where
  "lock_repositories_for_workload org is workload pf = repositories_for_workload org is workload pf"

definition validate_repositories_for_workload ::
  "int \<Rightarrow> int list \<Rightarrow> string \<Rightarrow> protection \<Rightarrow> (workload_error, repository list) result" where
  "validate_repositories_for_workload org is workload pf = repositories_for_workload org is workload pf"

end
