(* ===== verification/Snapshot_Delete.thy ===== *)
theory Snapshot_Delete
  imports Workload
begin

text \<open>
  The deletion of snapshots, \<^verbatim>\<open>apps/protection/services/snapshot_delete.py\<close>: the tasks of a
  snapshot, the admission of a deletion (a new task, an active one, or a retry of a failed one) and
  the retry delays, with \<^verbatim>\<open>kopia_snapshot_delete.py\<close>. Every admission is one transaction; the
  announcement to the worker queue is recorded in \<open>pr_delete_queue\<close> as the task and the snapshot.
\<close>

datatype delete_error =
  In_use
| Already_deleted
| Snapshot_missing
| Malformed_payload
| Repository_refused workload_error
| Task_refused task_error

section \<open>Physical snapshots\<close>

definition normalize_kopia_snapshot_id :: "json \<Rightarrow> string" where
  "normalize_kopia_snapshot_id v = (let i = strip (text_or_empty v) in
     if lower i \<in> {''none'', ''null''} then [] else i)"

definition kopia_column :: "string option \<Rightarrow> json" where
  "kopia_column v = (case v of None \<Rightarrow> JNull | Some s \<Rightarrow> JStr s)"

definition snapshot_delete_rows :: "snapshot \<Rightarrow> protection \<Rightarrow> snapshot_directory list" where
  "snapshot_delete_rows s pf =
     sort_key sd_id (filter (\<lambda>d. sd_snapshot d = sn_id s \<and> sd_state d \<noteq> Dir_deleted) (pr_directories pf))"

fun first_occurrences :: "string list \<Rightarrow> string list \<Rightarrow> string list" where
  "first_occurrences seen [] = []"
| "first_occurrences seen (i # is) =
     (if i = [] \<or> i \<in> set seen then first_occurrences seen is else i # first_occurrences (i # seen) is)"

definition kopia_snapshot_ids :: "snapshot_directory list \<Rightarrow> string list" where
  "kopia_snapshot_ids rows =
     first_occurrences [] (map (\<lambda>d. normalize_kopia_snapshot_id (kopia_column (sd_kopia_id d))) rows)"

text \<open>\<^verbatim>\<open>" ".join(part for part in parts if part).lower()\<close>\<close>

definition item_delete_text :: "dict \<Rightarrow> string" where
  "item_delete_text item =
     (let parts = text_or_empty (dget item ''error_message'') #
        (case dget item ''delete'' of
           JObj delete \<Rightarrow> map (\<lambda>k. text_or_empty (dget delete k)) [''stderr'', ''stderr_tail'', ''stdout'']
         | _ \<Rightarrow> [])
      in lower (join_with CHR '' '' (filter (\<lambda>p. p \<noteq> []) parts)))"

fun contains_text :: "string \<Rightarrow> string \<Rightarrow> bool" where
  "contains_text p [] = (p = [])"
| "contains_text p (c # s) = (take (length p) (c # s) = p \<or> contains_text p s)"

definition item_status :: "dict \<Rightarrow> string" where
  "item_status item = lower (strip (text_or_empty (dget item ''status'')))"

definition kopia_snapshot_delete_already_absent :: "dict \<Rightarrow> bool" where
  "kopia_snapshot_delete_already_absent item \<longleftrightarrow> item_status item \<noteq> ''success''
     \<and> contains_text ''no snapshots matched'' (item_delete_text item)"

text \<open>The sets of deleted and absent ids as lists, and the items that failed.\<close>

fun classify_kopia_snapshot_delete_results ::
  "json list \<Rightarrow> string list \<times> string list \<times> dict list" where
  "classify_kopia_snapshot_delete_results [] = ([], [], [])"
| "classify_kopia_snapshot_delete_results (v # vs) =
     (case classify_kopia_snapshot_delete_results vs of (deleted, absent, failed) \<Rightarrow>
        (case v of
           JObj item \<Rightarrow>
             let i = normalize_kopia_snapshot_id (dget item ''kopia_snapshot_id'') in
             if i = [] then (deleted, absent, failed)
             else if item_status item = ''success'' then (List.insert i deleted, absent, failed)
             else if kopia_snapshot_delete_already_absent item then (deleted, List.insert i absent, failed)
             else (deleted, absent, item # failed)
         | _ \<Rightarrow> (deleted, absent, failed)))"

section \<open>The tasks of a snapshot\<close>

definition json_int_is :: "json \<Rightarrow> int \<Rightarrow> bool" where
  "json_int_is v i \<longleftrightarrow> (case v of JInt j \<Rightarrow> j = i | JFloat q _ \<Rightarrow> q = of_int i | _ \<Rightarrow> False)"

definition deletes_snapshot :: "int \<Rightarrow> int \<Rightarrow> task \<Rightarrow> bool" where
  "deletes_snapshot org i t \<longleftrightarrow> t_org t = Some org \<and> t_type t = task_type.Snapshot_delete
     \<and> json_int_is (dget (or_else (t_request t) []) ''source_snapshot_id'') i"

definition newest :: "task list \<Rightarrow> task option" where
  "newest ts = (case rev (sort_key (\<lambda>t. (t_created_at t, t_id t)) ts) of [] \<Rightarrow> None | t # _ \<Rightarrow> Some t)"

definition active_delete_task :: "int \<Rightarrow> int \<Rightarrow> protection \<Rightarrow> task option" where
  "active_delete_task org i pf = newest (filter (\<lambda>t. deletes_snapshot org i t \<and> \<not> terminal (t_status t))
     (db_tasks (pf_tasks pf)))"

definition latest_delete_task :: "int \<Rightarrow> int \<Rightarrow> protection \<Rightarrow> task option" where
  "latest_delete_task org i pf = newest (filter (deletes_snapshot org i) (db_tasks (pf_tasks pf)))"

definition snapshot_delete_retry_delay :: "int \<Rightarrow> int" where
  "snapshot_delete_retry_delay n =
     [1, 4, 16, 30, 60, 120] ! nat (min (max 0 n) 5) * minute_us"

section \<open>Admission\<close>

text \<open>A deletion on behalf of a deregistration carries the task and its attempt.\<close>

definition attached_payload :: "task \<Rightarrow> dict \<Rightarrow> dict" where
  "attached_payload parent d = dset (dset d ''source_unregister_task_id'' (JInt (int (t_id parent))))
     ''source_unregister_attempt'' (JInt (t_retry_count parent))"

definition attach_source_unregister_parent ::
  "int \<Rightarrow> task \<Rightarrow> task option \<Rightarrow> protection \<Rightarrow> (delete_error, protection \<times> task) result" where
  "attach_source_unregister_parent now t parent pf = (case parent of
       None \<Rightarrow> Inr (pf, t)
     | Some p \<Rightarrow>
         let payload = or_else (t_request t) [] in
         rbind (of_option Malformed_payload (int_or (dget payload ''source_unregister_task_id'') 0)) (\<lambda>i.
         rbind (if i = int (t_id p)
                then of_option Malformed_payload (int_or (dget payload ''source_unregister_attempt'') 0)
                else Inr (t_retry_count p - 1)) (\<lambda>n.
         if i = int (t_id p) \<and> n = t_retry_count p then Inr (pf, t)
         else let f = (\<lambda>t. t\<lparr>t_request := Some (attached_payload p payload), t_updated_at := now\<rparr>)
              in Inr (pf\<lparr>pf_tasks := save_task f t (pf_tasks pf)\<rparr>, f t))))"

definition delete_payload :: "snapshot \<Rightarrow> task option \<Rightarrow> protection \<Rightarrow> dict" where
  "delete_payload s parent pf =
     (let rows = snapshot_delete_rows s pf;
          d = [(''source_snapshot_id'', JInt (sn_id s)), (''backup_config_id'', JInt (sn_config s)),
               (''repository_id'', JInt (sn_repository s)),
               (''kopia_snapshot_ids'', JList (map JStr (kopia_snapshot_ids rows))),
               (''directory_ids'', JList (map (JInt \<circ> sd_id) rows))]
      in case parent of None \<Rightarrow> d | Some p \<Rightarrow> attached_payload p d)"

definition delete_request :: "snapshot \<Rightarrow> string \<Rightarrow> task option \<Rightarrow> protection \<Rightarrow> task_request" where
  "delete_request s trigger parent pf =
     \<lparr>q_org = Some (sn_org s), q_type = ''snapshot_delete'', q_name = ''Delete snapshot '' @ sn_uid s,
      q_trigger = trigger, q_payload = Some (delete_payload s parent pf),
      q_resources =
        [\<lparr>rd_type = Some ''backup_source'', rd_subtype = Some (sn_source_type s), rd_ref = Some (sn_source_ref s),
          rd_primary = True\<rparr>,
         \<lparr>rd_type = Some ''repository'', rd_subtype = None, rd_ref = Some (sn_repository s), rd_primary = False\<rparr>],
      q_steps = map (\<lambda>n. Step_fields (Some n) None None)
        [''prepare_snapshot_delete'', ''delete_kopia_snapshots'', ''finalize_snapshot_delete''],
      q_normalize = True, q_replaces = None, q_group_uuid = None, q_key = None, q_notify_on_commit = False\<rparr>"

text \<open>The columns a new and a retried deletion save; a retry forgets the error of the last attempt.\<close>

definition deletion_columns :: "bool \<Rightarrow> snapshot \<Rightarrow> snapshot" where
  "deletion_columns again s =
     (if again then s\<lparr>sn_status := Snap_deleting, sn_error_code := [], sn_error_message := []\<rparr>
      else s\<lparr>sn_status := Snap_deleting\<rparr>)"

definition mark_deleting :: "bool \<Rightarrow> int \<Rightarrow> protection \<Rightarrow> protection" where
  "mark_deleting again i pf =
     pf\<lparr>pr_snapshots := update_where (\<lambda>s. sn_id s = i) (deletion_columns again) (pr_snapshots pf)\<rparr>"

lemma deletion_columns_simps [simp]:
  "sn_status (deletion_columns again s) = Snap_deleting"
  "sn_id (deletion_columns again s) = sn_id s" "sn_org (deletion_columns again s) = sn_org s"
  "sn_uid (deletion_columns again s) = sn_uid s" "sn_key (deletion_columns again s) = sn_key s"
  "sn_config (deletion_columns again s) = sn_config s"
  "sn_source_type (deletion_columns again s) = sn_source_type s"
  "sn_source_ref (deletion_columns again s) = sn_source_ref s"
  "sn_repository (deletion_columns again s) = sn_repository s"
  "sn_deleted_at (deletion_columns again s) = sn_deleted_at s"
  "sn_task (deletion_columns again s) = sn_task s"
  "sn_task_uuid (deletion_columns again s) = sn_task_uuid s"
  "sn_expected (deletion_columns again s) = sn_expected s"
  "sn_succeeded (deletion_columns again s) = sn_succeeded s"
  "sn_failed (deletion_columns again s) = sn_failed s"
  "sn_size (deletion_columns again s) = sn_size s"
  "sn_files (deletion_columns again s) = sn_files s"
  "sn_dirs (deletion_columns again s) = sn_dirs s"
  "sn_finished_at (deletion_columns again s) = sn_finished_at s"
  "deletion_columns b (deletion_columns a s) = deletion_columns (a \<or> b) s"
  by (auto simp: deletion_columns_def)

definition refused :: "(workload_error, 'a) result \<Rightarrow> (delete_error, 'a) result" where
  "refused r = (case r of Inl e \<Rightarrow> Inl (Repository_refused e) | Inr x \<Rightarrow> Inr x)"

definition run_tasks :: "'a task_result \<Rightarrow> protection \<Rightarrow> (delete_error, protection \<times> 'a) result" where
  "run_tasks r pf = (case r of
       Inl e \<Rightarrow> Inl (Task_refused e) | Inr (db, t) \<Rightarrow> Inr (pf\<lparr>pf_tasks := db\<rparr>, t))"

definition create_snapshot_delete_task ::
  "int \<Rightarrow> string \<Rightarrow> int \<Rightarrow> int \<Rightarrow> string \<Rightarrow> task option \<Rightarrow> protection \<Rightarrow> (delete_error, protection \<times> task) result" where
  "create_snapshot_delete_task now uuid org i trigger parent pf =
     rbind (of_option Snapshot_missing (snapshot_row org i pf)) (\<lambda>s.
     rbind (guard_that (\<not> snapshot_is_protected i pf) In_use) (\<lambda>_.
     rbind (guard_that (sn_status s \<noteq> Snap_deleted) Already_deleted) (\<lambda>_.
     case active_delete_task org i pf of
       Some t \<Rightarrow> attach_source_unregister_parent now t parent pf
     | None \<Rightarrow>
         rbind (refused (lock_repositories_for_workload org [sn_repository s] ''snapshot_delete'' pf)) (\<lambda>_.
         rbind (run_tasks (create_task now uuid (delete_request s trigger parent pf) (pf_tasks pf)) pf) (\<lambda>(pf, t).
           Inr (mark_deleting False i pf, t))))))"

text \<open>A failed deletion is retried on its last task, unless that one succeeded.\<close>

definition retry_or_create ::
  "int \<Rightarrow> string \<Rightarrow> int \<Rightarrow> int \<Rightarrow> string \<Rightarrow> task option \<Rightarrow> snapshot \<Rightarrow> protection \<Rightarrow>
    (delete_error, protection \<times> task) result" where
  "retry_or_create now uuid org i trigger parent s pf =
     (case (if sn_status s = Snap_delete_failed then latest_delete_task org i pf else None) of
        Some t \<Rightarrow>
          if terminal (t_status t) \<and> t_status t \<noteq> Success then
            rbind (refused (lock_repositories_for_workload org [sn_repository s] ''snapshot_delete'' pf)) (\<lambda>_.
            rbind (run_tasks (retry_task now (t_uuid t) org ''Snapshot delete requested again'' (pf_tasks pf)) pf)
              (\<lambda>(pf, t). Inr (mark_deleting True i pf, t)))
          else create_snapshot_delete_task now uuid org i trigger parent pf
      | None \<Rightarrow> create_snapshot_delete_task now uuid org i trigger parent pf)"

definition enqueue_delete :: "task \<Rightarrow> int \<Rightarrow> protection \<Rightarrow> protection" where
  "enqueue_delete t i pf = pf\<lparr>pr_delete_queue := pr_delete_queue pf @ [(t_id t, i)]\<rparr>"

definition create_and_queue_snapshot_delete_task ::
  "int \<Rightarrow> string \<Rightarrow> int \<Rightarrow> int \<Rightarrow> string \<Rightarrow> task option \<Rightarrow> protection \<Rightarrow> (delete_error, protection \<times> task) result" where
  "create_and_queue_snapshot_delete_task now uuid org i trigger parent pf =
     rbind (of_option Snapshot_missing (snapshot_row org i pf)) (\<lambda>s.
     rbind (guard_that (\<not> snapshot_is_protected i pf) In_use) (\<lambda>_.
     case active_delete_task org i pf of
       Some t \<Rightarrow> attach_source_unregister_parent now t parent pf
     | None \<Rightarrow>
         rbind (retry_or_create now uuid org i trigger parent s pf) (\<lambda>(pf, t).
         rbind (attach_source_unregister_parent now t parent pf) (\<lambda>(pf, t).
           Inr (enqueue_delete t i pf, t)))))"

end
