(* ===== verification/Delete_Claims.thy ===== *)
theory Delete_Claims
  imports Snapshot_Delete Usage_Claims
begin

text \<open>
  Leases and deletions exclude each other: a deletion is only admitted on a snapshot nobody holds,
  a lease only on a snapshot that is not being deleted, under every interleaving of the two.
\<close>

section \<open>What a deletion request changes\<close>

lemma attach_frame:
  assumes "attach_source_unregister_parent now t parent pf = Inr (pf', t')"
  shows "(\<exists>db. pf' = pf\<lparr>pf_tasks := db\<rparr>) \<and> t_id t' = t_id t \<and> t_status t' = t_status t"
proof (cases parent)
  case None
  with assms show ?thesis by (auto simp: attach_source_unregister_parent_def intro: exI [of _ "pf_tasks pf"])
next
  case (Some p)
  with assms show ?thesis
    by (auto simp: attach_source_unregister_parent_def Let_def split: if_splits intro: exI [of _ "pf_tasks pf"])
qed

lemma run_tasks_Inr:
  "run_tasks r pf = Inr (pf', t) \<longleftrightarrow> (\<exists>db. r = Inr (db, t) \<and> pf' = pf\<lparr>pf_tasks := db\<rparr>)"
  by (auto simp: run_tasks_def split: sum.splits prod.splits)

lemma refused_Inr [simp]: "refused r = Inr x \<longleftrightarrow> r = Inr x"
  by (cases r) (auto simp: refused_def)

lemma created_pending:
  assumes "create_task now uuid q db = Inr (db', t)"
  shows "t_status t = Pending"
  using assms
proof (rule create_taskE)
  fix ty tr replaced
  assume "store_task now uuid q ty (request_trigger q tr replaced db) replaced db = Inr (db', t)"
  then show ?thesis by (rule store_taskE) (simp add: new_task_def)
qed

lemma retried_pending:
  assumes "retry_task now uuid org reason db = Inr (db', t)"
  shows "t_status t = Pending"
  using assms by (rule retry_taskE) (auto simp: retried_columns_def)

text \<open>A new or retried task marks its snapshot, and nothing else of the snapshots and leases.\<close>

definition marked_deleting :: "int \<Rightarrow> protection \<Rightarrow> protection \<Rightarrow> bool" where
  "marked_deleting i pf pf' \<longleftrightarrow>
     (\<exists>again db. pf' = mark_deleting again i (pf\<lparr>pf_tasks := db\<rparr>))"

lemma create_delete_marks:
  assumes "create_snapshot_delete_task now uuid org i trigger parent pf = Inr (pf', t)"
    and "active_delete_task org i pf = None"
  shows "marked_deleting i pf pf' \<and> t_status t = Pending"
proof -
  from assms obtain s db where db: "create_task now uuid (delete_request s trigger parent pf) (pf_tasks pf) = Inr (db, t)"
    and pf': "pf' = mark_deleting False i (pf\<lparr>pf_tasks := db\<rparr>)"
    by (auto simp: create_snapshot_delete_task_def run_tasks_Inr)
  then show ?thesis using created_pending [OF db] by (auto simp: marked_deleting_def)
qed

lemma retry_or_create_marks:
  assumes "retry_or_create now uuid org i trigger parent s pf = Inr (pf', t)"
    and "active_delete_task org i pf = None"
  shows "marked_deleting i pf pf' \<and> t_status t = Pending"
proof (cases "if sn_status s = Snap_delete_failed then latest_delete_task org i pf else None")
  case None
  with assms(1) have "create_snapshot_delete_task now uuid org i trigger parent pf = Inr (pf', t)"
    unfolding retry_or_create_def by simp
  then show ?thesis using create_delete_marks assms(2) by blast
next
  case (Some u)
  show ?thesis
  proof (cases "terminal (t_status u) \<and> t_status u \<noteq> Success")
    case True
    with assms(1) Some obtain db where
      "retry_task now (t_uuid u) org ''Snapshot delete requested again'' (pf_tasks pf) = Inr (db, t)"
      "pf' = mark_deleting True i (pf\<lparr>pf_tasks := db\<rparr>)"
      unfolding retry_or_create_def Some option.case by (auto simp: run_tasks_Inr)
    then show ?thesis using retried_pending by (auto simp: marked_deleting_def)
  next
    case False
    with assms(1) have "create_snapshot_delete_task now uuid org i trigger parent pf = Inr (pf', t)"
      unfolding retry_or_create_def Some option.case by simp
    then show ?thesis using create_delete_marks assms(2) by blast
  qed
qed

lemma delete_request_cases:
  assumes "create_and_queue_snapshot_delete_task now uuid org i trigger parent pf = Inr (pf', t)"
  obtains (joined) a where "active_delete_task org i pf = Some a" "t_id t = t_id a" "t_status t = t_status a"
      "\<exists>db. pf' = pf\<lparr>pf_tasks := db\<rparr>"
  | (started) "active_delete_task org i pf = None" "t_status t = Pending"
      "\<exists>again db. pf' = enqueue_delete t i (mark_deleting again i (pf\<lparr>pf_tasks := db\<rparr>))"
proof (cases "active_delete_task org i pf")
  case (Some a)
  with assms have "attach_source_unregister_parent now a parent pf = Inr (pf', t)"
    by (auto simp: create_and_queue_snapshot_delete_task_def)
  from attach_frame [OF this] Some joined show ?thesis by blast
next
  case None
  with assms obtain s x u y where
    x: "retry_or_create now uuid org i trigger parent s pf = Inr (x, u)"
    and y: "attach_source_unregister_parent now u parent x = Inr (y, t)" "pf' = enqueue_delete t i y"
    by (auto simp: create_and_queue_snapshot_delete_task_def)
  from retry_or_create_marks [OF x None] obtain again db where
    m: "x = mark_deleting again i (pf\<lparr>pf_tasks := db\<rparr>)" "t_status u = Pending"
    by (auto simp: marked_deleting_def)
  from attach_frame [OF y(1)] obtain db' where d: "y = x\<lparr>pf_tasks := db'\<rparr>" "t_status t = Pending"
    using m(2) by auto
  have "y = mark_deleting again i (pf\<lparr>pf_tasks := db'\<rparr>)"
    by (simp add: d(1) m(1) mark_deleting_def)
  with y(2) have "\<exists>again db. pf' = enqueue_delete t i (mark_deleting again i (pf\<lparr>pf_tasks := db\<rparr>))"
    by auto
  from started [OF None d(2) this] show ?thesis .
qed

lemma delete_request_unprotected:
  assumes "create_and_queue_snapshot_delete_task now uuid org i trigger parent pf = Inr (pf', t)"
  shows "\<not> snapshot_is_protected i pf" and "\<exists>s. snapshot_row org i pf = Some s"
  using assms by (auto simp: create_and_queue_snapshot_delete_task_def)

section \<open>Leases and deletions together\<close>

definition usage_ok :: "protection \<Rightarrow> bool" where
  "usage_ok pf \<longleftrightarrow> leases_ok pf \<and> distinct (map sn_id (pr_snapshots pf))
     \<and> (\<forall>l \<in> set (pr_leases pf). \<forall>s \<in> set (pr_snapshots pf). sn_id s = sl_snapshot l \<longrightarrow> usable (sn_status s))"

text \<open>Tasks and commands change on their own between these steps.\<close>

inductive usage_op :: "protection \<Rightarrow> protection \<Rightarrow> bool" where
  use_acquire: "acquire_snapshot_usage now org i ctype cid pf = Inr (pf', l) \<Longrightarrow> usage_op pf pf'"
| use_release: "release_snapshot_usage i ctype cid pf = Inr (pf', n) \<Longrightarrow> usage_op pf pf'"
| use_reconcile: "fst (reconcile_snapshot_usage_leases now limit pf) = pf' \<Longrightarrow> usage_op pf pf'"
| use_delete: "create_and_queue_snapshot_delete_task now uuid org i trigger parent pf = Inr (pf', t) \<Longrightarrow> usage_op pf pf'"
| use_tasks: "task_op (pf_tasks pf) db \<Longrightarrow> usage_op pf (pf\<lparr>pf_tasks := db\<rparr>)"
| use_fleet: "node_op (pf_fleet pf) fl \<Longrightarrow> usage_op pf (pf\<lparr>pf_fleet := fl\<rparr>)"

inductive_cases usage_opE: "usage_op pf pf'"

lemma reconcile_frame:
  "\<exists>ls. fst (reconcile_snapshot_usage_leases now limit pf) = pf\<lparr>pr_leases := ls\<rparr>"
proof -
  let ?r = "reconcile_leases (examined limit pf) [] 0 pf"
  obtain ls where ls: "fst ?r = pf\<lparr>pr_leases := ls\<rparr>" using reconcile_leases_rows by blast
  have "fst (reconcile_snapshot_usage_leases now limit pf) \<in> {fst ?r} \<union> range (\<lambda>is. stamp_leases now is (fst ?r))"
    by (auto simp: reconcile_snapshot_usage_leases_def Let_def examined_def split: prod.split sum.split)
  then show ?thesis by (auto simp: ls stamp_leases_def)
qed

lemma lease_bodies_ok:
  assumes "usage_ok pf" and "pf' = pf\<lparr>pr_leases := ls\<rparr>" and "distinct (map sl_id ls)" "distinct (map lease_key ls)"
    and "lease_body ` set ls \<subseteq> lease_body ` set (pr_leases pf)"
  shows "usage_ok pf'"
proof -
  have "\<exists>x \<in> set (pr_leases pf). sl_id x = sl_id l \<and> sl_snapshot x = sl_snapshot l" if "l \<in> set ls" for l
  proof -
    from that assms(5) obtain x where "x \<in> set (pr_leases pf)" "lease_body l = lease_body x" by blast
    then show ?thesis by (metis lease_body_simps(4,5))
  qed
  with assms(1,3,4) show ?thesis unfolding assms(2)
    by (simp add: usage_ok_def leases_ok_def) metis
qed

lemma reconcile_ids:
  assumes "leases_ok pf"
  shows "distinct (map sl_id (pr_leases (fst (reconcile_snapshot_usage_leases now limit pf))))
    \<and> distinct (map lease_key (pr_leases (fst (reconcile_snapshot_usage_leases now limit pf))))"
proof -
  let ?r = "reconcile_leases (examined limit pf) [] 0 pf"
  have r: "leases_ok (fst ?r)"
    unfolding reconcile_leases_rows using leases_ok_rows [OF assms, of id "\<lambda>l. True"]
    by (simp add: update_where_def)
  have s: "leases_ok (stamp_leases now is (fst ?r))" for "is"
    using leases_ok_rows [OF r, of "\<lambda>l. l\<lparr>sl_reconciled_at := Some now\<rparr>" _ "\<lambda>l. True"]
    by (simp add: stamp_leases_def lease_key_def)
  have "fst (reconcile_snapshot_usage_leases now limit pf) \<in> {fst ?r} \<union> range (\<lambda>is. stamp_leases now is (fst ?r))"
    by (auto simp: reconcile_snapshot_usage_leases_def Let_def examined_def split: prod.split sum.split)
  then have "leases_ok (fst (reconcile_snapshot_usage_leases now limit pf))" using r s by auto
  then show ?thesis by (simp add: leases_ok_def)
qed

lemma admitted_usable:
  assumes "admit_usage org i pf = Inr ()" and "usage_ok pf" and "s \<in> set (pr_snapshots pf)" and "sn_id s = i"
  shows "usable (sn_status s)"
proof -
  from assms(1) obtain r where r: "snapshot_row org i pf = Some r" "usable (sn_status r)"
    by (auto simp: admit_usage_def Let_def)
  then have "r \<in> set (pr_snapshots pf)" "sn_id r = i"
    unfolding snapshot_row_def by (auto dest: first_where_Some)
  with assms(2-4) have "r = s" by (auto simp: usage_ok_def distinct_map inj_on_def)
  with r show ?thesis by simp
qed

lemma usage_op_ok: "usage_op pf pf' \<Longrightarrow> usage_ok pf \<Longrightarrow> usage_ok pf'"
proof (induction rule: usage_op.induct)
  case (use_acquire now org i ctype cid pf pf' l)
  from use_acquire(1) have admit: "admit_usage org i pf = Inr ()"
    and got: "get_or_create_lease now org (i, strip ctype, strip cid) pf = Inr (pf', l)"
    by (auto simp: acquire_snapshot_usage_def consumer_id_def split: if_splits)
  have snaps: "pr_snapshots pf' = pr_snapshots pf" by (subst get_or_create_frame [OF got]) simp
  have "sl_snapshot l = i" using get_or_create_spec [OF got] by (simp add: lease_key_def)
  moreover have "leases_ok pf'" using get_or_create_ok [OF got] use_acquire(2) by (simp add: usage_ok_def)
  moreover have "usable (sn_status s)"
    if "x \<in> set (pr_leases pf')" "s \<in> set (pr_snapshots pf)" "sn_id s = sl_snapshot x" for x s
  proof (cases "x \<in> set (pr_leases pf)")
    case True
    then show ?thesis using use_acquire(2) that by (auto simp: usage_ok_def)
  next
    case False
    then have "x = l" using get_or_create_spec [OF got] that(1) by blast
    then show ?thesis using admitted_usable [OF admit use_acquire(2) that(2)] that(3) \<open>sl_snapshot l = i\<close> by simp
  qed
  ultimately show ?case using use_acquire(2) by (simp add: usage_ok_def snaps)
next
  case (use_release i ctype cid pf pf' n)
  then obtain c where pf': "pf' = pf\<lparr>pr_leases := filter (\<lambda>l. lease_key l \<noteq> (i, ctype, c)) (pr_leases pf)\<rparr>"
    by (auto simp: release_snapshot_usage_def)
  show ?case
    using use_release(2) by (intro lease_bodies_ok [OF use_release(2) pf'])
      (auto simp: usage_ok_def leases_ok_def distinct_map_filter)
next
  case (use_reconcile now limit pf pf')
  obtain ls where ls: "fst (reconcile_snapshot_usage_leases now limit pf) = pf\<lparr>pr_leases := ls\<rparr>"
    using reconcile_frame by blast
  have "lease_body ` set ls \<subseteq> lease_body ` set (pr_leases pf)"
    using run_bodies [of now limit pf] by (auto simp: ls)
  moreover have "distinct (map sl_id ls) \<and> distinct (map lease_key ls)"
    using reconcile_ids [of pf now limit] use_reconcile(2) by (simp add: ls usage_ok_def)
  ultimately show ?case
    using use_reconcile by (intro lease_bodies_ok [OF use_reconcile(2), of _ ls]) (auto simp: ls)
next
  case (use_delete now uuid org i trigger parent pf pf' t)
  note free = delete_request_unprotected(1) [OF use_delete(1)]
  from use_delete(1) show ?case
  proof (cases rule: delete_request_cases)
    case (joined a)
    then show ?thesis using use_delete(2) by (auto simp: usage_ok_def leases_ok_def)
  next
    case started
    then obtain again db where pf': "pf' = enqueue_delete t i (mark_deleting again i (pf\<lparr>pf_tasks := db\<rparr>))"
      by blast
    have "map sn_id (pr_snapshots pf') = map sn_id (pr_snapshots pf)"
      by (simp add: pf' enqueue_delete_def mark_deleting_def map_update_where)
    then show ?thesis using use_delete(2) free
      by (auto simp: usage_ok_def leases_ok_def pf' enqueue_delete_def mark_deleting_def
          set_update_where snapshot_is_protected_def)
  qed
qed (auto simp: usage_ok_def leases_ok_def)

interpretation usage_system: preserved usage_op usage_ok
  by unfold_locales (rule usage_op_ok)

definition unusable_record :: "int \<times> int \<Rightarrow> protection \<Rightarrow> bool" where
  "unusable_record = (\<lambda>(org, i) pf.
     \<exists>s \<in> set (pr_snapshots pf). sn_id s = i \<and> sn_org s = org \<and> \<not> usable (sn_status s))"

lemma unusable_same_snapshots:
  "pr_snapshots pf' = pr_snapshots pf \<Longrightarrow> unusable_record k pf \<Longrightarrow> unusable_record k pf'"
  by (cases k) (simp add: unusable_record_def)

lemma unusable_marked:
  "pr_snapshots pf' = pr_snapshots (mark_deleting again i pf) \<Longrightarrow> unusable_record k pf \<Longrightarrow> unusable_record k pf'"
  by (auto simp: unusable_record_def mark_deleting_def bex_update_where usable_def)

interpretation unusable_records: persisting usage_op usage_ok unusable_record
proof unfold_locales
  fix pf pf' k
  assume op: "usage_op pf pf'" and ok: "usage_ok pf" and u: "unusable_record k pf"
  from op show "unusable_record k pf'"
  proof cases
    case (use_acquire now org i ctype cid l)
    then obtain c where "get_or_create_lease now org (i, strip ctype, c) pf = Inr (pf', l)"
      by (auto simp: acquire_snapshot_usage_def)
    then have "pr_snapshots pf' = pr_snapshots pf" by (subst get_or_create_frame) simp_all
    then show ?thesis using u by (rule unusable_same_snapshots)
  next
    case (use_release i ctype cid n)
    then show ?thesis using u by (auto simp: release_snapshot_usage_def intro: unusable_same_snapshots)
  next
    case (use_reconcile now limit)
    then show ?thesis using u reconcile_frame [of now limit pf] by (auto intro: unusable_same_snapshots)
  next
    case (use_delete now uuid org i trigger parent t)
    from use_delete(1) show ?thesis
    proof (cases rule: delete_request_cases)
      case (joined a)
      then show ?thesis using u by (auto intro: unusable_same_snapshots)
    next
      case started
      then obtain again where "pr_snapshots pf' = pr_snapshots (mark_deleting again i pf)"
        by (auto simp: enqueue_delete_def mark_deleting_def)
      then show ?thesis using u by (rule unusable_marked)
    qed
  qed (use u in \<open>auto intro: unusable_same_snapshots\<close>)
qed

lemma acquire_unusable:
  assumes "unusable_record (org, i) pf" and "usage_ok pf"
  shows "isl (acquire_snapshot_usage now org i ctype cid pf)"
proof (rule ccontr)
  assume "\<not> isl (acquire_snapshot_usage now org i ctype cid pf)"
  then have admit: "admit_usage org i pf = Inr ()"
    by (cases "acquire_snapshot_usage now org i ctype cid pf") (auto simp: acquire_snapshot_usage_def)
  from assms(1) obtain s where "s \<in> set (pr_snapshots pf)" "sn_id s = i" "\<not> usable (sn_status s)"
    by (auto simp: unusable_record_def)
  with admitted_usable [OF admit assms(2)] show False by blast
qed

lemma started_unusable:
  assumes "create_and_queue_snapshot_delete_task now uuid org i trigger parent pf = Inr (pf', t)"
    and "active_delete_task org i pf = None"
  shows "unusable_record (org, i) pf'"
  using assms(1)
proof (cases rule: delete_request_cases)
  case (joined a)
  with assms(2) show ?thesis by simp
next
  case started
  then obtain again db where pf': "pf' = enqueue_delete t i (mark_deleting again i (pf\<lparr>pf_tasks := db\<rparr>))"
    by blast
  from delete_request_unprotected(2) [OF assms(1)] obtain s where
    "s \<in> set (pr_snapshots pf)" "sn_id s = i" "sn_org s = org"
    unfolding snapshot_row_def by (auto dest: first_where_Some)
  then show ?thesis
    by (auto simp: pf' unusable_record_def enqueue_delete_def mark_deleting_def bex_update_where usable_def)
qed

section \<open>Which repositories are admitted\<close>

lemma all_found_Some: "all_found xs = Some ys \<longleftrightarrow> xs = map Some ys"
proof (induction xs arbitrary: ys)
  case Nil
  then show ?case by auto
next
  case (Cons x xs)
  then show ?case by (cases x; cases ys) auto
qed

lemma admit_repository_Inr:
  "admit_repository w pf r () = Inr () \<longleftrightarrow>
     rp_status r = Repo_created \<and> (direct_nas r \<or> ownership_verified r pf \<or> legacy_non_destructive w r pf)
     \<and> (w \<in> {''restore_read'', ''snapshot_delete''} \<longrightarrow> rp_health r = Health_online)
     \<and> assert_no_orphan_cleanup (rp_id r) pf = Inr ()"
  by (auto simp: admit_repository_def require_repository_capability_def split: sum.splits)

lemma admitted_workload:
  "w \<in> set workload_values \<Longrightarrow> admit_repository w pf r () = Inr () \<longleftrightarrow>
     rp_status r = Repo_created
     \<and> (direct_nas r \<or> ownership_verified r pf
        \<or> (w \<noteq> ''snapshot_delete'' \<and> repository_has_legacy_location r None None pf = Inr True))
     \<and> (w \<noteq> ''backup_write'' \<longrightarrow> rp_health r = Health_online)
     \<and> assert_no_orphan_cleanup (rp_id r) pf = Inr ()"
  by (auto simp: admit_repository_Inr legacy_non_destructive_def workload_values_def)

lemma all_found_ball:
  "(\<exists>rs. map F xs = map Some rs \<and> (\<forall>r \<in> set rs. Q r)) \<longleftrightarrow> (\<forall>i \<in> set xs. \<exists>r. F i = Some r \<and> Q r)"
proof (induction xs)
  case Nil
  then show ?case by simp
next
  case (Cons x xs)
  have "(\<exists>rs. map F (x # xs) = map Some rs \<and> (\<forall>r \<in> set rs. Q r))
      \<longleftrightarrow> (\<exists>r rs. F x = Some r \<and> map F xs = map Some rs \<and> Q r \<and> (\<forall>r \<in> set rs. Q r))"
    by (auto simp: Cons_eq_map_conv)
  with Cons show ?case by auto
qed

definition found_repository :: "int \<Rightarrow> int \<Rightarrow> protection \<Rightarrow> repository option" where
  "found_repository org i pf = first_where (\<lambda>r. rp_org r = org \<and> rp_id r = i) (st_repositories pf)"

lemma workload_Inr:
  "lock_repositories_for_workload org is w pf = Inr rs \<longleftrightarrow>
     w \<in> set workload_values \<and> is \<noteq> []
     \<and> map (\<lambda>i. found_repository org i pf) (sort (remdups is)) = map Some rs
     \<and> (\<forall>r \<in> set rs. admit_repository w pf r () = Inr ())"
proof -
  have ne: "sort (remdups is) \<noteq> [] \<longleftrightarrow> is \<noteq> []" by (metis remdups_eq_nil_iff set_empty set_sort)
  show ?thesis
    by (auto simp: lock_repositories_for_workload_def repositories_for_workload_def Let_def ne
        all_found_Some rfold_unit found_repository_def [symmetric])
qed

section \<open>Properties\<close>

text \<open>
  C23. A snapshot in use is never being deleted: whatever leases are taken, released and reconciled,
  whatever deletions are requested, and whatever tasks and commands do in between, every snapshot
  under a lease is still available or partial.
\<close>

theorem leased_snapshots_usable:
  assumes "usage_op\<^sup>*\<^sup>* pf pf'" and "usage_ok pf"
    and "l \<in> set (pr_leases pf')" and "s \<in> set (pr_snapshots pf')" and "sn_id s = sl_snapshot l"
  shows "usable (sn_status s)"
  using usage_system.run_inv [OF assms(1,2)] assms(3-5) by (simp add: usage_ok_def)

lemma example_usage_ok: "usage_ok example_protection"
  using example_leases(1)
  by (simp add: usage_ok_def) (simp add: example_protection_def example_snapshot_def lease_row_def usable_def)

theorem leased_snapshots_usable_witness:
  "usable (sn_status (hd (pr_snapshots (fst (reconcile_snapshot_usage_leases 50 2 example_protection)))))"
proof -
  let ?pf = "fst (reconcile_snapshot_usage_leases 50 2 example_protection)"
  have "usage_op\<^sup>*\<^sup>* example_protection ?pf" by (rule r_into_rtranclp [where r = usage_op]) (rule use_reconcile [OF refl])
  moreover have "map sl_snapshot (pr_leases ?pf) = [11, 11, 11]" "map sn_id (pr_snapshots ?pf) = [11]" by code_simp+
  then have "hd (pr_leases ?pf) \<in> set (pr_leases ?pf)" "hd (pr_snapshots ?pf) \<in> set (pr_snapshots ?pf)"
    "sn_id (hd (pr_snapshots ?pf)) = sl_snapshot (hd (pr_leases ?pf))" by (auto simp: Cons_eq_map_conv)
  ultimately show ?thesis using leased_snapshots_usable [OF _ example_usage_ok] by blast
qed

text \<open>
  C24. A deletion request on a snapshot in use is refused. One that is admitted either joins the
  active deletion task of the snapshot, and changes no snapshot and queues nothing, or starts a
  pending one: then exactly that snapshot is marked as being deleted and exactly one run is queued.
  It never touches a lease.
\<close>

theorem delete_request_outcome:
  "(snapshot_row org i pf \<noteq> None \<and> snapshot_is_protected i pf \<longrightarrow>
      create_and_queue_snapshot_delete_task now uuid org i trigger parent pf = Inl In_use)
   \<and> (\<forall>pf' t. create_and_queue_snapshot_delete_task now uuid org i trigger parent pf = Inr (pf', t) \<longrightarrow>
        pr_leases pf' = pr_leases pf
        \<and> (case active_delete_task org i pf of
             Some a \<Rightarrow> t_id t = t_id a \<and> pr_snapshots pf' = pr_snapshots pf \<and> pr_delete_queue pf' = pr_delete_queue pf
           | None \<Rightarrow> t_status t = Pending
               \<and> (\<exists>again. pr_snapshots pf' = map (\<lambda>s. if sn_id s = i then deletion_columns again s else s) (pr_snapshots pf))
               \<and> pr_delete_queue pf' = pr_delete_queue pf @ [(t_id t, i)]))"
proof (intro conjI allI impI)
  assume "snapshot_row org i pf \<noteq> None \<and> snapshot_is_protected i pf"
  then show "create_and_queue_snapshot_delete_task now uuid org i trigger parent pf = Inl In_use"
    by (auto simp: create_and_queue_snapshot_delete_task_def)
next
  fix pf' t
  assume r: "create_and_queue_snapshot_delete_task now uuid org i trigger parent pf = Inr (pf', t)"
  then show "pr_leases pf' = pr_leases pf"
    by (cases rule: delete_request_cases) (auto simp: enqueue_delete_def mark_deleting_def)
  from r show "case active_delete_task org i pf of
      Some a \<Rightarrow> t_id t = t_id a \<and> pr_snapshots pf' = pr_snapshots pf \<and> pr_delete_queue pf' = pr_delete_queue pf
    | None \<Rightarrow> t_status t = Pending
        \<and> (\<exists>again. pr_snapshots pf' = map (\<lambda>s. if sn_id s = i then deletion_columns again s else s) (pr_snapshots pf))
        \<and> pr_delete_queue pf' = pr_delete_queue pf @ [(t_id t, i)]"
    by (cases rule: delete_request_cases) (auto simp: enqueue_delete_def mark_deleting_def update_where_def)
qed

definition unused_protection :: protection where
  "unused_protection = example_protection\<lparr>pr_leases := []\<rparr>"

definition deleting_protection :: protection where
  "deleting_protection = (case create_and_queue_snapshot_delete_task 60 ''d1'' 7 11 ''system'' None unused_protection of
     Inl e \<Rightarrow> unused_protection | Inr (pf, t) \<Rightarrow> pf)"

lemma example_deletion:
  "\<exists>t. create_and_queue_snapshot_delete_task 60 ''d1'' 7 11 ''system'' None unused_protection
     = Inr (deleting_protection, t)"
proof -
  have "\<not> isl (create_and_queue_snapshot_delete_task 60 ''d1'' 7 11 ''system'' None unused_protection)" by code_simp
  then show ?thesis
    by (cases "create_and_queue_snapshot_delete_task 60 ''d1'' 7 11 ''system'' None unused_protection")
      (auto simp: deleting_protection_def)
qed

lemma example_no_deletion: "active_delete_task 7 11 unused_protection = None"
  by code_simp

theorem delete_request_outcome_witness:
  "create_and_queue_snapshot_delete_task 60 ''d1'' 7 11 ''system'' None example_protection = Inl In_use
   \<and> map sn_status (pr_snapshots deleting_protection) = [Snap_deleting]"
proof
  have "snapshot_row 7 11 example_protection \<noteq> None \<and> snapshot_is_protected 11 example_protection"
    by code_simp
  then show "create_and_queue_snapshot_delete_task 60 ''d1'' 7 11 ''system'' None example_protection = Inl In_use"
    using delete_request_outcome [THEN conjunct1] by blast
  obtain t where "create_and_queue_snapshot_delete_task 60 ''d1'' 7 11 ''system'' None unused_protection
     = Inr (deleting_protection, t)" using example_deletion by blast
  then show "map sn_status (pr_snapshots deleting_protection) = [Snap_deleting]"
    using delete_request_outcome [THEN conjunct2, rule_format, of 60 "''d1''" 7 11 "''system''" None unused_protection
        deleting_protection t] example_no_deletion
    by (auto simp: unused_protection_def example_protection_def example_snapshot_def)
qed



text \<open>
  C26. Data work is admitted exactly on a non-empty set of repositories of the organization that
  are all created, proven to own their place (a direct NAS needs no proof; a migrated place is
  enough for non-destructive work), online when the work reads, and free of an orphan cleanup.
\<close>

theorem workload_admission:
  "(\<exists>rs. lock_repositories_for_workload org is w pf = Inr rs) \<longleftrightarrow>
     w \<in> set workload_values \<and> is \<noteq> []
     \<and> (\<forall>i \<in> set is. \<exists>r. found_repository org i pf = Some r \<and> rp_status r = Repo_created
          \<and> (direct_nas r \<or> ownership_verified r pf
             \<or> (w \<noteq> ''snapshot_delete'' \<and> repository_has_legacy_location r None None pf = Inr True))
          \<and> (w \<noteq> ''backup_write'' \<longrightarrow> rp_health r = Health_online)
          \<and> assert_no_orphan_cleanup (rp_id r) pf = Inr ())"
proof -
  let ?ok = "\<lambda>i. \<exists>r. found_repository org i pf = Some r \<and> admit_repository w pf r () = Inr ()"
  have "(\<exists>rs. lock_repositories_for_workload org is w pf = Inr rs) \<longleftrightarrow>
      w \<in> set workload_values \<and> is \<noteq> [] \<and> (\<forall>i \<in> set is. ?ok i)"
    using all_found_ball [where xs = "sort (remdups is)" and F = "\<lambda>i. found_repository org i pf"
        and Q = "\<lambda>r. admit_repository w pf r () = Inr ()"]
    by (simp add: workload_Inr)
  then show ?thesis by (simp add: admitted_workload cong: conj_cong)
qed

theorem workload_admission_witness:
  "\<exists>rs. lock_repositories_for_workload 7 [2, 2] ''snapshot_delete'' example_protection = Inr rs"
proof -
  have "(case found_repository 7 2 example_protection of None \<Rightarrow> False
    | Some r \<Rightarrow> rp_status r = Repo_created \<and> ownership_verified r example_protection \<and> rp_health r = Health_online
        \<and> assert_no_orphan_cleanup (rp_id r) example_protection = Inr ())" by code_simp
  then show ?thesis
    using workload_admission [of 7 "[2, 2]" "''snapshot_delete''" example_protection]
    by (auto simp: workload_values_def split: option.splits)
qed

end
