(* ===== verification/Schedule.thy ===== *)
theory Schedule
  imports Civil_Time Py_Value
begin

text \<open>
  Backup schedules, the first half of \<^verbatim>\<open>apps/protection/services/policy_execution.py\<close>: cron
  expressions, start times, intervals, daily, weekly and monthly modes and the key of an
  occurrence. Instants are microseconds of UTC, wall times microseconds of a local clock. The
  time zone database is not part of the repository: a \<open>zones\<close> value tells which names it knows,
  the offset of a zone at an instant and the instant of a wall time (\<^verbatim>\<open>fold=0\<close>). The calendar is
  unbounded here, where Python stops at the years 1 and 9999 with an OverflowError.
\<close>

record zones =
  zn_known :: "string \<Rightarrow> bool"
  zn_offset :: "string \<Rightarrow> int \<Rightarrow> int"
  zn_resolve :: "string \<Rightarrow> int \<Rightarrow> int"

text \<open>\<^verbatim>\<open>_policy_timezone\<close>, \<^verbatim>\<open>astimezone\<close> to a zone and \<^verbatim>\<open>_schedule_local_minute\<close>\<close>

definition policy_timezone :: "zones \<Rightarrow> json \<Rightarrow> string" where
  "policy_timezone z name =
     (let n = (if truthy name then py_str name else ''UTC'') in if zn_known z n then n else ''UTC'')"

definition wall_time :: "zones \<Rightarrow> string \<Rightarrow> int \<Rightarrow> int" where
  "wall_time z zone t = (if zone = ''UTC'' then t else t + zn_offset z zone t)"

definition wall_instant :: "zones \<Rightarrow> string \<Rightarrow> int \<Rightarrow> int" where
  "wall_instant z zone w = (if zone = ''UTC'' then w else zn_resolve z zone w)"

definition schedule_local_minute :: "zones \<Rightarrow> dict \<Rightarrow> int \<Rightarrow> int" where
  "schedule_local_minute z schedule now =
     wall_time z (policy_timezone z (dget schedule ''timezone'')) (floor_minute now)"

section \<open>Cron expressions\<close>

text \<open>
  One item of a field: \<open>Some b\<close> is a \<^verbatim>\<open>return\<close>, \<open>None\<close> goes on to the next item. The step
  belongs to the item; a step on a single value is read and not used.
\<close>

definition cron_step :: "string \<Rightarrow> (string \<times> int) option" where
  "cron_step part = (case split_once CHR ''/'' part of
       [base, raw] \<Rightarrow> map_option (\<lambda>n. (base, max 1 n)) (parse_int raw)
     | _ \<Rightarrow> Some (part, 1))"

definition cron_part :: "string \<Rightarrow> int \<Rightarrow> bool option" where
  "cron_part part value = (case cron_step part of
       None \<Rightarrow> Some False
     | Some (base, step) \<Rightarrow>
         if base = ''*'' then Some (value mod step = 0)
         else (case split_once CHR ''-'' base of
             [a, b] \<Rightarrow> (case (parse_int a, parse_int b) of
                 (Some s, Some e) \<Rightarrow>
                   if s \<le> value \<and> value \<le> e \<and> (value - s) mod step = 0 then Some True else None
               | _ \<Rightarrow> Some False)
           | _ \<Rightarrow> (case parse_int base of
                 None \<Rightarrow> Some False
               | Some n \<Rightarrow> if n = value then Some True else None)))"

fun cron_parts :: "string list \<Rightarrow> int \<Rightarrow> bool" where
  "cron_parts [] value = False"
| "cron_parts (p # ps) value =
     (let part = strip p in
      if part = [] then cron_parts ps value
      else case cron_part part value of None \<Rightarrow> cron_parts ps value | Some b \<Rightarrow> b)"

definition cron_value_matches :: "string \<Rightarrow> int \<Rightarrow> bool" where
  "cron_value_matches field value =
     (let f = strip field in if f = ''*'' then True else cron_parts (split_on CHR '','' f) value)"

text \<open>Sunday is 0, and 7 as well.\<close>

definition cron_weekday :: "civil \<Rightarrow> nat" where
  "cron_weekday c = (if c_weekday c = 6 then 0 else c_weekday c + 1)"

definition cron_fields_match :: "string list \<Rightarrow> civil \<Rightarrow> bool" where
  "cron_fields_match fs c = (case fs of
       [minute, hour, mday, month, wday] \<Rightarrow>
         cron_value_matches minute (int (c_minute c)) \<and> cron_value_matches hour (int (c_hour c))
         \<and> cron_value_matches mday (int (c_day c)) \<and> cron_value_matches month (int (c_month c))
         \<and> (cron_value_matches wday (int (cron_weekday c))
            \<or> (cron_weekday c = 0 \<and> cron_value_matches wday 7))
     | _ \<Rightarrow> False)"

definition cron_matches_now :: "zones \<Rightarrow> string \<Rightarrow> int \<Rightarrow> json \<Rightarrow> bool" where
  "cron_matches_now z expr now zone =
     cron_fields_match (split_ws expr) (civil_of (wall_time z (policy_timezone z zone) (floor_minute now)))"

section \<open>Start times\<close>

text \<open>
  \<^verbatim>\<open>strptime\<close> with \<^verbatim>\<open>%Y-%m-%dT%H:%M:%S\<close> and \<^verbatim>\<open>%Y-%m-%dT%H:%M\<close>: four digits for the year, one or
  two for the rest, a day may have a space for its first digit, letters match in either case, and
  the leap seconds 60 and 61 pass the pattern but not the constructor.
\<close>

definition field_number :: "string \<Rightarrow> nat option" where
  "field_number s = (case s of
       [a] \<Rightarrow> digit_val a
     | [a, b] \<Rightarrow> (case (digit_val a, digit_val b) of (Some x, Some y) \<Rightarrow> Some (10 * x + y) | _ \<Rightarrow> None)
     | _ \<Rightarrow> None)"

definition day_field :: "string \<Rightarrow> nat option" where
  "day_field s = (case s of [a, b] \<Rightarrow> if a = CHR '' '' then digit_val b else field_number s
     | _ \<Rightarrow> field_number s)"

definition year_field :: "string \<Rightarrow> nat option" where
  "year_field s = (case map digit_val s of
       [Some a, Some b, Some c, Some d] \<Rightarrow> Some (1000 * a + 100 * b + 10 * c + d)
     | _ \<Rightarrow> None)"

definition clock_field :: "nat \<Rightarrow> string \<Rightarrow> nat option" where
  "clock_field hi s = (case field_number s of None \<Rightarrow> None | Some n \<Rightarrow> if n \<le> hi then Some n else None)"

definition clock_text :: "string \<Rightarrow> (nat \<times> nat \<times> nat) option" where
  "clock_text s = (case split_on CHR '':'' s of
       [h, m] \<Rightarrow> (case (clock_field 23 h, clock_field 59 m) of
           (Some x, Some y) \<Rightarrow> Some (x, y, 0) | _ \<Rightarrow> None)
     | [h, m, sec] \<Rightarrow> (case (clock_field 23 h, clock_field 59 m, clock_field 59 sec) of
           (Some x, Some y, Some z) \<Rightarrow> Some (x, y, z) | _ \<Rightarrow> None)
     | _ \<Rightarrow> None)"

definition date_text :: "string \<Rightarrow> string \<Rightarrow> string \<Rightarrow> int option" where
  "date_text y m d = (case (year_field y, field_number m, day_field d) of
       (Some yy, Some mm, Some dd) \<Rightarrow>
         if valid_date (int yy) mm dd then Some (day_number (int yy, mm, dd)) else None
     | _ \<Rightarrow> None)"

definition wall_of :: "int \<Rightarrow> nat \<times> nat \<times> nat \<Rightarrow> int" where
  "wall_of day = (\<lambda>(h, m, s). (day + 10957) * day_us + int h * 3600000000 + int m * 60000000 + int s * 1000000)"

definition parse_start :: "string \<Rightarrow> int option" where
  "parse_start raw = (case split_on CHR ''-'' raw of
       [y, m, rest] \<Rightarrow>
         (case split_once CHR ''T'' (map (\<lambda>c. if c = CHR ''t'' then CHR ''T'' else c) rest) of
            [d, time] \<Rightarrow> (case (date_text y m d, clock_text time) of
                (Some day, Some clock) \<Rightarrow> Some (wall_of day clock) | _ \<Rightarrow> None)
          | _ \<Rightarrow> None)
     | _ \<Rightarrow> None)"

definition schedule_start :: "dict \<Rightarrow> int option" where
  "schedule_start schedule = (let raw = strip (text_or_empty (dget schedule ''starts_at'')) in
     if raw = [] then None else parse_start raw)"

text \<open>Seconds round up to the next minute.\<close>

definition schedule_start_minute :: "dict \<Rightarrow> int option" where
  "schedule_start_minute schedule = map_option
     (\<lambda>w. floor_minute (if w mod minute_us \<noteq> 0 then w + minute_us else w)) (schedule_start schedule)"

definition schedule_start_instant :: "zones \<Rightarrow> dict \<Rightarrow> int option" where
  "schedule_start_instant z schedule = map_option
     (wall_instant z (policy_timezone z (dget schedule ''timezone''))) (schedule_start_minute schedule)"

definition schedule_has_started :: "dict \<Rightarrow> int \<Rightarrow> bool" where
  "schedule_has_started schedule wall =
     (case schedule_start_minute schedule of None \<Rightarrow> True | Some s \<Rightarrow> s \<le> wall)"

section \<open>Modes\<close>

definition schedule_time_matches :: "dict \<Rightarrow> civil \<Rightarrow> bool" where
  "schedule_time_matches schedule c =
     (case split_once CHR '':'' (text_or_empty (dget schedule ''time'')) of
        [h, m] \<Rightarrow> (case (parse_int h, parse_int m) of
            (Some x, Some y) \<Rightarrow> int (c_hour c) = x \<and> int (c_minute c) = y | _ \<Rightarrow> False)
      | _ \<Rightarrow> False)"

text \<open>\<^verbatim>\<open>{int(x) for x in value}\<close>; \<open>None\<close> is the TypeError or ValueError.\<close>

fun all_some :: "'a option list \<Rightarrow> 'a list option" where
  "all_some [] = Some []"
| "all_some (None # xs) = None"
| "all_some (Some x # xs) = map_option ((#) x) (all_some xs)"

definition int_items :: "json \<Rightarrow> int list option" where
  "int_items v = (case v of
       JList xs \<Rightarrow> all_some (map py_int xs)
     | JStr s \<Rightarrow> all_some (map (\<lambda>c. parse_int [c]) s)
     | JObj d \<Rightarrow> all_some (map (parse_int \<circ> fst) d)
     | _ \<Rightarrow> None)"

definition schedule_mode :: "dict \<Rightarrow> string" where
  "schedule_mode schedule = lower (strip (text_or_empty (dget schedule ''mode'')))"

definition schedule_cron :: "zones \<Rightarrow> dict \<Rightarrow> int \<Rightarrow> bool" where
  "schedule_cron z schedule now =
     cron_matches_now z (text_or_empty (dget schedule ''cron_expr'')) now (dget schedule ''timezone'')"

definition unit_minutes :: "string \<Rightarrow> int" where
  "unit_minutes u = (if u = ''minute'' then 1 else if u = ''hour'' then 60
     else if u = ''day'' then 24 * 60 else 0)"

definition interval_minutes :: "dict \<Rightarrow> int option" where
  "interval_minutes schedule = map_option
     (\<lambda>n. unit_minutes (text_or_empty (dget schedule ''interval_unit'')) * n)
     (int_or (dget schedule ''interval_value'') 0)"

definition interval_matches :: "zones \<Rightarrow> dict \<Rightarrow> int \<Rightarrow> bool" where
  "interval_matches z schedule now =
     (case schedule_start_instant z schedule of
        None \<Rightarrow> schedule_cron z schedule now
      | Some start \<Rightarrow>
          (case interval_minutes schedule of
             None \<Rightarrow> False
           | Some every \<Rightarrow>
               if every < 1 then False
               else let elapsed = (floor_minute now - start) div minute_us
                    in elapsed \<ge> 0 \<and> elapsed mod every = 0))"

definition weekly_matches :: "dict \<Rightarrow> civil \<Rightarrow> bool" where
  "weekly_matches schedule c =
     (case int_items (dget_or schedule ''weekdays'' (JList [])) of
        None \<Rightarrow> False | Some days \<Rightarrow> int (c_weekday c) + 1 \<in> set days)"

definition monthly_matches :: "dict \<Rightarrow> civil \<Rightarrow> bool" where
  "monthly_matches schedule c =
     (case int_items (dget_or schedule ''month_days'' (JList [])) of
        None \<Rightarrow> False
      | Some days \<Rightarrow> int (c_day c) \<in> set days
          \<or> (truthy (dget schedule ''month_end'') \<and> c_day c = days_in_month (c_year c) (c_month c)))"

definition schedule_matches_now :: "zones \<Rightarrow> json \<Rightarrow> int \<Rightarrow> bool" where
  "schedule_matches_now z value now =
     (case value of
        JObj schedule \<Rightarrow>
          let mode = schedule_mode schedule; wall = schedule_local_minute z schedule now; c = civil_of wall
          in if \<not> truthy (dget_or schedule ''enabled'' (JBool False)) then False
             else if mode = [] then schedule_cron z schedule now
             else if \<not> schedule_has_started schedule wall then False
             else if mode = ''advanced'' then schedule_cron z schedule now
             else if mode = ''interval'' then interval_matches z schedule now
             else if \<not> schedule_time_matches schedule c then False
             else if mode = ''daily'' then True
             else if mode = ''weekly'' then weekly_matches schedule c
             else if mode = ''monthly'' then monthly_matches schedule c
             else False
      | _ \<Rightarrow> False)"

section \<open>The key of an occurrence\<close>

text \<open>The mode is compared as it is stored, unlike in \<open>schedule_matches_now\<close>.\<close>

definition fire_wall :: "zones \<Rightarrow> dict \<Rightarrow> int \<Rightarrow> int" where
  "fire_wall z schedule now =
     (if dget schedule ''mode'' \<noteq> JStr ''interval'' then schedule_local_minute z schedule now
      else wall_time z ''UTC'' (floor_minute now))"

definition schedule_fire_key :: "zones \<Rightarrow> dict \<Rightarrow> int \<Rightarrow> string" where
  "schedule_fire_key z schedule now = stamp_minute (fire_wall z schedule now)"

text \<open>\<^verbatim>\<open>f"schedule:{policy.id}:{config.id}:{fire_key}"\<close>\<close>

definition schedule_key :: "int \<Rightarrow> int \<Rightarrow> string \<Rightarrow> string" where
  "schedule_key policy config fire =
     join_with CHR '':'' [''schedule'', show_int policy, show_int config, fire]"

end
