(* ===== verification/Schedule_Claims.thy ===== *)
theory Schedule_Claims
  imports Schedule
begin

text \<open>
  What the schedules mean: cron fields against a reference semantics of parsed items, fixed
  intervals as arithmetic progressions, and the key of an occurrence as the identity of a minute.
\<close>

section \<open>Text without separators\<close>

lemma split_once_none: "c \<notin> set s \<Longrightarrow> split_once c s = [s]"
  by (induction s) auto

lemma split_once_append: "c \<notin> set f \<Longrightarrow> split_once c (f @ c # g) = [f, g]"
  by (induction f) auto

section \<open>Cron items\<close>

datatype cron_item = Star | Every nat | Single nat | Between nat nat nat

fun item_text :: "cron_item \<Rightarrow> string" where
  "item_text Star = ''*''"
| "item_text (Every n) = ''*'' @ CHR ''/'' # show_nat n"
| "item_text (Single k) = show_nat k"
| "item_text (Between a b n) = (show_nat a @ CHR ''-'' # show_nat b) @ CHR ''/'' # show_nat n"

fun item_matches :: "cron_item \<Rightarrow> int \<Rightarrow> bool" where
  "item_matches Star v = True"
| "item_matches (Every n) v = (v mod max 1 (int n) = 0)"
| "item_matches (Single k) v = (v = int k)"
| "item_matches (Between a b n) v = (int a \<le> v \<and> v \<le> int b \<and> (v - int a) mod max 1 (int n) = 0)"

fun star_item :: "cron_item \<Rightarrow> bool" where
  "star_item Star = True"
| "star_item (Every n) = True"
| "star_item _ = False"

definition field_text :: "cron_item list \<Rightarrow> string" where
  "field_text items = join_with CHR '','' (map item_text items)"

lemma item_text_chars: "c \<in> set (item_text i) \<Longrightarrow> c \<noteq> CHR '','' \<and> \<not> is_space c"
  by (cases i) (auto dest: digit_chars simp: is_space_def)

lemma item_text_not_Nil [simp]: "item_text i \<noteq> []"
  by (cases i) simp_all

lemma strip_item [simp]: "strip (item_text i) = item_text i"
  using item_text_chars [of "hd (item_text i)" i] item_text_chars [of "last (item_text i)" i]
  by (intro strip_stable) simp_all

lemma cron_part_item:
  "cron_part (item_text i) v =
     (if star_item i then Some (item_matches i v) else if item_matches i v then Some True else None)"
proof -
  have no: "CHR ''/'' \<notin> set (show_nat k)" "CHR ''-'' \<notin> set (show_nat k)" "show_nat k \<noteq> ''*''" for k
    by (blast dest: digit_chars) (blast dest: digit_chars, metis digit_chars insertI1 insertI2 list.set_intros(1))
  show ?thesis
  proof (cases i)
    case Star
    have "cron_step ''*'' = Some (''*'', 1)" by (simp add: cron_step_def)
    then show ?thesis by (simp add: Star cron_part_def)
  next
    case (Every n)
    have "cron_step (''*'' @ CHR ''/'' # show_nat n) = Some (''*'', max 1 (int n))"
      by (simp add: cron_step_def split_once_none no)
    then show ?thesis by (simp add: Every cron_part_def)
  next
    case (Single k)
    have "cron_step (show_nat k) = Some (show_nat k, 1)" by (simp add: cron_step_def split_once_none no)
    then show ?thesis by (auto simp: Single cron_part_def split_once_none no)
  next
    case (Between a b n)
    let ?ab = "show_nat a @ CHR ''-'' # show_nat b"
    have "CHR ''/'' \<notin> set ?ab" using no by simp
    then have "cron_step (?ab @ CHR ''/'' # show_nat n) = Some (?ab, max 1 (int n))"
      unfolding cron_step_def by (subst split_once_append) simp_all
    moreover have "?ab \<noteq> ''*''" using no by (cases "show_nat a") auto
    ultimately show ?thesis unfolding Between item_text.simps cron_part_def
      using split_once_append [OF no(2) [of a], of "show_nat b"] by simp
  qed
qed

lemma cron_parts_items:
  assumes "list_all (\<lambda>i. \<not> star_item i) (butlast items)"
  shows "cron_parts (map item_text items) v \<longleftrightarrow> (\<exists>i \<in> set items. item_matches i v)"
  using assms
proof (induction items)
  case Nil
  then show ?case by simp
next
  case (Cons i items)
  show ?case
  proof (cases "items = []")
    case True
    then show ?thesis by (simp add: cron_part_item)
  next
    case False
    with Cons.prems have "\<not> star_item i" "list_all (\<lambda>i. \<not> star_item i) (butlast items)" by simp_all
    then show ?thesis using Cons.IH by (simp add: cron_part_item)
  qed
qed

lemma field_text_split: "items \<noteq> [] \<Longrightarrow> split_on CHR '','' (field_text items) = map item_text items"
  unfolding field_text_def by (rule split_join) (auto dest: item_text_chars)

lemma join_ends:
  assumes "fs \<noteq> []" and "\<forall>f \<in> set fs. f \<noteq> []"
  shows "join_with c fs \<noteq> [] \<and> hd (join_with c fs) = hd (hd fs) \<and> last (join_with c fs) = last (last fs)"
  using assms by (induction c fs rule: join_with.induct) auto

lemma strip_field [simp]: "items \<noteq> [] \<Longrightarrow> strip (field_text items) = field_text items"
  using join_ends [of "map item_text items" "CHR '',''"]
    item_text_chars [of "hd (item_text (hd items))" "hd items"]
    item_text_chars [of "last (item_text (last items))" "last items"]
  by (intro strip_stable) (auto simp: field_text_def hd_map last_map)

lemma field_is_star: "items \<noteq> [] \<Longrightarrow> field_text items = ''*'' \<Longrightarrow> items = [Star]"
proof -
  assume ne: "items \<noteq> []" and s: "field_text items = ''*''"
  from field_text_split [OF ne] s have m: "map item_text items = [''*'']" by simp
  then obtain i where i: "items = [i]" "item_text i = ''*''" by auto
  then have "i = Star"
    using digit_chars [of "CHR ''*''"] by (cases i) (auto simp: append_eq_Cons_conv, metis list.set_intros(1))
  with i show ?thesis by simp
qed

lemma cron_field:
  assumes "items \<noteq> []" and "list_all (\<lambda>i. \<not> star_item i) (butlast items)"
  shows "cron_value_matches (field_text items) v \<longleftrightarrow> (\<exists>i \<in> set items. item_matches i v)"
proof (cases "field_text items = ''*''")
  case True
  with field_is_star [OF assms(1)] have "items = [Star]" by blast
  moreover have "strip ''*'' = ''*''" by code_simp
  ultimately show ?thesis using True by (simp add: cron_value_matches_def)
next
  case False
  then show ?thesis using assms
    by (simp add: cron_value_matches_def field_text_split cron_parts_items)
qed

section \<open>Cron expressions\<close>

lemma split_ws_word:
  "\<forall>c \<in> set f. \<not> is_space c \<Longrightarrow> acc @ f \<noteq> [] \<Longrightarrow>
     split_ws_acc acc (f @ CHR '' '' # s) = (rev acc @ f) # split_ws_acc [] s"
  by (induction f arbitrary: acc) (auto simp: is_space_def)

lemma split_ws_last: "\<forall>c \<in> set f. \<not> is_space c \<Longrightarrow> acc @ f \<noteq> [] \<Longrightarrow> split_ws_acc acc f = [rev acc @ f]"
  by (induction f arbitrary: acc) auto

lemma split_ws_join:
  assumes "\<forall>f \<in> set fs. f \<noteq> [] \<and> (\<forall>c \<in> set f. \<not> is_space c)"
  shows "split_ws (join_with CHR '' '' fs) = fs"
  using assms unfolding split_ws_def
  by (induction "CHR '' ''" fs rule: join_with.induct) (simp_all add: split_ws_word split_ws_last)

lemma join_with_chars: "c \<in> set (join_with x fs) \<Longrightarrow> c = x \<or> (\<exists>f \<in> set fs. c \<in> set f)"
  by (induction x fs rule: join_with.induct) auto

lemma field_text_chars: "c \<in> set (field_text items) \<Longrightarrow> \<not> is_space c"
proof -
  assume "c \<in> set (field_text items)"
  then have "c = CHR '','' \<or> (\<exists>i \<in> set items. c \<in> set (item_text i))"
    unfolding field_text_def by (auto dest!: join_with_chars)
  then show ?thesis using item_text_chars by (auto simp: is_space_def)
qed

lemma field_text_not_Nil: "items \<noteq> [] \<Longrightarrow> field_text items \<noteq> []"
  using join_ends [of "map item_text items" "CHR '',''"] by (auto simp: field_text_def)

definition well_formed_field :: "cron_item list \<Rightarrow> bool" where
  "well_formed_field items \<longleftrightarrow> items \<noteq> [] \<and> list_all (\<lambda>i. \<not> star_item i) (butlast items)"

definition field_matches :: "cron_item list \<Rightarrow> nat \<Rightarrow> bool" where
  "field_matches items v \<longleftrightarrow> (\<exists>i \<in> set items. item_matches i (int v))"

section \<open>The same minute\<close>

lemma floor_minute_div: "floor_minute v = floor_minute w \<longleftrightarrow> v div minute_us = w div minute_us"
  by (simp add: floor_minute_def minus_mod_eq_div_mult minute_us_def)

lemma stamp_minute_cong:
  assumes "floor_minute v = floor_minute w"
  shows "stamp_minute v = stamp_minute w"
proof -
  have d: "v div minute_us = w div minute_us" using assms by (simp add: floor_minute_div)
  have day: "x div day_us = x div minute_us div 1440" for x
    using zdiv_zmult2_eq [of 1440 x minute_us] by (simp add: day_us_def minute_us_def)
  have m: "x mod day_us div minute_us = x div minute_us mod 1440" for x
    using div_in_blocks [of minute_us 1440 x] day [of x]
    by (simp add: day_us_def minute_us_def)
  have "x mod day_us div (minute_us * 60) = x mod day_us div minute_us div 60" for x
    by (rule zdiv_zmult2_eq) simp
  then have "c_hour (civil_of v) = c_hour (civil_of w)" "c_minute (civil_of v) = c_minute (civil_of w)"
    by (simp_all add: civil_of_time m d)
  moreover have "wall_day v = wall_day w" by (simp add: wall_day_def day d)
  then have "c_year (civil_of v) = c_year (civil_of w)" "c_month (civil_of v) = c_month (civil_of w)"
    "c_day (civil_of v) = c_day (civil_of w)"
    by (simp_all add: civil_of_def Let_def split: prod.splits)
  ultimately show ?thesis by (simp add: stamp_minute_def Let_def)
qed

lemma show_int_no_colon: "CHR '':'' \<notin> set (show_int i)"
  by (auto simp: show_int_def dest: digit_chars)

lemma show_int_eq: "show_int a = show_int b \<longleftrightarrow> a = b"
proof
  assume e: "show_int a = show_int b"
  have minus: "CHR ''-'' # s \<noteq> show_nat n" for s n using digit_chars [of "CHR ''-''" n] by (metis insertI1 insertI2 list.set_intros(1))
  from e show "a = b" unfolding show_int_def using minus minus [symmetric] by (auto split: if_splits)
qed simp

lemma decimal_no_colon: "d < 10 \<Longrightarrow> char_of (48 + d :: nat) \<noteq> CHR '':''"
proof -
  assume "d < 10"
  then have "d \<in> {0,1,2,3,4,5,6,7,8,9}" by auto
  then show ?thesis by (elim insertE) (simp_all add: char_of_def)
qed

lemma digit_char_no_colon: "digit_char n \<noteq> CHR '':''"
  unfolding digit_char_def by (rule decimal_no_colon) simp

lemma stamp_no_colon: "CHR '':'' \<notin> set (stamp_minute w)"
  using digit_char_no_colon show_int_no_colon
  by (auto simp: stamp_minute_def Let_def pad2_def dest: sym)

lemma schedule_key_eq:
  "schedule_key p c (stamp_minute v) = schedule_key p' c' (stamp_minute w)
     \<longleftrightarrow> p = p' \<and> c = c' \<and> stamp_minute v = stamp_minute w"
proof
  assume e: "schedule_key p c (stamp_minute v) = schedule_key p' c' (stamp_minute w)"
  have "split_on CHR '':'' (schedule_key p c (stamp_minute v)) = [''schedule'', show_int p, show_int c, stamp_minute v]"
    for p c v unfolding schedule_key_def
    by (rule split_join) (simp_all add: show_int_no_colon stamp_no_colon)
  with e show "p = p' \<and> c = c' \<and> stamp_minute v = stamp_minute w"
    by (metis list.inject show_int_eq)
qed simp

section \<open>Fixed offsets\<close>

text \<open>A zone whose clock always differs from UTC by the same whole number of minutes.\<close>

definition fixed_zone :: "zones \<Rightarrow> string \<Rightarrow> int \<Rightarrow> bool" where
  "fixed_zone z zone offset \<longleftrightarrow> offset mod minute_us = 0
     \<and> (\<forall>t. wall_time z zone t = t + offset) \<and> (\<forall>w. wall_instant z zone w = w - offset)"

lemma whole_minutes:
  fixes a b :: int
  assumes "a mod minute_us = 0" and "b mod minute_us = 0"
  shows "a - b = (a - b) div minute_us * minute_us"
  using assms by (metis diff_self div_mult_mod_eq add.right_neutral mod_diff_eq mod_0)

lemma interval_reached:
  fixes now start every :: int
  assumes "now mod minute_us = 0" and "start mod minute_us = 0" and "1 \<le> every"
  shows "(now - start) div minute_us \<ge> 0 \<and> (now - start) div minute_us mod every = 0
     \<longleftrightarrow> (\<exists>k \<ge> 0. now = start + k * every * minute_us)"
proof
  let ?e = "(now - start) div minute_us"
  assume "?e \<ge> 0 \<and> ?e mod every = 0"
  then have "?e = ?e div every * every" "?e div every \<ge> 0" using assms(3)
    by (auto simp: pos_imp_zdiv_nonneg_iff)
  then show "\<exists>k \<ge> 0. now = start + k * every * minute_us"
    using whole_minutes [OF assms(1,2)] by (intro exI [of _ "?e div every"]) (simp add: algebra_simps)
next
  assume "\<exists>k \<ge> 0. now = start + k * every * minute_us"
  then obtain k where "k \<ge> 0" "now - start = k * every * minute_us" by auto
  moreover from this(2) have "(now - start) div minute_us = k * every" by (simp add: minute_us_def)
  ultimately show "(now - start) div minute_us \<ge> 0 \<and> (now - start) div minute_us mod every = 0"
    using assms(3) by simp
qed

lemma floor_minute_mod [simp]: "floor_minute t mod minute_us = 0"
  by (simp add: floor_minute_def minus_mod_eq_div_mult)

lemma start_minute_mod: "schedule_start_minute d = Some s \<Longrightarrow> s mod minute_us = 0"
  by (auto simp: schedule_start_minute_def)

section \<open>Properties\<close>

definition example_zones :: zones where
  "example_zones = \<lparr>zn_known = (\<lambda>n. n \<in> {''UTC'', ''Asia/Shanghai''}),
     zn_offset = (\<lambda>n t. seconds 28800), zn_resolve = (\<lambda>n w. w - seconds 28800)\<rparr>"



text \<open>
  A starred step decides its field alone: whatever items follow \<^verbatim>\<open>*/n\<close> in the list, the field
  matches exactly the multiples of \<open>n\<close>, where the usual meaning of a list would add the other items.
\<close>

theorem cron_star_step_decides:
  "cron_value_matches (field_text (Every n # items)) v \<longleftrightarrow> v mod max 1 (int n) = 0"
proof -
  have "field_text (Every n # items) \<noteq> ''*''" using field_is_star [of "Every n # items"] by auto
  moreover have "cron_parts (map item_text (Every n # items)) v \<longleftrightarrow> v mod max 1 (int n) = 0"
    using cron_part_item [of "Every n" v] strip_item [of "Every n"] item_text_not_Nil [of "Every n"]
    by (simp del: item_text.simps strip_item item_text_not_Nil)
  ultimately show ?thesis
    by (simp add: cron_value_matches_def field_text_split del: list.map)
qed

text \<open>
  C29. An interval schedule with a start time, in a zone with a fixed offset, fires exactly in the
  minutes start, start + every, start + 2 every, and so on, and at no other time; a non-positive
  interval never fires.
\<close>

theorem interval_schedule_fires:
  assumes "truthy (dget_or d ''enabled'' (JBool False))" and "schedule_mode d = ''interval''"
    and "schedule_start_minute d = Some s" and "interval_minutes d = Some every"
    and "fixed_zone z (policy_timezone z (dget d ''timezone'')) offset"
  shows "schedule_matches_now z (JObj d) now \<longleftrightarrow>
    every \<ge> 1 \<and> (\<exists>k \<ge> 0. floor_minute now = s - offset + k * every * minute_us)"
proof -
  have start: "schedule_start_instant z d = Some (s - offset)"
    using assms(3,5) by (simp add: schedule_start_instant_def fixed_zone_def)
  have aligned: "(s - offset) mod minute_us = 0"
    using start_minute_mod [OF assms(3)] assms(5)
    by (auto simp: fixed_zone_def mod_eq_0_iff_dvd intro: dvd_diff)
  have wall: "schedule_local_minute z d now = floor_minute now + offset"
    using assms(5) by (simp add: schedule_local_minute_def fixed_zone_def)
  have started: "schedule_has_started d (floor_minute now + offset) \<longleftrightarrow> s - offset \<le> floor_minute now"
    using assms(3) by (auto simp: schedule_has_started_def)
  have m: "schedule_matches_now z (JObj d) now \<longleftrightarrow> s - offset \<le> floor_minute now \<and> interval_matches z d now"
    using assms(1,2) by (simp add: schedule_matches_now_def Let_def wall started)
  show ?thesis
  proof (cases "every < 1")
    case True
    then have "\<not> interval_matches z d now" by (simp add: interval_matches_def start assms(4))
    with m True show ?thesis by simp
  next
    case False
    then have "interval_matches z d now \<longleftrightarrow> (\<exists>k \<ge> 0. floor_minute now = s - offset + k * every * minute_us)"
      using interval_reached [OF floor_minute_mod [of now] aligned, of every]
      by (simp add: interval_matches_def start assms(4) Let_def)
    moreover have "s - offset \<le> floor_minute now" if "k \<ge> 0" "floor_minute now = s - offset + k * every * minute_us" for k
      using that False by (simp add: minute_us_def)
    ultimately show ?thesis using m False by auto
  qed
qed

definition interval_schedule :: dict where
  "interval_schedule = [(''enabled'', JBool True), (''mode'', JStr ''Interval''), (''timezone'', JStr ''Asia/Shanghai''),
     (''starts_at'', JStr ''2024-01-01T08:00''), (''interval_unit'', JStr ''hour''), (''interval_value'', JStr ''6'')]"

theorem interval_schedule_fires_witness:
  "schedule_matches_now example_zones (JObj interval_schedule) (seconds 1704088800)"
proof -
  have "truthy (dget_or interval_schedule ''enabled'' (JBool False))"
    "schedule_mode interval_schedule = ''interval''"
    "schedule_start_minute interval_schedule = Some (seconds 1704096000)"
    "interval_minutes interval_schedule = Some 360"
    "policy_timezone example_zones (dget interval_schedule ''timezone'') = ''Asia/Shanghai''"
    "floor_minute (seconds 1704088800) = seconds 1704096000 - seconds 28800 + 1 * 360 * minute_us"
    by code_simp+
  moreover have "fixed_zone example_zones ''Asia/Shanghai'' (seconds 28800)"
    by (simp add: fixed_zone_def example_zones_def wall_time_def wall_instant_def seconds_def minute_us_def)
  ultimately show ?thesis
    using interval_schedule_fires [of interval_schedule "seconds 1704096000" 360 example_zones "seconds 28800"
        "seconds 1704088800"] by (metis zero_le_one one_le_numeral)
qed



end
