(* ===== verification/Snapshot_Record.thy ===== *)
theory Snapshot_Record
  imports Snapshot_Delete
begin

text \<open>
  The life of a snapshot row, \<^verbatim>\<open>apps/protection/services/backup_source_snapshot.py\<close>: its creation,
  the results of its directories, the summary they give it, failure and soft deletion. A service
  works on the row as its caller read it earlier and saves the columns it names, so the copy is an
  argument and the changed copy is returned. The JSON columns that are only shown (metadata and
  policy) are not kept.
\<close>

datatype snapshot_error =
  Unsupported_snapshot_status
| Unsupported_directory_status
| Unsupported_trigger
| Config_not_found
| Repository_not_found
| Kopia_id_required
| Failure_text_required
| Row_missing
| Snapshot_constraint
| Result_fenced usage_error

section \<open>Choices\<close>

fun snapshot_status_value :: "snapshot_status \<Rightarrow> string" where
  "snapshot_status_value Snap_creating = ''creating''"
| "snapshot_status_value Snap_available = ''available''"
| "snapshot_status_value Snap_partial = ''partial''"
| "snapshot_status_value Snap_failed = ''failed''"
| "snapshot_status_value Snap_deleting = ''deleting''"
| "snapshot_status_value Snap_delete_failed = ''delete_failed''"
| "snapshot_status_value Snap_deleted = ''deleted''"

fun directory_status_value :: "directory_status \<Rightarrow> string" where
  "directory_status_value Dir_pending = ''pending''"
| "directory_status_value Dir_dispatching = ''dispatching''"
| "directory_status_value Dir_running = ''running''"
| "directory_status_value Dir_creating = ''creating''"
| "directory_status_value Dir_available = ''available''"
| "directory_status_value Dir_failed = ''failed''"
| "directory_status_value Dir_cancelled = ''cancelled''"
| "directory_status_value Dir_deleted = ''deleted''"

fun snapshot_trigger_value :: "snapshot_trigger \<Rightarrow> string" where
  "snapshot_trigger_value By_manual = ''manual''"
| "snapshot_trigger_value By_schedule = ''schedule''"
| "snapshot_trigger_value By_retry = ''retry''"
| "snapshot_trigger_value By_api = ''api''"

text \<open>\<^verbatim>\<open>str(value or default).strip().lower()\<close> must be one of the choices.\<close>

definition validated_choice :: "('c \<Rightarrow> string) \<Rightarrow> 'c list \<Rightarrow> 'c \<Rightarrow> 'e \<Rightarrow> string option \<Rightarrow> ('e, 'c) result" where
  "validated_choice text choices std e value' =
     (let v = or_else value' [] in
      of_option e (find (\<lambda>c. text c = lower (strip (if v = [] then text std else v))) choices))"

definition validated_snapshot_status :: "string option \<Rightarrow> (snapshot_error, snapshot_status) result" where
  "validated_snapshot_status = validated_choice snapshot_status_value
     [Snap_creating, Snap_available, Snap_partial, Snap_failed, Snap_deleting, Snap_delete_failed, Snap_deleted]
     Snap_creating Unsupported_snapshot_status"

definition validated_directory_status :: "string option \<Rightarrow> (snapshot_error, directory_status) result" where
  "validated_directory_status = validated_choice directory_status_value
     [Dir_pending, Dir_dispatching, Dir_running, Dir_creating, Dir_available, Dir_failed, Dir_cancelled, Dir_deleted]
     Dir_creating Unsupported_directory_status"

definition validated_trigger_type :: "string option \<Rightarrow> (snapshot_error, snapshot_trigger) result" where
  "validated_trigger_type = validated_choice snapshot_trigger_value
     [By_manual, By_schedule, By_retry, By_api] By_manual Unsupported_trigger"

section \<open>Saving\<close>

text \<open>
  The unique constraints of the table: the uid and the idempotency key of an organization, and one
  snapshot being created for a configuration.
\<close>

definition snapshot_conflict :: "snapshot \<Rightarrow> snapshot \<Rightarrow> bool" where
  "snapshot_conflict a b \<longleftrightarrow> sn_org a = sn_org b
     \<and> (sn_uid a = sn_uid b \<or> sn_key a = sn_key b
        \<or> (sn_config a = sn_config b \<and> sn_status a = Snap_creating \<and> sn_status b = Snap_creating))"

text \<open>\<^verbatim>\<open>save(update_fields=[...])\<close>: the columns are set in the row of the copy, which must exist.\<close>

definition save_snapshot :: "int \<Rightarrow> (snapshot \<Rightarrow> snapshot) \<Rightarrow> protection \<Rightarrow> (snapshot_error, protection) result" where
  "save_snapshot i f pf =
     rbind (of_option Row_missing (first_where (\<lambda>r. sn_id r = i) (pr_snapshots pf))) (\<lambda>r.
     rbind (guard_that (\<forall>x \<in> set (pr_snapshots pf). sn_id x = i \<or> \<not> snapshot_conflict (f r) x) Snapshot_constraint)
       (\<lambda>_. Inr (pf\<lparr>pr_snapshots := update_where (\<lambda>r. sn_id r = i) f (pr_snapshots pf)\<rparr>)))"

section \<open>Creation\<close>

record snapshot_args =
  sa_org :: int
  sa_source_type :: string
  sa_source_ref :: int
  sa_config :: int
  sa_repository :: int
  sa_task :: nat
  sa_task_uuid :: string
  sa_key :: string
  sa_trigger :: "string option"
  sa_uid :: "string option"
  sa_status :: "string option"
  sa_started_at :: "int option"
  sa_finished_at :: "int option"
  sa_directories :: int

definition snapshot_by_key :: "int \<Rightarrow> string \<Rightarrow> protection \<Rightarrow> snapshot option" where
  "snapshot_by_key org key pf =
     first_where (\<lambda>s. sn_org s = org \<and> sn_key s = strip key) (pr_snapshots pf)"

text \<open>\<^verbatim>\<open>f"bss-{uuid.uuid4().hex[:20]}"\<close>\<close>

definition snapshot_uid :: "string \<Rightarrow> string" where
  "snapshot_uid hex = ''bss-'' @ take 20 hex"

definition new_snapshot ::
  "int \<Rightarrow> string \<Rightarrow> snapshot_args \<Rightarrow> snapshot_trigger \<Rightarrow> snapshot_status \<Rightarrow> int \<Rightarrow> snapshot" where
  "new_snapshot now hex a tr st i =
     \<lparr>sn_id = i, sn_org = sa_org a,
      sn_uid = strip (if or_else (sa_uid a) [] = [] then snapshot_uid hex else the (sa_uid a)),
      sn_key = strip (sa_key a), sn_source_type = strip (sa_source_type a), sn_source_ref = sa_source_ref a,
      sn_config = sa_config a, sn_repository = sa_repository a, sn_task = sa_task a,
      sn_task_uuid = sa_task_uuid a, sn_trigger = tr, sn_status = st, sn_started_at = sa_started_at a,
      sn_finished_at = sa_finished_at a, sn_expected = max 0 (sa_directories a), sn_succeeded = 0, sn_failed = 0,
      sn_size = 0, sn_files = 0, sn_dirs = 0, sn_error_code = [], sn_error_message = [],
      sn_deleted_at = None, sn_created_at = now\<rparr>"

definition insert_snapshot :: "snapshot \<Rightarrow> protection \<Rightarrow> (snapshot_error, protection \<times> snapshot) result" where
  "insert_snapshot s pf =
     rbind (guard_that (\<forall>x \<in> set (pr_snapshots pf). \<not> snapshot_conflict s x) Snapshot_constraint)
       (\<lambda>_. Inr (pf\<lparr>pr_snapshots := pr_snapshots pf @ [s], pr_next_snapshot := sn_id s + 1\<rparr>, s))"

definition create_source_snapshot ::
  "int \<Rightarrow> string \<Rightarrow> snapshot_args \<Rightarrow> protection \<Rightarrow> (snapshot_error, protection \<times> snapshot) result" where
  "create_source_snapshot now hex a pf =
     (case snapshot_by_key (sa_org a) (sa_key a) pf of
        Some s \<Rightarrow> Inr (pf, s)
      | None \<Rightarrow>
          rbind (guard_that (\<exists>c \<in> set (pr_configs pf). bc_org c = sa_org a \<and> bc_id c = sa_config a) Config_not_found) (\<lambda>_.
          rbind (guard_that (\<exists>r \<in> set (st_repositories pf). rp_org r = sa_org a \<and> rp_id r = sa_repository a)
            Repository_not_found) (\<lambda>_.
          rbind (validated_trigger_type (sa_trigger a)) (\<lambda>tr.
          rbind (validated_snapshot_status (sa_status a)) (\<lambda>st.
            insert_snapshot (new_snapshot now hex a tr st (pr_next_snapshot pf)) pf)))))"

definition set_source_snapshot_started ::
  "int \<Rightarrow> int option \<Rightarrow> snapshot \<Rightarrow> protection \<Rightarrow> (snapshot_error, protection \<times> snapshot) result" where
  "set_source_snapshot_started now started_at s pf =
     (if sn_started_at s \<noteq> None then Inr (pf, s)
      else let f = (\<lambda>r. r\<lparr>sn_started_at := Some (or_else started_at now)\<rparr>)
           in rbind (save_snapshot (sn_id s) f pf) (\<lambda>pf. Inr (pf, f s)))"

section \<open>The summary\<close>

definition directory_rows :: "int \<Rightarrow> protection \<Rightarrow> snapshot_directory list" where
  "directory_rows i pf = filter (\<lambda>d. sd_snapshot d = i) (pr_directories pf)"

definition terminal_directory :: "directory_status \<Rightarrow> bool" where
  "terminal_directory st \<longleftrightarrow> st \<in> {Dir_available, Dir_failed, Dir_cancelled, Dir_deleted}"

definition available_rows :: "snapshot_directory list \<Rightarrow> snapshot_directory list" where
  "available_rows rows = filter (\<lambda>d. sd_state d = Dir_available) rows"

definition summary_counts :: "snapshot_directory list \<Rightarrow> snapshot \<Rightarrow> snapshot" where
  "summary_counts rows s = s\<lparr>
     sn_expected := max (sn_expected s) (int (length rows)),
     sn_succeeded := int (length (available_rows rows)),
     sn_failed := int (count_where (\<lambda>d. sd_state d \<in> {Dir_failed, Dir_cancelled}) rows),
     sn_size := sum_list (map sd_size (available_rows rows)),
     sn_files := sum_list (map sd_files (available_rows rows)),
     sn_dirs := sum_list (map sd_dirs (available_rows rows))\<rparr>"

definition summary_status :: "int \<Rightarrow> int option \<Rightarrow> int \<Rightarrow> snapshot \<Rightarrow> snapshot" where
  "summary_status now finished_at completed s =
     (let finish = (\<lambda>s. s\<lparr>sn_finished_at := Some (or_else (first_some finished_at (sn_finished_at s)) now)\<rparr>) in
      if sn_expected s > 0 \<and> completed \<ge> sn_expected s then
        finish (if sn_succeeded s = sn_expected s
                then s\<lparr>sn_status := Snap_available, sn_error_code := [], sn_error_message := []\<rparr>
                else if sn_succeeded s > 0 then s\<lparr>sn_status := Snap_partial\<rparr>
                else s\<lparr>sn_status := Snap_failed\<rparr>)
      else if sn_status s \<notin> {Snap_failed, Snap_deleting, Snap_delete_failed, Snap_deleted}
      then s\<lparr>sn_status := Snap_creating, sn_finished_at := None\<rparr>
      else s)"

text \<open>The columns the summary saves.\<close>

definition summary_columns :: "snapshot \<Rightarrow> snapshot \<Rightarrow> snapshot" where
  "summary_columns s r = r\<lparr>sn_status := sn_status s, sn_expected := sn_expected s, sn_succeeded := sn_succeeded s,
     sn_failed := sn_failed s, sn_size := sn_size s, sn_files := sn_files s, sn_dirs := sn_dirs s,
     sn_error_code := sn_error_code s, sn_error_message := sn_error_message s,
     sn_finished_at := sn_finished_at s\<rparr>"

definition refresh_source_snapshot_summary ::
  "int \<Rightarrow> int option \<Rightarrow> snapshot \<Rightarrow> protection \<Rightarrow> (snapshot_error, protection \<times> snapshot) result" where
  "refresh_source_snapshot_summary now finished_at s pf =
     (let rows = directory_rows (sn_id s) pf;
          completed = int (count_where (\<lambda>d. terminal_directory (sd_state d)) rows);
          s' = summary_status now finished_at completed (summary_counts rows s)
      in rbind (save_snapshot (sn_id s) (summary_columns s') pf) (\<lambda>pf. Inr (pf, s')))"

definition failure_columns :: "string \<Rightarrow> string \<Rightarrow> int \<Rightarrow> snapshot \<Rightarrow> snapshot" where
  "failure_columns code message finished s = s\<lparr>sn_status := Snap_failed, sn_error_code := strip code,
     sn_error_message := strip message, sn_finished_at := Some finished\<rparr>"

definition mark_source_snapshot_failed ::
  "int \<Rightarrow> string \<Rightarrow> string \<Rightarrow> int option \<Rightarrow> snapshot \<Rightarrow> protection \<Rightarrow> (snapshot_error, protection \<times> snapshot) result" where
  "mark_source_snapshot_failed now code message finished_at s pf =
     (let finished = or_else finished_at now; f = failure_columns code message finished in
      rbind (save_snapshot (sn_id s) f pf) (\<lambda>pf.
        refresh_source_snapshot_summary now (Some finished) (f s) pf))"

definition soft_delete_source_snapshot ::
  "int \<Rightarrow> snapshot \<Rightarrow> protection \<Rightarrow> (snapshot_error, protection \<times> snapshot) result" where
  "soft_delete_source_snapshot now s pf =
     (let f = (\<lambda>r. r\<lparr>sn_status := Snap_deleted, sn_deleted_at := Some now\<rparr>)
      in rbind (save_snapshot (sn_id s) f pf) (\<lambda>pf. Inr (pf, f s)))"

section \<open>Directory results\<close>

record directory_result =
  dr_config_dir :: int
  dr_path :: string
  dr_repository :: int
  dr_status :: "string option"
  dr_path_type :: string
  dr_name :: string
  dr_kopia_id :: json
  dr_size :: int
  dr_files :: int
  dr_dirs :: int
  dr_stats :: "dict option"
  dr_error_code :: string
  dr_error_message :: string

definition optional_nonnegative_stat :: "dict option \<Rightarrow> string \<Rightarrow> int option" where
  "optional_nonnegative_stat stats key = (case stats of
       None \<Rightarrow> None
     | Some d \<Rightarrow> (case map_of d key of
           None \<Rightarrow> None
         | Some (JBool b) \<Rightarrow> None
         | Some v \<Rightarrow> (case py_int v of None \<Rightarrow> None | Some n \<Rightarrow> if n \<ge> 0 then Some n else None)))"

definition path_type_of :: "string \<Rightarrow> string" where
  "path_type_of v = (let t = lower (strip (if v = [] then ''unknown'' else v)) in
     if t \<in> {''directory'', ''file'', ''unknown''} then t else ''unknown'')"

text \<open>The defaults of \<^verbatim>\<open>update_or_create\<close>.\<close>

definition result_columns ::
  "snapshot \<Rightarrow> directory_result \<Rightarrow> directory_status \<Rightarrow> snapshot_directory \<Rightarrow> snapshot_directory" where
  "result_columns s r st d =
     (let kopia = normalize_kopia_snapshot_id (dr_kopia_id r); stats = or_else (dr_stats r) [] in
      d\<lparr>sd_org := sn_org s, sd_config := sn_config s, sd_path := strip (dr_path r),
        sd_path_type := path_type_of (dr_path_type r), sd_name := strip (dr_name r),
        sd_repository := dr_repository r, sd_kopia_id := (if kopia = [] then None else Some kopia),
        sd_state := st, sd_size := max 0 (dr_size r),
        sd_new_original := optional_nonnegative_stat (Some stats) ''new_original_content_bytes'',
        sd_new_packed := optional_nonnegative_stat (Some stats) ''new_packed_content_bytes'',
        sd_files := max 0 (dr_files r), sd_dirs := max 0 (dr_dirs r), sd_stats := stats,
        sd_error_code := strip (dr_error_code r), sd_error_message := strip (dr_error_message r)\<rparr>)"

definition empty_directory :: "int \<Rightarrow> int \<Rightarrow> int \<Rightarrow> snapshot_directory" where
  "empty_directory i snap config_dir =
     \<lparr>sd_id = i, sd_snapshot = snap, sd_org = 0, sd_config = 0, sd_config_dir = config_dir, sd_path = [],
      sd_path_type = ''unknown'', sd_name = [], sd_repository = 0, sd_kopia_id = None, sd_state = Dir_pending,
      sd_size = 0, sd_new_original = None, sd_new_packed = None, sd_files = 0, sd_dirs = 0, sd_stats = [],
      sd_error_code = [], sd_error_message = [], sd_locator = JObj [], sd_node_task = None\<rparr>"

definition upsert_directory ::
  "int \<Rightarrow> int \<Rightarrow> (snapshot_directory \<Rightarrow> snapshot_directory) \<Rightarrow> protection \<Rightarrow> protection" where
  "upsert_directory snap config_dir f pf =
     (if \<exists>d \<in> set (pr_directories pf). sd_snapshot d = snap \<and> sd_config_dir d = config_dir
      then pf\<lparr>pr_directories :=
             update_where (\<lambda>d. sd_snapshot d = snap \<and> sd_config_dir d = config_dir) f (pr_directories pf)\<rparr>
      else pf\<lparr>pr_directories := pr_directories pf @ [f (empty_directory (pr_next_directory pf) snap config_dir)],
              pr_next_directory := pr_next_directory pf + 1\<rparr>)"

definition record_source_snapshot_directory_result ::
  "int \<Rightarrow> snapshot \<Rightarrow> directory_result \<Rightarrow> protection \<Rightarrow> (snapshot_error, protection \<times> snapshot) result" where
  "record_source_snapshot_directory_result now s r pf =
     rbind (validated_directory_status (dr_status r)) (\<lambda>st.
     rbind (guard_that (\<not> (st = Dir_available \<and> normalize_kopia_snapshot_id (dr_kopia_id r) = [])) Kopia_id_required) (\<lambda>_.
     rbind (guard_that (\<not> (st = Dir_failed \<and> strip (dr_error_code r) = [] \<and> strip (dr_error_message r) = []))
       Failure_text_required) (\<lambda>_.
     rbind (guard_that (\<exists>x \<in> set (pr_snapshots pf). sn_id x = sn_id s) Row_missing) (\<lambda>_.
     rbind (guard_that (\<exists>x \<in> set (st_repositories pf). rp_id x = dr_repository r) Row_missing) (\<lambda>_.
     case assert_no_orphan_cleanup (dr_repository r) pf of
       Inl e \<Rightarrow> Inl (Result_fenced e)
     | Inr _ \<Rightarrow> refresh_source_snapshot_summary now None s
           (upsert_directory (sn_id s) (dr_config_dir r) (result_columns s r st) pf))))))"

end
