(* ===== verification/Backup_Start.thy ===== *)
theory Backup_Start
  imports Snapshot_Record
begin

text \<open>
  The start of backups, \<^verbatim>\<open>start_backup_tasks\<close> of \<^verbatim>\<open>apps/protection/services/backup_task.py\<close>, with
  the quota of a repository (\<^verbatim>\<open>repository_usage.py\<close>) and the dispatch of
  \<^verbatim>\<open>repository_compatibility.py\<close>. A request is not one transaction: each of its configurations is
  admitted, then committed in a transaction of its own, then queued, and an exception that is not
  answered as a result row ends the request with what was committed before it. The texts of the
  answer are not kept; a refused row carries its exception.
\<close>

section \<open>Requests and answers\<close>

record start_request =
  sq_org :: int
  sq_sources :: "dict list"
  sq_source_ids :: "string list"
  sq_configs :: "int list"
  sq_trigger :: string
  sq_key :: "string option"

datatype start_error =
  Organization_missing
| Invalid_sources
| Invalid_source_ids
| No_sources
| Source_unknown
| Configs_unknown
| Configs_of_other_sources
| Source_refused fence_error
| Incompatible_repository
| Workload_refused workload_error
| License_exceeded
| License_unavailable
| Repository_quota_exceeded
| Nas_failed "string option"
| Task_failed_with task_error
| Snapshot_failed_with snapshot_error
| Row_not_found
| Bad_task_payload
| Estimate_refused

datatype start_status = Item_created | Item_skipped | Item_conflict | Item_failed

record start_item =
  si_source_type :: string
  si_source_ref :: int
  si_config :: "int option"
  si_task :: "nat option"
  si_task_uuid :: "string option"
  si_snapshot :: "int option"
  si_snapshot_status :: "snapshot_status option"
  si_status :: start_status
  si_code :: "string option"
  si_error :: "start_error option"

record start_answer =
  an_created :: int
  an_skipped :: int
  an_items :: "start_item list"

text \<open>
  What lies outside: the clock and node settings, the organizations, the license provider, what the
  node rows say of platforms and addresses, the initialization of a direct NAS repository (which
  sends commands and reserves a location), the identifiers drawn for a configuration, and the broker.
\<close>

datatype license_answer = License_ok | License_full | License_unmeasured

record nas_effect =
  ne_fleet :: fleet
  ne_namespaces :: "location_namespace list"
  ne_claims :: "location_claim list"
  ne_failed :: "string option option"

record start_env =
  se_env :: env
  se_organization :: "int \<Rightarrow> bool"
  se_license :: "int \<Rightarrow> protection \<Rightarrow> license_answer"
  se_linux_agent :: "int \<Rightarrow> int \<Rightarrow> bool"
  se_proxy_serves :: "int \<Rightarrow> int \<Rightarrow> repository \<Rightarrow> bool"
  se_init_nas :: "int \<Rightarrow> string \<Rightarrow> int \<Rightarrow> int \<Rightarrow> protection \<Rightarrow> nas_effect"
  se_source_name :: "string \<Rightarrow> int \<Rightarrow> string"
  se_stamp :: string
  se_uuid :: "int \<Rightarrow> string"
  se_hex :: "int \<Rightarrow> string"
  se_queue_refused :: "nat \<Rightarrow> string option"
  se_estimate_refused :: "int \<Rightarrow> bool"

definition start_now :: "start_env \<Rightarrow> int" where
  "start_now v = ev_now (se_env v)"

section \<open>Exceptions\<close>

text \<open>\<^verbatim>\<open>ValidationError\<close> and \<^verbatim>\<open>AppError\<close> are answered, others end the request.\<close>

fun answered :: "start_error \<Rightarrow> bool" where
  "answered (Source_refused _) = True"
| "answered Incompatible_repository = True"
| "answered (Workload_refused e) = (e \<noteq> Unsupported_workload \<and> e \<noteq> No_repositories)"
| "answered License_exceeded = True"
| "answered License_unavailable = True"
| "answered Repository_quota_exceeded = True"
| "answered (Nas_failed _) = True"
| "answered (Task_failed_with (Validation _ _)) = True"
| "answered (Snapshot_failed_with e) = (e \<in> {Config_not_found, Repository_not_found, Unsupported_trigger,
     Unsupported_snapshot_status})"
| "answered _ = False"

fun violates_constraint :: "start_error \<Rightarrow> bool" where
  "violates_constraint (Task_failed_with (Integrity _)) = True"
| "violates_constraint (Snapshot_failed_with e) = (e = Snapshot_constraint)"
| "violates_constraint _ = False"

definition is_global_backup_admission_error :: "start_error \<Rightarrow> bool" where
  "is_global_backup_admission_error e \<longleftrightarrow> e \<in> {License_exceeded, Repository_quota_exceeded}"

definition should_raise_backup_admission_error :: "start_error \<Rightarrow> string \<Rightarrow> bool" where
  "should_raise_backup_admission_error e trigger \<longleftrightarrow>
     is_global_backup_admission_error e
     \<and> \<not> (e = Repository_quota_exceeded \<and> lower (strip trigger) = ''schedule'')"

text \<open>Steps that leave a state with their exception.\<close>

type_synonym 'a stepped = "(protection, start_error, 'a) stepping"

section \<open>The sources of a request\<close>

definition parse_selectable_id :: "string \<Rightarrow> (string \<times> int) option" where
  "parse_selectable_id value' = (case split_once CHR '':'' (strip value') of
       [kind, i] \<Rightarrow>
         if kind \<in> {''agent'', ''nas'', ''proxy''} \<and> i \<noteq> [] \<and> list_all (\<lambda>c. digit_val c \<noteq> None) i
         then map_option (Pair kind) (parse_int i) else None
     | _ \<Rightarrow> None)"

definition requested_source :: "dict \<Rightarrow> (start_error, string \<times> int) result" where
  "requested_source item =
     (let st = lower (strip (text_or_empty (dget item ''source_type''))) in
      rbind (guard_that (st \<in> {''agent'', ''nas''}) Invalid_sources) (\<lambda>_.
      rbind (of_option Invalid_sources (int_or (dget item ''source_ref_id'') 0)) (\<lambda>ref.
      rbind (guard_that (ref > 0) Invalid_sources) (\<lambda>_. Inr (st, ref)))))"

definition requested_source_id :: "string \<Rightarrow> (start_error, string \<times> int) result" where
  "requested_source_id i = (case parse_selectable_id i of
       None \<Rightarrow> Inl Invalid_source_ids
     | Some (kind, ref) \<Rightarrow> rbind (guard_that (kind \<in> {''agent'', ''nas''}) Invalid_source_ids) (\<lambda>_. Inr (kind, ref)))"

fun rmap :: "('a \<Rightarrow> ('e, 'b) result) \<Rightarrow> 'a list \<Rightarrow> ('e, 'b list) result" where
  "rmap f [] = Inr []"
| "rmap f (x # xs) = rbind (f x) (\<lambda>y. rbind (rmap f xs) (\<lambda>ys. Inr (y # ys)))"

text \<open>The keys of a dictionary stay where they were first inserted.\<close>

definition in_first_order :: "'a list \<Rightarrow> 'a list" where
  "in_first_order xs = rev (remdups (rev xs))"

definition normalize_sources ::
  "dict list \<Rightarrow> string list \<Rightarrow> (start_error, (string \<times> int) list) result" where
  "normalize_sources sources ids =
     rbind (rmap requested_source sources) (\<lambda>xs.
     rbind (rmap requested_source_id ids) (\<lambda>ys.
     rbind (guard_that (xs @ ys \<noteq> []) No_sources) (\<lambda>_. Inr (in_first_order (xs @ ys)))))"

definition configs_of :: "int \<Rightarrow> int list \<Rightarrow> protection \<Rightarrow> backup_config list" where
  "configs_of org ids pf = sort_key bc_id
     (filter (\<lambda>c. bc_org c = org \<and> (ids = [] \<or> bc_id c \<in> set ids)) (pr_configs pf))"

definition config_source :: "backup_config \<Rightarrow> string \<times> int" where
  "config_source c = (bc_source_type c, bc_source_ref c)"

definition backup_config_sources :: "int \<Rightarrow> int list \<Rightarrow> protection \<Rightarrow> (string \<times> int) list" where
  "backup_config_sources org ids pf =
     (if ids = [] then [] else in_first_order (map config_source (configs_of org ids pf)))"

definition source_exists :: "int \<Rightarrow> protection \<Rightarrow> string \<times> int \<Rightarrow> bool" where
  "source_exists org pf = (\<lambda>(st, ref).
     if st = ''agent'' then \<exists>n \<in> set (fl_nodes (pf_fleet pf)). n_org n = Some org \<and> int (n_id n) = ref
         \<and> n_role n = Agent_role \<and> \<not> n_is_deleted n
     else \<exists>s \<in> set (pf_nas pf). ns_org s = Some org \<and> ns_id s = ref \<and> \<not> ns_deleted s)"

definition load_backup_configs ::
  "int \<Rightarrow> (string \<times> int) list \<Rightarrow> int list \<Rightarrow> protection \<Rightarrow>
    (start_error, string \<times> int \<Rightarrow> backup_config list) result" where
  "load_backup_configs org sources ids pf =
     (let configs = configs_of org ids pf in
      rbind (guard_that (set ids \<subseteq> set (map bc_id configs)) Configs_unknown) (\<lambda>_.
      rbind (guard_that (ids = [] \<or> set (map config_source configs) \<subseteq> set sources) Configs_of_other_sources) (\<lambda>_.
        Inr (\<lambda>source. filter (\<lambda>c. config_source c = source) configs))))"

definition load_request ::
  "start_env \<Rightarrow> start_request \<Rightarrow> protection \<Rightarrow>
    (start_error, ((string \<times> int) \<times> backup_config list) list) result" where
  "load_request v q pf =
     rbind (guard_that (se_organization v (sq_org q)) Organization_missing) (\<lambda>_.
     rbind (if sq_sources q \<noteq> [] \<or> sq_source_ids q \<noteq> [] then normalize_sources (sq_sources q) (sq_source_ids q)
            else Inr (backup_config_sources (sq_org q) (sq_configs q) pf)) (\<lambda>sources.
     rbind (guard_that (list_all (source_exists (sq_org q) pf) sources) Source_unknown) (\<lambda>_.
     rbind (load_backup_configs (sq_org q) sources (sq_configs q) pf) (\<lambda>config_map.
       Inr (map (\<lambda>s. (s, config_map s)) sources)))))"

section \<open>Running backups and accepted requests\<close>

definition request_names_config :: "string \<Rightarrow> int \<Rightarrow> int \<Rightarrow> task \<Rightarrow> (start_error, bool) result" where
  "request_names_config st ref config t =
     (let payload = or_else (t_request t) [] in
      if text_or_empty (dget payload ''source_type'') \<noteq> st then Inr False
      else rbind (of_option Bad_task_payload (int_or (dget payload ''source_ref_id'') 0)) (\<lambda>i.
        if i \<noteq> ref then Inr False
        else rbind (of_option Bad_task_payload (int_or (dget payload ''backup_config_id'') 0)) (\<lambda>c.
          Inr (c = config))))"

fun first_naming ::
  "(task \<Rightarrow> (start_error, bool) result) \<Rightarrow> (task \<Rightarrow> bool) \<Rightarrow> task list \<Rightarrow> (start_error, task option) result" where
  "first_naming names also [] = Inr None"
| "first_naming names also (t # ts) = rbind (names t) (\<lambda>named.
     if named \<and> also t then Inr (Some t) else first_naming names also ts)"

text \<open>\<^verbatim>\<open>order_by("-created_at", "-id")\<close>\<close>

definition backup_tasks :: "int \<Rightarrow> (task_status \<Rightarrow> bool) \<Rightarrow> protection \<Rightarrow> task list" where
  "backup_tasks org p pf = sort_key (\<lambda>t. (- t_created_at t, - int (t_id t)))
     (filter (\<lambda>t. t_org t = Some org \<and> t_type t = Backup \<and> p (t_status t)) (db_tasks (pf_tasks pf)))"

definition find_active_backup_task ::
  "env \<Rightarrow> int \<Rightarrow> string \<Rightarrow> int \<Rightarrow> int \<Rightarrow> protection \<Rightarrow> (start_error, task option) result" where
  "find_active_backup_task e org st ref config pf =
     rbind (first_naming (request_names_config st ref config) (\<lambda>_. True) (backup_tasks org task_active pf)) (\<lambda>found.
     case found of Some t \<Rightarrow> Inr (Some t)
     | None \<Rightarrow> first_naming (request_names_config st ref config)
         (\<lambda>t. product_task_is_stopping e org (Some t) pf) (backup_tasks org (\<lambda>s. s = Cancelled) pf))"

definition task_of_snapshot :: "int \<Rightarrow> snapshot \<Rightarrow> protection \<Rightarrow> nat \<times> string" where
  "task_of_snapshot org s pf =
     (case first_where (\<lambda>t. t_org t = Some org \<and> t_id t = sn_task s) (db_tasks (pf_tasks pf)) of
        None \<Rightarrow> (sn_task s, sn_task_uuid s) | Some t \<Rightarrow> (t_id t, t_uuid t))"

section \<open>Rows of the answer\<close>

definition bare_item :: "string \<times> int \<Rightarrow> int option \<Rightarrow> start_status \<Rightarrow> start_item" where
  "bare_item source config st =
     \<lparr>si_source_type = fst source, si_source_ref = snd source, si_config = config, si_task = None,
      si_task_uuid = None, si_snapshot = None, si_snapshot_status = None, si_status = st, si_code = None,
      si_error = None\<rparr>"

definition snapshot_item :: "int \<Rightarrow> string \<times> int \<Rightarrow> int \<Rightarrow> start_status \<Rightarrow> snapshot \<Rightarrow> protection \<Rightarrow> start_item" where
  "snapshot_item org source config st s pf =
     (bare_item source (Some config) st)\<lparr>si_task := Some (fst (task_of_snapshot org s pf)),
        si_task_uuid := Some (snd (task_of_snapshot org s pf)),
        si_snapshot := Some (sn_id s), si_snapshot_status := Some (sn_status s)\<rparr>"

definition inactive_item :: "string \<times> int \<Rightarrow> backup_config \<Rightarrow> start_item" where
  "inactive_item source c = (bare_item source (Some (bc_id c)) Item_skipped)\<lparr>si_code :=
     (if bc_status c = Conf_provision_failed \<and> strip (bc_error_code c) \<noteq> []
      then Some (strip (bc_error_code c)) else None)\<rparr>"

definition refused_item :: "string \<times> int \<Rightarrow> int \<Rightarrow> start_error \<Rightarrow> start_item" where
  "refused_item source config e =
     (bare_item source (Some config)
        (if e = Nas_failed (Some ''RESTORE.ALREADY_RUNNING'') then Item_conflict else Item_failed))\<lparr>si_error := Some e\<rparr>"
section \<open>The quota of a repository\<close>

text \<open>\<^verbatim>\<open>float(text)\<close> of a decimal numeral; the names of the infinities and of not-a-number are not read.\<close>

definition digits_value :: "string \<Rightarrow> nat option" where
  "digits_value s = (if list_all (\<lambda>c. digit_val c \<noteq> None) s
     then Some (foldl (\<lambda>n c. 10 * n + the (digit_val c)) 0 s) else None)"

definition decimal_mantissa :: "string \<Rightarrow> rat option" where
  "decimal_mantissa s =
     (let whole = (case split_once CHR ''.'' s of [i, f] \<Rightarrow> i | _ \<Rightarrow> s);
          part = (case split_once CHR ''.'' s of [i, f] \<Rightarrow> f | _ \<Rightarrow> []) in
      if whole @ part = [] then None
      else map_option (\<lambda>n. of_nat n / 10 ^ length part) (digits_value (whole @ part)))"

definition decimal_power :: "int \<Rightarrow> rat" where
  "decimal_power e = (if e < 0 then 1 / 10 ^ nat (- e) else 10 ^ nat e)"

definition unsigned_decimal :: "string \<Rightarrow> rat option" where
  "unsigned_decimal s = (case split_once CHR ''e'' (lower s) of
       [m, e] \<Rightarrow> (if e = strip e then (case (decimal_mantissa m, parse_int e) of
           (Some q, Some k) \<Rightarrow> Some (q * decimal_power k) | _ \<Rightarrow> None) else None)
     | _ \<Rightarrow> decimal_mantissa s)"

definition parse_decimal :: "string \<Rightarrow> rat option" where
  "parse_decimal s = (case strip s of
       [] \<Rightarrow> None
     | c # cs \<Rightarrow> if c = CHR ''-'' then map_option uminus (unsigned_decimal cs)
         else if c = CHR ''+'' then unsigned_decimal cs else unsigned_decimal (c # cs))"

fun py_float :: "json \<Rightarrow> rat option" where
  "py_float (JBool b) = Some (if b then 1 else 0)"
| "py_float (JInt i) = Some (of_int i)"
| "py_float (JFloat q _) = Some q"
| "py_float (JStr s) = parse_decimal s"
| "py_float _ = None"

definition capacity_bytes_from_config :: "json \<Rightarrow> int" where
  "capacity_bytes_from_config config = (case config of
       JObj d \<Rightarrow>
         (case (if truthy (dget d ''quota_gb'') then py_float (dget d ''quota_gb'') else Some 0) of
            None \<Rightarrow> 0 | Some q \<Rightarrow> if q \<le> 0 then 0 else \<lfloor>q * 1024 ^ 3\<rfloor>)
     | _ \<Rightarrow> 0)"

definition assert_repository_quota_available :: "int \<Rightarrow> repository \<Rightarrow> (start_error, unit) result" where
  "assert_repository_quota_available now r =
     (let limit = capacity_bytes_from_config (rp_config r) in
      if limit \<le> 0 \<or> \<not> rp_usage_known r then Inr ()
      else case rp_usage_at r of
        None \<Rightarrow> Inr ()
      | Some checked \<Rightarrow>
          if now - checked > seconds 900 then Inr ()
          else guard_that (max 0 (rp_usage_bytes r) < limit) Repository_quota_exceeded)"

definition enforce_storage_license :: "start_env \<Rightarrow> int \<Rightarrow> protection \<Rightarrow> (start_error, unit) result" where
  "enforce_storage_license v org pf = (case se_license v org pf of
       License_ok \<Rightarrow> Inr () | License_full \<Rightarrow> Inl License_exceeded | License_unmeasured \<Rightarrow> Inl License_unavailable)"

section \<open>Admission\<close>

definition validate_proxy_bound_repository ::
  "start_env \<Rightarrow> int \<Rightarrow> int \<Rightarrow> repository \<Rightarrow> (start_error, unit) result" where
  "validate_proxy_bound_repository v org ref r =
     rbind (guard_that (rp_bind_node r \<noteq> None) Incompatible_repository) (\<lambda>_.
       guard_that (se_proxy_serves v org ref r) Incompatible_repository)"

definition validate_backup_repository_compatible ::
  "start_env \<Rightarrow> int \<Rightarrow> string \<Rightarrow> int \<Rightarrow> int \<Rightarrow> protection \<Rightarrow> (start_error, repository) result" where
  "validate_backup_repository_compatible v org st ref repository pf =
     rbind (of_option Incompatible_repository (first_where
       (\<lambda>r. rp_org r = org \<and> rp_id r = repository \<and> rp_status r = Repo_created) (st_repositories pf))) (\<lambda>r.
     rbind (if st = ''agent'' \<and> direct_nas r then guard_that (se_linux_agent v org ref) Incompatible_repository
            else if st = ''nas'' \<and> rp_type r = Repo_proxy_fs then validate_proxy_bound_repository v org ref r
            else if st = ''nas'' \<and> rp_type r = Repo_nas \<and> rp_bind_node r \<noteq> None
            then validate_proxy_bound_repository v org ref r
            else Inr ()) (\<lambda>_. Inr r))"

definition init_direct_nas ::
  "start_env \<Rightarrow> int \<Rightarrow> string \<times> int \<Rightarrow> int \<Rightarrow> protection \<Rightarrow> unit stepped" where
  "init_direct_nas v org source repository pf =
     (let e = se_init_nas v org (fst source) (snd source) repository pf in
      (pf\<lparr>pf_fleet := ne_fleet e, st_namespaces := ne_namespaces e, st_claims := ne_claims e\<rparr>,
       case ne_failed e of None \<Rightarrow> Inr () | Some code \<Rightarrow> Inl (Nas_failed code)))"

text \<open>The checks before the transaction, which may initialize a direct NAS repository.\<close>

definition admit_backup ::
  "start_env \<Rightarrow> int \<Rightarrow> string \<times> int \<Rightarrow> backup_config \<Rightarrow> protection \<Rightarrow> unit stepped" where
  "admit_backup v org source c pf =
     (case rbind (lift_error Source_refused
             (assert_source_product_operation_allowed org (fst source) (snd source) None pf)) (\<lambda>_.
           rbind (validate_backup_repository_compatible v org (fst source) (snd source) (bc_repository c) pf) (\<lambda>r.
           if direct_nas r
           then rbind (assert_repository_quota_available (start_now v) r) (\<lambda>_.
                rbind (enforce_storage_license v org pf) (\<lambda>_. Inr r))
           else Inr r)) of
        Inl e \<Rightarrow> (pf, Inl e)
      | Inr r \<Rightarrow> if direct_nas r then init_direct_nas v org source (rp_id r) pf else (pf, Inr ()))"

section \<open>The transaction\<close>

datatype commit_outcome =
  Existing start_item
| Started task snapshot

definition task_trigger :: "string \<Rightarrow> string" where
  "task_trigger trigger = (if lower (strip trigger) = ''schedule'' then ''system'' else ''manual'')"

definition backup_payload :: "string \<times> int \<Rightarrow> backup_config \<Rightarrow> int \<Rightarrow> dict" where
  "backup_payload source c directories =
     [(''source_type'', JStr (fst source)), (''source_ref_id'', JInt (snd source)),
      (''backup_config_id'', JInt (bc_id c)), (''repository_id'', JInt (bc_repository c)),
      (''directory_count'', JInt directories), (''directory_size_refresh_required'', JBool True)]"

definition new_backup_request ::
  "start_env \<Rightarrow> int \<Rightarrow> string \<Rightarrow> string \<times> int \<Rightarrow> backup_config \<Rightarrow> int \<Rightarrow> task_request" where
  "new_backup_request v org trigger source c directories =
     \<lparr>q_org = Some org, q_type = ''backup'',
      q_name = ''Backup '' @ se_source_name v (fst source) (snd source), q_trigger = task_trigger trigger,
      q_payload = Some (backup_payload source c directories),
      q_resources =
        [\<lparr>rd_type = Some ''backup_source'', rd_subtype = Some (fst source), rd_ref = Some (snd source), rd_primary = True\<rparr>,
         \<lparr>rd_type = Some ''repository'', rd_subtype = None, rd_ref = Some (bc_repository c), rd_primary = False\<rparr>],
      q_steps = map (\<lambda>n. Step_fields (Some n) None None)
        [''create_logic_snapshot'', ''kopia_snapshot'', ''finalize_snapshot''],
      q_normalize = True, q_replaces = None, q_group_uuid = None, q_key = None, q_notify_on_commit = False\<rparr>"

definition backup_snapshot_args ::
  "int \<Rightarrow> string \<Rightarrow> string \<Rightarrow> string \<times> int \<Rightarrow> backup_config \<Rightarrow> int \<Rightarrow> task \<Rightarrow> snapshot_args" where
  "backup_snapshot_args org trigger key source c directories t =
     \<lparr>sa_org = org, sa_source_type = fst source, sa_source_ref = snd source, sa_config = bc_id c,
      sa_repository = bc_repository c, sa_task = t_id t, sa_task_uuid = t_uuid t, sa_key = key,
      sa_trigger = Some (if task_trigger trigger = ''system'' then ''schedule'' else ''manual''),
      sa_uid = None, sa_status = None, sa_started_at = None, sa_finished_at = None,
      sa_directories = directories\<rparr>"

text \<open>The quotas, the repository and the rows, once neither a replay nor a running backup is found.\<close>

definition write_backup ::
  "start_env \<Rightarrow> int \<Rightarrow> string \<Rightarrow> string \<Rightarrow> string \<times> int \<Rightarrow> backup_config \<Rightarrow> protection \<Rightarrow>
    (start_error, protection \<times> commit_outcome) result" where
  "write_backup v org trigger key source c pf =
     rbind (enforce_storage_license v org pf) (\<lambda>_.
     rbind (of_option Row_not_found (first_where (\<lambda>r. rp_org r = org \<and> rp_id r = bc_repository c)
       (st_repositories pf))) (\<lambda>r.
     rbind (assert_repository_quota_available (start_now v) r) (\<lambda>_.
     rbind (lift_error Workload_refused
       (lock_repositories_for_workload org [bc_repository c] ''backup_write'' pf)) (\<lambda>_.
     let directories = int (count_where (\<lambda>d. cd_config d = bc_id c) (pr_config_directories pf)) in
     rbind (lift_error Task_failed_with (create_task (start_now v) (se_uuid v (bc_id c))
       (new_backup_request v org trigger source c directories) (pf_tasks pf))) (\<lambda>(db, t).
     rbind (lift_error Snapshot_failed_with (create_source_snapshot (start_now v) (se_hex v (bc_id c))
       (backup_snapshot_args org trigger key source c directories t) (pf\<lparr>pf_tasks := db\<rparr>))) (\<lambda>(pf, s).
       Inr (pf, Started t s)))))))"

definition commit_backup ::
  "start_env \<Rightarrow> int \<Rightarrow> string \<Rightarrow> string \<Rightarrow> string \<times> int \<Rightarrow> int \<Rightarrow> protection \<Rightarrow>
    (start_error, protection \<times> commit_outcome) result" where
  "commit_backup v org trigger key source config pf =
     rbind (lift_error Source_refused
       (assert_source_product_operation_allowed org (fst source) (snd source) None pf)) (\<lambda>_.
     rbind (of_option Row_not_found (first_where (\<lambda>c. bc_org c = org \<and> bc_id c = config) (pr_configs pf))) (\<lambda>c.
     case snapshot_by_key org key pf of
       Some s \<Rightarrow> Inr (pf, Existing (snapshot_item org source config Item_skipped s pf))
     | None \<Rightarrow>
         rbind (find_active_backup_task (se_env v) org (fst source) (snd source) (bc_id c) pf) (\<lambda>active_task.
         case active_task of
           Some t \<Rightarrow> Inr (pf, Existing ((bare_item source (Some config) Item_conflict)
             \<lparr>si_task := Some (t_id t), si_task_uuid := Some (t_uuid t)\<rparr>))
         | None \<Rightarrow> write_backup v org trigger key source c pf)))"

text \<open>After a unique constraint failed: the winner is the same request or a backup of the configuration.\<close>

definition constraint_item ::
  "int \<Rightarrow> string \<Rightarrow> string \<times> int \<Rightarrow> int \<Rightarrow> protection \<Rightarrow> start_item option" where
  "constraint_item org key source config pf =
     (case snapshot_by_key org key pf of
        Some s \<Rightarrow> Some (snapshot_item org source config Item_skipped s pf)
      | None \<Rightarrow> map_option (\<lambda>s. snapshot_item org source config Item_conflict s pf)
          (first_where (\<lambda>s. sn_org s = org \<and> sn_config s = config \<and> sn_status s = Snap_creating) (pr_snapshots pf)))"

section \<open>After the transaction\<close>

text \<open>A broker that refuses the work makes the new snapshot and its task fail.\<close>

definition queue_failure :: "int \<Rightarrow> string \<Rightarrow> completion" where
  "queue_failure snapshot message = \<lparr>c_status = ''failed'', c_progress = 0,
     c_result = Some [(''source_snapshot_id'', JInt snapshot), (''source_snapshot_status'', JStr ''failed'')],
     c_error_code = ''BACKUP_QUEUE_FAILED'', c_error_message = message, c_details_in_event = False,
     c_event_metadata = []\<rparr>"

definition fail_queued ::
  "int \<Rightarrow> int \<Rightarrow> string \<Rightarrow> int \<Rightarrow> string \<Rightarrow> protection \<Rightarrow> unit stepped" where
  "fail_queued now org uuid snapshot message pf =
     (case (case snapshot_row org snapshot pf of None \<Rightarrow> Inr pf
            | Some s \<Rightarrow> lift_error Snapshot_failed_with (rbind
                (mark_source_snapshot_failed now ''BACKUP_QUEUE_FAILED'' message None s pf) (\<lambda>(pf, s). Inr pf))) of
        Inl e \<Rightarrow> (pf, Inl e)
      | Inr pf \<Rightarrow>
          if \<exists>t \<in> set (db_tasks (pf_tasks pf)). t_org t = Some org \<and> t_uuid t = uuid
          then case complete_task now uuid org (queue_failure snapshot message) (pf_tasks pf) of
                 Inl e \<Rightarrow> (pf, Inl (Task_failed_with e))
               | Inr (db, t) \<Rightarrow> (pf\<lparr>pf_tasks := db\<rparr>, Inr ())
          else (pf, Inr ()))"

definition queue_backup_execution ::
  "start_env \<Rightarrow> int \<Rightarrow> task \<Rightarrow> snapshot \<Rightarrow> protection \<Rightarrow> unit stepped" where
  "queue_backup_execution v org t s pf = (case se_queue_refused v (t_id t) of
       None \<Rightarrow> (pf\<lparr>pr_backup_queue := pr_backup_queue pf @ [(t_id t, sn_id s)]\<rparr>, Inr ())
     | Some text \<Rightarrow> fail_queued (start_now v) org (t_uuid t) (sn_id s)
         (''Failed to queue backup execution: '' @ text) pf)"

definition queue_estimate :: "start_env \<Rightarrow> int \<Rightarrow> task \<Rightarrow> protection \<Rightarrow> unit stepped" where
  "queue_estimate v config t pf =
     (if se_estimate_refused v config then (pf, Inl Estimate_refused)
      else (pf\<lparr>pr_estimate_queue := pr_estimate_queue pf @ [(config, t_uuid t)]\<rparr>, Inr ()))"

definition committed_backup ::
  "start_env \<Rightarrow> int \<Rightarrow> string \<Rightarrow> string \<Rightarrow> string \<times> int \<Rightarrow> int \<Rightarrow> protection \<Rightarrow> start_item stepped" where
  "committed_backup v org trigger key source config pf =
     (case commit_backup v org trigger key source config pf of
        Inl e \<Rightarrow> (pf, Inl e)
      | Inr (pf, Existing i) \<Rightarrow> (pf, Inr i)
      | Inr (pf, Started t s) \<Rightarrow>
          then_do (queue_backup_execution v org t s pf) (\<lambda>_ pf.
          then_do (queue_estimate v config t pf) (\<lambda>_ pf.
            (pf, Inr ((bare_item source (Some config) Item_created)\<lparr>si_task := Some (t_id t),
               si_task_uuid := Some (t_uuid t), si_snapshot := Some (sn_id s),
               si_snapshot_status := Some (sn_status s)\<rparr>)))))"

text \<open>The handlers cover the actions after the commit, too.\<close>

definition commit_and_queue ::
  "start_env \<Rightarrow> int \<Rightarrow> string \<Rightarrow> string \<Rightarrow> string \<times> int \<Rightarrow> int \<Rightarrow> protection \<Rightarrow> start_item stepped" where
  "commit_and_queue v org trigger key source config pf =
     (case committed_backup v org trigger key source config pf of
        (pf, Inr i) \<Rightarrow> (pf, Inr i)
      | (pf, Inl e) \<Rightarrow>
          if violates_constraint e then (pf, of_option e (constraint_item org key source config pf))
          else if answered e \<and> \<not> should_raise_backup_admission_error e trigger
          then (pf, Inr (refused_item source config e))
          else (pf, Inl e))"

section \<open>The request\<close>

text \<open>\<^verbatim>\<open>f"{batch_key}:{source_type}:{source_ref_id}:{config.id}"\<close>\<close>

definition item_key :: "string \<Rightarrow> string \<times> int \<Rightarrow> int \<Rightarrow> string" where
  "item_key batch source config =
     batch @ '':'' @ fst source @ '':'' @ show_int (snd source) @ '':'' @ show_int config"

definition start_config ::
  "start_env \<Rightarrow> int \<Rightarrow> string \<Rightarrow> string \<Rightarrow> string \<times> int \<Rightarrow> backup_config \<Rightarrow> protection \<Rightarrow> start_item stepped" where
  "start_config v org trigger batch source c pf =
     (if bc_status c \<noteq> Conf_active then (pf, Inr (inactive_item source c))
      else let key = item_key batch source (bc_id c) in
        case snapshot_by_key org key pf of
          Some s \<Rightarrow> (pf, Inr (snapshot_item org source (bc_id c) Item_skipped s pf))
        | None \<Rightarrow>
            (case admit_backup v org source c pf of
               (pf, Inl e) \<Rightarrow>
                 if answered e \<and> \<not> should_raise_backup_admission_error e trigger
                 then (pf, Inr (refused_item source (bc_id c) e)) else (pf, Inl e)
             | (pf, Inr _) \<Rightarrow> commit_and_queue v org trigger key source (bc_id c) pf))"

definition answer_with :: "start_item \<Rightarrow> start_answer \<Rightarrow> start_answer" where
  "answer_with i a =
     (if si_status i = Item_created then a\<lparr>an_created := an_created a + 1, an_items := an_items a @ [i]\<rparr>
      else a\<lparr>an_skipped := an_skipped a + 1, an_items := an_items a @ [i]\<rparr>)"

fun start_configs ::
  "start_env \<Rightarrow> int \<Rightarrow> string \<Rightarrow> string \<Rightarrow> string \<times> int \<Rightarrow> backup_config list \<Rightarrow> start_answer \<Rightarrow> protection \<Rightarrow>
    start_answer stepped" where
  "start_configs v org trigger batch source [] a pf = (pf, Inr a)"
| "start_configs v org trigger batch source (c # cs) a pf =
     then_do (start_config v org trigger batch source c pf) (\<lambda>i pf.
       start_configs v org trigger batch source cs (answer_with i a) pf)"

fun start_sources ::
  "start_env \<Rightarrow> int \<Rightarrow> string \<Rightarrow> string \<Rightarrow> ((string \<times> int) \<times> backup_config list) list \<Rightarrow> start_answer \<Rightarrow>
    protection \<Rightarrow> start_answer stepped" where
  "start_sources v org trigger batch [] a pf = (pf, Inr a)"
| "start_sources v org trigger batch ((source, cs) # rest) a pf =
     (if cs = [] then start_sources v org trigger batch rest (answer_with (bare_item source None Item_skipped) a) pf
      else then_do (start_configs v org trigger batch source cs a pf) (\<lambda>a pf.
        start_sources v org trigger batch rest a pf))"

definition start_backup_tasks :: "start_env \<Rightarrow> start_request \<Rightarrow> protection \<Rightarrow> start_answer stepped" where
  "start_backup_tasks v q pf =
     (case load_request v q pf of
        Inl e \<Rightarrow> (pf, Inl e)
      | Inr sources \<Rightarrow>
          let key = or_else (sq_key q) []; batch = strip (if key = [] then se_stamp v else key)
          in start_sources v (sq_org q) (sq_trigger q) batch sources
               \<lparr>an_created = 0, an_skipped = 0, an_items = []\<rparr> pf)"

end
