(* ===== verification/Retention.thy ===== *)
theory Retention
  imports Schedule Backup_Start
begin

text \<open>
  Retention and the policy run, second half of \<^verbatim>\<open>policy_execution.py\<close>: which snapshots a policy
  lets go, the failed snapshots, and the maintenance run that reconciles leases, starts due backups
  and requests deletions. The database sorts nulls first in descending and last in ascending order.
\<close>

datatype policy_error = Bad_number | Out_of_range

section \<open>Buckets\<close>

datatype bucket = By_hour | By_day | By_week | By_month | By_year

definition snapshot_time :: "snapshot \<Rightarrow> int" where
  "snapshot_time s = or_else (first_some (sn_finished_at s) (sn_started_at s)) (sn_created_at s)"

definition bucket_key :: "zones \<Rightarrow> string \<Rightarrow> bucket \<Rightarrow> snapshot \<Rightarrow> string" where
  "bucket_key z zone b s =
     (let w = wall_time z zone (snapshot_time s); c = civil_of w; y = show_int (c_year c) in
      case b of
        By_hour \<Rightarrow> y @ pad2 (c_month c) @ pad2 (c_day c) @ pad2 (c_hour c)
      | By_day \<Rightarrow> y @ pad2 (c_month c) @ pad2 (c_day c)
      | By_week \<Rightarrow> (case iso_week w of (iy, iw) \<Rightarrow> show_int iy @ ''W'' @ pad2 (nat iw))
      | By_month \<Rightarrow> y @ pad2 (c_month c)
      | By_year \<Rightarrow> y)"

text \<open>The first unprotected snapshot of every bucket that is not older than the cutoff.\<close>

fun bucket_keep ::
  "(snapshot \<Rightarrow> string) \<Rightarrow> int \<Rightarrow> int list \<Rightarrow> string list \<Rightarrow> snapshot list \<Rightarrow> int list" where
  "bucket_keep key cutoff protected seen [] = []"
| "bucket_keep key cutoff protected seen (s # ss) =
     (if sn_id s \<in> set protected \<or> snapshot_time s < cutoff \<or> key s \<in> set seen
      then bucket_keep key cutoff protected seen ss
      else sn_id s # bucket_keep key cutoff protected (key s # seen) ss)"

text \<open>A \<^verbatim>\<open>timedelta\<close> holds at most 999999999 days, and no time lies before the year 1.\<close>

definition delta_ok :: "int \<Rightarrow> bool" where
  "delta_ok d \<longleftrightarrow> d < 1000000000 * day_us"

definition first_instant :: int where
  "first_instant = (day_number (1, 1, 1) + 10957) * day_us"

record bucket_rule =
  br_enabled :: string
  br_amount :: string
  br_bucket :: bucket
  br_unit :: int

definition bucket_rules :: "bucket_rule list" where
  "bucket_rules =
     [\<lparr>br_enabled = ''hourly_enabled'', br_amount = ''hourly_hours'', br_bucket = By_hour, br_unit = 3600000000\<rparr>,
      \<lparr>br_enabled = ''daily_enabled'', br_amount = ''daily_days'', br_bucket = By_day, br_unit = day_us\<rparr>,
      \<lparr>br_enabled = ''weekly_enabled'', br_amount = ''weekly_weeks'', br_bucket = By_week, br_unit = 7 * day_us\<rparr>,
      \<lparr>br_enabled = ''monthly_enabled'', br_amount = ''monthly_months'', br_bucket = By_month, br_unit = 31 * day_us\<rparr>,
      \<lparr>br_enabled = ''annual_enabled'', br_amount = ''annual_years'', br_bucket = By_year, br_unit = 366 * day_us\<rparr>]"

definition apply_bucket_retention ::
  "zones \<Rightarrow> string \<Rightarrow> int \<Rightarrow> dict \<Rightarrow> int list \<Rightarrow> snapshot list \<Rightarrow> bucket_rule \<Rightarrow> int list \<Rightarrow>
    (policy_error, int list) result" where
  "apply_bucket_retention z zone now retention protected snapshots rule keep =
     rbind (of_option Bad_number (int_or (dget retention (br_amount rule)) 0)) (\<lambda>amount.
     rbind (of_option Bad_number (int_or (dget retention (br_amount rule)) 1)) (\<lambda>length'.
     let delta = br_unit rule * max 1 length' in
     rbind (guard_that (delta_ok delta) Out_of_range) (\<lambda>_.
     if \<not> truthy (dget_or retention (br_enabled rule) (JBool False)) \<or> amount < 1 then Inr keep
     else rbind (guard_that (first_instant \<le> now - delta) Out_of_range) (\<lambda>_.
       Inr (keep @ bucket_keep (bucket_key z zone (br_bucket rule)) (now - delta) protected [] snapshots)))))"

section \<open>Candidates\<close>

definition config_snapshot :: "backup_config \<Rightarrow> snapshot \<Rightarrow> bool" where
  "config_snapshot c s \<longleftrightarrow> sn_org s = bc_org c \<and> sn_source_type s = bc_source_type c
     \<and> sn_source_ref s = bc_source_ref c \<and> sn_config s = bc_id c \<and> sn_deleted_at s = None"

text \<open>\<^verbatim>\<open>order_by("-finished_at", "-created_at", "-id")\<close>\<close>

definition newest_first :: "snapshot list \<Rightarrow> snapshot list" where
  "newest_first ss = sort_key
     (\<lambda>s. (map_option uminus (sn_finished_at s), - sn_created_at s, - sn_id s)) ss"

definition retained_snapshots :: "backup_config \<Rightarrow> protection \<Rightarrow> snapshot list" where
  "retained_snapshots c pf =
     newest_first (filter (\<lambda>s. config_snapshot c s \<and> usable (sn_status s)) (pr_snapshots pf))"

definition unprotected_recent :: "int \<Rightarrow> int list \<Rightarrow> snapshot list \<Rightarrow> int list" where
  "unprotected_recent n protected ss =
     take (nat (max 1 n)) (filter (\<lambda>i. i \<notin> set protected) (map sn_id ss))"

definition retention_delete_candidates_for_config ::
  "zones \<Rightarrow> int \<Rightarrow> backup_config \<Rightarrow> backup_policy \<Rightarrow> protection \<Rightarrow> (policy_error, snapshot list) result" where
  "retention_delete_candidates_for_config z now config policy pf =
     (let retention = as_dict (bp_retention policy);
          snapshots = retained_snapshots config pf in
      if \<not> truthy (dget_or retention ''enabled'' (JBool False)) then Inr []
      else if length snapshots \<le> 1 then Inr []
      else
        let zone = policy_timezone z (dget (as_dict (bp_schedule policy)) ''timezone'');
            protected = protected_snapshot_ids (Some (map sn_id snapshots)) pf in
        rbind (of_option Bad_number (int_or (dget retention ''recent_points'') 1)) (\<lambda>recent.
        rbind (rfold (apply_bucket_retention z zone now retention protected snapshots) bucket_rules
                 (protected @ unprotected_recent recent protected snapshots)) (\<lambda>keep.
          Inr (filter (\<lambda>s. sn_id s \<notin> set keep) snapshots))))"

text \<open>\<^verbatim>\<open>order_by("finished_at", "created_at", "id")\<close>: unfinished ones last.\<close>

definition oldest_first :: "snapshot list \<Rightarrow> snapshot list" where
  "oldest_first ss = sort_key (\<lambda>s. (sn_finished_at s = None, or_else (sn_finished_at s) 0, sn_created_at s, sn_id s)) ss"

definition failed_snapshot_delete_candidates_for_config ::
  "backup_config \<Rightarrow> backup_policy \<Rightarrow> protection \<Rightarrow> snapshot list" where
  "failed_snapshot_delete_candidates_for_config config policy pf =
     (if \<not> truthy (dget_or (as_dict (bp_retention policy)) ''enabled'' (JBool False)) then []
      else oldest_first (filter (\<lambda>s. config_snapshot config s \<and> sn_status s = Snap_failed
             \<and> \<not> snapshot_is_protected (sn_id s) pf) (pr_snapshots pf)))"

section \<open>Configurations and their policies\<close>

definition policy_configs :: "protection \<Rightarrow> (backup_config \<times> backup_policy) list" where
  "policy_configs pf = List.map_filter
     (\<lambda>c. case bc_policy c of
         None \<Rightarrow> None
       | Some i \<Rightarrow> if i = 0 then None
           else map_option (Pair c) (first_where (\<lambda>p. bp_id p = i \<and> bp_active p) (pr_policies pf)))
     (sort_key (\<lambda>c. (bc_org c, bc_id c)) (pr_configs pf))"

section \<open>Due backups\<close>

definition due_request :: "zones \<Rightarrow> int \<Rightarrow> backup_config \<times> backup_policy \<Rightarrow> start_request option" where
  "due_request z now = (\<lambda>(c, p).
     let schedule = as_dict (bp_schedule p) in
     if \<not> schedule_matches_now z (JObj schedule) now then None
     else Some \<lparr>sq_org = bc_org c,
       sq_sources = [[(''source_type'', JStr (bc_source_type c)), (''source_ref_id'', JInt (bc_source_ref c))]],
       sq_source_ids = [], sq_configs = [bc_id c], sq_trigger = ''schedule'',
       sq_key = Some (schedule_key (bp_id p) (bc_id c) (schedule_fire_key z schedule now))\<rparr>)"

text \<open>An exception of a start ends the run; what was started before it stays.\<close>

fun start_due ::
  "start_env \<Rightarrow> zones \<Rightarrow> int \<Rightarrow> (backup_config \<times> backup_policy) list \<Rightarrow> int \<times> int \<Rightarrow> protection \<Rightarrow>
    (int \<times> int) stepped" where
  "start_due v z now [] counts pf = (pf, Inr counts)"
| "start_due v z now (cp # cps) counts pf =
     (case due_request z now cp of
        None \<Rightarrow> start_due v z now cps (fst counts, snd counts + 1) pf
      | Some q \<Rightarrow> then_do (start_backup_tasks v q pf) (\<lambda>a pf.
          start_due v z now cps (fst counts + an_created a, snd counts + an_skipped a) pf))"

definition schedule_due_backup_tasks ::
  "start_env \<Rightarrow> zones \<Rightarrow> int \<Rightarrow> protection \<Rightarrow> (int \<times> int) stepped" where
  "schedule_due_backup_tasks v z now pf =
     start_due v z (floor_minute now) (policy_configs pf) (0, 0) pf"

section \<open>Applying retention\<close>

text \<open>
  A request that conflicts with a lease is skipped; every other error ends the run. The run is not
  a transaction: what was committed before the error stays, so an error carries the state it left.
  The new tasks take their uuids from a supply.
\<close>

datatype retention_error = Policy_failed policy_error | Delete_failed delete_error

record retention_run =
  rn_created :: nat
  rn_skipped :: nat
  rn_uuids :: "string list"

type_synonym retention_result = "(retention_error \<times> protection, protection \<times> retention_run) result"

definition next_uuid :: "string list \<Rightarrow> string \<times> string list" where
  "next_uuid us = (case us of [] \<Rightarrow> ([], []) | u # us \<Rightarrow> (u, us))"

definition request_retention_delete ::
  "int \<Rightarrow> snapshot \<Rightarrow> protection \<times> retention_run \<Rightarrow> retention_result" where
  "request_retention_delete now s = (\<lambda>(pf, run). case next_uuid (rn_uuids run) of (uuid, rest) \<Rightarrow>
     (case create_and_queue_snapshot_delete_task now uuid (sn_org s) (sn_id s) ''system'' None pf of
        Inl e \<Rightarrow> if e = In_use then Inr (pf, run\<lparr>rn_skipped := Suc (rn_skipped run), rn_uuids := rest\<rparr>)
                 else Inl (Delete_failed e, pf)
      | Inr (pf', t) \<Rightarrow>
          Inr (pf', if t_status t \<in> {Pending, Running}
            then run\<lparr>rn_created := Suc (rn_created run), rn_uuids := rest\<rparr>
            else run\<lparr>rn_skipped := Suc (rn_skipped run), rn_uuids := rest\<rparr>)))"

definition retain_config ::
  "zones \<Rightarrow> int \<Rightarrow> int \<Rightarrow> backup_config \<times> backup_policy \<Rightarrow> protection \<times> retention_run \<Rightarrow>
    retention_result" where
  "retain_config z now limit = (\<lambda>(c, p) st.
     let n = nat (max 1 limit) in
     rbind (rfold (request_retention_delete now)
       (take n (failed_snapshot_delete_candidates_for_config c p (fst st))) st) (\<lambda>st.
     case retention_delete_candidates_for_config z now c p (fst st) of
       Inl e \<Rightarrow> Inl (Policy_failed e, fst st)
     | Inr ss \<Rightarrow> rfold (request_retention_delete now) (take n ss) st))"

definition apply_retention_policies ::
  "zones \<Rightarrow> int \<Rightarrow> int \<Rightarrow> string list \<Rightarrow> protection \<Rightarrow> retention_result" where
  "apply_retention_policies z now limit uuids pf =
     rfold (retain_config z now limit) (policy_configs pf)
       (pf, \<lparr>rn_created = 0, rn_skipped = 0, rn_uuids = uuids\<rparr>)"

record maintenance_report =
  mr_scheduled :: int
  mr_retention :: int
  mr_skipped :: int

datatype maintenance_error =
  Lease_run usage_error
| Start_run start_error
| Retention_run retention_error

definition run_backup_policy_maintenance ::
  "start_env \<Rightarrow> zones \<Rightarrow> int \<Rightarrow> int \<Rightarrow> string list \<Rightarrow> protection \<Rightarrow>
    protection \<times> (maintenance_error, maintenance_report) result" where
  "run_backup_policy_maintenance v z now limit uuids pf =
     (case reconcile_snapshot_usage_leases now (max 100 (limit * 5)) pf of
        (pf, Inl e) \<Rightarrow> (pf, Inl (Lease_run e))
      | (pf, Inr _) \<Rightarrow>
          (case schedule_due_backup_tasks v z now pf of
             (pf, Inl e) \<Rightarrow> (pf, Inl (Start_run e))
           | (pf, Inr (scheduled, skipped)) \<Rightarrow>
               (case apply_retention_policies z now limit uuids pf of
                  Inl (e, pf) \<Rightarrow> (pf, Inl (Retention_run e))
                | Inr (pf, run) \<Rightarrow> (pf, Inr \<lparr>mr_scheduled = scheduled, mr_retention = int (rn_created run),
                    mr_skipped = skipped + int (rn_skipped run)\<rparr>))))"

end
