(* ===== verification/Retention_Claims.thy ===== *)
theory Retention_Claims
  imports Retention Delete_Claims Schedule_Claims
begin

text \<open>
  What a retention run may delete and what it never deletes: the choice of the candidates of one
  configuration, the deletions it requests, and the run over all policies.
\<close>

section \<open>Candidates\<close>

lemma bucket_keep_represents:
  assumes "s \<in> set ss" and "sn_id s \<notin> set protected" and "cutoff \<le> snapshot_time s"
  shows "key s \<in> set seen \<or> (\<exists>r \<in> set ss. key r = key s \<and> sn_id r \<notin> set protected
    \<and> cutoff \<le> snapshot_time r \<and> sn_id r \<in> set (bucket_keep key cutoff protected seen ss))"
  using assms
proof (induction ss arbitrary: seen)
  case Nil
  then show ?case by simp
next
  case (Cons x xs)
  show ?case
  proof (cases "sn_id x \<in> set protected \<or> snapshot_time x < cutoff \<or> key x \<in> set seen")
    case True
    show ?thesis
    proof (cases "s = x")
      case True
      with \<open>sn_id x \<in> set protected \<or> _\<close> Cons.prems show ?thesis by auto
    next
      case False
      with Cons.IH [of seen] Cons.prems True show ?thesis by auto
    qed
  next
    case False
    show ?thesis
    proof (cases "key s = key x")
      case True
      with False show ?thesis by auto
    next
      case neq: False
      then have "s \<in> set xs" using Cons.prems(1) by auto
      with Cons.IH [of "key x # seen"] Cons.prems neq False show ?thesis by auto
    qed
  qed
qed

lemma bucket_keep_ids: "set (bucket_keep key cutoff protected seen ss) \<subseteq> sn_id ` set ss - set protected"
  by (induction ss arbitrary: seen) auto

definition bucket_applies :: "dict \<Rightarrow> bucket_rule \<Rightarrow> int \<Rightarrow> bool" where
  "bucket_applies retention rule n \<longleftrightarrow>
     truthy (dget_or retention (br_enabled rule) (JBool False)) \<and> 1 \<le> n
     \<and> int_or (dget retention (br_amount rule)) 0 = Some n"

lemma int_or_pos:
  assumes "int_or v 0 = Some n" and "1 \<le> n"
  shows "int_or v 1 = Some n"
  using assms by (auto simp: int_or_def split: if_splits)

lemma apply_bucket_grows:
  "apply_bucket_retention z zone now retention protected ss rule keep = Inr keep' \<Longrightarrow> set keep \<subseteq> set keep'"
  by (auto simp: apply_bucket_retention_def Let_def split: if_splits)

lemma apply_bucket_adds:
  assumes "apply_bucket_retention z zone now retention protected ss rule keep = Inr keep'"
    and "bucket_applies retention rule n"
  shows "set (bucket_keep (bucket_key z zone (br_bucket rule)) (now - br_unit rule * n) protected [] ss) \<subseteq> set keep'"
  using assms int_or_pos [of "dget retention (br_amount rule)" n]
  by (auto simp: apply_bucket_retention_def bucket_applies_def Let_def max_def split: if_splits)

lemma bucket_rounds_grow:
  "rfold (apply_bucket_retention z zone now retention protected ss) rules keep = Inr keep' \<Longrightarrow> set keep \<subseteq> set keep'"
  by (rule rfold_invariant [where P = "\<lambda>k. set keep \<subseteq> set k"]) (auto dest!: apply_bucket_grows)

lemma bucket_rounds_add:
  assumes "rfold (apply_bucket_retention z zone now retention protected ss) rules keep = Inr keep'"
    and "rule \<in> set rules" and "bucket_applies retention rule n"
  shows "set (bucket_keep (bucket_key z zone (br_bucket rule)) (now - br_unit rule * n) protected [] ss) \<subseteq> set keep'"
  using assms(1,2)
proof (induction rules arbitrary: keep)
  case Nil
  then show ?case by simp
next
  case (Cons r rs)
  then obtain k where k: "apply_bucket_retention z zone now retention protected ss r keep = Inr k"
    "rfold (apply_bucket_retention z zone now retention protected ss) rs k = Inr keep'" by auto
  show ?case
  proof (cases "rule = r")
    case True
    then show ?thesis using apply_bucket_adds [OF k(1)] assms(3) bucket_rounds_grow [OF k(2)] by blast
  next
    case False
    then show ?thesis using Cons.IH [OF k(2)] Cons.prems(2) by simp
  qed
qed

abbreviation retention_of :: "backup_policy \<Rightarrow> dict" where
  "retention_of p \<equiv> as_dict (bp_retention p)"

abbreviation retention_on :: "backup_policy \<Rightarrow> bool" where
  "retention_on p \<equiv> truthy (dget_or (retention_of p) ''enabled'' (JBool False))"

definition policy_zone :: "zones \<Rightarrow> backup_policy \<Rightarrow> string" where
  "policy_zone z p = policy_timezone z (dget (as_dict (bp_schedule p)) ''timezone'')"

text \<open>The set of ids a non-empty choice of candidates keeps.\<close>

lemma candidatesE:
  assumes "retention_delete_candidates_for_config z now c p pf = Inr ss" and "ss \<noteq> []"
  obtains recent keep where "retention_on p"
    and "int_or (dget (retention_of p) ''recent_points'') 1 = Some recent"
    and "rfold (apply_bucket_retention z (policy_zone z p) now (retention_of p)
           (protected_snapshot_ids (Some (map sn_id (retained_snapshots c pf))) pf) (retained_snapshots c pf))
           bucket_rules
           (protected_snapshot_ids (Some (map sn_id (retained_snapshots c pf))) pf
            @ unprotected_recent recent (protected_snapshot_ids (Some (map sn_id (retained_snapshots c pf))) pf)
                (retained_snapshots c pf)) = Inr keep"
    and "ss = filter (\<lambda>s. sn_id s \<notin> set keep) (retained_snapshots c pf)"
  using assms unfolding retention_delete_candidates_for_config_def policy_zone_def Let_def
  by (auto split: if_splits)

lemma set_retained [simp]:
  "set (retained_snapshots c pf) = {s \<in> set (pr_snapshots pf). config_snapshot c s \<and> usable (sn_status s)}"
  by (auto simp: retained_snapshots_def newest_first_def)

lemma protected_of_retained:
  "s \<in> set (retained_snapshots c pf) \<Longrightarrow>
     sn_id s \<in> set (protected_snapshot_ids (Some (map sn_id (retained_snapshots c pf))) pf)
       \<longleftrightarrow> snapshot_is_protected (sn_id s) pf"
  unfolding protected_snapshot_ids_def snapshot_is_protected_def by (auto simp del: set_retained intro: rev_image_eqI)

lemma candidates_subset:
  assumes "retention_delete_candidates_for_config z now c p pf = Inr ss"
  shows "set ss \<subseteq> set (retained_snapshots c pf)"
proof (cases "ss = []")
  case False
  from candidatesE [OF assms this] show ?thesis by (metis filter_is_subset)
qed simp

lemma candidates_unprotected:
  assumes "retention_delete_candidates_for_config z now c p pf = Inr ss" and "s \<in> set ss"
  shows "\<not> snapshot_is_protected (sn_id s) pf"
proof -
  have "ss \<noteq> []" using assms(2) by auto
  then obtain keep where
    "set (protected_snapshot_ids (Some (map sn_id (retained_snapshots c pf))) pf) \<subseteq> set keep"
    "ss = filter (\<lambda>s. sn_id s \<notin> set keep) (retained_snapshots c pf)"
    using candidatesE [OF assms(1)] bucket_rounds_grow by (metis Un_subset_iff set_append)
  with assms(2) protected_of_retained [of s c pf] show ?thesis by auto
qed


lemma take_first: "1 \<le> n \<Longrightarrow> xs \<noteq> [] \<Longrightarrow> hd xs \<in> set (take n xs)"
  by (cases xs; cases n) auto

lemma recent_keeps_one:
  assumes "s \<in> set ss" and "sn_id s \<notin> set protected"
  shows "\<exists>h \<in> set ss. sn_id h \<in> set (unprotected_recent n protected ss)"
proof -
  let ?xs = "filter (\<lambda>i. i \<notin> set protected) (map sn_id ss)"
  have "?xs \<noteq> []" using assms by (auto simp: filter_empty_conv)
  then have h: "hd ?xs \<in> set (take (nat (max 1 n)) ?xs)" by (intro take_first) simp_all
  then have "hd ?xs \<in> set ?xs" by (rule in_set_takeD)
  then obtain x where "x \<in> set ss" "sn_id x = hd ?xs" by auto
  with h show ?thesis unfolding unprotected_recent_def by (intro bexI [of _ x]) simp_all
qed

text \<open>A configuration that has a usable snapshot keeps one.\<close>

lemma candidates_survivor:
  assumes "retention_delete_candidates_for_config z now c p pf = Inr ss" and "s \<in> set (retained_snapshots c pf)"
  shows "\<exists>h \<in> set (retained_snapshots c pf). sn_id h \<notin> sn_id ` set ss"
proof (cases "ss = []")
  case True
  then show ?thesis using assms(2) by auto
next
  case False
  define protected where
    "protected = protected_snapshot_ids (Some (map sn_id (retained_snapshots c pf))) pf"
  from candidatesE [OF assms(1) False] obtain recent keep where
    ss: "ss = filter (\<lambda>s. sn_id s \<notin> set keep) (retained_snapshots c pf)"
    and "set (protected @ unprotected_recent recent protected (retained_snapshots c pf)) \<subseteq> set keep"
    unfolding protected_def using bucket_rounds_grow by metis
  then have keep: "set protected \<subseteq> set keep"
    "set (unprotected_recent recent protected (retained_snapshots c pf)) \<subseteq> set keep" by auto
  show ?thesis
  proof (cases "sn_id s \<in> set protected")
    case True
    then have "sn_id s \<notin> sn_id ` set ss" using ss keep(1) by auto
    then show ?thesis using assms(2) by blast
  next
    case False
    from recent_keeps_one [OF assms(2) False] obtain h where
      "h \<in> set (retained_snapshots c pf)" "sn_id h \<in> set keep" using keep(2) by blast
    then have "sn_id h \<notin> sn_id ` set ss" using ss by auto
    with \<open>h \<in> set (retained_snapshots c pf)\<close> show ?thesis by blast
  qed
qed

section \<open>What a run changes\<close>

text \<open>
  The run went through admitted operations, kept leases, configurations and policies, and marked
  unprotected snapshots out of a set of ids as being deleted.
\<close>

definition marking :: "int set \<Rightarrow> int set \<Rightarrow> protection \<Rightarrow> snapshot \<Rightarrow> snapshot" where
  "marking J K pf s = (if sn_id s \<in> J \<and> \<not> snapshot_is_protected (sn_id s) pf
     then deletion_columns (sn_id s \<in> K) s else s)"

definition marks :: "int set \<Rightarrow> protection \<Rightarrow> protection \<Rightarrow> bool" where
  "marks I pf pf' \<longleftrightarrow> usage_op\<^sup>*\<^sup>* pf pf' \<and> pr_leases pf' = pr_leases pf
     \<and> pr_configs pf' = pr_configs pf \<and> pr_policies pf' = pr_policies pf
     \<and> (\<exists>J \<subseteq> I. \<exists>K. pr_snapshots pf' = map (marking J K pf) (pr_snapshots pf))"

lemma marking_id [simp]: "sn_id (marking J K pf s) = sn_id s"
  by (simp add: marking_def)

lemma marking_key [simp]: "config_snapshot c (marking J K pf s) = config_snapshot c s"
  by (simp add: marking_def config_snapshot_def)

lemma marking_none: "map (marking {} K pf) ss = ss"
  by (induction ss) (simp_all add: marking_def)

lemma marks_refl [simp]: "marks I pf pf"
  unfolding marks_def using marking_none by (metis empty_subsetI rtranclp.rtrancl_refl)

lemma marks_mono: "marks I pf pf' \<Longrightarrow> I \<subseteq> K \<Longrightarrow> marks K pf pf'"
  unfolding marks_def by blast

lemma marks_trans:
  assumes "marks I a b" and "marks I b c"
  shows "marks I a c"
proof -
  from assms obtain J A K B where J: "J \<subseteq> I" "pr_snapshots b = map (marking J A a) (pr_snapshots a)"
    and K: "K \<subseteq> I" "pr_snapshots c = map (marking K B b) (pr_snapshots b)"
    unfolding marks_def by blast
  have prot: "snapshot_is_protected i b = snapshot_is_protected i a" for i
    using assms(1) by (simp add: marks_def snapshot_is_protected_def)
  have "pr_snapshots c = map (marking (J \<union> K) (J \<inter> A \<union> K \<inter> B) a) (pr_snapshots a)"
    by (auto simp: J(2) K(2) marking_def prot)
  moreover have "J \<union> K \<subseteq> I" using J(1) K(1) by simp
  moreover have "usage_op\<^sup>*\<^sup>* a c" using assms by (auto simp: marks_def)
  moreover have "pr_leases c = pr_leases a" "pr_configs c = pr_configs a" "pr_policies c = pr_policies a"
    using assms by (simp_all add: marks_def)
  ultimately show ?thesis unfolding marks_def by blast
qed

text \<open>The state a step leaves, whether it raised or not.\<close>

definition left_state :: "retention_result \<Rightarrow> protection" where
  "left_state r = (case r of Inl (e, pf) \<Rightarrow> pf | Inr (pf, run) \<Rightarrow> pf)"

lemma left_state_simps [simp]:
  "left_state (Inl (e, pf)) = pf" "left_state (Inr st) = fst st"
  by (simp_all add: left_state_def split: prod.split)

lemma rfold_left_state:
  assumes "P (fst st)" and "\<And>x st. x \<in> set xs \<Longrightarrow> P (fst st) \<Longrightarrow> P (left_state (f x st))"
  shows "P (left_state (rfold f xs st))"
  using assms
proof (induction xs arbitrary: st)
  case Nil
  then show ?case by simp
next
  case (Cons x xs)
  have x: "P (left_state (f x st))" using Cons.prems by simp
  show ?case
  proof (cases "f x st")
    case (Inl e)
    then show ?thesis using x by simp
  next
    case (Inr st')
    then show ?thesis using x Cons.IH [of st'] Cons.prems(2) by simp
  qed
qed

lemma delete_request_marks:
  assumes "create_and_queue_snapshot_delete_task now uuid org i trigger parent pf = Inr (pf', t)"
  shows "marks {i} pf pf'"
proof -
  have op: "usage_op\<^sup>*\<^sup>* pf pf'" using use_delete [OF assms] by blast
  note free = delete_request_unprotected(1) [OF assms]
  from assms show ?thesis
  proof (cases rule: delete_request_cases)
    case (joined a)
    then show ?thesis using op by (auto simp: marks_def marking_none intro!: exI [of _ "{}"])
  next
    case started
    then obtain again db where pf': "pf' = enqueue_delete t i (mark_deleting again i (pf\<lparr>pf_tasks := db\<rparr>))" by blast
    have "pr_snapshots pf' = map (marking {i} (if again then {i} else {}) pf) (pr_snapshots pf)"
      using free by (simp add: pf' enqueue_delete_def mark_deleting_def update_where_def marking_def)
    moreover have "pr_leases pf' = pr_leases pf" "pr_configs pf' = pr_configs pf" "pr_policies pf' = pr_policies pf"
      by (simp_all add: pf' enqueue_delete_def mark_deleting_def)
    ultimately show ?thesis using op unfolding marks_def by blast
  qed
qed

lemma request_marks: "marks {sn_id s} (fst st) (left_state (request_retention_delete now s st))"
proof -
  obtain pf run where st: "st = (pf, run)" by (cases st)
  obtain u us where u: "next_uuid (rn_uuids run) = (u, us)" by (cases "next_uuid (rn_uuids run)")
  show ?thesis
  proof (cases "create_and_queue_snapshot_delete_task now u (sn_org s) (sn_id s) ''system'' None pf")
    case (Inl e)
    then show ?thesis by (simp add: request_retention_delete_def st u)
  next
    case (Inr r)
    then show ?thesis using delete_request_marks [of now u "sn_org s" "sn_id s"]
      by (cases r) (simp add: request_retention_delete_def st u)
  qed
qed

lemma requests_mark:
  assumes "set ss \<subseteq> S"
  shows "marks (sn_id ` S) (fst st) (left_state (rfold (request_retention_delete now) ss st))"
proof (rule rfold_left_state [where P = "marks (sn_id ` S) (fst st)"])
  fix x and st' :: "protection \<times> retention_run"
  assume "x \<in> set ss" and m: "marks (sn_id ` S) (fst st) (fst st')"
  then have "marks (sn_id ` S) (fst st') (left_state (request_retention_delete now x st'))"
    using assms by (intro marks_mono [OF request_marks]) auto
  with m show "marks (sn_id ` S) (fst st) (left_state (request_retention_delete now x st'))"
    by (rule marks_trans)
qed simp


section \<open>The run over the policies\<close>

text \<open>What the snapshots of a configuration need for being let go.\<close>

definition lets_go :: "protection \<Rightarrow> backup_config \<times> backup_policy \<Rightarrow> snapshot \<Rightarrow> bool" where
  "lets_go pf = (\<lambda>(c, p) s. retention_on p \<and> config_snapshot c s
     \<and> (usable (sn_status s) \<or> sn_status s = Snap_failed))"

lemma candidates_let_go:
  assumes "retention_delete_candidates_for_config z now c p pf = Inr ss" and "s \<in> set ss"
  shows "s \<in> set (pr_snapshots pf) \<and> lets_go pf (c, p) s \<and> usable (sn_status s)"
proof -
  have "retention_on p" by (rule candidatesE [OF assms(1)]) (use assms(2) in auto)
  then show ?thesis using candidates_subset [OF assms(1)] assms(2) by (auto simp: lets_go_def)
qed

lemma failed_let_go:
  "s \<in> set (failed_snapshot_delete_candidates_for_config c p pf) \<Longrightarrow>
     s \<in> set (pr_snapshots pf) \<and> lets_go pf (c, p) s \<and> sn_status s = Snap_failed"
  by (auto simp: failed_snapshot_delete_candidates_for_config_def oldest_first_def lets_go_def split: if_splits)

text \<open>The two rounds of one configuration.\<close>

lemma retain_config_rounds:
  obtains (both) st1 :: "protection \<times> retention_run" and ss where
    "marks (sn_id ` set (failed_snapshot_delete_candidates_for_config c p (fst st))) (fst st) (fst st1)"
    "retention_delete_candidates_for_config z now c p (fst st1) = Inr ss"
    "marks (sn_id ` set ss) (fst st1) (left_state (retain_config z now limit (c, p) st))"
  | (first) "marks (sn_id ` set (failed_snapshot_delete_candidates_for_config c p (fst st))) (fst st)
      (left_state (retain_config z now limit (c, p) st))"
proof -
  let ?n = "nat (max 1 limit)"
  let ?failed = "failed_snapshot_delete_candidates_for_config c p (fst st)"
  let ?r = "rfold (request_retention_delete now) (take ?n ?failed) st"
  have m: "marks (sn_id ` set ?failed) (fst st) (left_state ?r)"
    by (rule requests_mark) (auto dest: in_set_takeD)
  show thesis
  proof (cases ?r)
    case (Inl e)
    with m show ?thesis by (intro first) (simp add: retain_config_def Let_def)
  next
    case r: (Inr st1)
    show ?thesis
    proof (cases "retention_delete_candidates_for_config z now c p (fst st1)")
      case (Inl e)
      with m r show ?thesis by (intro first) (simp add: retain_config_def Let_def)
    next
      case (Inr ss)
      have "marks (sn_id ` set ss) (fst st1) (left_state (rfold (request_retention_delete now) (take ?n ss) st1))"
        by (rule requests_mark) (auto dest: in_set_takeD)
      with m r Inr show ?thesis by (intro both [of st1 ss]) (simp_all add: retain_config_def Let_def)
    qed
  qed
qed

text \<open>A row that still has another status than deleting is the row the run began with.\<close>

lemma marks_row:
  assumes "marks I pf pf'" and "s \<in> set (pr_snapshots pf')" and "sn_status s \<noteq> Snap_deleting"
  shows "s \<in> set (pr_snapshots pf)"
  using assms by (auto simp: marks_def marking_def split: if_splits)

definition let_go_ids :: "protection \<Rightarrow> (backup_config \<times> backup_policy) list \<Rightarrow> int set" where
  "let_go_ids pf cps = sn_id ` {s \<in> set (pr_snapshots pf). \<exists>cp \<in> set cps. lets_go pf cp s}"

lemma retain_config_marks:
  assumes "cp \<in> set cps" and "marks (let_go_ids pf cps) pf (fst st)"
  shows "marks (let_go_ids pf cps) pf (left_state (retain_config z now limit cp st))"
proof -
  obtain c p where cp: "cp = (c, p)" by (cases cp)
  have ids: "sn_id ` set ss \<subseteq> let_go_ids pf cps"
    if "marks (let_go_ids pf cps) pf pf1"
      and "\<And>s. s \<in> set ss \<Longrightarrow> s \<in> set (pr_snapshots pf1) \<and> lets_go pf1 (c, p) s" for ss pf1
    using marks_row [OF that(1)] that(2) assms(1) unfolding let_go_ids_def cp
    by (fastforce simp: lets_go_def usable_def)
  have failed: "sn_id ` set (failed_snapshot_delete_candidates_for_config c p (fst st)) \<subseteq> let_go_ids pf cps"
    by (rule ids [OF assms(2)]) (use failed_let_go in blast)
  show ?thesis
  proof (cases rule: retain_config_rounds [where c = c and p = p and st = st and z = z and now = now and limit = limit])
    case (both st1 ss)
    have m1: "marks (let_go_ids pf cps) pf (fst st1)"
      using marks_trans [OF assms(2) marks_mono [OF both(1) failed]] .
    have "sn_id ` set ss \<subseteq> let_go_ids pf cps"
      by (rule ids [OF m1]) (use candidates_let_go [OF both(2)] in blast)
    then show ?thesis using marks_trans [OF m1 marks_mono [OF both(3)]] by (simp add: cp)
  next
    case first
    then show ?thesis using marks_trans [OF assms(2) marks_mono [OF first failed]] by (simp add: cp)
  qed
qed

lemma apply_retention_marks:
  "marks (let_go_ids pf (policy_configs pf)) pf (left_state (apply_retention_policies z now limit uuids pf))"
  unfolding apply_retention_policies_def
  by (rule rfold_left_state) (simp_all add: retain_config_marks)

text \<open>Every configuration that had a usable snapshot still has one.\<close>

definition has_point :: "backup_config \<Rightarrow> protection \<Rightarrow> bool" where
  "has_point c pf \<longleftrightarrow> (\<exists>s \<in> set (pr_snapshots pf). config_snapshot c s \<and> usable (sn_status s))"

lemma marks_ids:
  "marks I pf pf' \<Longrightarrow> map sn_id (pr_snapshots pf') = map sn_id (pr_snapshots pf)"
  by (auto simp: marks_def comp_def)

lemma marks_outside:
  assumes "marks I pf pf'" and "s \<in> set (pr_snapshots pf)" and "sn_id s \<notin> I"
  shows "s \<in> set (pr_snapshots pf')"
proof -
  from assms(1) obtain J K where J: "J \<subseteq> I" "pr_snapshots pf' = map (marking J K pf) (pr_snapshots pf)"
    by (auto simp: marks_def)
  have "marking J K pf s = s" using assms(3) J(1) by (auto simp: marking_def)
  with assms(2) J(2) show ?thesis by (metis image_eqI list.set_map)
qed

lemma same_config: "config_snapshot c s \<Longrightarrow> config_snapshot d s \<Longrightarrow> config_snapshot c h = config_snapshot d h"
  by (auto simp: config_snapshot_def)

lemma same_row:
  assumes "distinct (map sn_id (pr_snapshots pf))" and "s \<in> set (pr_snapshots pf)"
    and "set ss \<subseteq> set (pr_snapshots pf)" and "sn_id s \<in> sn_id ` set ss"
  shows "s \<in> set ss"
proof -
  from assms(4) obtain x where x: "x \<in> set ss" "sn_id x = sn_id s" by auto
  with assms(1-3) have "x = s" by (auto simp: distinct_map inj_on_def)
  with x(1) show ?thesis by simp
qed

lemma round_keeps_point:
  assumes "distinct (map sn_id (pr_snapshots pf))" and "has_point d pf" and "marks (sn_id ` set ss) pf pf'"
    and "set ss \<subseteq> set (pr_snapshots pf)"
    and "\<And>s. s \<in> set ss \<Longrightarrow> config_snapshot d s \<Longrightarrow> usable (sn_status s) \<Longrightarrow>
      \<exists>h \<in> set (pr_snapshots pf). config_snapshot d h \<and> usable (sn_status h) \<and> sn_id h \<notin> sn_id ` set ss"
  shows "has_point d pf'"
proof -
  from assms(2) obtain s where s: "s \<in> set (pr_snapshots pf)" "config_snapshot d s" "usable (sn_status s)"
    by (auto simp: has_point_def)
  have "\<exists>h \<in> set (pr_snapshots pf). config_snapshot d h \<and> usable (sn_status h) \<and> sn_id h \<notin> sn_id ` set ss"
  proof (cases "sn_id s \<in> sn_id ` set ss")
    case True
    from same_row [OF assms(1) s(1) assms(4) True] show ?thesis using assms(5) s(2,3) by blast
  next
    case False
    with s show ?thesis by blast
  qed
  then obtain h where h: "h \<in> set (pr_snapshots pf)" "config_snapshot d h" "usable (sn_status h)"
    "sn_id h \<notin> sn_id ` set ss" by blast
  then show ?thesis using marks_outside [OF assms(3) h(1) h(4)] by (auto simp: has_point_def)
qed

lemma retain_config_keeps_point:
  assumes "distinct (map sn_id (pr_snapshots (fst st)))" and "has_point d (fst st)"
  shows "has_point d (left_state (retain_config z now limit (c, p) st))"
proof -
  let ?failed = "failed_snapshot_delete_candidates_for_config c p (fst st)"
  have kept: "has_point d pf'" if "marks (sn_id ` set ?failed) (fst st) pf'" for pf'
    by (rule round_keeps_point [OF assms that]) (use failed_let_go in \<open>fastforce simp: usable_def\<close>)+
  show ?thesis
  proof (cases rule: retain_config_rounds [where c = c and p = p and st = st and z = z and now = now and limit = limit])
    case (both st1 ss)
    have d1: "distinct (map sn_id (pr_snapshots (fst st1)))" using marks_ids [OF both(1)] assms(1) by simp
    show ?thesis
    proof (rule round_keeps_point [OF d1 kept [OF both(1)] both(3)])
      show "set ss \<subseteq> set (pr_snapshots (fst st1))" using candidates_subset [OF both(2)] by auto
      fix s assume s: "s \<in> set ss" "config_snapshot d s" "usable (sn_status s)"
      then have r: "s \<in> set (retained_snapshots c (fst st1))" using candidates_subset [OF both(2)] by blast
      then have "config_snapshot c s" by simp
      then have "config_snapshot c h = config_snapshot d h" for h using s(2) by (rule same_config)
      with candidates_survivor [OF both(2) r] show "\<exists>h \<in> set (pr_snapshots (fst st1)).
          config_snapshot d h \<and> usable (sn_status h) \<and> sn_id h \<notin> sn_id ` set ss" by auto
    qed
  next
    case first
    then show ?thesis by (rule kept)
  qed
qed

lemma apply_retention_keeps_point:
  assumes "distinct (map sn_id (pr_snapshots pf))" and "has_point d pf"
  shows "has_point d (left_state (apply_retention_policies z now limit uuids pf))"
proof -
  let ?P = "\<lambda>x. distinct (map sn_id (pr_snapshots x)) \<and> has_point d x"
  have step: "?P (left_state (retain_config z now limit cp st))" if "?P (fst st)" for cp st
  proof (cases cp)
    case (Pair c p)
    have "marks (let_go_ids (fst st) [cp]) (fst st) (left_state (retain_config z now limit cp st))"
      by (rule retain_config_marks) simp_all
    from marks_ids [OF this] that show ?thesis by (simp add: Pair retain_config_keeps_point)
  qed
  have "?P (left_state (apply_retention_policies z now limit uuids pf))"
    unfolding apply_retention_policies_def by (rule rfold_left_state) (use assms step in simp_all)
  then show ?thesis by simp
qed


section \<open>Properties\<close>


definition retention_policy :: backup_policy where
  "retention_policy = \<lparr>bp_id = 4, bp_active = True, bp_schedule = JObj [],
     bp_retention = JObj [(''enabled'', JBool True), (''recent_points'', JInt 1), (''daily_enabled'', JBool True),
       (''daily_days'', JInt 7)]\<rparr>"

definition retention_config :: backup_config where
  "retention_config = \<lparr>bc_id = 3, bc_org = 7, bc_source_type = ''host'', bc_source_ref = 5, bc_policy = Some 4,
     bc_status = Conf_active, bc_repository = 2, bc_error_code = []\<rparr>"

text \<open>Three snapshots of one day, the oldest in use.\<close>

definition taken_at :: "int \<Rightarrow> int \<Rightarrow> snapshot" where
  "taken_at i t = (example_snapshot i Snap_available (seconds t))\<lparr>sn_finished_at := Some (seconds t)\<rparr>"

definition retention_protection :: protection where
  "retention_protection = example_protection\<lparr>pr_configs := [retention_config], pr_policies := [retention_policy],
     pr_snapshots := [taken_at 11 1704067200, taken_at 12 1704070800, taken_at 13 1704074400],
     pr_leases := [lease_row 1 11 ''chat'' ''8'']\<rparr>"


text \<open>
  C32. A retention run, whether it completes or ends with an error in the middle, is a sequence of
  the admitted operations: it keeps every lease, configuration and policy, and changes no snapshot
  but for marking some as being deleted. Each of those was not in use and belonged, available,
  partial or failed, to a configuration whose active policy has retention enabled.
\<close>

theorem retention_run_refines:
  assumes "pf' = left_state (apply_retention_policies z now limit uuids pf)"
  shows "usage_op\<^sup>*\<^sup>* pf pf' \<and> pr_leases pf' = pr_leases pf
    \<and> pr_configs pf' = pr_configs pf \<and> pr_policies pf' = pr_policies pf
    \<and> (\<exists>J K. pr_snapshots pf' = map (\<lambda>s. if sn_id s \<in> J then deletion_columns (sn_id s \<in> K) s else s) (pr_snapshots pf)
         \<and> (\<forall>i \<in> J. \<not> snapshot_is_protected i pf
              \<and> (\<exists>s \<in> set (pr_snapshots pf). sn_id s = i \<and> (\<exists>(c, p) \<in> set (policy_configs pf).
                   retention_on p \<and> config_snapshot c s \<and> (usable (sn_status s) \<or> sn_status s = Snap_failed)))))"
proof -
  have m: "marks (let_go_ids pf (policy_configs pf)) pf pf'" unfolding assms by (rule apply_retention_marks)
  then obtain J K where J: "J \<subseteq> let_go_ids pf (policy_configs pf)"
    "pr_snapshots pf' = map (marking J K pf) (pr_snapshots pf)" by (auto simp: marks_def)
  let ?J = "{i \<in> J. \<not> snapshot_is_protected i pf}"
  have "pr_snapshots pf' = map (\<lambda>s. if sn_id s \<in> ?J then deletion_columns (sn_id s \<in> K) s else s) (pr_snapshots pf)"
    by (simp add: J(2) marking_def)
  moreover have "\<forall>i \<in> ?J. \<not> snapshot_is_protected i pf
      \<and> (\<exists>s \<in> set (pr_snapshots pf). sn_id s = i \<and> (\<exists>(c, p) \<in> set (policy_configs pf).
           retention_on p \<and> config_snapshot c s \<and> (usable (sn_status s) \<or> sn_status s = Snap_failed)))"
    using J(1) by (fastforce simp: let_go_ids_def lets_go_def)
  ultimately show ?thesis using m unfolding marks_def by blast
qed

theorem retention_run_refines_witness:
  "map sn_status (pr_snapshots (left_state
     (apply_retention_policies example_zones (seconds 1704078000) 100 [''d1''] retention_protection)))
     = [Snap_available, Snap_deleting, Snap_available]
   \<and> usage_op\<^sup>*\<^sup>* retention_protection (left_state
     (apply_retention_policies example_zones (seconds 1704078000) 100 [''d1''] retention_protection))"
proof
  show "map sn_status (pr_snapshots (left_state
     (apply_retention_policies example_zones (seconds 1704078000) 100 [''d1''] retention_protection)))
     = [Snap_available, Snap_deleting, Snap_available]" by code_simp
  show "usage_op\<^sup>*\<^sup>* retention_protection (left_state
     (apply_retention_policies example_zones (seconds 1704078000) 100 [''d1''] retention_protection))"
    by (rule retention_run_refines [OF refl, THEN conjunct1])
qed

text \<open>
  C33. Retention never takes the last recovery point: every configuration that had an available or
  partial snapshot before the run has one after it, whatever the policies say, even when the run
  ends with an error.
\<close>

theorem retention_leaves_a_point:
  assumes "usage_ok pf" and "\<exists>s \<in> set (pr_snapshots pf). config_snapshot c s \<and> usable (sn_status s)"
  shows "\<exists>s \<in> set (pr_snapshots (left_state (apply_retention_policies z now limit uuids pf))).
    config_snapshot c s \<and> usable (sn_status s)"
  using apply_retention_keeps_point [of pf c z now limit uuids] assms by (simp add: usage_ok_def has_point_def)

theorem retention_leaves_a_point_witness:
  "\<exists>s \<in> set (pr_snapshots (left_state
     (apply_retention_policies example_zones (seconds 1704078000) 100 [''d1''] retention_protection))).
    config_snapshot retention_config s \<and> usable (sn_status s)"
proof (rule retention_leaves_a_point)
  show "usage_ok retention_protection"
    by (simp add: usage_ok_def leases_ok_def retention_protection_def taken_at_def example_snapshot_def
        lease_row_def lease_key_def usable_def) (simp add: example_protection_def)
  show "\<exists>s \<in> set (pr_snapshots retention_protection). config_snapshot retention_config s \<and> usable (sn_status s)"
    by code_simp
qed

end
