(* ===== verification/Start_Claims.thy ===== *)
theory Start_Claims
  imports Retention Delete_Claims Schedule_Claims
begin

text \<open>
  The snapshot table under every interleaving of the services that write it: keys stay unique, a
  configuration has at most one snapshot being created, and the summary of every row agrees with its
  status. Starts of backups are runs of these steps, so an accepted request is never started twice.
\<close>

section \<open>Rows that agree with their status\<close>

definition summary_ok :: "snapshot \<Rightarrow> bool" where
  "summary_ok s \<longleftrightarrow> 0 \<le> sn_succeeded s \<and> 0 \<le> sn_failed s \<and> sn_succeeded s + sn_failed s \<le> sn_expected s
     \<and> 0 \<le> sn_size s \<and> 0 \<le> sn_files s \<and> 0 \<le> sn_dirs s
     \<and> (case sn_status s of
          Snap_creating \<Rightarrow> sn_finished_at s = None
        | Snap_available \<Rightarrow> sn_finished_at s \<noteq> None \<and> 0 < sn_expected s \<and> sn_succeeded s = sn_expected s
            \<and> sn_error_code s = [] \<and> sn_error_message s = []
        | Snap_partial \<Rightarrow> sn_finished_at s \<noteq> None \<and> 0 < sn_succeeded s \<and> sn_succeeded s < sn_expected s
        | Snap_failed \<Rightarrow> sn_finished_at s \<noteq> None
        | Snap_deleted \<Rightarrow> True | _ \<Rightarrow> True)"

definition directory_ok :: "snapshot_directory \<Rightarrow> bool" where
  "directory_ok d \<longleftrightarrow> 0 \<le> sd_size d \<and> 0 \<le> sd_files d \<and> 0 \<le> sd_dirs d"

definition directory_key :: "snapshot_directory \<Rightarrow> int \<times> int" where
  "directory_key d = (sd_snapshot d, sd_config_dir d)"

definition directories_ok :: "snapshot_directory list \<Rightarrow> bool" where
  "directories_ok ds \<longleftrightarrow> distinct (map directory_key ds) \<and> list_all directory_ok ds"

definition snapshots_ok :: "int \<Rightarrow> snapshot list \<Rightarrow> bool" where
  "snapshots_ok next ss \<longleftrightarrow> distinct (map sn_id ss) \<and> list_all summary_ok ss
     \<and> (\<forall>s \<in> set ss. sn_id s < next)
     \<and> (\<forall>a \<in> set ss. \<forall>b \<in> set ss. snapshot_conflict a b \<longrightarrow> sn_id a = sn_id b)"

definition snapshots_typed :: "protection \<Rightarrow> bool" where
  "snapshots_typed pf \<longleftrightarrow> snapshots_ok (pr_next_snapshot pf) (pr_snapshots pf) \<and> directories_ok (pr_directories pf)"

lemma conflict_sym: "snapshot_conflict a b \<longleftrightarrow> snapshot_conflict b a"
  by (auto simp: snapshot_conflict_def)

text \<open>What no service changes of a row.\<close>

definition row_identity :: "snapshot \<Rightarrow> int \<times> int \<times> string \<times> string \<times> int \<times> nat \<times> string" where
  "row_identity s = (sn_id s, sn_org s, sn_uid s, sn_key s, sn_config s, sn_task s, sn_task_uuid s)"

lemma row_identity_iff:
  "row_identity s = row_identity r \<longleftrightarrow> sn_id s = sn_id r \<and> sn_org s = sn_org r \<and> sn_uid s = sn_uid r
     \<and> sn_key s = sn_key r \<and> sn_config s = sn_config r \<and> sn_task s = sn_task r \<and> sn_task_uuid s = sn_task_uuid r"
  by (simp add: row_identity_def)

lemma conflict_update:
  assumes "row_identity (f r) = row_identity r"
  shows "snapshot_conflict (f r) x \<Longrightarrow> sn_status (f r) \<noteq> Snap_creating \<Longrightarrow> snapshot_conflict r x"
  using assms by (auto simp: snapshot_conflict_def row_identity_iff)

lemma snapshots_ok_update:
  assumes ok: "snapshots_ok next ss"
    and keep: "\<And>r. row_identity (f r) = row_identity r"
    and sum: "\<And>r. r \<in> set ss \<Longrightarrow> sn_id r = i \<Longrightarrow> summary_ok (f r)"
    and free: "\<And>r x. r \<in> set ss \<Longrightarrow> x \<in> set ss \<Longrightarrow> sn_id r = i \<Longrightarrow> sn_id x \<noteq> i \<Longrightarrow> \<not> snapshot_conflict (f r) x"
  shows "snapshots_ok next (update_where (\<lambda>r. sn_id r = i) f ss)"
proof -
  let ?ss = "update_where (\<lambda>r. sn_id r = i) f ss"
  have id: "sn_id (f r) = sn_id r" for r using keep [of r] by (simp add: row_identity_iff)
  have "distinct (map sn_id ?ss)" using ok map_update_where [of "\<lambda>r. sn_id r = i" sn_id f ss, OF id]
    by (simp add: snapshots_ok_def)
  moreover have "list_all summary_ok ?ss" using ok sum by (auto simp: snapshots_ok_def list_all_iff set_update_where)
  moreover have "\<forall>s \<in> set ?ss. sn_id s < next" using ok id by (auto simp: snapshots_ok_def set_update_where)
  moreover have "sn_id a = sn_id b" if ab: "a \<in> set ?ss" "b \<in> set ?ss" "snapshot_conflict a b" for a b
  proof (rule ccontr)
    assume ne: "sn_id a \<noteq> sn_id b"
    obtain x y where x: "x \<in> set ss" "a = (if sn_id x = i then f x else x)"
      and y: "y \<in> set ss" "b = (if sn_id y = i then f y else y)"
      using ab(1,2) by (auto simp: set_update_where)
    show False
    proof (cases "sn_id x = i")
      case True
      then have "sn_id y \<noteq> i" using ne x y id by auto
      then show False using free [OF x(1) y(1) True] ab(3) x(2) y(2) True by simp
    next
      case no: False
      show False
      proof (cases "sn_id y = i")
        case True
        then show False using free [OF y(1) x(1) True no] ab(3) x(2) y(2) no conflict_sym [of x b] by simp
      next
        case False
        then show False using ok ab(3) x y no ne by (auto simp: snapshots_ok_def)
      qed
    qed
  qed
  ultimately show ?thesis by (simp add: snapshots_ok_def)
qed

lemma save_snapshotE:
  assumes "save_snapshot i f pf = Inr pf'"
  obtains r where "r \<in> set (pr_snapshots pf)" "sn_id r = i" "first_where (\<lambda>r. sn_id r = i) (pr_snapshots pf) = Some r"
    "pf' = pf\<lparr>pr_snapshots := update_where (\<lambda>r. sn_id r = i) f (pr_snapshots pf)\<rparr>"
    "\<forall>x \<in> set (pr_snapshots pf). sn_id x = i \<or> \<not> snapshot_conflict (f r) x"
  using assms that first_where_Some by (fastforce simp: save_snapshot_def)

lemma save_typed:
  assumes "save_snapshot i f pf = Inr pf'" and "snapshots_typed pf"
    and keep: "\<And>r. row_identity (f r) = row_identity r"
    and sum: "\<And>r. r \<in> set (pr_snapshots pf) \<Longrightarrow> sn_id r = i \<Longrightarrow> summary_ok (f r)"
  shows "snapshots_typed pf'"
  using assms(1)
proof (rule save_snapshotE)
  fix r
  assume r: "r \<in> set (pr_snapshots pf)" "sn_id r = i"
    and pf': "pf' = pf\<lparr>pr_snapshots := update_where (\<lambda>r. sn_id r = i) f (pr_snapshots pf)\<rparr>"
    and free: "\<forall>x \<in> set (pr_snapshots pf). sn_id x = i \<or> \<not> snapshot_conflict (f r) x"
  have one: "s = r" if "s \<in> set (pr_snapshots pf)" "sn_id s = i" for s
    using assms(2) r that by (auto simp: snapshots_typed_def snapshots_ok_def distinct_map inj_on_def)
  have "snapshots_ok (pr_next_snapshot pf) (update_where (\<lambda>r. sn_id r = i) f (pr_snapshots pf))"
  proof (rule snapshots_ok_update)
    show "snapshots_ok (pr_next_snapshot pf) (pr_snapshots pf)" using assms(2) by (simp add: snapshots_typed_def)
    show "\<not> snapshot_conflict (f s) x" if "s \<in> set (pr_snapshots pf)" "x \<in> set (pr_snapshots pf)" "sn_id s = i"
      "sn_id x \<noteq> i" for s x
      using one [OF that(1,3)] free that(2,4) by blast
  qed (use keep sum in auto)
  then show ?thesis using assms(2) pf' by (simp add: snapshots_typed_def)
qed
definition identities :: "protection \<Rightarrow> (int \<times> int \<times> string \<times> string \<times> int \<times> nat \<times> string) list" where
  "identities pf = map row_identity (pr_snapshots pf)"

lemma save_identities:
  assumes "save_snapshot i f pf = Inr pf'" and "\<And>r. row_identity (f r) = row_identity r"
  shows "identities pf' = identities pf"
  using assms(1) by (rule save_snapshotE) (simp add: identities_def map_update_where assms(2))

section \<open>The summary\<close>

lemma count_disjoint:
  "(\<And>x. \<not> (p x \<and> q x)) \<Longrightarrow> length (filter p xs) + length (filter q xs) \<le> length xs"
  by (induction xs) auto

lemma sum_list_nonneg: "(\<And>x. x \<in> set xs \<Longrightarrow> 0 \<le> f x) \<Longrightarrow> (0::int) \<le> sum_list (map f xs)"
  by (induction xs) auto

definition counts_ok :: "snapshot \<Rightarrow> bool" where
  "counts_ok s \<longleftrightarrow> 0 \<le> sn_succeeded s \<and> 0 \<le> sn_failed s \<and> sn_succeeded s + sn_failed s \<le> sn_expected s
     \<and> 0 \<le> sn_size s \<and> 0 \<le> sn_files s \<and> 0 \<le> sn_dirs s"

lemma summary_ok_counts: "summary_ok s \<Longrightarrow> counts_ok s"
  by (simp add: summary_ok_def counts_ok_def)

lemma summary_counts_counts:
  assumes "list_all directory_ok rows"
  shows "counts_ok (summary_counts rows s)"
proof -
  have "length (available_rows rows) + count_where (\<lambda>d. sd_state d \<in> {Dir_failed, Dir_cancelled}) rows \<le> length rows"
    unfolding available_rows_def count_where_def by (rule count_disjoint) auto
  moreover have "d \<in> set (available_rows rows) \<Longrightarrow> directory_ok d" for d
    using assms by (auto simp: available_rows_def list_all_iff)
  ultimately show ?thesis
    by (auto simp: counts_ok_def summary_counts_def directory_ok_def intro!: sum_list_nonneg)
qed

lemma summary_counts_fields [simp]:
  "sn_status (summary_counts rows s) = sn_status s" "sn_finished_at (summary_counts rows s) = sn_finished_at s"
  "sn_error_code (summary_counts rows s) = sn_error_code s"
  "sn_error_message (summary_counts rows s) = sn_error_message s"
  "row_identity (summary_counts rows s) = row_identity s"
  by (simp_all add: summary_counts_def row_identity_def)

lemma summary_status_ok:
  assumes "counts_ok s" and "sn_status s = Snap_failed \<longrightarrow> sn_finished_at s \<noteq> None"
  shows "summary_ok (summary_status now fin completed s)"
  using assms by (auto simp: summary_status_def Let_def summary_ok_def counts_ok_def split: snapshot_status.splits)

lemma summary_status_identity [simp]: "row_identity (summary_status now fin completed s) = row_identity s"
  by (simp add: summary_status_def Let_def row_identity_def)

lemma summary_columns_ok [simp]: "summary_ok (summary_columns s r) = summary_ok s"
  by (cases "sn_status s") (simp_all add: summary_ok_def summary_columns_def)

lemma summary_columns_identity [simp]: "row_identity (summary_columns s r) = row_identity r"
  by (simp add: row_identity_def summary_columns_def)

lemma failure_columns_ok: "counts_ok r \<Longrightarrow> summary_ok (failure_columns code message fin r)"
  by (simp add: summary_ok_def failure_columns_def counts_ok_def)

lemma failure_columns_identity [simp]: "row_identity (failure_columns code message fin r) = row_identity r"
  by (simp add: row_identity_def failure_columns_def)

lemma failure_columns_fields [simp]:
  "sn_id (failure_columns code message fin r) = sn_id r" "sn_status (failure_columns code message fin r) = Snap_failed"
  "sn_finished_at (failure_columns code message fin r) = Some fin"
  by (simp_all add: failure_columns_def)

section \<open>The services\<close>

text \<open>A service answers a copy of the same row that agrees with its status again.\<close>

definition keeps_snapshots :: "snapshot \<Rightarrow> protection \<Rightarrow> protection \<times> snapshot \<Rightarrow> bool" where
  "keeps_snapshots s pf x \<longleftrightarrow> snapshots_typed (fst x) \<and> summary_ok (snd x) \<and> row_identity (snd x) = row_identity s
     \<and> identities (fst x) = identities pf"

lemma directory_rows_ok: "snapshots_typed pf \<Longrightarrow> list_all directory_ok (directory_rows i pf)"
  by (auto simp: snapshots_typed_def directories_ok_def directory_rows_def list_all_iff)

lemma typed_rows: "snapshots_typed pf \<Longrightarrow> r \<in> set (pr_snapshots pf) \<Longrightarrow> summary_ok r"
  by (auto simp: snapshots_typed_def snapshots_ok_def list_all_iff)

lemma refresh_keeps:
  assumes "refresh_source_snapshot_summary now fin s pf = Inr x" and "snapshots_typed pf" and "summary_ok s"
  shows "keeps_snapshots s pf x"
proof -
  define s' where "s' = summary_status now fin (int (count_where (\<lambda>d. terminal_directory (sd_state d))
    (directory_rows (sn_id s) pf))) (summary_counts (directory_rows (sn_id s) pf) s)"
  have x: "save_snapshot (sn_id s) (summary_columns s') pf = Inr (fst x)" "snd x = s'"
    using assms(1) by (auto simp: refresh_source_snapshot_summary_def Let_def s'_def)
  have "counts_ok (summary_counts (directory_rows (sn_id s) pf) s)"
    using summary_counts_counts directory_rows_ok assms(2) by blast
  then have ok: "summary_ok s'"
    unfolding s'_def using assms(3) by (intro summary_status_ok) (auto simp: summary_ok_def)
  have "snapshots_typed (fst x)" using x(1) assms(2) by (rule save_typed) (simp_all add: ok)
  then show ?thesis using ok x(2) save_identities [OF x(1)] by (simp add: keeps_snapshots_def s'_def)
qed

lemma mark_failed_keeps:
  assumes "mark_source_snapshot_failed now code message fin s pf = Inr x" and "snapshots_typed pf" and "summary_ok s"
  shows "keeps_snapshots s pf x"
proof -
  let ?f = "failure_columns code message (or_else fin now)"
  obtain pf1 where s: "save_snapshot (sn_id s) ?f pf = Inr pf1"
    and r: "refresh_source_snapshot_summary now (Some (or_else fin now)) (?f s) pf1 = Inr x"
    using assms(1) by (auto simp: mark_source_snapshot_failed_def Let_def)
  have "snapshots_typed pf1"
    by (rule save_typed [OF s assms(2)]) (auto intro: failure_columns_ok summary_ok_counts typed_rows [OF assms(2)])
  from refresh_keeps [OF r this] assms(3) show ?thesis
    using save_identities [OF s] by (simp add: keeps_snapshots_def failure_columns_ok summary_ok_counts)
qed

lemma started_keeps:
  assumes "set_source_snapshot_started now t s pf = Inr x" and "snapshots_typed pf" and "summary_ok s"
  shows "keeps_snapshots s pf x"
proof (cases "sn_started_at s")
  case None
  let ?f = "\<lambda>r. r\<lparr>sn_started_at := Some (or_else t now)\<rparr>"
  have x: "save_snapshot (sn_id s) ?f pf = Inr (fst x)" "snd x = ?f s"
    using assms(1) None by (auto simp: set_source_snapshot_started_def Let_def)
  have "summary_ok (?f r) = summary_ok r" for r by (cases "sn_status r") (simp_all add: summary_ok_def)
  moreover from this have "snapshots_typed (fst x)"
    using save_typed [OF x(1) assms(2)] typed_rows [OF assms(2)] by (simp add: row_identity_def)
  ultimately show ?thesis using assms(3) save_identities [OF x(1)] by (simp add: keeps_snapshots_def x(2) row_identity_def)
next
  case (Some a)
  then show ?thesis using assms by (auto simp: set_source_snapshot_started_def keeps_snapshots_def)
qed

lemma soft_delete_keeps:
  assumes "soft_delete_source_snapshot now s pf = Inr x" and "snapshots_typed pf" and "summary_ok s"
  shows "keeps_snapshots s pf x"
proof -
  let ?f = "\<lambda>r. r\<lparr>sn_status := Snap_deleted, sn_deleted_at := Some now\<rparr>"
  have x: "save_snapshot (sn_id s) ?f pf = Inr (fst x)" "snd x = ?f s"
    using assms(1) by (auto simp: soft_delete_source_snapshot_def Let_def)
  have f: "counts_ok r \<Longrightarrow> summary_ok (?f r)" for r by (simp add: summary_ok_def counts_ok_def)
  have "snapshots_typed (fst x)"
    using x(1) assms(2) by (rule save_typed)
      (auto simp: row_identity_def intro: f summary_ok_counts typed_rows [OF assms(2)])
  then show ?thesis using f [OF summary_ok_counts [OF assms(3)]] save_identities [OF x(1)]
    by (simp add: keeps_snapshots_def x(2) row_identity_def)
qed

lemma result_columns_ok [simp]: "directory_ok (result_columns s r st d)"
  by (simp add: directory_ok_def result_columns_def Let_def)

lemma result_columns_key [simp]: "directory_key (result_columns s r st d) = directory_key d"
  by (simp add: directory_key_def result_columns_def Let_def)

lemma upsert_directories_ok:
  assumes "directories_ok (pr_directories pf)"
    and "\<And>d. directory_ok (f d)" and key: "\<And>d. directory_key (f d) = directory_key d"
  shows "directories_ok (pr_directories (upsert_directory snap dir f pf))"
proof (cases "\<exists>d \<in> set (pr_directories pf). sd_snapshot d = snap \<and> sd_config_dir d = dir")
  case True
  let ?p = "\<lambda>d. sd_snapshot d = snap \<and> sd_config_dir d = dir"
  have "map directory_key (update_where ?p f (pr_directories pf)) = map directory_key (pr_directories pf)"
    by (rule map_update_where) (rule key)
  then show ?thesis using True assms by (auto simp: upsert_directory_def directories_ok_def list_all_iff set_update_where)
next
  case False
  have "directory_key (f (empty_directory i snap dir)) = (snap, dir)" for i
    using key by (simp add: directory_key_def empty_directory_def)
  then show ?thesis using False assms by (auto simp: upsert_directory_def directories_ok_def directory_key_def)
qed

lemma upsert_directory_frame [simp]:
  "pr_snapshots (upsert_directory snap dir f pf) = pr_snapshots pf"
  "pr_next_snapshot (upsert_directory snap dir f pf) = pr_next_snapshot pf"
  by (simp_all add: upsert_directory_def)

lemma record_keeps:
  assumes "record_source_snapshot_directory_result now s r pf = Inr x" and "snapshots_typed pf" and "summary_ok s"
  shows "keeps_snapshots s pf x"
proof -
  obtain st where "refresh_source_snapshot_summary now None s
      (upsert_directory (sn_id s) (dr_config_dir r) (result_columns s r st) pf) = Inr x"
    using assms(1) by (cases "assert_no_orphan_cleanup (dr_repository r) pf")
      (auto simp: record_source_snapshot_directory_result_def)
  moreover have "snapshots_typed (upsert_directory (sn_id s) (dr_config_dir r) (result_columns s r st) pf)"
    using assms(2) upsert_directories_ok by (simp add: snapshots_typed_def)
  ultimately show ?thesis using refresh_keeps [of now None s _ x] assms(3)
    by (auto simp: keeps_snapshots_def identities_def)
qed
section \<open>Creation and deletion\<close>

lemma default_snapshot_status [simp]: "validated_snapshot_status None = Inr Snap_creating"
  by code_simp

lemma new_snapshot_ok:
  "sa_finished_at a = None \<Longrightarrow> summary_ok (new_snapshot now hex a tr Snap_creating i)"
  by (simp add: summary_ok_def new_snapshot_def)

lemma snapshot_by_key_Some:
  "snapshot_by_key org key pf = Some s \<Longrightarrow> s \<in> set (pr_snapshots pf) \<and> sn_org s = org \<and> sn_key s = strip key"
  unfolding snapshot_by_key_def by (drule first_where_Some) simp

lemma create_snapshotE:
  assumes "create_source_snapshot now hex a pf = Inr (pf', s)"
  obtains (found) "snapshot_by_key (sa_org a) (sa_key a) pf = Some s" "pf' = pf"
  | (made) tr st where "snapshot_by_key (sa_org a) (sa_key a) pf = None"
      "validated_trigger_type (sa_trigger a) = Inr tr" "validated_snapshot_status (sa_status a) = Inr st"
      "s = new_snapshot now hex a tr st (pr_next_snapshot pf)"
      "\<forall>x \<in> set (pr_snapshots pf). \<not> snapshot_conflict s x"
      "pf' = pf\<lparr>pr_snapshots := pr_snapshots pf @ [s], pr_next_snapshot := sn_id s + 1\<rparr>"
  using assms by (auto simp: create_source_snapshot_def insert_snapshot_def split: option.splits)

lemma append_snapshot_ok:
  assumes "snapshots_ok next ss" and "summary_ok s" and "sn_id s = next" and "\<forall>x \<in> set ss. \<not> snapshot_conflict s x"
  shows "snapshots_ok (next + 1) (ss @ [s])"
proof -
  have "\<not> snapshot_conflict x s" if "x \<in> set ss" for x using assms(4) that conflict_sym by blast
  then show ?thesis using assms by (fastforce simp: snapshots_ok_def)
qed

lemma create_snapshot_typed:
  assumes "create_source_snapshot now hex a pf = Inr (pf', s)" and "snapshots_typed pf"
    and "sa_status a = None" and "sa_finished_at a = None"
  shows "snapshots_typed pf' \<and> summary_ok s"
  using assms(1)
proof (cases rule: create_snapshotE)
  case found
  with assms(2) show ?thesis using snapshot_by_key_Some typed_rows by blast
next
  case (made tr st)
  then have "summary_ok s" "sn_id s = pr_next_snapshot pf"
    using assms(3,4) new_snapshot_ok by (simp_all add: new_snapshot_def)
  with made assms(2) show ?thesis using append_snapshot_ok by (simp add: snapshots_typed_def)
qed

lemma set_deleting_typed:
  assumes "snapshots_typed pf"
  shows "snapshots_typed (mark_deleting again i pf)"
proof -
  let ?f = "deletion_columns again"
  have keep: "row_identity (?f r) = row_identity r" for r by (simp add: row_identity_def)
  have "snapshots_ok (pr_next_snapshot pf) (update_where (\<lambda>r. sn_id r = i) ?f (pr_snapshots pf))"
  proof (rule snapshots_ok_update)
    show "snapshots_ok (pr_next_snapshot pf) (pr_snapshots pf)" using assms by (simp add: snapshots_typed_def)
    show "summary_ok (?f r)" if "r \<in> set (pr_snapshots pf)" for r
      using typed_rows [OF assms that] by (simp add: summary_ok_def)
    show "\<not> snapshot_conflict (?f r) x" if "r \<in> set (pr_snapshots pf)" "x \<in> set (pr_snapshots pf)" "sn_id r = i"
      "sn_id x \<noteq> i" for r x
      using conflict_update [of ?f r x, OF keep] that assms
      by (auto simp: snapshots_typed_def snapshots_ok_def)
  qed (rule keep)
  then show ?thesis using assms by (simp add: snapshots_typed_def mark_deleting_def)
qed

lemma delete_request_typed:
  assumes "create_and_queue_snapshot_delete_task now uuid org i trigger parent pf = Inr (pf', t)" and "snapshots_typed pf"
  shows "snapshots_typed pf'"
  using assms(1)
proof (cases rule: delete_request_cases)
  case (joined a)
  then show ?thesis using assms(2) by (auto simp: snapshots_typed_def)
next
  case started
  then obtain again db where "pf' = enqueue_delete t i (mark_deleting again i (pf\<lparr>pf_tasks := db\<rparr>))" by blast
  moreover have "snapshots_typed (mark_deleting again i (pf\<lparr>pf_tasks := db\<rparr>))"
    using assms(2) by (intro set_deleting_typed) (simp add: snapshots_typed_def)
  ultimately show ?thesis by (simp add: snapshots_typed_def enqueue_delete_def)
qed

section \<open>Every service that writes snapshots\<close>

text \<open>The set holds the copies that callers have read and may still save.\<close>

inductive snapshot_step :: "snapshot set \<times> protection \<Rightarrow> snapshot set \<times> protection \<Rightarrow> bool" where
  ss_read: "s \<in> set (pr_snapshots pf) \<Longrightarrow> snapshot_step (C, pf) (insert s C, pf)"
| ss_created: "create_source_snapshot now hex a pf = Inr (pf', s) \<Longrightarrow> sa_status a = None \<Longrightarrow> sa_finished_at a = None
    \<Longrightarrow> snapshot_step (C, pf) (insert s C, pf')"
| ss_started: "s \<in> C \<Longrightarrow> set_source_snapshot_started now t s pf = Inr (pf', s')
    \<Longrightarrow> snapshot_step (C, pf) (insert s' C, pf')"
| ss_result: "s \<in> C \<Longrightarrow> record_source_snapshot_directory_result now s r pf = Inr (pf', s')
    \<Longrightarrow> snapshot_step (C, pf) (insert s' C, pf')"
| ss_summary: "s \<in> C \<Longrightarrow> refresh_source_snapshot_summary now fin s pf = Inr (pf', s')
    \<Longrightarrow> snapshot_step (C, pf) (insert s' C, pf')"
| ss_failed: "s \<in> C \<Longrightarrow> mark_source_snapshot_failed now code message fin s pf = Inr (pf', s')
    \<Longrightarrow> snapshot_step (C, pf) (insert s' C, pf')"
| ss_deleted: "s \<in> C \<Longrightarrow> soft_delete_source_snapshot now s pf = Inr (pf', s')
    \<Longrightarrow> snapshot_step (C, pf) (insert s' C, pf')"
| ss_delete_request: "create_and_queue_snapshot_delete_task now uuid org i trigger parent pf = Inr (pf', t)
    \<Longrightarrow> snapshot_step (C, pf) (C, pf')"
| ss_other: "pr_snapshots pf' = pr_snapshots pf \<Longrightarrow> pr_next_snapshot pf' = pr_next_snapshot pf
    \<Longrightarrow> pr_directories pf' = pr_directories pf \<Longrightarrow> snapshot_step (C, pf) (C, pf')"

definition table_typed :: "snapshot set \<times> protection \<Rightarrow> bool" where
  "table_typed = (\<lambda>(C, pf). snapshots_typed pf \<and> (\<forall>s \<in> C. summary_ok s))"

lemmas service_keeps = started_keeps record_keeps refresh_keeps mark_failed_keeps soft_delete_keeps

lemma keeps_table:
  assumes "table_typed (C, pf)" and "s \<in> C"
    and "snapshots_typed pf \<Longrightarrow> summary_ok s \<Longrightarrow> keeps_snapshots s pf (pf', s')"
  shows "table_typed (insert s' C, pf')"
  using assms by (auto simp: table_typed_def keeps_snapshots_def)

lemma snapshot_step_typed: "snapshot_step x y \<Longrightarrow> table_typed x \<Longrightarrow> table_typed y"
proof (induction rule: snapshot_step.induct)
  case (ss_read s pf C)
  then show ?case using typed_rows by (auto simp: table_typed_def)
next
  case (ss_created now hex a pf pf' s C)
  then show ?case using create_snapshot_typed [OF ss_created.hyps(1)] by (simp add: table_typed_def)
next
  case (ss_delete_request now uuid org i trigger parent pf pf' t C)
  then show ?case using delete_request_typed [OF ss_delete_request.hyps] by (simp add: table_typed_def)
next
  case (ss_other pf' pf C)
  then show ?case by (simp add: table_typed_def snapshots_typed_def)
qed (erule (1) keeps_table, erule (2) service_keeps)+

interpretation snapshot_system: preserved snapshot_step table_typed
  by unfold_locales (rule snapshot_step_typed)

text \<open>A row is never removed and keeps what identifies it.\<close>

definition has_row :: "int \<times> int \<times> string \<times> string \<times> int \<times> nat \<times> string \<Rightarrow> snapshot set \<times> protection \<Rightarrow> bool" where
  "has_row k = (\<lambda>(C, pf). k \<in> set (identities pf))"

lemma delete_request_identities:
  assumes "create_and_queue_snapshot_delete_task now uuid org i trigger parent pf = Inr (pf', t)"
  shows "identities pf' = identities pf"
  using assms
proof (cases rule: delete_request_cases)
  case (joined a)
  then show ?thesis by (auto simp: identities_def)
next
  case started
  then obtain again db where "pf' = enqueue_delete t i (mark_deleting again i (pf\<lparr>pf_tasks := db\<rparr>))" by blast
  then show ?thesis
    by (simp add: identities_def enqueue_delete_def mark_deleting_def map_update_where row_identity_def)
qed

lemma create_identities:
  assumes "create_source_snapshot now hex a pf = Inr (pf', s)"
  shows "set (identities pf) \<subseteq> set (identities pf')"
  using assms by (cases rule: create_snapshotE) (auto simp: identities_def)

lemma keeps_has_row:
  assumes "table_typed (C, pf)" and "has_row k (C, pf)" and "s \<in> C"
    and "snapshots_typed pf \<Longrightarrow> summary_ok s \<Longrightarrow> keeps_snapshots s pf (pf', s')"
  shows "has_row k (insert s' C, pf')"
  using assms by (auto simp: table_typed_def keeps_snapshots_def has_row_def)

lemma snapshot_step_has_row: "snapshot_step x y \<Longrightarrow> table_typed x \<Longrightarrow> has_row k x \<Longrightarrow> has_row k y"
proof (induction rule: snapshot_step.induct)
  case (ss_created now hex a pf pf' s C)
  then show ?case using create_identities [OF ss_created.hyps(1)] by (auto simp: has_row_def)
next
  case (ss_delete_request now uuid org i trigger parent pf pf' t C)
  then show ?case using delete_request_identities [OF ss_delete_request.hyps] by (simp add: has_row_def)
next
  case (ss_other pf' pf C)
  then show ?case by (simp add: has_row_def identities_def)
next
  case (ss_read s pf C)
  then show ?case by (simp add: has_row_def)
qed (erule (2) keeps_has_row, erule (2) service_keeps)+

interpretation snapshot_rows: persisting snapshot_step table_typed has_row
  by unfold_locales (rule snapshot_step_has_row)

section \<open>A start is a run of these steps\<close>

definition table_run :: "protection \<Rightarrow> protection \<Rightarrow> bool" where
  "table_run pf pf' \<longleftrightarrow> (\<forall>C. \<exists>C'. C \<subseteq> C' \<and> snapshot_step\<^sup>*\<^sup>* (C, pf) (C', pf'))"

lemma table_run_refl [simp]: "table_run pf pf"
  by (auto simp: table_run_def)

lemma table_run_trans: "table_run pf pf1 \<Longrightarrow> table_run pf1 pf2 \<Longrightarrow> table_run pf pf2"
  unfolding table_run_def by (meson order_trans rtranclp_trans)

lemma table_run_other:
  assumes "pr_snapshots pf' = pr_snapshots pf" "pr_next_snapshot pf' = pr_next_snapshot pf"
    "pr_directories pf' = pr_directories pf"
  shows "table_run pf pf'"
  using ss_other [OF assms] by (auto simp: table_run_def)

lemma table_run_created:
  assumes "create_source_snapshot now hex a pf = Inr (pf', s)" "sa_status a = None" "sa_finished_at a = None"
  shows "table_run pf pf'"
  using ss_created [OF assms] by (auto simp: table_run_def)

lemma table_run_failed:
  assumes "s \<in> set (pr_snapshots pf)" and "mark_source_snapshot_failed now code message fin s pf = Inr (pf', s')"
  shows "table_run pf pf'"
  unfolding table_run_def
proof (intro allI)
  fix C
  have "snapshot_step\<^sup>*\<^sup>* (C, pf) (insert s' (insert s C), pf')"
    by (rule two_steps [of snapshot_step, OF ss_read [OF assms(1)] ss_failed [OF _ assms(2)]]) simp
  then show "\<exists>C'. C \<subseteq> C' \<and> snapshot_step\<^sup>*\<^sup>* (C, pf) (C', pf')"
    by (intro exI [of _ "insert s' (insert s C)"]) (simp add: subset_insertI2 subset_insertI)
qed

lemma table_run_deleted:
  assumes "s \<in> set (pr_snapshots pf)" and "soft_delete_source_snapshot now s pf = Inr (pf', s')"
  shows "table_run pf pf'"
  unfolding table_run_def
proof (intro allI)
  fix C
  have "snapshot_step\<^sup>*\<^sup>* (C, pf) (insert s' (insert s C), pf')"
    by (rule two_steps [of snapshot_step, OF ss_read [OF assms(1)] ss_deleted [OF _ assms(2)]]) simp
  then show "\<exists>C'. C \<subseteq> C' \<and> snapshot_step\<^sup>*\<^sup>* (C, pf) (C', pf')"
    by (intro exI [of _ "insert s' (insert s C)"]) (simp add: subset_insertI2 subset_insertI)
qed

text \<open>A deletion of a row of a typed table does not fail.\<close>

lemma soft_delete_succeeds:
  assumes "snapshots_typed pf" and "s \<in> set (pr_snapshots pf)"
  shows "\<exists>pf' s'. soft_delete_source_snapshot now s pf = Inr (pf', s')
    \<and> (\<exists>r \<in> set (pr_snapshots pf'). sn_status r = Snap_deleted)"
proof -
  let ?f = "\<lambda>r. r\<lparr>sn_status := Snap_deleted, sn_deleted_at := Some now\<rparr>"
  have ok: "snapshots_ok (pr_next_snapshot pf) (pr_snapshots pf)" using assms(1) by (simp add: snapshots_typed_def)
  have s: "first_where (\<lambda>r. sn_id r = sn_id s) (pr_snapshots pf) = Some s"
    using ok assms(2) by (intro first_where_key [where key = sn_id]) (auto simp: snapshots_ok_def)
  have "\<not> snapshot_conflict (?f s) x" if "x \<in> set (pr_snapshots pf)" "sn_id x \<noteq> sn_id s" for x
  proof
    assume "snapshot_conflict (?f s) x"
    then have "snapshot_conflict s x" by (auto simp: snapshot_conflict_def)
    then have "sn_id s = sn_id x" using ok assms(2) that(1) unfolding snapshots_ok_def by blast
    then show False using that(2) by simp
  qed
  then have "soft_delete_source_snapshot now s pf =
      Inr (pf\<lparr>pr_snapshots := update_where (\<lambda>r. sn_id r = sn_id s) ?f (pr_snapshots pf)\<rparr>, ?f s)"
    using s by (auto simp: soft_delete_source_snapshot_def save_snapshot_def Let_def guard_that_def)
  moreover have "?f s \<in> set (update_where (\<lambda>r. sn_id r = sn_id s) ?f (pr_snapshots pf))"
    using assms(2) by (auto simp: set_update_where)
  ultimately show ?thesis by force
qed

lemma then_do_run:
  assumes "table_run pf (fst m)" and "\<And>x pf1. m = (pf1, Inr x) \<Longrightarrow> table_run pf1 (fst (f x pf1))"
  shows "table_run pf (fst (then_do m f))"
proof -
  obtain pf1 r where m: "m = (pf1, r)" by fastforce
  show ?thesis
  proof (cases r)
    case (Inl e)
    with assms(1) show ?thesis by (simp add: then_do_def m)
  next
    case (Inr x)
    have "table_run pf pf1" "table_run pf1 (fst (f x pf1))" using assms m Inr by auto
    then have "table_run pf (fst (f x pf1))" by (rule table_run_trans)
    then show ?thesis by (simp add: then_do_def m Inr)
  qed
qed

lemma lift_error_Inr [simp]: "lift_error f r = Inr x \<longleftrightarrow> r = Inr x"
  by (cases r) (auto simp: lift_error_def)

lemma write_backupE:
  assumes "write_backup v org trigger key source c pf = Inr (pf', o')"
  obtains db t s r where "o' = Started t s"
    "create_task (start_now v) (se_uuid v (bc_id c)) (new_backup_request v org trigger source c
       (int (count_where (\<lambda>d. cd_config d = bc_id c) (pr_config_directories pf)))) (pf_tasks pf) = Inr (db, t)"
    "create_source_snapshot (start_now v) (se_hex v (bc_id c)) (backup_snapshot_args org trigger key source c
       (int (count_where (\<lambda>d. cd_config d = bc_id c) (pr_config_directories pf))) t) (pf\<lparr>pf_tasks := db\<rparr>) = Inr (pf', s)"
    "se_license v org pf = License_ok"
    "first_where (\<lambda>r. rp_org r = org \<and> rp_id r = bc_repository c) (st_repositories pf) = Some r"
    "assert_repository_quota_available (start_now v) r = Inr ()"
    "\<exists>rs. lock_repositories_for_workload org [bc_repository c] ''backup_write'' pf = Inr rs"
  using assms by (auto simp: write_backup_def Let_def enforce_storage_license_def split: license_answer.splits)

lemma bare_item_fields [simp]:
  "si_status (bare_item source config st) = st" "si_config (bare_item source config st) = config"
  "si_task (bare_item source config st) = None" "si_snapshot (bare_item source config st) = None"
  "si_error (bare_item source config st) = None" "si_code (bare_item source config st) = None"
  by (simp_all add: bare_item_def)

lemma snapshot_item_fields [simp]:
  "si_status (snapshot_item org source config st s pf) = st"
  "si_config (snapshot_item org source config st s pf) = Some config"
  "si_snapshot (snapshot_item org source config st s pf) = Some (sn_id s)"
  "si_error (snapshot_item org source config st s pf) = None"
  by (simp_all add: snapshot_item_def)

lemma write_backup_starts: "write_backup v org trigger key source c pf = Inr (pf', o') \<Longrightarrow> \<exists>t s. o' = Started t s"
  by (auto elim: write_backupE)

lemma commit_backupE:
  assumes "commit_backup v org trigger key source config pf = Inr (pf', o')"
  obtains (existing) i where "o' = Existing i" "pf' = pf" "si_status i \<noteq> Item_created"
  | (started) c t s where "o' = Started t s" "write_backup v org trigger key source c pf = Inr (pf', o')"
      "assert_source_product_operation_allowed org (fst source) (snd source) None pf = Inr ()"
      "first_where (\<lambda>c. bc_org c = org \<and> bc_id c = config) (pr_configs pf) = Some c"
      "snapshot_by_key org key pf = None"
      "find_active_backup_task (se_env v) org (fst source) (snd source) (bc_id c) pf = Inr None"
proof (cases "snapshot_by_key org key pf")
  case (Some s)
  then show ?thesis using assms existing by (auto simp: commit_backup_def)
next
  case None
  with assms obtain c a where c: "assert_source_product_operation_allowed org (fst source) (snd source) None pf = Inr ()"
    "first_where (\<lambda>c. bc_org c = org \<and> bc_id c = config) (pr_configs pf) = Some c"
    "find_active_backup_task (se_env v) org (fst source) (snd source) (bc_id c) pf = Inr a"
    and o': "(case a of Some t \<Rightarrow> Inr (pf, Existing ((bare_item source (Some config) Item_conflict)
             \<lparr>si_task := Some (t_id t), si_task_uuid := Some (t_uuid t)\<rparr>))
         | None \<Rightarrow> write_backup v org trigger key source c pf) = Inr (pf', o')"
    by (auto simp: commit_backup_def)
  show ?thesis
  proof (cases a)
    case None
    with o' have "write_backup v org trigger key source c pf = Inr (pf', o')" by simp
    with write_backup_starts started c None \<open>snapshot_by_key org key pf = None\<close> show ?thesis by blast
  next
    case (Some t)
    with o' show ?thesis using existing by auto
  qed
qed

lemma commit_backup_run:
  assumes "commit_backup v org trigger key source config pf = Inr (pf', o')"
  shows "table_run pf pf'"
  using assms
proof (cases rule: commit_backupE)
  case (started c t s)
  from started(2) show ?thesis
  proof (rule write_backupE)
    fix db t' s'
    assume c: "create_source_snapshot (start_now v) (se_hex v (bc_id c)) (backup_snapshot_args org trigger key source c
       (int (count_where (\<lambda>d. cd_config d = bc_id c) (pr_config_directories pf))) t') (pf\<lparr>pf_tasks := db\<rparr>) = Inr (pf', s')"
    have "table_run pf (pf\<lparr>pf_tasks := db\<rparr>)" by (rule table_run_other) simp_all
    moreover have "table_run (pf\<lparr>pf_tasks := db\<rparr>) pf'"
      using c by (rule table_run_created) (simp_all add: backup_snapshot_args_def)
    ultimately show ?thesis by (rule table_run_trans)
  qed
qed simp

lemma fail_queued_run: "table_run pf (fst (fail_queued now org uuid snapshot message pf))"
proof (cases "snapshot_row org snapshot pf")
  case None
  then show ?thesis
    by (auto simp: fail_queued_def split: sum.split prod.split intro!: table_run_other)
next
  case (Some s)
  then have s: "s \<in> set (pr_snapshots pf)" using first_where_Some by (fastforce simp: snapshot_row_def)
  show ?thesis
  proof (cases "mark_source_snapshot_failed now ''BACKUP_QUEUE_FAILED'' message None s pf")
    case (Inl e)
    with Some show ?thesis by (simp add: fail_queued_def lift_error_def)
  next
    case (Inr x)
    have "table_run pf (fst x)" using table_run_failed [OF s, of now _ message None "fst x" "snd x"] Inr by simp
    moreover have "fst (fail_queued now org uuid snapshot message pf) = fst x
        \<or> (\<exists>db. fst (fail_queued now org uuid snapshot message pf) = (fst x)\<lparr>pf_tasks := db\<rparr>)"
      using Some Inr by (auto simp: fail_queued_def lift_error_def split: sum.split prod.split)
    moreover have "table_run (fst x) ((fst x)\<lparr>pf_tasks := db\<rparr>)" for db by (rule table_run_other) simp_all
    ultimately show ?thesis using table_run_trans by auto
  qed
qed

lemma queue_run: "table_run pf (fst (queue_backup_execution v org t s pf))"
  using fail_queued_run by (auto simp: queue_backup_execution_def split: option.split intro: table_run_other)

lemma estimate_run: "table_run pf (fst (queue_estimate v config t pf))"
  by (auto simp: queue_estimate_def intro: table_run_other)

lemma committed_backup_run: "table_run pf (fst (committed_backup v org trigger key source config pf))"
proof (cases "commit_backup v org trigger key source config pf")
  case (Inl e)
  then show ?thesis by (simp add: committed_backup_def)
next
  case (Inr x)
  obtain pf1 o' where x: "x = (pf1, o')" by fastforce
  with Inr have run: "table_run pf pf1" using commit_backup_run by simp
  show ?thesis
  proof (cases o')
    case (Existing i)
    with Inr x run show ?thesis by (simp add: committed_backup_def)
  next
    case (Started t s)
    have "table_run pf1 (fst (committed_backup v org trigger key source config pf))"
      unfolding committed_backup_def Inr x Started
      by (simp, intro then_do_run) (auto simp: queue_run estimate_run)
    with run show ?thesis by (rule table_run_trans)
  qed
qed

lemma commit_and_queue_run: "table_run pf (fst (commit_and_queue v org trigger key source config pf))"
  using committed_backup_run [of pf v org trigger key source config]
  by (auto simp: commit_and_queue_def split: prod.split sum.split)

lemma admit_run: "table_run pf (fst (admit_backup v org source c pf))"
  by (auto simp: admit_backup_def init_direct_nas_def Let_def split: sum.split intro: table_run_other)

lemma start_config_run: "table_run pf (fst (start_config v org trigger batch source c pf))"
proof (cases "bc_status c = Conf_active \<and> snapshot_by_key org (item_key batch source (bc_id c)) pf = None")
  case True
  obtain pf1 r where a: "admit_backup v org source c pf = (pf1, r)" by fastforce
  then have run: "table_run pf pf1" using admit_run [of pf v org source c] by simp
  show ?thesis
  proof (cases r)
    case (Inl e)
    with True a run show ?thesis by (simp add: start_config_def Let_def)
  next
    case (Inr u)
    with True a have "start_config v org trigger batch source c pf
        = commit_and_queue v org trigger (item_key batch source (bc_id c)) source (bc_id c) pf1"
      by (simp add: start_config_def Let_def)
    with table_run_trans [OF run commit_and_queue_run] show ?thesis by simp
  qed
next
  case False
  then show ?thesis by (auto simp: start_config_def Let_def)
qed

lemma start_configs_run: "table_run pf (fst (start_configs v org trigger batch source cs a pf))"
  by (induction cs arbitrary: a pf) (auto intro!: then_do_run start_config_run)

lemma start_sources_run: "table_run pf (fst (start_sources v org trigger batch sources a pf))"
  by (induction sources arbitrary: a pf) (auto intro!: then_do_run start_configs_run)

lemma start_backup_tasks_run: "table_run pf (fst (start_backup_tasks v q pf))"
  using start_sources_run by (auto simp: start_backup_tasks_def Let_def split: sum.split)

section \<open>Requests that were accepted before\<close>

definition accepted :: "int \<Rightarrow> string \<Rightarrow> protection \<Rightarrow> bool" where
  "accepted org key pf \<longleftrightarrow> (\<exists>s \<in> set (pr_snapshots pf). sn_org s = org \<and> sn_key s = strip key)"

lemma accepted_by_key: "accepted org key pf \<longleftrightarrow> snapshot_by_key org key pf \<noteq> None"
  by (auto simp: accepted_def snapshot_by_key_def first_where_None)

lemma accepted_identity:
  "accepted org key pf \<longleftrightarrow> (\<exists>k \<in> set (identities pf). fst (snd k) = org \<and> fst (snd (snd (snd k))) = strip key)"
  by (auto simp: accepted_def identities_def row_identity_def)

lemma accepted_persists:
  assumes "snapshot_step\<^sup>*\<^sup>* (C, pf) (C', pf')" and "table_typed (C, pf)" and "accepted org key pf"
  shows "accepted org key pf'"
proof -
  from assms(3) obtain k where k: "k \<in> set (identities pf)" "fst (snd k) = org" "fst (snd (snd (snd k))) = strip key"
    by (auto simp: accepted_identity)
  then have "has_row k (C', pf')"
    using snapshot_rows.run_fact [OF assms(1,2)] by (simp add: has_row_def)
  then show ?thesis using k(2,3) by (auto simp: accepted_identity has_row_def)
qed

lemma table_run_accepted:
  assumes "table_run pf pf'" and "snapshots_typed pf" and "accepted org key pf"
  shows "accepted org key pf'"
proof -
  obtain C' where "snapshot_step\<^sup>*\<^sup>* ({}, pf) (C', pf')" using assms(1) by (auto simp: table_run_def)
  then show ?thesis using accepted_persists assms(2,3) by (simp add: table_typed_def)
qed

lemma table_run_typed:
  assumes "table_run pf pf'" and "snapshots_typed pf"
  shows "snapshots_typed pf'"
proof -
  obtain C' where "snapshot_step\<^sup>*\<^sup>* ({}, pf) (C', pf')" using assms(1) by (auto simp: table_run_def)
  from snapshot_system.run_inv [OF this] assms(2) show ?thesis by (simp add: table_typed_def)
qed

text \<open>An accepted request changes nothing.\<close>

lemma start_config_accepted:
  assumes "accepted org (item_key batch source (bc_id c)) pf"
  obtains i where "start_config v org trigger batch source c pf = (pf, Inr i)" "si_status i \<noteq> Item_created"
proof -
  obtain s where s: "snapshot_by_key org (item_key batch source (bc_id c)) pf = Some s"
    using assms by (auto simp: accepted_by_key)
  show thesis
  proof (cases "bc_status c = Conf_active")
    case True
    with s show thesis
      by (intro that [of "snapshot_item org source (bc_id c) Item_skipped s pf"]) (simp_all add: start_config_def Let_def)
  next
    case False
    then show thesis by (intro that [of "inactive_item source c"]) (simp_all add: start_config_def inactive_item_def)
  qed
qed

lemma answer_with_not_created [simp]:
  "si_status i \<noteq> Item_created \<Longrightarrow> an_created (answer_with i a) = an_created a"
  by (simp add: answer_with_def)

lemma start_configs_accepted:
  assumes "\<forall>c \<in> set cs. accepted org (item_key batch source (bc_id c)) pf"
  shows "\<exists>a'. start_configs v org trigger batch source cs a pf = (pf, Inr a') \<and> an_created a' = an_created a"
  using assms
proof (induction cs arbitrary: a)
  case Nil
  then show ?case by simp
next
  case (Cons c cs)
  from Cons.prems have "accepted org (item_key batch source (bc_id c)) pf" by simp
  then obtain i where i: "start_config v org trigger batch source c pf = (pf, Inr i)" "si_status i \<noteq> Item_created"
    by (rule start_config_accepted)
  with Cons.IH [of "answer_with i a"] Cons.prems show ?case by (simp add: then_do_def)
qed

lemma start_sources_accepted:
  assumes "\<forall>(source, cs) \<in> set sources. \<forall>c \<in> set cs. accepted org (item_key batch source (bc_id c)) pf"
  shows "\<exists>a'. start_sources v org trigger batch sources a pf = (pf, Inr a') \<and> an_created a' = an_created a"
  using assms
proof (induction sources arbitrary: a)
  case Nil
  then show ?case by simp
next
  case (Cons x sources)
  obtain source cs where x: "x = (source, cs)" by fastforce
  have "\<forall>(source, cs) \<in> set sources. \<forall>c \<in> set cs. accepted org (item_key batch source (bc_id c)) pf"
    using Cons.prems by simp
  note IH = Cons.IH [OF this]
  show ?case
  proof (cases "cs = []")
    case True
    with IH [of "answer_with (bare_item source None Item_skipped) a"] show ?thesis by (simp add: x)
  next
    case False
    from Cons.prems have "\<forall>c \<in> set cs. accepted org (item_key batch source (bc_id c)) pf" by (simp add: x)
    from start_configs_accepted [OF this, of v trigger a] obtain a1
      where "start_configs v org trigger batch source cs a pf = (pf, Inr a1)" "an_created a1 = an_created a" by blast
    with IH [of a1] False show ?thesis by (simp add: x then_do_def)
  qed
qed

section \<open>A created backup is an accepted request\<close>

lemma commit_started_accepted:
  assumes "commit_backup v org trigger key source config pf = Inr (pf', Started t s)"
  shows "accepted org key pf'"
  using assms
proof (cases rule: commit_backupE)
  case (started c t' s')
  from started(2) show ?thesis
  proof (rule write_backupE)
    fix db t1 s1
    assume c: "create_source_snapshot (start_now v) (se_hex v (bc_id c)) (backup_snapshot_args org trigger key source c
       (int (count_where (\<lambda>d. cd_config d = bc_id c) (pr_config_directories pf))) t1) (pf\<lparr>pf_tasks := db\<rparr>) = Inr (pf', s1)"
    then show ?thesis
    proof (cases rule: create_snapshotE)
      case found
      then show ?thesis using snapshot_by_key_Some [OF found(1)]
        by (auto simp: accepted_def backup_snapshot_args_def)
    next
      case (made tr st)
      then show ?thesis by (auto simp: accepted_def new_snapshot_def backup_snapshot_args_def)
    qed
  qed
qed simp

lemma constraint_item_not_created: "constraint_item org key source config pf = Some i \<Longrightarrow> si_status i \<noteq> Item_created"
  by (auto simp: constraint_item_def split: option.splits)

lemma refused_item_not_created [simp]: "si_status (refused_item source config e) \<noteq> Item_created"
  by (simp add: refused_item_def)

lemma commit_and_queue_created:
  assumes "commit_and_queue v org trigger key source config pf = (pf', Inr i)" and "si_status i = Item_created"
  obtains pf1 t s pf2 where "commit_backup v org trigger key source config pf = Inr (pf1, Started t s)"
    "queue_backup_execution v org t s pf1 = (pf2, Inr ())" "queue_estimate v config t pf2 = (pf', Inr ())"
    "si_task i = Some (t_id t)" "si_snapshot i = Some (sn_id s)"
proof -
  have b: "committed_backup v org trigger key source config pf = (pf', Inr i)"
    using assms constraint_item_not_created
    by (auto simp: commit_and_queue_def split: prod.splits sum.splits if_splits)
  obtain pf1 o' where c: "commit_backup v org trigger key source config pf = Inr (pf1, o')"
    using b by (auto simp: committed_backup_def split: sum.splits)
  have "\<exists>t s. o' = Started t s"
    using c by (cases rule: commit_backupE) (use b c assms(2) in \<open>auto simp: committed_backup_def\<close>)
  then obtain t s where o': "o' = Started t s" by blast
  show thesis
    using that [of pf1 t s] b c unfolding o'
    by (auto simp: committed_backup_def then_do_def split: prod.splits sum.splits)
qed

lemma admit_frame:
  assumes "admit_backup v org source c pf = (pf1, r)"
  shows "pf_tasks pf1 = pf_tasks pf \<and> pr_configs pf1 = pr_configs pf \<and> pr_snapshots pf1 = pr_snapshots pf
    \<and> pr_next_snapshot pf1 = pr_next_snapshot pf \<and> pr_directories pf1 = pr_directories pf
    \<and> pr_backup_queue pf1 = pr_backup_queue pf \<and> st_repositories pf1 = st_repositories pf
    \<and> pr_config_directories pf1 = pr_config_directories pf"
  using assms by (auto simp: admit_backup_def init_direct_nas_def Let_def split: sum.splits if_splits)

lemma start_config_created:
  assumes "start_config v org trigger batch source c pf = (pf', Inr i)" and "si_status i = Item_created"
  obtains pf1 where "bc_status c = Conf_active" "snapshot_by_key org (item_key batch source (bc_id c)) pf = None"
    "admit_backup v org source c pf = (pf1, Inr ())"
    "commit_and_queue v org trigger (item_key batch source (bc_id c)) source (bc_id c) pf1 = (pf', Inr i)"
  using assms
  by (auto simp: start_config_def inactive_item_def Let_def split: option.splits prod.splits sum.splits if_splits)

lemma start_config_created_accepted:
  assumes "start_config v org trigger batch source c pf = (pf', Inr i)" and "si_status i = Item_created"
    and "snapshots_typed pf"
  shows "accepted org (item_key batch source (bc_id c)) pf'"
  using assms(1,2)
proof (rule start_config_created)
  fix pf1
  assume a: "admit_backup v org source c pf = (pf1, Inr ())"
    and "commit_and_queue v org trigger (item_key batch source (bc_id c)) source (bc_id c) pf1 = (pf', Inr i)"
  from this(2) assms(2) show ?thesis
  proof (rule commit_and_queue_created)
    fix pf2 t s pf3
    assume c: "commit_backup v org trigger (item_key batch source (bc_id c)) source (bc_id c) pf1 = Inr (pf2, Started t s)"
      and q: "queue_backup_execution v org t s pf2 = (pf3, Inr ())" "queue_estimate v (bc_id c) t pf3 = (pf', Inr ())"
    have "table_run pf pf1" using admit_run [of pf v org source c] a by simp
    then have typed: "snapshots_typed pf2"
      using commit_backup_run [OF c] assms(3) table_run_typed by blast
    have "table_run pf2 pf'"
      using queue_run [of pf2 v org t s] estimate_run [of pf3 v "bc_id c" t] q table_run_trans by fastforce
    then show ?thesis using typed commit_started_accepted [OF c] table_run_accepted by blast
  qed
qed

lemma start_configs_created_accepted:
  assumes "start_configs v org trigger batch source cs a pf = (pf', Inr a')" and "an_created a' \<noteq> an_created a"
    and "snapshots_typed pf"
  shows "\<exists>c \<in> set cs. accepted org (item_key batch source (bc_id c)) pf'"
  using assms
proof (induction cs arbitrary: a pf)
  case Nil
  then show ?case by simp
next
  case (Cons c cs)
  obtain pf1 i where i: "start_config v org trigger batch source c pf = (pf1, Inr i)"
    and rest: "start_configs v org trigger batch source cs (answer_with i a) pf1 = (pf', Inr a')"
    using Cons.prems(1) by (auto simp: then_do_def split: prod.splits sum.splits)
  have typed: "snapshots_typed pf1" using start_config_run [of pf v org trigger batch source c] i Cons.prems(3)
      table_run_typed by simp
  show ?case
  proof (cases "si_status i = Item_created")
    case True
    have "table_run pf1 pf'" using start_configs_run [of pf1 v org trigger batch source cs "answer_with i a"] rest by simp
    then show ?thesis
      using start_config_created_accepted [OF i True Cons.prems(3)] typed table_run_accepted by auto
  next
    case False
    then show ?thesis using Cons.IH [OF rest _ typed] Cons.prems(2) by simp
  qed
qed
section \<open>Requests for one configuration\<close>

lemma loaded_configs:
  assumes "load_request v q pf = Inr sources" and "(source, cs) \<in> set sources" and "c \<in> set cs"
    and "sq_configs q \<noteq> []"
  shows "bc_id c \<in> set (sq_configs q)"
  using assms by (auto simp: load_request_def load_backup_configs_def configs_of_def Let_def split: if_splits)

lemma loaded_single:
  assumes "load_request v q pf = Inr sources" and "sq_sources q = [d]" and "sq_source_ids q = []"
  obtains x cs where "requested_source d = Inr x" "sources = [(x, cs)]"
  using assms by (auto simp: load_request_def load_backup_configs_def normalize_sources_def in_first_order_def Let_def
    split: if_splits)

lemma due_request_fields:
  assumes "due_request z m (c, p) = Some q"
  shows "\<exists>d. sq_sources q = [d]" "sq_source_ids q = []" "sq_configs q = [bc_id c]"
    "\<exists>k. sq_key q = Some k \<and> k \<noteq> []"
proof -
  have "schedule_key i j f \<noteq> []" for i j f by (simp add: schedule_key_def)
  then show "\<exists>d. sq_sources q = [d]" "sq_source_ids q = []" "sq_configs q = [bc_id c]"
    "\<exists>k. sq_key q = Some k \<and> k \<noteq> []"
    using assms by (auto simp: due_request_def Let_def split: if_splits)
qed

lemma single_started_accepted:
  assumes "start_backup_tasks v q pf = (pf', Inr a)" and "an_created a \<noteq> 0" and "snapshots_typed pf"
    and q: "sq_sources q = [d]" "sq_source_ids q = []" "sq_configs q = [i]" "sq_key q = Some k" "k \<noteq> []"
  obtains x where "requested_source d = Inr x" "accepted (sq_org q) (item_key (strip k) x i) pf'"
proof -
  obtain sources where l: "load_request v q pf = Inr sources"
    and s: "start_sources v (sq_org q) (sq_trigger q) (strip k) sources
      \<lparr>an_created = 0, an_skipped = 0, an_items = []\<rparr> pf = (pf', Inr a)"
    using assms(1) q(4,5) by (auto simp: start_backup_tasks_def Let_def split: sum.splits)
  obtain x cs where x: "requested_source d = Inr x" "sources = [(x, cs)]" by (rule loaded_single [OF l q(1,2)])
  have "cs \<noteq> []" using s assms(2) by (auto simp: x(2) answer_with_def)
  with s obtain a0 where c: "start_configs v (sq_org q) (sq_trigger q) (strip k) x cs
      \<lparr>an_created = 0, an_skipped = 0, an_items = []\<rparr> pf = (pf', Inr a0)" "an_created a0 \<noteq> 0"
    using assms(2) by (auto simp: x(2) then_do_def split: prod.splits sum.splits)
  from start_configs_created_accepted [OF c(1) _ assms(3)] c(2)
  obtain b where b: "b \<in> set cs" "accepted (sq_org q) (item_key (strip k) x (bc_id b)) pf'" by auto
  have "bc_id b = i" using loaded_configs [OF l, of x cs b] b(1) q(3) x(2) by simp
  with b(2) that [OF x(1)] show thesis by simp
qed

lemma single_accepted_idle:
  assumes "requested_source d = Inr x" and "accepted (sq_org q) (item_key (strip k) x i) pf"
    and q: "sq_sources q = [d]" "sq_source_ids q = []" "sq_configs q = [i]" "sq_key q = Some k" "k \<noteq> []"
    and "start_backup_tasks v q pf = (pf', r)"
  shows "pf' = pf \<and> (\<forall>a. r = Inr a \<longrightarrow> an_created a = 0)"
proof (cases "load_request v q pf")
  case (Inl e)
  with assms show ?thesis by (auto simp: start_backup_tasks_def)
next
  case (Inr sources)
  obtain cs where s: "sources = [(x, cs)]" using loaded_single [OF Inr q(1,2)] assms(1) by auto
  have "\<forall>c \<in> set cs. accepted (sq_org q) (item_key (strip k) x (bc_id c)) pf"
    using loaded_configs [OF Inr, of x cs] assms(2) q(3) by (auto simp: s)
  then have "\<exists>a'. start_sources v (sq_org q) (sq_trigger q) (strip k) sources
      \<lparr>an_created = 0, an_skipped = 0, an_items = []\<rparr> pf = (pf, Inr a') \<and> an_created a' = 0"
    using start_sources_accepted [of sources "sq_org q" "strip k" pf v "sq_trigger q"
      "\<lparr>an_created = 0, an_skipped = 0, an_items = []\<rparr>"] by (simp add: s del: start_sources.simps)
  with assms(8) Inr q(4,5) show ?thesis by (auto simp: start_backup_tasks_def Let_def)
qed

section \<open>What the creation of a backup did\<close>

lemma commit_started_outcome:
  assumes "commit_backup v org trigger key source config pf = Inr (pf', Started t s)"
  obtains c r db where "first_where (\<lambda>c. bc_org c = org \<and> bc_id c = config) (pr_configs pf) = Some c"
    "active_source_control_task org (fst source) (snd source) None pf = None"
    "find_active_backup_task (se_env v) org (fst source) (snd source) config pf = Inr None"
    "se_license v org pf = License_ok"
    "first_where (\<lambda>r. rp_org r = org \<and> rp_id r = bc_repository c) (st_repositories pf) = Some r"
    "assert_repository_quota_available (start_now v) r = Inr ()"
    "\<exists>rs. lock_repositories_for_workload org [bc_repository c] ''backup_write'' pf = Inr rs"
    "create_task (start_now v) (se_uuid v config) (new_backup_request v org trigger source c
       (int (count_where (\<lambda>d. cd_config d = config) (pr_config_directories pf)))) (pf_tasks pf) = Inr (db, t)"
    "sn_org s = org" "sn_key s = strip key" "sn_config s = config" "sn_repository s = bc_repository c"
    "sn_task s = t_id t" "sn_status s = Snap_creating" "sn_id s = pr_next_snapshot pf"
    "pf' = pf\<lparr>pf_tasks := db, pr_snapshots := pr_snapshots pf @ [s], pr_next_snapshot := sn_id s + 1\<rparr>"
  using assms
proof (cases rule: commit_backupE)
  case (started c t' s')
  have id: "bc_id c = config" using first_where_Some [OF started(4)] by simp
  have control: "active_source_control_task org (fst source) (snd source) None pf = None"
    using started(3) by (auto simp: assert_source_product_operation_allowed_def split: option.splits)
  from started(2) show thesis
  proof (rule write_backupE)
    fix db t1 s1 r
    assume o': "Started t s = Started t1 s1"
      and task: "create_task (start_now v) (se_uuid v (bc_id c)) (new_backup_request v org trigger source c
       (int (count_where (\<lambda>d. cd_config d = bc_id c) (pr_config_directories pf)))) (pf_tasks pf) = Inr (db, t1)"
      and c: "create_source_snapshot (start_now v) (se_hex v (bc_id c)) (backup_snapshot_args org trigger key source c
       (int (count_where (\<lambda>d. cd_config d = bc_id c) (pr_config_directories pf))) t1) (pf\<lparr>pf_tasks := db\<rparr>) = Inr (pf', s1)"
      and w: "se_license v org pf = License_ok"
        "first_where (\<lambda>r. rp_org r = org \<and> rp_id r = bc_repository c) (st_repositories pf) = Some r"
        "assert_repository_quota_available (start_now v) r = Inr ()"
        "\<exists>rs. lock_repositories_for_workload org [bc_repository c] ''backup_write'' pf = Inr rs"
    from c have "s1 = new_snapshot (start_now v) (se_hex v (bc_id c)) (backup_snapshot_args org trigger key source c
       (int (count_where (\<lambda>d. cd_config d = bc_id c) (pr_config_directories pf))) t1)
         (if task_trigger trigger = ''system'' then By_schedule else By_manual) Snap_creating (pr_next_snapshot pf)
       \<and> pf' = pf\<lparr>pf_tasks := db, pr_snapshots := pr_snapshots pf @ [s1], pr_next_snapshot := sn_id s1 + 1\<rparr>"
    proof (cases rule: create_snapshotE)
      case found
      with started(5) show ?thesis by (simp add: snapshot_by_key_def backup_snapshot_args_def)
    next
      case (made tr st)
      have "validated_trigger_type (Some ''schedule'') = Inr By_schedule" "validated_trigger_type (Some ''manual'') = Inr By_manual"
        by code_simp+
      with made show ?thesis by (auto simp: backup_snapshot_args_def split: if_splits)
    qed
    with that [OF started(4) control _ w, of db] started(6) task o' id show thesis
      by (simp add: new_snapshot_def backup_snapshot_args_def)
  qed
qed simp
lemma first_naming_None:
  "first_naming names also ts = Inr None \<longleftrightarrow> (\<forall>t \<in> set ts. \<exists>b. names t = Inr b \<and> \<not> (b \<and> also t))"
  by (induction ts) auto

lemma no_active_backup:
  assumes "find_active_backup_task e org st ref config pf = Inr None"
    and "u \<in> set (db_tasks (pf_tasks pf))" and "t_org u = Some org" and "t_type u = Backup"
    and "\<not> terminal (t_status u)"
  shows "request_names_config st ref config u = Inr False"
proof -
  have "first_naming (request_names_config st ref config) (\<lambda>_. True) (backup_tasks org task_active pf) = Inr None"
    using assms(1) by (auto simp: find_active_backup_task_def split: option.splits)
  moreover have "u \<in> set (backup_tasks org task_active pf)" using assms(2-5) by (simp add: backup_tasks_def)
  ultimately show ?thesis by (auto simp: first_naming_None)
qed

text \<open>The task of a new backup owns its source, so no reset of the source is admitted.\<close>

lemma created_backup_task:
  assumes "create_task now uuid (new_backup_request v org trigger source c n) db = Inr (db', t)"
  shows "db_tasks db' = db_tasks db @ [t]" "t_org t = Some org" "t_type t = Backup" "t_status t = Pending"
    "owns_source db' (fst source) (snd source) t"
  using assms
proof -
  let ?q = "new_backup_request v org trigger source c n"
  obtain ty tr replaced where ty: "parse_task_type (q_type ?q) = Some ty"
    and s: "store_task now uuid ?q ty (request_trigger ?q tr replaced db) replaced db = Inr (db', t)"
    using assms by (rule create_taskE)
  have "parse_task_type ''backup'' = Some Backup" using parse_task_type_value [of Backup] by simp
  with ty have b: "ty = Backup" by (simp add: new_backup_request_def)
  show tasks: "db_tasks db' = db_tasks db @ [t]" using store_task_beside(1) [OF s] .
  from s show "t_org t = Some org" "t_type t = Backup" "t_status t = Pending"
    by (auto elim!: store_taskE simp: new_task_def new_backup_request_def b)
  let ?rd = "\<lparr>rd_type = Some ''backup_source'', rd_subtype = Some (fst source), rd_ref = Some (snd source), rd_primary = True\<rparr>"
  have "?rd \<in> set (kept_resources ?q ty)" by (simp add: kept_resources_def new_backup_request_def)
  from store_task_resources(2) [OF s this] show "owns_source db' (fst source) (snd source) t"
    by (auto simp: owns_source_def task_resources_def)
qed

lemma running_backup_refuses:
  assumes "t \<in> set (db_tasks (pf_tasks pf))" and "t_org t = Some org" and "t_type t = Backup"
    and "\<not> terminal (t_status t)" and "owns_source (pf_tasks pf) st ref t"
  shows "isl (assert_no_active_backup_for_source e org st ref pf)"
proof -
  have "backup_candidate e org pf t" using assms(2-4) by (simp add: backup_candidate_def)
  then have "refuse_backup e org pf (st, ref) () \<noteq> Inr ()"
    unfolding backup_not_refused no_backup_found using assms(1,5) by blast
  then have "assert_no_active_backup_for_source e org st ref pf \<noteq> Inr ()"
    by (auto simp: assert_no_active_backup_for_source_def assert_no_active_backup_for_sources_def Let_def)
  then show ?thesis by (cases "assert_no_active_backup_for_source e org st ref pf") auto
qed

lemma backup_write_admitted:
  assumes "lock_repositories_for_workload org [i] ''backup_write'' pf = Inr rs"
    and "first_where (\<lambda>r. rp_org r = org \<and> rp_id r = i) (st_repositories pf) = Some r"
  shows "rp_status r = Repo_created \<and> assert_no_orphan_cleanup (rp_id r) pf = Inr ()"
proof -
  have "sort (remdups [i]) = [i]" by simp
  then have "rs = [r]" "admit_repository ''backup_write'' pf r () = Inr ()"
    using assms by (auto simp: workload_Inr found_repository_def)
  then show ?thesis by (simp add: admit_repository_Inr)
qed

lemma start_config_outcome:
  assumes "start_config v org trigger batch source c pf = (pf', Inr i)" and "si_status i = Item_created"
    and "se_queue_refused v = (\<lambda>_. None)"
  shows "bc_status c = Conf_active"
    and "active_source_control_task org (fst source) (snd source) None pf = None"
    and "\<forall>u \<in> set (db_tasks (pf_tasks pf)). t_org u = Some org \<and> t_type u = Backup \<and> \<not> terminal (t_status u)
      \<longrightarrow> request_names_config (fst source) (snd source) (bc_id c) u = Inr False"
    and "\<exists>c' r t s. first_where (\<lambda>c'. bc_org c' = org \<and> bc_id c' = bc_id c) (pr_configs pf) = Some c'
      \<and> r \<in> set (st_repositories pf) \<and> rp_id r = bc_repository c' \<and> rp_status r = Repo_created
      \<and> assert_repository_quota_available (start_now v) r = Inr ()
      \<and> si_task i = Some (t_id t) \<and> si_snapshot i = Some (sn_id s)
      \<and> db_tasks (pf_tasks pf') = db_tasks (pf_tasks pf) @ [t] \<and> t_type t = Backup \<and> t_status t = Pending
      \<and> pr_snapshots pf' = pr_snapshots pf @ [s] \<and> sn_key s = strip (item_key batch source (bc_id c))
      \<and> sn_config s = bc_id c \<and> sn_repository s = rp_id r \<and> sn_task s = t_id t \<and> sn_status s = Snap_creating
      \<and> pr_backup_queue pf' = pr_backup_queue pf @ [(t_id t, sn_id s)]"
    and "isl (assert_no_active_backup_for_source e org (fst source) (snd source) pf')"
proof -
  obtain pf1 where active: "bc_status c = Conf_active" and a: "admit_backup v org source c pf = (pf1, Inr ())"
    and cq: "commit_and_queue v org trigger (item_key batch source (bc_id c)) source (bc_id c) pf1 = (pf', Inr i)"
    by (rule start_config_created [OF assms(1,2)])
  note frame = admit_frame [OF a]
  obtain pf2 t s pf3 where c: "commit_backup v org trigger (item_key batch source (bc_id c)) source (bc_id c) pf1 = Inr (pf2, Started t s)"
    and q: "queue_backup_execution v org t s pf2 = (pf3, Inr ())" "queue_estimate v (bc_id c) t pf3 = (pf', Inr ())"
    and i: "si_task i = Some (t_id t)" "si_snapshot i = Some (sn_id s)"
    by (rule commit_and_queue_created [OF cq assms(2)])
  obtain c' r db where o': "first_where (\<lambda>c'. bc_org c' = org \<and> bc_id c' = bc_id c) (pr_configs pf1) = Some c'"
    "active_source_control_task org (fst source) (snd source) None pf1 = None"
    "find_active_backup_task (se_env v) org (fst source) (snd source) (bc_id c) pf1 = Inr None"
    "first_where (\<lambda>r. rp_org r = org \<and> rp_id r = bc_repository c') (st_repositories pf1) = Some r"
    "assert_repository_quota_available (start_now v) r = Inr ()"
    and w: "\<exists>rs. lock_repositories_for_workload org [bc_repository c'] ''backup_write'' pf1 = Inr rs"
    and task: "create_task (start_now v) (se_uuid v (bc_id c)) (new_backup_request v org trigger source c'
       (int (count_where (\<lambda>d. cd_config d = bc_id c) (pr_config_directories pf1)))) (pf_tasks pf1) = Inr (db, t)"
    and s: "sn_key s = strip (item_key batch source (bc_id c))" "sn_config s = bc_id c"
      "sn_repository s = bc_repository c'" "sn_task s = t_id t" "sn_status s = Snap_creating"
    and pf2: "pf2 = pf1\<lparr>pf_tasks := db, pr_snapshots := pr_snapshots pf1 @ [s], pr_next_snapshot := sn_id s + 1\<rparr>"
    by (rule commit_started_outcome [OF c])
  have pf': "pf_tasks pf' = db" "pr_snapshots pf' = pr_snapshots pf @ [s]"
    "pr_backup_queue pf' = pr_backup_queue pf @ [(t_id t, sn_id s)]"
    using q assms(3) frame by (auto simp: queue_backup_execution_def queue_estimate_def pf2 split: if_splits)
  note t = created_backup_task [OF task]
  have r: "r \<in> set (st_repositories pf)" "rp_id r = bc_repository c'" "rp_status r = Repo_created"
    using first_where_Some [OF o'(4)] w backup_write_admitted [OF _ o'(4)] frame by auto
  show "bc_status c = Conf_active" by (rule active)
  show "active_source_control_task org (fst source) (snd source) None pf = None"
    using o'(2) frame by (simp add: active_source_control_task_def)
  show "\<forall>u \<in> set (db_tasks (pf_tasks pf)). t_org u = Some org \<and> t_type u = Backup \<and> \<not> terminal (t_status u)
      \<longrightarrow> request_names_config (fst source) (snd source) (bc_id c) u = Inr False"
    using no_active_backup [OF o'(3)] frame by simp
  show "isl (assert_no_active_backup_for_source e org (fst source) (snd source) pf')"
    by (rule running_backup_refuses [of t]) (use t pf' in simp_all)
  show "\<exists>c' r t s. first_where (\<lambda>c'. bc_org c' = org \<and> bc_id c' = bc_id c) (pr_configs pf) = Some c'
      \<and> r \<in> set (st_repositories pf) \<and> rp_id r = bc_repository c' \<and> rp_status r = Repo_created
      \<and> assert_repository_quota_available (start_now v) r = Inr ()
      \<and> si_task i = Some (t_id t) \<and> si_snapshot i = Some (sn_id s)
      \<and> db_tasks (pf_tasks pf') = db_tasks (pf_tasks pf) @ [t] \<and> t_type t = Backup \<and> t_status t = Pending
      \<and> pr_snapshots pf' = pr_snapshots pf @ [s] \<and> sn_key s = strip (item_key batch source (bc_id c))
      \<and> sn_config s = bc_id c \<and> sn_repository s = rp_id r \<and> sn_task s = t_id t \<and> sn_status s = Snap_creating
      \<and> pr_backup_queue pf' = pr_backup_queue pf @ [(t_id t, sn_id s)]"
    using o'(1,5) r i t s pf' frame by (intro exI [of _ c'] exI [of _ r] exI [of _ t] exI [of _ s]) simp
qed


section \<open>A small store\<close>

definition start_settings :: start_env where
  "start_settings = \<lparr>se_env = example_env 1704088801, se_organization = (\<lambda>_. True), se_license = (\<lambda>_ _. License_ok),
     se_linux_agent = (\<lambda>_ _. True), se_proxy_serves = (\<lambda>_ _ _. True),
     se_init_nas = (\<lambda>_ _ _ _ pf. \<lparr>ne_fleet = pf_fleet pf, ne_namespaces = st_namespaces pf, ne_claims = st_claims pf,
       ne_failed = None\<rparr>),
     se_source_name = (\<lambda>_ _. ''h''), se_stamp = ''s'', se_uuid = (\<lambda>c. ''b''), se_hex = (\<lambda>c. ''c''),
     se_queue_refused = (\<lambda>_. None), se_estimate_refused = (\<lambda>_. False)\<rparr>"

definition every_minute :: backup_policy where
  "every_minute = \<lparr>bp_id = 4, bp_active = True,
     bp_schedule = JObj [(''enabled'', JBool True), (''cron_expr'', JStr ''* * * * *'')], bp_retention = JObj []\<rparr>"

definition example_config :: backup_config where
  "example_config = hd (pr_configs example_protection)"

definition scheduled_request :: start_request where
  "scheduled_request = the (due_request example_zones (floor_minute (seconds 1704088801)) (example_config, every_minute))"

definition scheduled_protection :: protection where
  "scheduled_protection = fst (start_backup_tasks start_settings scheduled_request example_protection)"

lemma every_minute_due:
  "due_request example_zones (floor_minute (seconds 1704088801)) (example_config, every_minute) = Some scheduled_request"
proof -
  have "due_request example_zones (floor_minute (seconds 1704088801)) (example_config, every_minute) \<noteq> None" by code_simp
  then show ?thesis by (auto simp: scheduled_request_def)
qed

lemma example_typed: "snapshots_typed example_protection"
  by (simp add: snapshots_typed_def snapshots_ok_def directories_ok_def example_protection_def example_snapshot_def
    summary_ok_def snapshot_conflict_def)

lemma scheduled_start:
  "case snd (start_backup_tasks start_settings scheduled_request example_protection) of
     Inl e \<Rightarrow> False | Inr a \<Rightarrow> an_created a = 1"
  by code_simp

definition deleted_protection :: protection where
  "deleted_protection = (case soft_delete_source_snapshot (seconds 1704088810) (last (pr_snapshots scheduled_protection))
       scheduled_protection of Inl e \<Rightarrow> scheduled_protection | Inr (pf, s) \<Rightarrow> pf)"

lemma scheduled_answer:
  obtains a where "start_backup_tasks start_settings scheduled_request example_protection = (scheduled_protection, Inr a)"
    "an_created a \<noteq> 0"
  using scheduled_start that unfolding scheduled_protection_def
  by (cases "start_backup_tasks start_settings scheduled_request example_protection") (auto split: sum.splits)

lemma scheduled_typed: "table_run example_protection scheduled_protection" "snapshots_typed scheduled_protection"
proof -
  show r: "table_run example_protection scheduled_protection"
    using start_backup_tasks_run [of example_protection start_settings scheduled_request]
    by (simp add: scheduled_protection_def)
  show "snapshots_typed scheduled_protection" using r example_typed by (rule table_run_typed)
qed

lemma deleted_run:
  "table_run scheduled_protection deleted_protection
   \<and> (\<exists>s \<in> set (pr_snapshots deleted_protection). sn_status s = Snap_deleted)"
proof -
  have "identities example_protection \<noteq> []" by (simp add: identities_def example_protection_def)
  then have "has_row (hd (identities example_protection)) ({}, example_protection)" by (simp add: has_row_def)
  moreover obtain C where "snapshot_step\<^sup>*\<^sup>* ({}, example_protection) (C, scheduled_protection)"
    using scheduled_typed(1) by (auto simp: table_run_def)
  moreover have "table_typed ({}, example_protection)" using example_typed by (simp add: table_typed_def)
  ultimately have "has_row (hd (identities example_protection)) (C, scheduled_protection)"
    using snapshot_rows.run_fact by blast
  then have l: "last (pr_snapshots scheduled_protection) \<in> set (pr_snapshots scheduled_protection)"
    by (auto simp: has_row_def identities_def intro: last_in_set)
  from soft_delete_succeeds [OF scheduled_typed(2) l, of "seconds 1704088810"] obtain pf s where
    d: "soft_delete_source_snapshot (seconds 1704088810) (last (pr_snapshots scheduled_protection))
       scheduled_protection = Inr (pf, s)" "\<exists>r \<in> set (pr_snapshots pf). sn_status r = Snap_deleted" by blast
  then have "deleted_protection = pf" by (simp add: deleted_protection_def)
  with d table_run_deleted [OF l d(1)] show ?thesis by simp
qed

lemma started_config:
  "case snd (start_config start_settings 7 ''schedule'' ''k'' (''agent'', 5) example_config example_protection) of
     Inl e \<Rightarrow> False | Inr i \<Rightarrow> si_status i = Item_created"
  by code_simp

section \<open>Properties\<close>





text \<open>
  C40. A scheduled backup is started at most once: when a policy run started a backup for a
  configuration, a run in the same minute changes nothing for it, whatever was recorded of the
  snapshot in between, even when it has failed or was deleted.
\<close>

theorem scheduled_backup_once:
  assumes "due_request z (floor_minute now) (c, p) = Some q" and "start_backup_tasks v q pf = (pf1, Inr a)"
    and "an_created a \<noteq> 0" and "snapshots_typed pf"
    and "snapshot_step\<^sup>*\<^sup>* (C0, pf1) (C, pf2)" and "\<forall>s \<in> C0. summary_ok s"
    and "floor_minute later = floor_minute now" and "due_request z (floor_minute later) (c, p) = Some q'"
    and "start_backup_tasks v' q' pf2 = (pf3, r)"
  shows "pf3 = pf2 \<and> (\<forall>a'. r = Inr a' \<longrightarrow> an_created a' = 0)"
proof -
  have q': "q' = q" using assms(1,7,8) by simp
  from due_request_fields [OF assms(1)] obtain d k where
    q: "sq_sources q = [d]" "sq_source_ids q = []" "sq_configs q = [bc_id c]" "sq_key q = Some k" "k \<noteq> []" by blast
  obtain x where x: "requested_source d = Inr x" and acc: "accepted (sq_org q) (item_key (strip k) x (bc_id c)) pf1"
    by (rule single_started_accepted [OF assms(2-4) q])
  have "snapshots_typed pf1" using start_backup_tasks_run [of pf v q] assms(2,4) table_run_typed by simp
  then have "accepted (sq_org q) (item_key (strip k) x (bc_id c)) pf2"
    using accepted_persists [OF assms(5) _ acc] assms(6) by (simp add: table_typed_def)
  from single_accepted_idle [OF x this q] assms(9) q' show ?thesis by blast
qed

theorem scheduled_backup_once_witness:
  "fst (start_backup_tasks start_settings scheduled_request deleted_protection) = deleted_protection
   \<and> (\<exists>s \<in> set (pr_snapshots deleted_protection). sn_status s = Snap_deleted)"
proof
  obtain a where a: "start_backup_tasks start_settings scheduled_request example_protection = (scheduled_protection, Inr a)"
    "an_created a \<noteq> 0" by (rule scheduled_answer)
  obtain C where C: "snapshot_step\<^sup>*\<^sup>* ({}, scheduled_protection) (C, deleted_protection)"
    using deleted_run by (auto simp: table_run_def)
  obtain pf3 r where again: "start_backup_tasks start_settings scheduled_request deleted_protection = (pf3, r)" by fastforce
  from scheduled_backup_once [OF every_minute_due a example_typed C _ refl every_minute_due again] again
  show "fst (start_backup_tasks start_settings scheduled_request deleted_protection) = deleted_protection" by simp
  show "\<exists>s \<in> set (pr_snapshots deleted_protection). sn_status s = Snap_deleted" using deleted_run by blast
qed

end
