(* ===== verification/Locator.thy ===== *)
theory Locator
  imports Snapshot_Record
begin

text \<open>
  Where a physical snapshot lives, \<^verbatim>\<open>apps/protection/services/snapshot_repository_locator.py\<close>: the
  location is stored with the directory row when the backup is dispatched, and derived from the
  commands of the backup for rows of older releases. A service reads the row from the copy its
  caller holds, which is an argument, and returns it changed. A repository bound to a Proxy names
  it, so one column stands for \<^verbatim>\<open>bind_node_type\<close> and \<^verbatim>\<open>bind_node_id\<close>.
\<close>

section \<open>Locators\<close>

record locator =
  lo_version :: int
  lo_repository :: int
  lo_type :: string
  lo_subdir :: string
  lo_writer :: "int option"
  lo_access :: "int option"

datatype locator_error =
  Locator_invalid string
| Locator_row_missing

fun repository_type_value :: "repository_type \<Rightarrow> string" where
  "repository_type_value Repo_s3 = ''s3''"
| "repository_type_value Repo_nas = ''nas''"
| "repository_type_value Repo_proxy_fs = ''proxy_fs''"

definition optional_int :: "int option \<Rightarrow> json" where
  "optional_int v = (case v of None \<Rightarrow> JNull | Some i \<Rightarrow> JInt i)"

definition locator_payload :: "locator \<Rightarrow> dict" where
  "locator_payload l =
     [(''version'', JInt (lo_version l)), (''repository_id'', JInt (lo_repository l)),
      (''repository_type'', JStr (lo_type l)), (''repository_subdir'', JStr (lo_subdir l)),
      (''writer_node_id'', optional_int (lo_writer l)), (''access_node_id'', optional_int (lo_access l))]"

definition positive_int :: "json \<Rightarrow> int option" where
  "positive_int v = (case int_or v 0 of None \<Rightarrow> None | Some n \<Rightarrow> if n > 0 then Some n else None)"

definition nas_agent_repository_subdir :: "int \<Rightarrow> string" where
  "nas_agent_repository_subdir node = ''hp-repos/agent-'' @ show_int node"

text \<open>The subdirectory and the access node of a new snapshot.\<close>

definition built_place :: "repository \<Rightarrow> int option \<Rightarrow> (locator_error, string \<times> int option) result" where
  "built_place r writer = (case rp_type r of
       Repo_nas \<Rightarrow>
         (case rp_bind_node r of
            Some n \<Rightarrow> Inr (nas_proxy_repository_subdir r, positive_int (JInt n))
          | None \<Rightarrow>
              rbind (of_option (Locator_invalid ''Direct NAS snapshot location requires its backup execution node.'')
                writer) (\<lambda>w. Inr (nas_agent_repository_subdir w, None)))
     | Repo_proxy_fs \<Rightarrow>
         rbind (of_option (Locator_invalid ''Proxy filesystem snapshot location requires its bound proxy node.'')
           (positive_int (optional_int (rp_bind_node r)))) (\<lambda>n. Inr ([], Some n))
     | Repo_s3 \<Rightarrow> Inr ([], None))"

definition build_snapshot_repository_locator ::
  "repository \<Rightarrow> int option \<Rightarrow> (locator_error, locator) result" where
  "build_snapshot_repository_locator r writer =
     (let w = positive_int (optional_int writer) in
      rbind (built_place r w) (\<lambda>(subdir, access).
        Inr \<lparr>lo_version = 1, lo_repository = rp_id r, lo_type = repository_type_value (rp_type r),
             lo_subdir = subdir, lo_writer = w, lo_access = access\<rparr>))"

section \<open>Stored locators\<close>

definition parsed_locator :: "dict \<Rightarrow> locator option" where
  "parsed_locator d = (case (int_or (dget d ''version'') 0, int_or (dget d ''repository_id'') 0) of
       (Some version, Some repository) \<Rightarrow>
         Some \<lparr>lo_version = version, lo_repository = repository,
           lo_type = strip (text_or_empty (dget d ''repository_type'')),
           lo_subdir = strip (text_or_empty (dget d ''repository_subdir'')),
           lo_writer = positive_int (dget d ''writer_node_id''),
           lo_access = positive_int (dget d ''access_node_id'')\<rparr>
     | _ \<Rightarrow> None)"

definition stored_locator :: "snapshot_directory \<Rightarrow> repository \<Rightarrow> (locator_error, locator option) result" where
  "stored_locator d r = (case sd_locator d of
       JObj raw \<Rightarrow>
         if raw = [] then Inr None
         else
           rbind (of_option (Locator_invalid ''Snapshot repository locator is invalid.'') (parsed_locator raw)) (\<lambda>l.
           rbind (guard_that (lo_version l = 1)
             (Locator_invalid ''Snapshot repository locator version is not supported.'')) (\<lambda>_.
           rbind (guard_that (lo_repository l = rp_id r \<and> lo_type l = repository_type_value (rp_type r))
             (Locator_invalid ''Snapshot repository locator does not match its repository.'')) (\<lambda>_.
           rbind (guard_that (\<not> (rp_type r = Repo_nas \<and> lo_subdir l = []))
             (Locator_invalid ''NAS snapshot repository locator has no subdirectory.'')) (\<lambda>_.
           rbind (guard_that (\<not> (rp_type r = Repo_proxy_fs \<and> lo_access l = None))
             (Locator_invalid ''Proxy filesystem snapshot locator has no access node.'')) (\<lambda>_.
             Inr (Some l))))))
     | _ \<Rightarrow> Inl (Locator_invalid ''Snapshot repository locator must be an object.''))"

section \<open>Rows of older releases\<close>

definition legacy_writer_node_id ::
  "snapshot_directory \<Rightarrow> protection \<Rightarrow> (locator_error, int option) result" where
  "legacy_writer_node_id d pf =
     (case (case sd_node_task d of None \<Rightarrow> None
            | Some i \<Rightarrow> first_where (\<lambda>k. k_org k = Some (sd_org d) \<and> k_id k = i \<and> k_node k \<noteq> 0) (fl_tasks (pf_fleet pf))) of
        Some k \<Rightarrow> Inr (Some (int (k_node k)))
      | None \<Rightarrow>
          rbind (of_option Locator_row_missing (first_where (\<lambda>s. sn_id s = sd_snapshot d) (pr_snapshots pf))) (\<lambda>s.
          if sn_source_type s = ''agent'' then Inr (positive_int (JInt (sn_source_ref s)))
          else if sn_source_type s \<noteq> ''nas'' then Inr None
          else Inr (positive_int (optional_int
            (case first_where (\<lambda>n. ns_org n = Some (sd_org d) \<and> ns_id n = sn_source_ref s \<and> \<not> ns_deleted n) (pf_nas pf) of
               None \<Rightarrow> None | Some n \<Rightarrow> ns_bound n)))))"

text \<open>The Proxies that served the repository of the snapshot's backup, newest first.\<close>

definition repository_server_tasks :: "int \<Rightarrow> snapshot \<Rightarrow> protection \<Rightarrow> node_task list" where
  "repository_server_tasks org s pf =
     rev (sort_key (\<lambda>k. (k_created_at k, k_id k))
       (filter (\<lambda>k. k_org k = Some org \<and> k_kind k = ''repository.server.start''
          \<and> k_correlation_type k = ''protection.backup'' \<and> k_correlation_id k = sn_task_uuid s
          \<and> k_status k = N_success) (fl_tasks (pf_fleet pf))))"

text \<open>The repository named by a command; a payload without one leaves the choice open.\<close>

definition served_repository :: "node_task \<Rightarrow> int option" where
  "served_repository k = (case dget (k_payload k) ''repository'' of
       JObj d \<Rightarrow> positive_int (dget d ''id'') | _ \<Rightarrow> None)"

fun serving_node :: "int \<Rightarrow> int option \<Rightarrow> node_task list \<Rightarrow> int option" where
  "serving_node repository legacy [] = legacy"
| "serving_node repository legacy (k # ks) =
     (if served_repository k = Some repository then positive_int (JInt (int (k_node k)))
      else serving_node repository
        (if served_repository k = None \<and> legacy = None then positive_int (JInt (int (k_node k))) else legacy) ks)"

definition backup_proxy :: "snapshot_directory \<Rightarrow> protection \<Rightarrow> int option" where
  "backup_proxy d pf = (case sd_node_task d of
       None \<Rightarrow> None
     | Some i \<Rightarrow>
         (case first_where (\<lambda>k. k_org k = Some (sd_org d) \<and> k_id k = i \<and> k_kind k = ''backup.run''
              \<and> (\<exists>n \<in> set (fl_nodes (pf_fleet pf)). n_id n = k_node k \<and> n_role n = Proxy_role))
            (fl_tasks (pf_fleet pf)) of
            None \<Rightarrow> None | Some k \<Rightarrow> positive_int (JInt (int (k_node k)))))"

definition legacy_proxy_fs_access_node_id ::
  "snapshot_directory \<Rightarrow> protection \<Rightarrow> (locator_error, int option) result" where
  "legacy_proxy_fs_access_node_id d pf =
     rbind (of_option Locator_row_missing (first_where (\<lambda>s. sn_id s = sd_snapshot d) (pr_snapshots pf))) (\<lambda>s.
       Inr (first_some (serving_node (sn_repository s) None (repository_server_tasks (sd_org d) s pf))
         (backup_proxy d pf)))"

definition build_legacy_snapshot_repository_locator ::
  "snapshot_directory \<Rightarrow> repository \<Rightarrow> protection \<Rightarrow> (locator_error, locator) result" where
  "build_legacy_snapshot_repository_locator d r pf =
     rbind (legacy_writer_node_id d pf) (\<lambda>writer.
     rbind (build_snapshot_repository_locator r writer) (\<lambda>l.
     if rp_type r \<noteq> Repo_proxy_fs then Inr l
     else rbind (legacy_proxy_fs_access_node_id d pf) (\<lambda>historical.
       Inr (case historical of None \<Rightarrow> l | Some n \<Rightarrow> l\<lparr>lo_access := Some n\<rparr>))))"

section \<open>Storing and resolving\<close>

definition has_kopia_id :: "snapshot_directory \<Rightarrow> bool" where
  "has_kopia_id d \<longleftrightarrow> or_else (sd_kopia_id d) [] \<noteq> []"

definition directory_by_id :: "int \<Rightarrow> protection \<Rightarrow> snapshot_directory option" where
  "directory_by_id i pf = first_where (\<lambda>d. sd_id d = i) (pr_directories pf)"

text \<open>\<^verbatim>\<open>filter(pk=...).update(repository_locator=...)\<close>, on the rows the condition leaves.\<close>

definition set_locator :: "(snapshot_directory \<Rightarrow> bool) \<Rightarrow> dict \<Rightarrow> protection \<Rightarrow> protection" where
  "set_locator p payload pf =
     pf\<lparr>pr_directories := update_where p (\<lambda>d. d\<lparr>sd_locator := JObj payload\<rparr>) (pr_directories pf)\<rparr>"

definition ensure_snapshot_repository_locator ::
  "snapshot_directory \<Rightarrow> repository \<Rightarrow> int option \<Rightarrow> protection \<Rightarrow>
    (locator_error, protection \<times> snapshot_directory \<times> locator) result" where
  "ensure_snapshot_repository_locator d r writer pf =
     rbind (build_snapshot_repository_locator r writer) (\<lambda>l.
     rbind (of_option Locator_row_missing (directory_by_id (sd_id d) pf)) (\<lambda>row.
     rbind (stored_locator row r) (\<lambda>existing.
     let keep = (case existing of None \<Rightarrow> None | Some x \<Rightarrow> if x = l \<or> has_kopia_id row then Some x else None);
         resolved = or_else keep l
     in Inr (if keep = None then set_locator (\<lambda>x. sd_id x = sd_id d) (locator_payload l) pf else pf,
             d\<lparr>sd_locator := JObj (locator_payload resolved)\<rparr>, resolved))))"

definition resolve_snapshot_repository_locator ::
  "snapshot_directory \<Rightarrow> repository \<Rightarrow> protection \<Rightarrow>
    (locator_error, protection \<times> snapshot_directory \<times> locator) result" where
  "resolve_snapshot_repository_locator d r pf =
     rbind (stored_locator d r) (\<lambda>existing.
     case existing of
       Some l \<Rightarrow> Inr (pf, d, l)
     | None \<Rightarrow>
         rbind (build_legacy_snapshot_repository_locator d r pf) (\<lambda>l.
         if \<not> has_kopia_id d then Inr (pf, d, l)
         else
           let free = (\<lambda>x. sd_id x = sd_id d \<and> sd_locator x = JObj []) in
           if count_where free (pr_directories pf) > 0
           then Inr (set_locator free (locator_payload l) pf, d\<lparr>sd_locator := JObj (locator_payload l)\<rparr>, l)
           else
             rbind (of_option Locator_row_missing (directory_by_id (sd_id d) pf)) (\<lambda>row.
             let d = d\<lparr>sd_locator := sd_locator row\<rparr> in
             rbind (stored_locator d r) (\<lambda>concurrent. Inr (pf, d, or_else concurrent l)))))"

text \<open>The rows by locator, in the order the locators first appear.\<close>

fun add_to_group ::
  "locator \<Rightarrow> snapshot_directory \<Rightarrow> (locator \<times> snapshot_directory list) list \<Rightarrow>
    (locator \<times> snapshot_directory list) list" where
  "add_to_group l d [] = [(l, [d])]"
| "add_to_group l d ((k, ds) # groups) =
     (if k = l then (k, ds @ [d]) # groups else (k, ds) # add_to_group l d groups)"

fun group_directories ::
  "repository \<Rightarrow> snapshot_directory list \<Rightarrow> (locator \<times> snapshot_directory list) list \<Rightarrow> protection \<Rightarrow>
    (protection, locator_error, snapshot_directory list list) stepping" where
  "group_directories r [] groups pf = (pf, Inr (map snd groups))"
| "group_directories r (d # ds) groups pf =
     (case resolve_snapshot_repository_locator d r pf of
        Inl e \<Rightarrow> (pf, Inl e)
      | Inr (pf, d, l) \<Rightarrow> group_directories r ds (add_to_group l d groups) pf)"

definition group_snapshot_directories_by_repository_locator ::
  "snapshot_directory list \<Rightarrow> repository \<Rightarrow> protection \<Rightarrow>
    (protection, locator_error, snapshot_directory list list) stepping" where
  "group_snapshot_directories_by_repository_locator ds r pf = group_directories r ds [] pf"

end
