(* ===== verification/Agent_Work.thy ===== *)
theory Agent_Work
  imports Locator Backup_Start Node_Delivery
begin

text \<open>
  Which node works on a snapshot's data, and the command sent to it: the execution target of a
  source (\<^verbatim>\<open>apps/protection/services/source_execution.py\<close>), the reader of a repository
  (\<^verbatim>\<open>apps/storage/services/internal/repository_access.py\<close>) and the dispatch of a long command
  (\<^verbatim>\<open>run_agent_task_async\<close> of \<^verbatim>\<open>apps/node/services/internal/agent_task.py\<close>). The errors carry the
  text a task records of them.
\<close>

section \<open>What lies outside\<close>

text \<open>
  Exceptions of a deletion that is carried out: the three that defer it, an invalid request
  (\<^verbatim>\<open>ValidationError\<close>, with its message) and any other (with \<^verbatim>\<open>str\<close> of it or its class).
\<close>

datatype work_error =
  Snapshot_in_use
| Agent_pending
| Controller_busy
| Invalid_work string
| Broken_work string

text \<open>
  The environment: clock, settings, organizations and platforms as at the start of a backup, the
  channel to Agents, the names and mount points of nodes and NAS sources, the runtime payload of a
  repository with its secrets, SHA-256, the identifiers drawn for commands, and the texts of
  exceptions of other components. On the Controller the backup engine is a process: \<open>we_engine_open\<close> is
  the text with which the check of the place or the connection fails, \<open>we_engine_delete\<close> the exit code,
  the two tails and the failure text of one deletion, or the text of an exception. It writes no table.
\<close>

record work_env =
  we_start :: start_env
  we_courier :: courier
  we_node_name :: "nat \<Rightarrow> string"
  we_nas_online :: "int \<Rightarrow> bool"
  we_mount_point :: "int \<Rightarrow> string"
  we_payload :: "repository \<Rightarrow> node \<Rightarrow> int option \<Rightarrow> (string, dict) result"
  we_sha256 :: "string \<Rightarrow> string"
  we_command :: "string \<Rightarrow> nat"
  we_text :: "start_error \<Rightarrow> string"
  we_controller_free :: bool
  we_engine_open :: "repository \<Rightarrow> string option"
  we_engine_delete :: "repository \<Rightarrow> string \<Rightarrow> (string, int \<times> string \<times> string \<times> string) result"

definition work_now :: "work_env \<Rightarrow> int" where
  "work_now v = start_now (we_start v)"

section \<open>Nodes\<close>

definition node_is_available_for_work :: "node \<Rightarrow> bool" where
  "node_is_available_for_work n \<longleftrightarrow> n_availability n = Online
     \<and> n_status n \<notin> {Node_upgrading, Node_restarting, Node_verifying, Node_verification_pending,
          Node_removing, Node_cleaning_up}"

definition owned_node :: "int \<Rightarrow> int \<Rightarrow> fleet \<Rightarrow> node option" where
  "owned_node org i fl = first_where (\<lambda>n. n_org n = Some org \<and> int (n_id n) = i) (fl_nodes fl)"

definition live_node :: "int \<Rightarrow> int \<Rightarrow> node_role \<Rightarrow> fleet \<Rightarrow> node option" where
  "live_node org i role fl = first_where
     (\<lambda>n. n_org n = Some org \<and> int (n_id n) = i \<and> n_role n = role \<and> \<not> n_is_deleted n) (fl_nodes fl)"

definition ready_node :: "string \<Rightarrow> string \<Rightarrow> node \<Rightarrow> (work_error, node) result" where
  "ready_node offline busy n =
     rbind (guard_that (n_availability n = Online) (Invalid_work offline)) (\<lambda>_.
     rbind (guard_that (node_is_available_for_work n) (Invalid_work busy)) (\<lambda>_. Inr n))"

text \<open>The node of \<^verbatim>\<open>resolve_source_execution_target\<close>.\<close>

definition resolve_source_execution_target ::
  "work_env \<Rightarrow> int \<Rightarrow> string \<Rightarrow> int \<Rightarrow> protection \<Rightarrow> (work_error, node) result" where
  "resolve_source_execution_target v org source_type ref pf =
     (let ty = lower (strip source_type) in
      if ty = ''agent'' then
        rbind (of_option (Invalid_work ''Agent source not found.'') (live_node org ref Agent_role (pf_fleet pf)))
          (ready_node ''Agent source is offline.'' ''Agent source is busy.'')
      else
        rbind (guard_that (ty = ''nas'') (Invalid_work ''Backup source type is not supported.'')) (\<lambda>_.
        rbind (of_option (Invalid_work ''NAS source not found.'')
          (first_where (\<lambda>s. ns_org s = Some org \<and> ns_id s = ref \<and> \<not> ns_deleted s) (pf_nas pf))) (\<lambda>s.
        rbind (of_option (Invalid_work ''NAS source is not bound to a proxy node.'')
          (case ns_bound s of None \<Rightarrow> None
           | Some i \<Rightarrow> first_where (\<lambda>n. int (n_id n) = i \<and> n_role n = Proxy_role) (fl_nodes (pf_fleet pf)))) (\<lambda>n.
        rbind (guard_that (we_nas_online v ref) (Invalid_work ''NAS source is offline.'')) (\<lambda>_.
        rbind (ready_node ''Bound proxy node is offline.'' ''Bound proxy node is busy.'' n) (\<lambda>n.
        rbind (guard_that (strip (we_mount_point v ref) \<noteq> []) (Invalid_work ''NAS source mount point is empty.'')) (\<lambda>_.
          Inr n)))))))"

section \<open>The reader of a repository\<close>

definition repository_uses_bound_proxy :: "repository \<Rightarrow> bool" where
  "repository_uses_bound_proxy r \<longleftrightarrow> rp_type r = Repo_proxy_fs \<or> (rp_type r = Repo_nas \<and> rp_bind_node r \<noteq> None)"

text \<open>\<^verbatim>\<open>node_id or repository.bind_node_id\<close>\<close>

definition bound_proxy :: "work_env \<Rightarrow> string \<Rightarrow> repository \<Rightarrow> int option \<Rightarrow> protection \<Rightarrow> (work_error, node) result" where
  "bound_proxy v what r access pf =
     (let i = (if or_else access 0 = 0 then or_else (rp_bind_node r) 0 else the access) in
     rbind (guard_that (rp_bind_node r \<noteq> None \<and> i \<noteq> 0) (Invalid_work (what @ '' is not bound to a proxy node.''))) (\<lambda>_.
     rbind (of_option (Invalid_work (what @ '' bound proxy node not found.''))
       (live_node (rp_org r) i Proxy_role (pf_fleet pf))) (\<lambda>n.
     rbind (guard_that (n_availability n = Online)
       (Invalid_work (what @ '' bound proxy node '' @ [CHR 0x22] @ we_node_name v (n_id n) @ [CHR 0x22] @ '' is offline.'')))
       (\<lambda>_. Inr n))))"

definition repository_access ::
  "work_env \<Rightarrow> repository \<Rightarrow> node \<Rightarrow> string \<Rightarrow> int option \<Rightarrow> (work_error, node \<times> dict) result" where
  "repository_access v r n subdir access =
     rbind (lift_error Invalid_work (we_payload v r n access)) (\<lambda>payload.
     if strip subdir = [] then Inr (n, payload)
     else rbind (guard_that (rp_type r = Repo_nas)
            (Invalid_work ''Only NAS repositories support snapshot subdirectories.'')) (\<lambda>_.
            Inr (n, dset payload ''subdir'' (JStr (strip subdir)))))"

definition resolve_repository_reader ::
  "work_env \<Rightarrow> repository \<Rightarrow> node option \<Rightarrow> string \<Rightarrow> int option \<Rightarrow> protection \<Rightarrow> (work_error, node \<times> dict) result" where
  "resolve_repository_reader v r fallback subdir access pf =
     (if rp_type r = Repo_nas \<and> rp_bind_node r \<noteq> None
      then rbind (bound_proxy v ''NAS repository'' r access pf) (\<lambda>n. repository_access v r n subdir access)
      else if rp_type r = Repo_proxy_fs
      then rbind (bound_proxy v ''Proxy filesystem repository'' r access pf) (\<lambda>n. repository_access v r n subdir access)
      else rbind (of_option (Invalid_work ''Repository access requires an execution node.'') fallback) (\<lambda>n.
        repository_access v r n subdir None))"

definition locator_work :: "locator_error \<Rightarrow> work_error" where
  "locator_work e = (case e of
       Locator_invalid text \<Rightarrow> Invalid_work text
     | Locator_row_missing \<Rightarrow> Broken_work ''BackupSourceSnapshotDirectory matching query does not exist.'')"

definition resolve_snapshot_repository_reader ::
  "work_env \<Rightarrow> snapshot_directory \<Rightarrow> repository \<Rightarrow> node option \<Rightarrow> protection \<Rightarrow>
    (protection, work_error, node \<times> dict) stepping" where
  "resolve_snapshot_repository_reader v d r fallback pf =
     (case resolve_snapshot_repository_locator d r pf of
        Inl e \<Rightarrow> (pf, Inl (locator_work e))
      | Inr (pf, d, l) \<Rightarrow>
          (pf, resolve_repository_reader v r fallback (lo_subdir l)
             (if lo_type l = ''proxy_fs'' then lo_access l else None) pf))"

section \<open>Long commands\<close>

text \<open>The handle is the command as it was created; its row may have moved on.\<close>

definition run_agent_task_async ::
  "work_env \<Rightarrow> nat \<Rightarrow> int \<Rightarrow> nat \<Rightarrow> string \<Rightarrow> dict \<Rightarrow> dict \<Rightarrow> string \<Rightarrow> string \<Rightarrow> nat option \<Rightarrow> protection \<Rightarrow>
    (work_error, protection \<times> node_task) result" where
  "run_agent_task_async v uid org node kind payload persisted ctype cid parent pf =
     rbind (guard_that (se_organization (we_start v) org) (Broken_work ''organization not found'')) (\<lambda>_.
     rbind (of_option (Broken_work (''node '' @ show_nat node @ '' not found for organization''))
       (first_where (\<lambda>n. n_org n = Some org \<and> n_scope n = Scope_organization \<and> n_id n = node \<and> \<not> n_is_deleted n)
         (fl_nodes (pf_fleet pf)))) (\<lambda>n.
     let full = protect_delivery_payload (we_courier v) (attach_node_kopia_cache_policy n payload)
                  (attach_node_kopia_cache_policy n persisted)
     in (case dispatch_task (se_env (we_start v)) (we_courier v) uid (Some org) n kind full ctype cid None parent
            (pf_fleet pf) of
           Inl e \<Rightarrow> Inl (Broken_work ''NodeTask matching query does not exist.'')
         | Inr (fl, t) \<Rightarrow> Inr (pf\<lparr>pf_fleet := fl\<rparr>, t))))"

end
