(* ===== verification/Delete_Execution.thy ===== *)
theory Delete_Execution
  imports Agent_Work
begin

text \<open>
  Where physical snapshots are deleted, \<^verbatim>\<open>apps/protection/services/snapshot_delete_execution.py\<close>:
  by a durable command to the node that wrote them, or, for S3 when that node is gone or never got
  the command, by the Controller (\<^verbatim>\<open>delete_s3_snapshots\<close> of
  \<^verbatim>\<open>apps/storage/services/internal/kopia_cli.py\<close>). A command that is still running defers the
  task; its result wakes the task up again.
\<close>

section \<open>Outcomes\<close>

record delete_outcome =
  do_result :: dict
  do_ok :: bool
  do_timed_out :: bool
  do_last_error :: string

definition agent_outcome :: "node_task \<Rightarrow> delete_outcome" where
  "agent_outcome k = \<lparr>do_result = k_result k, do_ok = (k_status k = N_success),
     do_timed_out = (k_status k = N_timeout), do_last_error = k_last_error k\<rparr>"

definition delete_correlations :: "string list" where
  "delete_correlations = [''protection.snapshot_delete'', ''protection.backup_config_reset'']"

definition snapshot_delete_agent_work_active :: "task \<Rightarrow> protection \<Rightarrow> bool" where
  "snapshot_delete_agent_work_active t pf \<longleftrightarrow> (\<exists>k \<in> set (fl_tasks (pf_fleet pf)).
     k_parent_task k = Some (t_id t) \<and> k_kind k = ''snapshot.delete''
     \<and> k_correlation_type k \<in> set delete_correlations \<and> active (k_status k))"

section \<open>By a command\<close>

definition clean_ids :: "string list \<Rightarrow> string list" where
  "clean_ids ids = sort (remdups (filter (\<lambda>i. i \<noteq> []) (map strip ids)))"

definition snapshot_delete_operation_key :: "work_env \<Rightarrow> task \<Rightarrow> nat \<Rightarrow> int \<Rightarrow> string list \<Rightarrow> string" where
  "snapshot_delete_operation_key v t node repository ids =
     t_uuid t @ '':'' @ show_int (t_retry_count t) @ '':''
       @ take 20 (we_sha256 v (join_with (char_of (10::nat)) ([show_nat node, show_int repository] @ clean_ids ids)))"

text \<open>\<^verbatim>\<open>sorted({str(value) for value in kopia_ids if str(value).strip()})\<close>\<close>

definition delete_command_payload :: "int \<Rightarrow> string list \<Rightarrow> string \<Rightarrow> dict" where
  "delete_command_payload repository ids key =
     [(''repository_id'', JInt repository),
      (''kopia_snapshot_ids'', JList (map JStr (sort (remdups (filter (\<lambda>i. strip i \<noteq> []) ids))))),
      (''snapshot_delete_operation_key'', JStr key)]"

definition delete_command :: "int \<Rightarrow> task \<Rightarrow> nat \<Rightarrow> string \<Rightarrow> string \<Rightarrow> protection \<Rightarrow> node_task option" where
  "delete_command org t node ctype key pf =
     (case rev (sort_key (\<lambda>k. (k_created_at k, k_id k)) (filter (\<lambda>k. k_org k = Some org
          \<and> k_parent_task k = Some (t_id t) \<and> k_node k = node \<and> k_kind k = ''snapshot.delete''
          \<and> k_correlation_type k = ctype \<and> k_correlation_id k = key) (fl_tasks (pf_fleet pf)))) of
        [] \<Rightarrow> None | k # _ \<Rightarrow> Some k)"

text \<open>The command of this attempt, or a new one; only a command that is over has an outcome.\<close>

definition resolve_or_dispatch_agent_snapshot_delete ::
  "work_env \<Rightarrow> int \<Rightarrow> task \<Rightarrow> nat \<Rightarrow> dict \<Rightarrow> string \<Rightarrow> int \<Rightarrow> string list \<Rightarrow> protection \<Rightarrow>
    (protection, work_error, node_task) stepping" where
  "resolve_or_dispatch_agent_snapshot_delete v org t node payload ctype repository ids pf =
     (let key = snapshot_delete_operation_key v t node repository ids in
      case (case delete_command org t node ctype key pf of
              Some k \<Rightarrow> (pf, Inr k)
            | None \<Rightarrow>
                (case run_agent_task_async v (we_command v key) org node ''snapshot.delete'' payload
                    (delete_command_payload repository ids key) ctype key (Some (t_id t)) pf of
                   Inl e \<Rightarrow> (pf, Inl e)
                 | Inr (pf, k) \<Rightarrow> (pf, of_option (Broken_work ''NodeTask matching query does not exist.'')
                     (ntask_by_id (pf_fleet pf) (k_id k))))) of
        (pf, Inl e) \<Rightarrow> (pf, Inl e)
      | (pf, Inr k) \<Rightarrow> (pf, if active (k_status k) then Inl Agent_pending else Inr k))"

definition agent_delete_failed_before_dispatch :: "node_task \<Rightarrow> bool" where
  "agent_delete_failed_before_dispatch k \<longleftrightarrow> k_status k \<in> {N_failed, N_timeout}
     \<and> k_dispatched_at k = None \<and> k_accepted_at k = None"

definition snapshot_execution_node :: "int \<Rightarrow> int option \<Rightarrow> protection \<Rightarrow> node option" where
  "snapshot_execution_node org i pf =
     (if or_else i 0 = 0 then None
      else case owned_node org (the i) (pf_fleet pf) of
        None \<Rightarrow> None
      | Some n \<Rightarrow> if n_is_deleted n \<or> n_role n \<notin> {Agent_role, Proxy_role} then None else Some n)"

text \<open>The reader of the directory's place carries out the command.\<close>

definition delete_on_reader ::
  "work_env \<Rightarrow> int \<Rightarrow> task \<Rightarrow> snapshot_directory \<Rightarrow> repository \<Rightarrow> node option \<Rightarrow> string list \<Rightarrow> string \<Rightarrow> protection \<Rightarrow>
    (protection, work_error, node_task) stepping" where
  "delete_on_reader v org t d r fallback ids ctype pf =
     then_do (resolve_snapshot_repository_reader v d r fallback pf) (\<lambda>(n, payload) pf.
       resolve_or_dispatch_agent_snapshot_delete v org t (n_id n)
         [(''repository'', JObj payload), (''kopia_snapshot_ids'', JList (map JStr ids))] ctype (rp_id r) ids pf)"

definition run_non_s3_snapshot_delete ::
  "work_env \<Rightarrow> int \<Rightarrow> task \<Rightarrow> snapshot \<Rightarrow> snapshot_directory \<Rightarrow> repository \<Rightarrow> string list \<Rightarrow> string \<Rightarrow> protection \<Rightarrow>
    (protection, work_error, delete_outcome) stepping" where
  "run_non_s3_snapshot_delete v org t s d r ids ctype pf =
     (case (if repository_uses_bound_proxy r then Inr None
            else rbind (resolve_source_execution_target v (sn_org s) (sn_source_type s) (sn_source_ref s) pf)
                   (\<lambda>n. Inr (Some n))) of
        Inl e \<Rightarrow> (pf, Inl e)
      | Inr fallback \<Rightarrow>
          then_do (delete_on_reader v org t d r fallback ids ctype pf) (\<lambda>k pf. (pf, Inr (agent_outcome k))))"

section \<open>By the Controller\<close>

definition controller_item :: "string \<Rightarrow> int \<times> string \<times> string \<times> string \<Rightarrow> dict" where
  "controller_item i a = (case a of (code, stdout, stderr, message) \<Rightarrow>
     [(''kopia_snapshot_id'', JStr i), (''status'', JStr (if code = 0 then ''success'' else ''failed'')),
      (''delete'', JObj [(''exit_code'', JInt code), (''stdout_tail'', JStr stdout), (''stderr_tail'', JStr stderr)])]
     @ (if code = 0 then [] else [(''error_message'', JStr message)]))"

fun controller_items ::
  "(string \<Rightarrow> (string, int \<times> string \<times> string \<times> string) result) \<Rightarrow> string list \<Rightarrow> (string, dict list) result" where
  "controller_items delete [] = Inr []"
| "controller_items delete (i # ids) =
     (if strip i = [] then controller_items delete ids
      else rbind (delete (strip i)) (\<lambda>a.
           rbind (controller_items delete ids) (\<lambda>items. Inr (controller_item (strip i) a # items))))"

definition failed_items :: "dict list \<Rightarrow> dict list" where
  "failed_items items = filter (\<lambda>d. dget d ''status'' = JStr ''failed'') items"

definition delete_s3_snapshots :: "work_env \<Rightarrow> repository \<Rightarrow> string list \<Rightarrow> (work_error, dict list) result" where
  "delete_s3_snapshots v r ids =
     rbind (guard_that (rp_type r = Repo_s3)
       (Broken_work ''Control-plane snapshot delete only supports S3 repositories'')) (\<lambda>_.
     case we_engine_open v r of
       Some text \<Rightarrow> Inl (Broken_work text)
     | None \<Rightarrow> lift_error Broken_work (controller_items (we_engine_delete v r) ids))"

definition controller_result :: "dict list \<Rightarrow> dict" where
  "controller_result items =
     [(''results'', JList (map JObj items)),
      (''deleted_count'', JInt (int (length items) - int (length (failed_items items)))),
      (''failed_count'', JInt (int (length (failed_items items)))),
      (''execution_mode'', JStr ''controller_fallback'')]"

definition controller_outcome :: "dict list \<Rightarrow> delete_outcome" where
  "controller_outcome items =
     \<lparr>do_result = controller_result items, do_ok = (failed_items items = []), do_timed_out = False,
      do_last_error = (case failed_items items of [] \<Rightarrow> [] | d # _ \<Rightarrow> text_or_empty (dget d ''error_message''))\<rparr>"

definition delete_on_controller ::
  "work_env \<Rightarrow> repository \<Rightarrow> string list \<Rightarrow> protection \<Rightarrow> (protection, work_error, delete_outcome) stepping" where
  "delete_on_controller v r ids pf =
     (pf, rbind (guard_that (we_controller_free v) Controller_busy) (\<lambda>_.
          rbind (delete_s3_snapshots v r ids) (\<lambda>items. Inr (controller_outcome items))))"

section \<open>The choice\<close>

text \<open>The command to the writer, if it can work: \<open>None\<close> when there is none or it never reached the Agent.\<close>

definition delete_on_writer ::
  "work_env \<Rightarrow> int \<Rightarrow> task \<Rightarrow> snapshot_directory \<Rightarrow> repository \<Rightarrow> node option \<Rightarrow> string list \<Rightarrow> string \<Rightarrow> protection \<Rightarrow>
    (protection, work_error, delete_outcome option \<times> bool) stepping" where
  "delete_on_writer v org t d r writer ids ctype pf =
     (if writer \<noteq> None \<and> node_is_available_for_work (the writer)
      then then_do (delete_on_reader v org t d r writer ids ctype pf) (\<lambda>k pf.
             (pf, Inr (if agent_delete_failed_before_dispatch k then (None, True) else (Some (agent_outcome k), False))))
      else (pf, Inr (None, False)))"

definition run_snapshot_delete ::
  "work_env \<Rightarrow> int \<Rightarrow> task \<Rightarrow> snapshot \<Rightarrow> snapshot_directory \<Rightarrow> repository \<Rightarrow> string list \<Rightarrow> string \<Rightarrow> protection \<Rightarrow>
    (protection, work_error, delete_outcome) stepping" where
  "run_snapshot_delete v org t s d r ids ctype pf =
     (if rp_type r \<noteq> Repo_s3 then run_non_s3_snapshot_delete v org t s d r ids ctype pf
      else case resolve_snapshot_repository_locator d r pf of
        Inl e \<Rightarrow> (pf, Inl (locator_work e))
      | Inr (pf, d, l) \<Rightarrow>
          let writer = snapshot_execution_node org (lo_writer l) pf in
          then_do (delete_on_writer v org t d r writer ids ctype pf) (\<lambda>(outcome, unsent) pf.
            case outcome of
              Some out \<Rightarrow> (pf, Inr out)
            | None \<Rightarrow>
                if writer \<noteq> None \<and> n_availability (the writer) = Online \<and> \<not> unsent
                then (pf, Inl (Invalid_work (''Snapshot execution node '' @ [CHR 0x22]
                       @ we_node_name v (n_id (the writer)) @ [CHR 0x22] @ '' is busy.'')))
                else delete_on_controller v r ids pf))"

section \<open>After the command\<close>

text \<open>The product work a finished command wakes up.\<close>

datatype followup =
  No_followup
| Delete_followup nat int
| Reset_followup nat string int

definition delete_result_followup :: "node_task \<Rightarrow> protection \<Rightarrow> followup option" where
  "delete_result_followup k pf =
     (if k_kind k \<noteq> ''snapshot.delete'' \<or> k_correlation_type k \<notin> set delete_correlations \<or> active (k_status k)
         \<or> k_parent_task k = None \<or> (k_status k = N_failed \<and> k_accepted_at k = None)
      then Some No_followup
      else case first_where (\<lambda>t. t_id t = the (k_parent_task k) \<and> t_status t \<in> {Pending, Running}) (db_tasks (pf_tasks pf)) of
        None \<Rightarrow> Some No_followup
      | Some t \<Rightarrow>
          let request = or_else (t_request t) [] in
          if t_type t = task_type.Snapshot_delete
          then map_option (\<lambda>i. if i \<le> 0 then No_followup else Delete_followup (t_id t) i)
                 (int_or (dget request ''source_snapshot_id'') 0)
          else if t_type t = Backup_config_reset
          then let ty = strip (text_or_empty (dget request ''source_type'')) in
               map_option (\<lambda>i. if ty = [] \<or> i \<le> 0 then No_followup else Reset_followup (t_id t) ty i)
                 (int_or (dget request ''source_ref_id'') 0)
          else Some No_followup)"

text \<open>The announcement; the queue of resets belongs to a part that is not modelled.\<close>

definition queue_snapshot_delete_result_followup ::
  "node_task \<Rightarrow> protection \<Rightarrow> (protection \<times> followup) option" where
  "queue_snapshot_delete_result_followup k pf = map_option (\<lambda>u.
     (case u of Delete_followup t i \<Rightarrow> pf\<lparr>pr_delete_queue := pr_delete_queue pf @ [(t, i)]\<rparr> | _ \<Rightarrow> pf, u))
     (delete_result_followup k pf)"

end
