(* ===== verification/Delete_Run.thy ===== *)
theory Delete_Run
  imports Delete_Execution
begin

text \<open>
  The run of a deletion task, the second part of \<^verbatim>\<open>apps/protection/services/snapshot_delete.py\<close>:
  the worker's run under its lock and its three ways to end (done, failed, deferred). A run is not
  one transaction: an exception leaves what was saved before it. The lock in the cache is kept with
  the state (it expires after two hours, \<open>expire_delete_lock\<close>).
\<close>

section \<open>Steps of a task\<close>

text \<open>\<^verbatim>\<open>_set_step_status\<close> of \<^verbatim>\<open>backup_task.py\<close>, on the caller's copy of the task; progress only grows.\<close>

definition percent :: "int \<Rightarrow> rat" where
  "percent hundredths = of_int hundredths / 100"

definition step_progress :: "rat \<Rightarrow> int" where
  "step_progress q = round_half_even (q * 100)"

definition update_step :: "task_step option \<Rightarrow> step_status \<Rightarrow> rat option \<Rightarrow> task_db \<Rightarrow> task_db" where
  "update_step step st progress db = (case step of
       None \<Rightarrow> db
     | Some s \<Rightarrow> db\<lparr>db_steps := update_where (\<lambda>x. s_id x = s_id s)
         (\<lambda>x. x\<lparr>s_status := st, s_progress := (case progress of None \<Rightarrow> s_progress x | Some q \<Rightarrow> step_progress q)\<rparr>)
         (db_steps db)\<rparr>)"

definition step_columns_of :: "rat option \<Rightarrow> string option \<Rightarrow> int \<Rightarrow> task \<Rightarrow> task \<Rightarrow> task" where
  "step_columns_of task_progress current now t r =
     (let r = (case current of None \<Rightarrow> r | Some n \<Rightarrow> r\<lparr>t_current_step := Some n\<rparr>);
          grows = (case task_progress of None \<Rightarrow> False | Some q \<Rightarrow> q > percent (t_progress t));
          r = (if grows then r\<lparr>t_progress := step_progress (the task_progress)\<rparr> else r)
      in if current \<noteq> None \<or> grows then r\<lparr>t_updated_at := now\<rparr> else r)"

definition set_step_status ::
  "int \<Rightarrow> string \<Rightarrow> step_status \<Rightarrow> rat option \<Rightarrow> rat option \<Rightarrow> string option \<Rightarrow> task \<Rightarrow> task_db \<Rightarrow> task_db \<times> task" where
  "set_step_status now name st progress task_progress current t db =
     (let db = update_step (first_where (\<lambda>s. s_name s = name) (steps_of db (t_id t))) st progress db;
          f = step_columns_of task_progress current now t
      in (save_task f t db, f t))"

section \<open>Errors and texts\<close>

definition task_work :: "task_error \<Rightarrow> work_error" where
  "task_work e = (case e of
       Does_not_exist \<Rightarrow> Broken_work ''DoesNotExist''
     | Validation field message \<Rightarrow> Invalid_work message
     | Integrity text \<Rightarrow> Broken_work text
     | Missing_key key \<Rightarrow> Broken_work key)"

definition snapshot_work :: "snapshot_error \<Rightarrow> work_error" where
  "snapshot_work e = Broken_work (if e = Row_missing then ''Save with update_fields did not affect any rows.''
     else ''IntegrityError'')"

text \<open>
  \<^verbatim>\<open>_snapshot_delete_exception_message\<close>; the three deferring exceptions never reach it. The text of a
  malformed number is not kept: it is raised after the task has ended and recorded nowhere.
\<close>

definition exception_message :: "work_error \<Rightarrow> string" where
  "exception_message e = (case e of
       Invalid_work text \<Rightarrow> take 2000 (strip text)
     | Broken_work text \<Rightarrow> take 2000 (strip text)
     | _ \<Rightarrow> [])"

definition exception_code :: "work_error \<Rightarrow> string" where
  "exception_code e = (case e of
       Invalid_work _ \<Rightarrow> ''SNAPSHOT_DELETE_PRECONDITION_FAILED''
     | _ \<Rightarrow> ''SNAPSHOT_DELETE_INTERNAL_ERROR'')"

definition dsetdefault :: "dict \<Rightarrow> string \<Rightarrow> json \<Rightarrow> dict" where
  "dsetdefault d k x = (if has_key d k then d else dset d k x)"

section \<open>The owning deregistration\<close>

definition unregister_parent :: "task option \<Rightarrow> task_db \<Rightarrow> (work_error, task option) result" where
  "unregister_parent child db = (case child of
       None \<Rightarrow> Inr None
     | Some c \<Rightarrow>
         let payload = or_else (t_request c) [] in
         rbind (of_option (Broken_work ''int'') (int_or (dget payload ''source_unregister_task_id'') 0)) (\<lambda>i.
         rbind (of_option (Broken_work ''int'') (int_or (dget payload ''source_unregister_attempt'') 0)) (\<lambda>n.
         Inr (if i \<le> 0 then None
              else first_where (\<lambda>p. int (t_id p) = i \<and> t_type p = Source_unregister
                     \<and> t_status p \<in> {Pending, Running} \<and> t_retry_count p = n) (db_tasks db)))))"

definition queue_source_unregister_followup :: "nat \<Rightarrow> protection \<Rightarrow> (protection, work_error, unit) stepping" where
  "queue_source_unregister_followup child pf =
     (case unregister_parent (task_by_id (pf_tasks pf) child) (pf_tasks pf) of
        Inl e \<Rightarrow> (pf, Inl e)
      | Inr None \<Rightarrow> (pf, Inr ())
      | Inr (Some p) \<Rightarrow> (pf\<lparr>pr_unregister_queue := pr_unregister_queue pf @ [t_id p]\<rparr>, Inr ()))"

section \<open>The end of a run\<close>

definition completion_of :: "string \<Rightarrow> rat \<Rightarrow> dict \<Rightarrow> string \<Rightarrow> string \<Rightarrow> completion" where
  "completion_of status progress result' code message = \<lparr>c_status = status, c_progress = progress,
     c_result = Some result', c_error_code = code, c_error_message = message, c_details_in_event = True,
     c_event_metadata = []\<rparr>"

definition end_task :: "int \<Rightarrow> task \<Rightarrow> completion \<Rightarrow> task_db \<Rightarrow> (work_error, task_db) result" where
  "end_task now t c db = rbind (of_option (Broken_work ''DoesNotExist'') (t_org t)) (\<lambda>org.
     rbind (lift_error task_work (complete_task now (t_uuid t) org c db)) (\<lambda>(db, t). Inr db))"

definition deleted_columns :: "int \<Rightarrow> snapshot \<Rightarrow> snapshot" where
  "deleted_columns now s = s\<lparr>sn_status := Snap_deleted, sn_deleted_at := Some now, sn_error_code := [],
     sn_error_message := []\<rparr>"

text \<open>Directory rows of the snapshot that are not deleted yet are marked so.\<close>

definition delete_rows :: "int \<Rightarrow> (snapshot_directory \<Rightarrow> bool) \<Rightarrow> protection \<Rightarrow> protection" where
  "delete_rows i p pf = pf\<lparr>pr_directories := update_where (\<lambda>d. sd_snapshot d = i \<and> p d)
     (\<lambda>d. d\<lparr>sd_state := Dir_deleted\<rparr>) (pr_directories pf)\<rparr>"

definition rows_in :: "int \<Rightarrow> (directory_status \<Rightarrow> bool) \<Rightarrow> protection \<Rightarrow> nat" where
  "rows_in i p pf = count_where (\<lambda>d. sd_snapshot d = i \<and> p (sd_state d)) (pr_directories pf)"

definition on_tasks :: "(task_db \<Rightarrow> (work_error, task_db) result) \<Rightarrow> protection \<Rightarrow> (work_error, protection) result" where
  "on_tasks f pf = rbind (f (pf_tasks pf)) (\<lambda>db. Inr (pf\<lparr>pf_tasks := db\<rparr>))"

definition empty_delete_result :: "snapshot \<Rightarrow> dict" where
  "empty_delete_result s =
     [(''source_snapshot_id'', JInt (sn_id s)), (''deleted_count'', JInt 0), (''failed_count'', JInt 0),
      (''results'', JList []), (''message'', JStr ''Logical snapshot had no physical Kopia snapshots.'')]"

text \<open>The rows and the snapshot are deleted, the task succeeds and its owner hears of it.\<close>

definition complete_delete ::
  "int \<Rightarrow> task \<Rightarrow> snapshot \<Rightarrow> dict \<Rightarrow> protection \<Rightarrow> (protection, work_error, dict) stepping" where
  "complete_delete now t s result' pf =
     (case on_tasks (end_task now t (completion_of ''success'' 100 result' [] [])) pf of
        Inl e \<Rightarrow> (pf, Inl e)
      | Inr pf \<Rightarrow> then_do (queue_source_unregister_followup (t_id t) pf) (\<lambda>_ pf. (pf, Inr result')))"

definition complete_empty_delete ::
  "int \<Rightarrow> task \<Rightarrow> snapshot \<Rightarrow> protection \<Rightarrow> (protection, work_error, dict) stepping" where
  "complete_empty_delete now t s pf =
     (let pf = delete_rows (sn_id s) (\<lambda>d. sd_state d \<noteq> Dir_deleted) pf in
      case save_snapshot (sn_id s) (deleted_columns now) pf of
        Inl e \<Rightarrow> (pf, Inl (snapshot_work e))
      | Inr pf \<Rightarrow> complete_delete now t s (empty_delete_result s) pf)"

definition failed_columns :: "string \<Rightarrow> string \<Rightarrow> snapshot \<Rightarrow> snapshot" where
  "failed_columns code message s =
     s\<lparr>sn_status := Snap_delete_failed, sn_error_code := code, sn_error_message := message\<rparr>"

definition failure_text :: "string \<Rightarrow> string" where
  "failure_text message = take 2000 (strip (if message = [] then ''Snapshot delete failed.'' else message))"

text \<open>The report of a failed run, completed with the counts of the rows.\<close>

definition failure_result :: "snapshot option \<Rightarrow> dict \<Rightarrow> protection \<Rightarrow> dict" where
  "failure_result s given pf =
     (let d = dsetdefault (dsetdefault given ''source_snapshot_id''
                (case s of None \<Rightarrow> JNull | Some s \<Rightarrow> JInt (sn_id s))) ''results'' (JList [])
      in case s of None \<Rightarrow> d
         | Some s \<Rightarrow> dsetdefault (dsetdefault d
             ''deleted_count'' (JInt (int (rows_in (sn_id s) (\<lambda>st. st = Dir_deleted) pf))))
             ''failed_count'' (JInt (int (rows_in (sn_id s) (\<lambda>st. st \<noteq> Dir_deleted) pf))))"

definition failed_task ::
  "int \<Rightarrow> task \<Rightarrow> string \<Rightarrow> string \<Rightarrow> dict \<Rightarrow> string \<Rightarrow> task_db \<Rightarrow> (work_error, task_db) result" where
  "failed_task now t code message result' event db =
     rbind (lift_error task_work (append_task_step_event now t (Some ''delete_kopia_snapshots'') Error_level event
       (Some [(''error_code'', JStr code), (''error_message'', JStr message),
              (''results'', dget_or result' ''results'' (JList []))]) db)) (\<lambda>db.
     let progress = percent (t_progress t);
         (db, t) = set_step_status now ''delete_kopia_snapshots'' Step_failed (Some 0) (Some progress) None t db;
         (db, t) = set_step_status now ''finalize_snapshot_delete'' Step_failed (Some 0) (Some progress)
                     (Some ''finalize_snapshot_delete'') t db
     in end_task now t (completion_of ''failed'' progress result' code message) db)"

text \<open>\<^verbatim>\<open>fail_snapshot_delete_task\<close>: one transaction, then the owner hears of it.\<close>

definition fail_in_transaction ::
  "int \<Rightarrow> task \<Rightarrow> snapshot option \<Rightarrow> string \<Rightarrow> string \<Rightarrow> dict \<Rightarrow> string \<Rightarrow> protection \<Rightarrow>
    (work_error, protection \<times> dict) result" where
  "fail_in_transaction now t s code message given event pf =
     (let row = (case s of None \<Rightarrow> None | Some s \<Rightarrow> snapshot_row (sn_org s) (sn_id s) pf);
          result' = failure_result row given pf
      in rbind (case row of None \<Rightarrow> Inr pf
                | Some r \<Rightarrow> lift_error snapshot_work (save_snapshot (sn_id r) (failed_columns code message) pf)) (\<lambda>pf.
         rbind (on_tasks (failed_task now t code message result' event) pf) (\<lambda>pf. Inr (pf, result'))))"

definition fail_snapshot_delete_task ::
  "int \<Rightarrow> nat \<Rightarrow> snapshot option \<Rightarrow> string \<Rightarrow> string \<Rightarrow> dict \<Rightarrow> string \<Rightarrow> protection \<Rightarrow>
    (protection, work_error, dict) stepping" where
  "fail_snapshot_delete_task now i s code message given event pf =
     (case task_by_id (pf_tasks pf) i of
        None \<Rightarrow> (pf, Inl (Broken_work ''Task matching query does not exist.''))
      | Some t \<Rightarrow>
          if terminal (t_status t)
          then then_do (queue_source_unregister_followup i pf) (\<lambda>_ pf. (pf, Inr (or_else (t_result t) [])))
          else (case fail_in_transaction now t s code (failure_text message) given event pf of
                  Inl e \<Rightarrow> (pf, Inl e)
                | Inr (pf, result') \<Rightarrow>
                    then_do (queue_source_unregister_followup i pf) (\<lambda>_ pf. (pf, Inr result'))))"

text \<open>\<^verbatim>\<open>_defer_snapshot_delete\<close>\<close>

definition defer_snapshot_delete :: "int \<Rightarrow> int \<Rightarrow> string \<Rightarrow> string \<Rightarrow> protection \<Rightarrow> (work_error, protection) result" where
  "defer_snapshot_delete now org uuid message pf =
     (case first_where (\<lambda>t. t_org t = Some org \<and> t_uuid t = uuid \<and> t_status t \<in> {Pending, Running})
        (db_tasks (pf_tasks pf)) of
        None \<Rightarrow> Inr pf
      | Some t \<Rightarrow>
          let f = (\<lambda>r. r\<lparr>t_status := Pending, t_updated_at := now\<rparr>); step = or_else (t_current_step t) [] in
          on_tasks (\<lambda>db. lift_error task_work (append_task_step_event now (f t)
            (Some (if step = [] then ''delete_kopia_snapshots'' else step)) Info
            ''Waiting for snapshot cleanup to continue'' (Some [(''reason'', JStr (take 500 message))])
            (save_task f t db))) pf)"

section \<open>The run\<close>

text \<open>\<^verbatim>\<open>_snapshot_directory_label\<close>, \<^verbatim>\<open>_kopia_snapshot_directories_by_id\<close>, \<^verbatim>\<open>_kopia_snapshot_display\<close>\<close>

definition snapshot_directory_label :: "snapshot_directory \<Rightarrow> string" where
  "snapshot_directory_label d = strip (if sd_path d \<noteq> [] then sd_path d else if sd_name d \<noteq> [] then sd_name d
     else if sd_config_dir d \<noteq> 0 then show_int (sd_config_dir d) else [])"

definition physical_id :: "snapshot_directory \<Rightarrow> string" where
  "physical_id d = normalize_kopia_snapshot_id (kopia_column (sd_kopia_id d))"

definition kopia_snapshot_directories :: "snapshot_directory list \<Rightarrow> string \<Rightarrow> string list" where
  "kopia_snapshot_directories rows i =
     in_first_order (filter (\<lambda>l. l \<noteq> []) (map snapshot_directory_label (filter (\<lambda>d. physical_id d = i) rows)))"

definition kopia_snapshot_display :: "string \<Rightarrow> string list \<Rightarrow> string" where
  "kopia_snapshot_display i dirs =
     (if dirs = [] then i else i @ '' ('' @ join_comma dirs @ '')'')"

definition deleting_metadata :: "snapshot_directory list \<Rightarrow> string \<Rightarrow> dict" where
  "deleting_metadata rows i =
     (let dirs = kopia_snapshot_directories rows i in
      [(''kopia_snapshot_id'', JStr i), (''kopia_snapshot_display'', JStr (kopia_snapshot_display i dirs)),
       (''source_path'', JStr (case dirs of [] \<Rightarrow> [] | d # _ \<Rightarrow> d)), (''paths'', JList (map JStr dirs)),
       (''object_id'', JStr i), (''object_names'', JList (map JStr dirs))])"

fun announce_deletions ::
  "int \<Rightarrow> task \<Rightarrow> snapshot_directory list \<Rightarrow> string list \<Rightarrow> protection \<Rightarrow> (protection, work_error, unit) stepping" where
  "announce_deletions now t rows [] pf = (pf, Inr ())"
| "announce_deletions now t rows (i # is) pf =
     (case on_tasks (\<lambda>db. lift_error task_work (append_task_step_event now t (Some ''delete_kopia_snapshots'') Info
             ''Deleting physical Kopia snapshot'' (Some (deleting_metadata rows i)) db)) pf of
        Inl e \<Rightarrow> (pf, Inl e)
      | Inr pf \<Rightarrow> announce_deletions now t rows is pf)"

text \<open>What the groups have given so far: the items, the absent ids, and the messages of failed groups.\<close>

record delete_progress =
  dp_items :: "dict list"
  dp_absent :: "string list"
  dp_failed :: bool
  dp_messages :: "string list"

definition outcome_items :: "delete_outcome \<Rightarrow> dict list" where
  "outcome_items out = (case dget (do_result out) ''results'' of
       JList xs \<Rightarrow> map as_dict (filter is_dict xs) | _ \<Rightarrow> [])"

definition settle_group ::
  "snapshot \<Rightarrow> snapshot_directory list \<Rightarrow> delete_outcome \<Rightarrow> delete_progress \<Rightarrow> protection \<Rightarrow> protection \<times> delete_progress" where
  "settle_group s g out acc pf =
     (case classify_kopia_snapshot_delete_results (map JObj (outcome_items out)) of (deleted, absent, hard) \<Rightarrow>
        let gone = set deleted \<union> set absent;
            failed = (do_timed_out out \<or> hard \<noteq> [] \<or> (\<not> do_ok out \<and> gone = {}))
        in (delete_rows (sn_id s) (\<lambda>d. sd_id d \<in> sd_id ` set g \<and> or_else (sd_kopia_id d) [] \<in> gone
              \<and> sd_kopia_id d \<noteq> None) pf,
            \<lparr>dp_items = dp_items acc @ outcome_items out, dp_absent = dp_absent acc @ absent,
             dp_failed = (dp_failed acc \<or> failed),
             dp_messages = dp_messages acc @ (if failed then [take 2000 (if do_last_error out = []
                then ''One or more physical snapshots failed to delete.'' else do_last_error out)] else [])\<rparr>))"

fun delete_groups ::
  "work_env \<Rightarrow> int \<Rightarrow> task \<Rightarrow> snapshot \<Rightarrow> repository \<Rightarrow> snapshot_directory list list \<Rightarrow> delete_progress \<Rightarrow> protection \<Rightarrow>
    (protection, work_error, delete_progress) stepping" where
  "delete_groups v org t s r [] acc pf = (pf, Inr acc)"
| "delete_groups v org t s r (g # gs) acc pf =
     then_do (run_snapshot_delete v org t s (hd g) r (kopia_snapshot_ids g) ''protection.snapshot_delete'' pf) (\<lambda>out pf.
       case settle_group s g out acc pf of (pf, acc) \<Rightarrow> delete_groups v org t s r gs acc pf)"

definition run_result :: "snapshot \<Rightarrow> bool \<Rightarrow> delete_progress \<Rightarrow> protection \<Rightarrow> dict" where
  "run_result s failed acc pf =
     [(''source_snapshot_id'', JInt (sn_id s)),
      (''deleted_count'', JInt (int (rows_in (sn_id s) (\<lambda>st. st = Dir_deleted) pf))),
      (''failed_count'', JInt (if failed then int (rows_in (sn_id s) (\<lambda>st. st \<noteq> Dir_deleted) pf) else 0)),
      (''already_absent_count'', JInt (int (card (set (dp_absent acc))))),
      (''results'', JList (map JObj (dp_items acc)))]"

text \<open>\<^verbatim>\<open>_set_step_status\<close> on the state and the copy the run holds.\<close>

definition step_to ::
  "int \<Rightarrow> string \<Rightarrow> step_status \<Rightarrow> rat option \<Rightarrow> rat option \<Rightarrow> string option \<Rightarrow> protection \<times> task \<Rightarrow> protection \<times> task" where
  "step_to now name st progress task_progress current pt =
     (case set_step_status now name st progress task_progress current (snd pt) (pf_tasks (fst pt)) of
        (db, t) \<Rightarrow> ((fst pt)\<lparr>pf_tasks := db\<rparr>, t))"

definition finish_delete ::
  "int \<Rightarrow> task \<Rightarrow> snapshot \<Rightarrow> int list \<Rightarrow> delete_progress \<Rightarrow> protection \<Rightarrow> (protection, work_error, dict) stepping" where
  "finish_delete now t s logical acc pf =
     (let pf = (if dp_failed acc then pf
                else delete_rows (sn_id s) (\<lambda>d. sd_id d \<in> set logical \<and> sd_state d \<noteq> Dir_deleted) pf);
          failed = (dp_failed acc \<or> rows_in (sn_id s) (\<lambda>st. st \<noteq> Dir_deleted) pf > 0);
          result' = run_result s failed acc pf
      in if \<not> failed then
           (case save_snapshot (sn_id s) (deleted_columns now) pf of
              Inl e \<Rightarrow> (pf, Inl (snapshot_work e))
            | Inr pf \<Rightarrow>
                let (pf, t) = step_to now ''delete_kopia_snapshots'' Step_success (Some 100) (Some 80) None (pf, t);
                    (pf, t) = step_to now ''finalize_snapshot_delete'' Step_success (Some 100) (Some 100)
                                (Some ''finalize_snapshot_delete'') (pf, t)
                in complete_delete now t s result' pf)
         else fail_snapshot_delete_task now (t_id t) (Some s) ''SNAPSHOT_DELETE_FAILED''
                (case dp_messages acc of [] \<Rightarrow> ''One or more physical snapshots failed to delete.'' | m # _ \<Rightarrow> m)
                result' ''Physical snapshot delete failed'' pf)"

text \<open>The deletion of the physical snapshots.\<close>

definition delete_physical ::
  "work_env \<Rightarrow> int \<Rightarrow> task \<Rightarrow> snapshot \<Rightarrow> snapshot_directory list \<Rightarrow> protection \<Rightarrow>
    (protection, work_error, dict) stepping" where
  "delete_physical v org t s rows pf =
     (case lift_error (\<lambda>e. Invalid_work (we_text v e)) (validate_backup_repository_compatible (we_start v) org
             (sn_source_type s) (sn_source_ref s) (sn_repository s) pf) of
        Inl e \<Rightarrow> (pf, Inl e)
      | Inr r \<Rightarrow>
          let now = work_now v;
              (pf, t) = step_to now ''delete_kopia_snapshots'' Step_running (Some 0) (Some 10)
                          (Some ''delete_kopia_snapshots'') (pf, t)
          in then_do (announce_deletions now t rows (kopia_snapshot_ids rows) pf) (\<lambda>_ pf.
             case group_snapshot_directories_by_repository_locator (filter (\<lambda>d. physical_id d \<noteq> []) rows) r pf of
               (pf, Inl e) \<Rightarrow> (pf, Inl (locator_work e))
             | (pf, Inr groups) \<Rightarrow>
                 then_do (delete_groups v org t s r groups
                     \<lparr>dp_items = [], dp_absent = [], dp_failed = False, dp_messages = []\<rparr> pf) (\<lambda>acc pf.
                   finish_delete now t s (map sd_id (filter (\<lambda>d. physical_id d = []) rows)) acc pf)))"

definition run_admitted_delete ::
  "work_env \<Rightarrow> int \<Rightarrow> task \<Rightarrow> snapshot \<Rightarrow> protection \<Rightarrow> (protection, work_error, dict) stepping" where
  "run_admitted_delete v org t s pf =
     (let now = work_now v; rows = snapshot_delete_rows s pf;
          (pf, t) = step_to now ''prepare_snapshot_delete'' Step_success (Some 100) (Some 10)
                      (Some ''delete_kopia_snapshots'') (pf, t)
      in if kopia_snapshot_ids rows = [] then
           let (pf, t) = step_to now ''delete_kopia_snapshots'' Step_skipped (Some 100) (Some 80) None (pf, t);
               (pf, t) = step_to now ''finalize_snapshot_delete'' Step_success (Some 100) (Some 100) None (pf, t)
           in complete_empty_delete now t s pf
         else delete_physical v org t s rows pf)"

text \<open>\<^verbatim>\<open>_run_snapshot_delete_task_locked\<close>\<close>

definition run_locked_delete ::
  "work_env \<Rightarrow> int \<Rightarrow> string \<Rightarrow> int \<Rightarrow> protection \<Rightarrow> (protection, work_error, dict) stepping" where
  "run_locked_delete v org uuid i pf =
     (case rbind (of_option (Broken_work ''DoesNotExist'') (locked_task (pf_tasks pf) uuid org)) (\<lambda>t.
           rbind (of_option (Broken_work ''DoesNotExist'') (snapshot_row org i pf)) (\<lambda>s.
           rbind (guard_that (\<not> snapshot_is_protected i pf) Snapshot_in_use) (\<lambda>_. Inr (t, s)))) of
        Inl e \<Rightarrow> (pf, Inl e)
      | Inr (t, s) \<Rightarrow>
          if terminal (t_status t) then (pf, Inr (or_else (t_result t) []))
          else (case (if t_status t = Pending
                      then lift_error task_work (start_task (work_now v) uuid org (pf_tasks pf))
                      else Inr (pf_tasks pf, t)) of
                  Inl e \<Rightarrow> (pf, Inl e)
                | Inr (db, t) \<Rightarrow> run_admitted_delete v org t s (pf\<lparr>pf_tasks := db\<rparr>)))"

section \<open>Residue of a forced deregistration\<close>

definition json_lists_int :: "json \<Rightarrow> int \<Rightarrow> bool" where
  "json_lists_int x i = (case x of JList xs \<Rightarrow> \<exists>y \<in> set xs. json_int_is y i | _ \<Rightarrow> False)"

definition forcing_parent :: "task \<Rightarrow> int \<Rightarrow> int \<Rightarrow> task \<Rightarrow> bool" where
  "forcing_parent t i n p \<longleftrightarrow> t_org p = t_org t \<and> int (t_id p) = i \<and> t_type p = Source_unregister
     \<and> t_status p = Success \<and> t_retry_count p = n
     \<and> dget (or_else (t_result p) []) ''control_plane_status'' = JStr ''completed''
     \<and> dget (or_else (t_request p) []) ''force'' = JBool True"

definition residue_of :: "task \<Rightarrow> int \<Rightarrow> int \<Rightarrow> int \<Rightarrow> cleanup_residue \<Rightarrow> bool" where
  "residue_of t parent attempt i c \<longleftrightarrow> Some (cr_org c) = t_org t
     \<and> json_int_is (dget (cr_payload c) ''source_unregister_task_id'') parent
     \<and> json_int_is (dget (cr_payload c) ''source_unregister_attempt'') attempt
     \<and> json_lists_int (dget (cr_payload c) ''source_snapshot_ids'') i
     \<and> (case dget (or_else (t_request t) []) ''repository_id'' of
          JInt r \<Rightarrow> r > 0 \<longrightarrow> cr_repository c = r | _ \<Rightarrow> True)"

definition transferred_residue :: "task \<Rightarrow> int \<Rightarrow> protection \<Rightarrow> cleanup_residue option" where
  "transferred_residue t i pf =
     (let request = or_else (t_request t) [] in
      if t_type t \<noteq> task_type.Snapshot_delete \<or> \<not> py_eq (dget request ''source_snapshot_id'') (JInt i) then None
      else case (dget request ''source_unregister_task_id'', dget request ''source_unregister_attempt'') of
        (JInt parent, JInt attempt) \<Rightarrow>
          if attempt < 0 \<or> \<not> (\<exists>p \<in> set (db_tasks (pf_tasks pf)). forcing_parent t parent attempt p) then None
          else first_where (residue_of t parent attempt i) (pr_residues pf)
      | _ \<Rightarrow> None)"

definition finish_transferred_source_cleanup ::
  "int \<Rightarrow> task \<Rightarrow> int \<Rightarrow> protection \<Rightarrow> (protection, work_error, dict) stepping option" where
  "finish_transferred_source_cleanup now t i pf =
     map_option (\<lambda>c. fail_snapshot_delete_task now (t_id t) None ''SNAPSHOT_CLEANUP_RETAINED''
         ''Source deregistration retained this snapshot for physical cleanup.''
         [(''source_snapshot_id'', JInt i), (''cleanup_complete'', JBool False),
          (''retained_resources'', JList [JStr (''repository_cleanup_record:'' @ show_int (cr_id c))])]
         ''Physical cleanup retained after source deregistration'' pf)
       (transferred_residue t i pf)"

section \<open>The worker\<close>

text \<open>The answer of a run: the lock is taken, the deletion waits (with its reason), or the report.\<close>

datatype delete_run =
  Run_locked
| Run_waiting string
| Run_report dict

definition waiting_reason :: "work_error \<Rightarrow> (string \<times> string) option" where
  "waiting_reason e = (case e of
       Snapshot_in_use \<Rightarrow> Some (''snapshot_in_use'',
         ''{'' @ [CHR 0x27] @ ''source_snapshot_id'' @ [CHR 0x27] @ '': ['' @ [CHR 0x27]
           @ ''Snapshot is currently in use by a restore or Chat preparation.'' @ [CHR 0x27] @ '']}'')
     | Agent_pending \<Rightarrow> Some (''agent_cleanup_pending'',
         ''Agent snapshot cleanup is running; the task will continue automatically.'')
     | Controller_busy \<Rightarrow> Some (''controller_cleanup_busy'',
         ''Controller snapshot cleanup is busy; the task will continue automatically.'')
     | _ \<Rightarrow> None)"

definition fail_delete_run ::
  "int \<Rightarrow> int \<Rightarrow> string \<Rightarrow> int \<Rightarrow> work_error \<Rightarrow> protection \<Rightarrow> (protection, work_error, dict) stepping" where
  "fail_delete_run now org uuid i e pf =
     (case locked_task (pf_tasks pf) uuid org of
        None \<Rightarrow> (pf, Inl e)
      | Some t \<Rightarrow>
          let s = snapshot_row org i pf in
          (case (if s = None then finish_transferred_source_cleanup now t i pf else None) of
             Some r \<Rightarrow> r
           | None \<Rightarrow> fail_snapshot_delete_task now (t_id t) s (exception_code e) (exception_message e) []
               ''Snapshot delete execution failed'' pf))"

definition handle_delete_error ::
  "int \<Rightarrow> int \<Rightarrow> string \<Rightarrow> int \<Rightarrow> work_error \<Rightarrow> protection \<Rightarrow> (protection, work_error, delete_run) stepping" where
  "handle_delete_error now org uuid i e pf =
     (case waiting_reason e of
        Some (reason, message) \<Rightarrow>
          (case defer_snapshot_delete now org uuid message pf of
             Inl e \<Rightarrow> (pf, Inl e) | Inr pf \<Rightarrow> (pf, Inr (Run_waiting reason)))
      | None \<Rightarrow> then_do (fail_delete_run now org uuid i e pf) (\<lambda>d pf. (pf, Inr (Run_report d))))"

definition run_snapshot_delete_task ::
  "work_env \<Rightarrow> int \<Rightarrow> string \<Rightarrow> int \<Rightarrow> protection \<Rightarrow> (protection, work_error, delete_run) stepping" where
  "run_snapshot_delete_task v org uuid i pf =
     (if (org, i) \<in> set (pr_delete_locks pf) then (pf, Inr Run_locked)
      else
        let free = (\<lambda>pf. pf\<lparr>pr_delete_locks := filter (\<lambda>k. k \<noteq> (org, i)) (pr_delete_locks pf)\<rparr>)
        in case run_locked_delete v org uuid i (pf\<lparr>pr_delete_locks := (org, i) # pr_delete_locks pf\<rparr>) of
             (pf, Inr d) \<Rightarrow> (free pf, Inr (Run_report d))
           | (pf, Inl e) \<Rightarrow>
               (case handle_delete_error (work_now v) org uuid i e pf of (pf, out) \<Rightarrow> (free pf, out)))"

definition expire_delete_lock :: "int \<times> int \<Rightarrow> protection \<Rightarrow> protection" where
  "expire_delete_lock k pf = pf\<lparr>pr_delete_locks := filter (\<lambda>x. x \<noteq> k) (pr_delete_locks pf)\<rparr>"

end
