(* ===== verification/Delete_Reconcile.thy ===== *)
theory Delete_Reconcile
  imports Delete_Run
begin

text \<open>
  The reconciliation of deletions, \<^verbatim>\<open>reconcile_snapshot_delete_tasks\<close> of
  \<^verbatim>\<open>apps/protection/services/snapshot_delete.py\<close>, which a timer runs: a pending task that no worker
  took for five minutes is queued again, a running one that was silent for two hours has failed, and
  a failed deletion is retried after a growing delay. The three batches are read when their loop
  starts; an exception ends the run and keeps what the tasks before it have changed. The time at
  which a snapshot row was last written is an argument, and a deletion task has an organization.
\<close>

record reconcile_counts =
  rc_requeued :: nat
  rc_recovered :: nat
  rc_retried :: nat
  rc_transferred :: nat

type_synonym delete_reconciling = "(protection, work_error, reconcile_counts) stepping"

definition stale_delete_tasks :: "task_status \<Rightarrow> int \<Rightarrow> nat \<Rightarrow> protection \<Rightarrow> task list" where
  "stale_delete_tasks st before limit pf =
     take limit (sort_key (\<lambda>t. (t_updated_at t, t_id t)) (filter (\<lambda>t. t_type t = task_type.Snapshot_delete
       \<and> t_status t = st \<and> t_updated_at t \<le> before) (db_tasks (pf_tasks pf))))"

definition requested_snapshot :: "task \<Rightarrow> (work_error, int) result" where
  "requested_snapshot t = of_option (Broken_work ''int'') (int_or (dget (or_else (t_request t) []) ''source_snapshot_id'') 0)"

definition is_latest_delete :: "task \<Rightarrow> int \<Rightarrow> protection \<Rightarrow> bool" where
  "is_latest_delete t i pf \<longleftrightarrow> i \<noteq> 0 \<and> (case t_org t of None \<Rightarrow> False
     | Some org \<Rightarrow> map_option t_id (latest_delete_task org i pf) = Some (t_id t))"

definition snapshot_of_task :: "task \<Rightarrow> int \<Rightarrow> (snapshot \<Rightarrow> bool) \<Rightarrow> protection \<Rightarrow> snapshot option" where
  "snapshot_of_task t i p pf = first_where (\<lambda>s. Some (sn_org s) = t_org t \<and> sn_id s = i \<and> p s) (pr_snapshots pf)"

text \<open>The end of a task whose snapshot a forced deregistration has taken over, if it has.\<close>

definition count_transferred ::
  "int \<Rightarrow> task \<Rightarrow> int \<Rightarrow> reconcile_counts \<Rightarrow> protection \<Rightarrow> delete_reconciling option" where
  "count_transferred now t i n pf = map_option (\<lambda>r. then_do r (\<lambda>_ pf.
     (pf, Inr (n\<lparr>rc_transferred := Suc (rc_transferred n)\<rparr>)))) (finish_transferred_source_cleanup now t i pf)"

section \<open>Pending tasks\<close>

definition touch_pending :: "int \<Rightarrow> task \<Rightarrow> protection \<Rightarrow> protection" where
  "touch_pending now t pf = pf\<lparr>pf_tasks := (pf_tasks pf)\<lparr>db_tasks :=
     update_where (\<lambda>r. t_id r = t_id t \<and> t_status r = Pending) (\<lambda>r. r\<lparr>t_updated_at := now\<rparr>) (db_tasks (pf_tasks pf))\<rparr>\<rparr>"

definition requeue_pending :: "int \<Rightarrow> task \<Rightarrow> reconcile_counts \<Rightarrow> protection \<Rightarrow> delete_reconciling" where
  "requeue_pending now t n pf =
     (if snapshot_delete_agent_work_active t pf then (pf, Inr n)
      else case requested_snapshot t of
        Inl e \<Rightarrow> (pf, Inl e)
      | Inr i \<Rightarrow>
          (case snapshot_of_task t i (\<lambda>s. sn_status s = Snap_deleting) pf of
             None \<Rightarrow> or_else (count_transferred now t i n pf) (pf, Inr n)
           | Some s \<Rightarrow>
               if \<not> is_latest_delete t i pf then (pf, Inr n)
               else if snapshot_is_protected (sn_id s) pf then (touch_pending now t pf, Inr n)
               else (enqueue_delete t i (touch_pending now t pf), Inr (n\<lparr>rc_requeued := Suc (rc_requeued n)\<rparr>))))"

section \<open>Running tasks\<close>

definition recover_running :: "int \<Rightarrow> task \<Rightarrow> reconcile_counts \<Rightarrow> protection \<Rightarrow> delete_reconciling" where
  "recover_running now t n pf =
     (case requested_snapshot t of
        Inl e \<Rightarrow> (pf, Inl e)
      | Inr i \<Rightarrow>
          if \<not> is_latest_delete t i pf then (pf, Inr n)
          else
            let s = snapshot_of_task t i (\<lambda>s. True) pf in
            case (if s = None then count_transferred now t i n pf else None) of
              Some r \<Rightarrow> r
            | None \<Rightarrow>
                then_do (fail_snapshot_delete_task now (t_id t) s ''SNAPSHOT_DELETE_INTERRUPTED''
                    ''Snapshot delete worker was interrupted before finalization.'' (or_else (t_result t) [])
                    ''Snapshot delete worker interrupted'' pf)
                  (\<lambda>_ pf. (pf, Inr (n\<lparr>rc_recovered := Suc (rc_recovered n)\<rparr>))))"

section \<open>Failed snapshots\<close>

definition failed_deletions :: "(snapshot \<Rightarrow> int) \<Rightarrow> nat \<Rightarrow> protection \<Rightarrow> snapshot list" where
  "failed_deletions written limit pf =
     take limit (sort_key (\<lambda>s. (written s, sn_id s)) (filter (\<lambda>s. sn_status s = Snap_delete_failed
       \<and> \<not> snapshot_is_protected (sn_id s) pf) (pr_snapshots pf)))"

text \<open>The failed task a row is retried on; a deregistration retries the tasks it owns itself.\<close>

definition retry_due :: "int \<Rightarrow> snapshot \<Rightarrow> protection \<Rightarrow> (work_error, task option) result" where
  "retry_due now s pf =
     (if sn_status s \<noteq> Snap_delete_failed \<or> snapshot_is_protected (sn_id s) pf then Inr None
      else case latest_delete_task (sn_org s) (sn_id s) pf of
        None \<Rightarrow> Inr None
      | Some t \<Rightarrow>
          if \<not> terminal (t_status t) \<or> t_status t = Success then Inr None
          else rbind (of_option (Broken_work ''int'')
                 (int_or (dget (or_else (t_request t) []) ''source_unregister_task_id'') 0)) (\<lambda>parent.
               Inr (if parent > 0
                      \<or> or_else (t_finished_at t) (t_updated_at t) + snapshot_delete_retry_delay (t_retry_count t) > now
                      \<or> isl (lock_repositories_for_workload (sn_org s) [sn_repository s] ''snapshot_delete'' pf)
                    then None else Some t)))"

definition retry_deletion :: "int \<Rightarrow> snapshot \<Rightarrow> reconcile_counts \<Rightarrow> protection \<Rightarrow> delete_reconciling" where
  "retry_deletion now s n pf =
     (case rbind (of_option (Broken_work ''DoesNotExist'') (first_where (\<lambda>r. sn_id r = sn_id s) (pr_snapshots pf))) (\<lambda>row.
           rbind (retry_due now row pf) (\<lambda>due.
           case due of
             None \<Rightarrow> Inr (pf, n)
           | Some t \<Rightarrow>
               rbind (lift_error task_work (retry_task now (t_uuid t) (sn_org row) ''Automatic snapshot delete retry''
                   (pf_tasks pf))) (\<lambda>(db, t).
                 Inr (enqueue_delete t (sn_id row) (mark_deleting True (sn_id row) (pf\<lparr>pf_tasks := db\<rparr>)),
                      n\<lparr>rc_retried := Suc (rc_retried n)\<rparr>)))) of
        Inl e \<Rightarrow> (pf, Inl e)
      | Inr (pf, n) \<Rightarrow> (pf, Inr n))"

section \<open>The run\<close>

fun reconcile_each ::
  "('a \<Rightarrow> reconcile_counts \<Rightarrow> protection \<Rightarrow> delete_reconciling) \<Rightarrow> 'a list \<Rightarrow> reconcile_counts \<Rightarrow> protection \<Rightarrow>
    delete_reconciling" where
  "reconcile_each f [] n pf = (pf, Inr n)"
| "reconcile_each f (x # xs) n pf = then_do (f x n pf) (\<lambda>n pf. reconcile_each f xs n pf)"

definition reconcile_snapshot_delete_tasks ::
  "int \<Rightarrow> nat \<Rightarrow> (snapshot \<Rightarrow> int) \<Rightarrow> protection \<Rightarrow> delete_reconciling" where
  "reconcile_snapshot_delete_tasks now limit written pf =
     then_do (reconcile_each (requeue_pending now) (stale_delete_tasks Pending (now - 5 * minute_us) limit pf)
       \<lparr>rc_requeued = 0, rc_recovered = 0, rc_retried = 0, rc_transferred = 0\<rparr> pf) (\<lambda>n pf.
     then_do (reconcile_each (recover_running now) (stale_delete_tasks Running (now - 120 * minute_us) limit pf) n pf) (\<lambda>n pf.
       reconcile_each (retry_deletion now) (failed_deletions written limit pf) n pf))"

end
