(* ===== verification/Delete_Run_Correct.thy ===== *)
theory Delete_Run_Correct
  imports Delete_Run Start_Claims
begin

text \<open>
  A run of a deletion task settles it: it succeeds, with every physical snapshot reported gone and
  the snapshot deleted, or fails, with the snapshot marked so, or waits as pending. What a run does
  before its end is a frame: only progress, steps, events, locators, commands and directory rows
  that the report covers.
\<close>

section \<open>Rows in step\<close>

lemma first_where_rel:
  assumes "list_all2 R xs ys" and "\<And>x y. R x y \<Longrightarrow> p y = p x" and "first_where p xs = Some x"
  shows "\<exists>y. first_where p ys = Some y \<and> R x y"
  using assms(1,3)
proof (induction xs ys rule: list_all2_induct)
  case (Cons a as b bs)
  then show ?case using assms(2) [OF Cons(1)] by (auto split: if_splits)
qed simp

lemma first_where_and:
  "first_where p xs = Some x \<Longrightarrow> q x \<Longrightarrow> first_where (\<lambda>x. p x \<and> q x) xs = Some x"
  by (induction xs) (auto split: if_splits)

lemma list_all2_update_where:
  "list_all2 R (xs :: 'a list) (update_where p f xs) \<longleftrightarrow> (\<forall>x \<in> set xs. R x (if p x then f x else x))"
  by (induction xs) auto

section \<open>Tasks\<close>

definition delete_steps :: "string list" where
  "delete_steps = [''prepare_snapshot_delete'', ''delete_kopia_snapshots'', ''finalize_snapshot_delete'']"

text \<open>A row up to its progress, and what keeps a row usable to the run.\<close>

definition task_shape :: "task \<Rightarrow> task" where
  "task_shape t = t\<lparr>t_progress := 0, t_current_step := None, t_updated_at := 0\<rparr>"

definition step_shape :: "task_step \<Rightarrow> task_step" where
  "step_shape s = s\<lparr>s_status := Step_pending, s_progress := 0\<rparr>"

definition task_fit :: "task \<Rightarrow> bool" where
  "task_fit t \<longleftrightarrow> 0 \<le> t_progress t \<and> t_progress t \<le> 10000
     \<and> or_else (t_current_step t) [] \<in> set ([] # delete_steps)"

definition task_like :: "task \<Rightarrow> task \<Rightarrow> bool" where
  "task_like t t' \<longleftrightarrow> task_shape t' = task_shape t \<and> (task_fit t \<longrightarrow> task_fit t')"

definition tasks_like :: "task_db \<Rightarrow> task_db \<Rightarrow> bool" where
  "tasks_like db db' \<longleftrightarrow> list_all2 task_like (db_tasks db) (db_tasks db')
     \<and> map step_shape (db_steps db') = map step_shape (db_steps db)"

lemma task_shape_eq:
  "task_shape t' = task_shape t \<longleftrightarrow> t_id t' = t_id t \<and> t_uuid t' = t_uuid t \<and> t_org t' = t_org t
     \<and> t_type t' = t_type t \<and> t_name t' = t_name t \<and> t_status t' = t_status t
     \<and> t_retry_count t' = t_retry_count t \<and> t_recovery_attempt t' = t_recovery_attempt t
     \<and> t_replaces t' = t_replaces t \<and> t_trigger t' = t_trigger t \<and> t_request t' = t_request t
     \<and> t_group_uuid t' = t_group_uuid t \<and> t_idempotency_key t' = t_idempotency_key t
     \<and> t_result t' = t_result t \<and> t_error_code t' = t_error_code t \<and> t_error_message t' = t_error_message t
     \<and> t_started_at t' = t_started_at t \<and> t_finished_at t' = t_finished_at t \<and> t_created_at t' = t_created_at t"
  by (cases t; cases t') (auto simp: task_shape_def)

lemma task_like_columns:
  assumes "task_like t t'"
  shows "t_id t' = t_id t" "t_uuid t' = t_uuid t" "t_org t' = t_org t" "t_status t' = t_status t"
    "t_request t' = t_request t" "task_fit t \<Longrightarrow> task_fit t'"
  using assms by (auto simp: task_like_def task_shape_eq)

lemma task_like_refl [simp]: "task_like t t"
  by (simp add: task_like_def)

lemma tasks_like_refl [simp]: "tasks_like db db"
  by (simp add: tasks_like_def list_all2_refl)

lemma tasks_like_trans:
  assumes "tasks_like a b" and "tasks_like b c"
  shows "tasks_like a c"
proof -
  have l: "list_all2 task_like (db_tasks a) (db_tasks b)" "list_all2 task_like (db_tasks b) (db_tasks c)"
    using assms by (simp_all add: tasks_like_def)
  have "list_all2 task_like (db_tasks a) (db_tasks c)"
    by (rule list_all2_trans [OF _ l]) (simp add: task_like_def)
  then show ?thesis using assms by (simp add: tasks_like_def)
qed

lemma tasks_like_tables:
  "db_tasks db' = db_tasks db \<Longrightarrow> db_steps db' = db_steps db \<Longrightarrow> tasks_like db db'"
  by (simp add: tasks_like_def list_all2_refl)

lemma tasks_like_ids:
  assumes "tasks_like db db'"
  shows "map t_id (db_tasks db') = map t_id (db_tasks db)"
proof -
  have "map t_id ys = map t_id xs" if "list_all2 task_like xs ys" for xs ys
    using that by (induction rule: list_all2_induct) (simp_all add: task_like_columns)
  then show ?thesis using assms by (simp add: tasks_like_def)
qed

lemma task_like_locked:
  assumes "tasks_like db db'" and "locked_task db uuid org = Some t"
  obtains t' where "locked_task db' uuid org = Some t'" "task_like t t'"
proof -
  have l: "list_all2 task_like (db_tasks db) (db_tasks db')" using assms(1) by (simp add: tasks_like_def)
  have "\<exists>t'. locked_task db' uuid org = Some t' \<and> task_like t t'"
    unfolding locked_task_def
    by (rule first_where_rel [OF l _ assms(2) [unfolded locked_task_def]]) (simp add: task_like_columns)
  then show ?thesis using that by blast
qed

definition has_step :: "nat \<Rightarrow> string \<Rightarrow> task_db \<Rightarrow> bool" where
  "has_step i n db \<longleftrightarrow> (\<exists>s \<in> set (db_steps db). s_task s = i \<and> s_name s = n)"

lemma has_step_shape: "has_step i n db \<longleftrightarrow> (\<exists>s \<in> set (map step_shape (db_steps db)). s_task s = i \<and> s_name s = n)"
  by (auto simp: has_step_def step_shape_def)

lemma tasks_like_steps: "tasks_like db db' \<Longrightarrow> has_step i n db' = has_step i n db"
  by (simp only: has_step_shape tasks_like_def)

lemma find_step: "has_step (t_id t) n db \<Longrightarrow> n \<noteq> [] \<Longrightarrow> find_task_step db t (Some n) \<noteq> None"
  by (auto simp: find_task_step_def steps_of_def first_where_None has_step_def)

lemma step_progress_percent [simp]: "step_progress (percent n) = n"
  by (simp add: step_progress_def percent_def round_half_even_def)

lemma step_progress_whole [simp]: "step_progress (of_int n) = n * 100"
proof -
  have e: "(of_int n :: rat) * 100 = of_int (n * 100)" by simp
  show ?thesis unfolding step_progress_def e by (simp add: round_half_even_def del: of_int_mult)
qed

lemma step_progress_numbers [simp]:
  "step_progress 0 = 0" "step_progress 10 = 1000" "step_progress 80 = 8000" "step_progress 100 = 10000"
  using step_progress_whole [of 0] step_progress_whole [of 10] step_progress_whole [of 80] step_progress_whole [of 100]
  by simp_all

lemma update_step_like: "tasks_like db (update_step step st progress db)"
proof (cases step)
  case (Some s)
  have "map step_shape (update_where p (\<lambda>x. x\<lparr>s_status := a, s_progress := g x\<rparr>) ss) = map step_shape ss" for p a g ss
    by (rule map_update_where) (simp add: step_shape_def)
  then show ?thesis by (simp add: Some update_step_def tasks_like_def list_all2_refl)
qed (simp add: update_step_def)

lemma step_columns_like:
  assumes "\<And>q. task_progress = Some q \<Longrightarrow> 0 \<le> step_progress q \<and> step_progress q \<le> 10000"
    and "\<And>n. current = Some n \<Longrightarrow> n \<in> set delete_steps"
  shows "task_like r (step_columns_of task_progress current now t r)"
  using assms
  by (cases current; cases task_progress)
    (auto simp: task_like_def step_columns_of_def Let_def task_shape_def task_fit_def)

lemma save_task_like: "(\<And>r. task_like r (f r)) \<Longrightarrow> tasks_like db (save_task f t db)"
  by (simp add: tasks_like_def save_task_def list_all2_update_where)

lemma set_step_like:
  assumes "set_step_status now name st progress task_progress current t db = (db', t')"
    and "\<And>q. task_progress = Some q \<Longrightarrow> 0 \<le> step_progress q \<and> step_progress q \<le> 10000"
    and "\<And>n. current = Some n \<Longrightarrow> n \<in> set delete_steps"
  shows "tasks_like db db' \<and> task_like t t'"
proof -
  let ?f = "step_columns_of task_progress current now t"
  let ?db = "update_step (first_where (\<lambda>s. s_name s = name) (steps_of db (t_id t))) st progress db"
  have "db' = save_task ?f t ?db" "t' = ?f t" using assms(1) by (simp_all add: set_step_status_def Let_def)
  moreover have "task_like r (?f r)" for r using step_columns_like [OF assms(2,3)] by blast
  ultimately show ?thesis using tasks_like_trans [OF update_step_like save_task_like] by blast
qed

section \<open>The frame of a run\<close>

definition row_like :: "int \<Rightarrow> string set \<Rightarrow> snapshot_directory \<Rightarrow> snapshot_directory \<Rightarrow> bool" where
  "row_like i G d d' \<longleftrightarrow> sd_id d' = sd_id d \<and> sd_snapshot d' = sd_snapshot d \<and> sd_kopia_id d' = sd_kopia_id d
     \<and> (sd_state d' = sd_state d \<or> (sd_state d' = Dir_deleted \<and> sd_snapshot d = i \<and> physical_id d \<in> G))"

definition mid :: "int \<Rightarrow> string set \<Rightarrow> protection \<Rightarrow> protection \<Rightarrow> bool" where
  "mid i G pf pf' \<longleftrightarrow> pr_snapshots pf' = pr_snapshots pf \<and> pr_leases pf' = pr_leases pf
     \<and> pr_delete_locks pf' = pr_delete_locks pf \<and> tasks_like (pf_tasks pf) (pf_tasks pf')
     \<and> list_all2 (row_like i G) (pr_directories pf) (pr_directories pf')"

lemma row_like_refl [simp]: "row_like i G d d"
  by (simp add: row_like_def)

lemma physical_id_like: "row_like i G d d' \<Longrightarrow> physical_id d' = physical_id d"
  by (simp add: row_like_def physical_id_def)

lemma row_like_mono: "row_like i G d d' \<Longrightarrow> G \<subseteq> H \<Longrightarrow> row_like i H d d'"
  by (auto simp: row_like_def)

lemma mid_refl [simp]: "mid i G pf pf"
  by (simp add: mid_def list_all2_refl)

lemma mid_mono: "mid i G pf pf' \<Longrightarrow> G \<subseteq> H \<Longrightarrow> mid i H pf pf'"
  by (auto simp: mid_def intro: list_all2_mono row_like_mono)

lemma mid_trans:
  assumes "mid i G a b" and "mid i G b c"
  shows "mid i G a c"
proof -
  have l: "list_all2 (row_like i G) (pr_directories a) (pr_directories b)"
    "list_all2 (row_like i G) (pr_directories b) (pr_directories c)" using assms by (simp_all add: mid_def)
  have "row_like i G x z" if "row_like i G x y" "row_like i G y z" for x y z
    using that physical_id_like [OF that(1)] by (auto simp: row_like_def)
  then have "list_all2 (row_like i G) (pr_directories a) (pr_directories c)"
    using list_all2_trans [OF _ l] by blast
  moreover have "tasks_like (pf_tasks a) (pf_tasks c)" using assms tasks_like_trans by (auto simp: mid_def)
  ultimately show ?thesis using assms by (simp add: mid_def)
qed

lemma mid_tables:
  assumes "pr_snapshots pf' = pr_snapshots pf" "pr_leases pf' = pr_leases pf"
    "pr_delete_locks pf' = pr_delete_locks pf" "pr_directories pf' = pr_directories pf"
    "tasks_like (pf_tasks pf) (pf_tasks pf')"
  shows "mid i G pf pf'"
  using assms by (simp add: mid_def list_all2_refl)

lemma step_to_mid:
  assumes "step_to now name st progress task_progress current (pf, t) = (pf', t')"
    and "\<And>q. task_progress = Some q \<Longrightarrow> 0 \<le> step_progress q \<and> step_progress q \<le> 10000"
    and "\<And>n. current = Some n \<Longrightarrow> n \<in> set delete_steps"
  shows "mid i G pf pf' \<and> task_like t t'"
proof -
  obtain db u where s: "set_step_status now name st progress task_progress current t (pf_tasks pf) = (db, u)"
    by (cases "set_step_status now name st progress task_progress current t (pf_tasks pf)")
  then have "pf' = pf\<lparr>pf_tasks := db\<rparr>" "t' = u" using assms(1) by (simp_all add: step_to_def)
  then show ?thesis using set_step_like [OF s assms(2,3)] by (simp add: mid_tables)
qed

lemma on_tasks_mid:
  assumes "on_tasks f pf = Inr pf'" and "\<And>db. f (pf_tasks pf) = Inr db \<Longrightarrow> tasks_like (pf_tasks pf) db"
  shows "mid i G pf pf'"
  using assms by (auto simp: on_tasks_def intro: mid_tables)

lemma event_like:
  "append_task_step_event now t n l m md db = Inr db' \<Longrightarrow> tasks_like db db'"
  by (auto simp: append_task_step_event_def Let_def split: if_splits intro: tasks_like_tables)

lemma announce_mid:
  assumes "announce_deletions now t rows is pf = (pf', res)"
  shows "mid i G pf pf'"
  using assms
proof (induction "is" arbitrary: pf)
  case (Cons a "is")
  show ?case
  proof (cases "on_tasks (\<lambda>db. lift_error task_work (append_task_step_event now t (Some ''delete_kopia_snapshots'') Info
             ''Deleting physical Kopia snapshot'' (Some (deleting_metadata rows a)) db)) pf")
    case (Inl e)
    then show ?thesis using Cons.prems by simp
  next
    case (Inr pf1)
    then have "mid i G pf pf1" by (rule on_tasks_mid) (auto intro: event_like)
    moreover have "mid i G pf1 pf'" using Cons Inr by simp
    ultimately show ?thesis by (rule mid_trans)
  qed
qed simp

section \<open>The frame of the physical deletion\<close>

lemma then_doE:
  assumes "then_do m f = (s', r)"
  obtains (raised) e where "m = (s', Inl e)" "r = Inl e" | (went) s x where "m = (s, Inr x)" "f x s = (s', r)"
proof (cases m)
  case (Pair s a)
  then show ?thesis using assms raised went by (cases a) (auto simp: then_do_def)
qed

lemma set_locator_mid: "mid i G pf (set_locator p payload pf)"
  by (simp add: mid_def set_locator_def list_all2_update_where row_like_def)

lemma resolve_locator_mid:
  assumes "resolve_snapshot_repository_locator d r pf = Inr (pf', d', l)"
  shows "mid i G pf pf'"
proof -
  consider "pf' = pf" | p payload where "pf' = set_locator p payload pf"
    using assms by (auto simp: resolve_snapshot_repository_locator_def Let_def split: option.splits if_splits)
  then show ?thesis by cases (simp_all add: set_locator_mid)
qed

lemma group_mid:
  assumes "group_directories r ds groups pf = (pf', res)"
  shows "mid i G pf pf'"
  using assms
proof (induction ds arbitrary: groups pf)
  case (Cons d ds)
  show ?case
  proof (cases "resolve_snapshot_repository_locator d r pf")
    case (Inl e)
    then show ?thesis using Cons.prems by simp
  next
    case (Inr x)
    obtain pf1 d1 l where x: "x = (pf1, d1, l)" by (cases x)
    have "mid i G pf pf1" using Inr x resolve_locator_mid by blast
    moreover have "mid i G pf1 pf'" using Cons Inr x by simp
    ultimately show ?thesis by (rule mid_trans)
  qed
qed simp

lemma reader_mid:
  assumes "resolve_snapshot_repository_reader v d r fallback pf = (pf', res)"
  shows "mid i G pf pf'"
proof (cases "resolve_snapshot_repository_locator d r pf")
  case (Inl e)
  then show ?thesis using assms by (simp add: resolve_snapshot_repository_reader_def)
next
  case (Inr x)
  then show ?thesis using assms resolve_locator_mid
    by (cases x) (auto simp: resolve_snapshot_repository_reader_def)
qed

lemma fleet_mid: "mid i G pf (pf\<lparr>pf_fleet := fl\<rparr>)"
  by (simp add: mid_tables)

lemma agent_task_mid:
  assumes "run_agent_task_async v uid org node kind payload persisted ctype cid parent pf = Inr (pf', t)"
  shows "mid i G pf pf'"
proof -
  obtain fl where "pf' = pf\<lparr>pf_fleet := fl\<rparr>"
    using assms by (force simp: run_agent_task_async_def Let_def rbind_def of_option_def guard_that_def
        split: sum.splits prod.splits option.splits if_splits)
  then show ?thesis by (simp add: fleet_mid)
qed

lemma dispatch_mid:
  assumes "resolve_or_dispatch_agent_snapshot_delete v org t node payload ctype repository ids pf = (pf', res)"
  shows "mid i G pf pf'"
  using assms agent_task_mid
  by (auto simp: resolve_or_dispatch_agent_snapshot_delete_def Let_def split: option.splits sum.splits prod.splits)

lemma on_reader_mid:
  assumes "delete_on_reader v org t d r fallback ids ctype pf = (pf', res)"
  shows "mid i G pf pf'"
  using assms unfolding delete_on_reader_def
proof (cases rule: then_doE)
  case (raised e)
  then show ?thesis using reader_mid by blast
next
  case (went pf1 x)
  then have "mid i G pf1 pf'" using dispatch_mid by (cases x) auto
  with went(1) show ?thesis using reader_mid mid_trans by blast
qed

lemma non_s3_mid:
  assumes "run_non_s3_snapshot_delete v org t s d r ids ctype pf = (pf', res)"
  shows "mid i G pf pf'"
proof -
  obtain f where "then_do (delete_on_reader v org t d r f ids ctype pf) (\<lambda>k pf. (pf, Inr (agent_outcome k))) = (pf', res)
      \<or> pf' = pf"
    using assms by (auto simp: run_non_s3_snapshot_delete_def split: sum.splits)
  then show ?thesis using on_reader_mid by (auto elim!: then_doE)
qed

lemma writer_mid:
  assumes "delete_on_writer v org t d r writer ids ctype pf = (pf', res)"
  shows "mid i G pf pf'"
proof (cases "writer \<noteq> None \<and> node_is_available_for_work (the writer)")
  case True
  then show ?thesis using assms on_reader_mid unfolding delete_on_writer_def by (auto elim!: then_doE split: if_splits)
next
  case False
  then show ?thesis using assms unfolding delete_on_writer_def by auto
qed

lemma run_delete_mid:
  assumes "run_snapshot_delete v org t s d r ids ctype pf = (pf', res)"
  shows "mid i G pf pf'"
proof (cases "rp_type r = Repo_s3")
  case False
  then show ?thesis using assms non_s3_mid by (simp add: run_snapshot_delete_def)
next
  case s3: True
  show ?thesis
  proof (cases "resolve_snapshot_repository_locator d r pf")
    case (Inl e)
    then show ?thesis using assms s3 by (simp add: run_snapshot_delete_def)
  next
    case (Inr x)
    obtain pf1 d1 l where x: "x = (pf1, d1, l)" by (cases x)
    let ?w = "snapshot_execution_node org (lo_writer l) pf1"
    from Inr x assms s3 have run: "then_do (delete_on_writer v org t d1 r ?w ids ctype pf1) (\<lambda>(outcome, unsent) pf.
        case outcome of
          Some out \<Rightarrow> (pf, Inr out)
        | None \<Rightarrow>
            if ?w \<noteq> None \<and> n_availability (the ?w) = Online \<and> \<not> unsent
            then (pf, Inl (Invalid_work (''Snapshot execution node '' @ [CHR 0x22]
                   @ we_node_name v (n_id (the ?w)) @ [CHR 0x22] @ '' is busy.'')))
            else delete_on_controller v r ids pf) = (pf', res)"
      by (simp add: run_snapshot_delete_def Let_def)
    have "mid i G pf1 pf'"
      using run
    proof (cases rule: then_doE)
      case (raised e)
      then show ?thesis using writer_mid by blast
    next
      case (went pf2 y)
      then have "pf' = pf2" by (cases y) (auto simp: delete_on_controller_def split: option.splits if_splits)
      with went(1) show ?thesis using writer_mid by blast
    qed
    with Inr x show ?thesis using resolve_locator_mid mid_trans by blast
  qed
qed

section \<open>Reported gone\<close>

definition item_id :: "dict \<Rightarrow> string" where
  "item_id item = normalize_kopia_snapshot_id (dget item ''kopia_snapshot_id'')"

definition item_gone :: "dict \<Rightarrow> bool" where
  "item_gone item \<longleftrightarrow> item_status item = ''success'' \<or> kopia_snapshot_delete_already_absent item"

text \<open>The physical snapshots a list of items reports as deleted or as absent already.\<close>

definition gone_ids :: "dict list \<Rightarrow> string set" where
  "gone_ids items = {item_id item | item. item \<in> set items \<and> item_id item \<noteq> [] \<and> item_gone item}"

lemma gone_ids_simps [simp]:
  "gone_ids [] = {}"
  "gone_ids (x # xs) = (if item_id x \<noteq> [] \<and> item_gone x then insert (item_id x) (gone_ids xs) else gone_ids xs)"
  by (auto simp: gone_ids_def)

lemma gone_ids_append [simp]: "gone_ids (xs @ ys) = gone_ids xs \<union> gone_ids ys"
  by (auto simp: gone_ids_def)

lemma classify_gone:
  "classify_kopia_snapshot_delete_results (map JObj items) = (deleted, absent, hard) \<Longrightarrow>
     set deleted \<union> set absent = gone_ids items"
proof (induction items arbitrary: deleted absent hard)
  case (Cons x xs)
  obtain d a h where r: "classify_kopia_snapshot_delete_results (map JObj xs) = (d, a, h)"
    by (cases "classify_kopia_snapshot_delete_results (map JObj xs)")
  have step: "(deleted, absent, hard) = (if item_id x = [] then (d, a, h)
      else if item_status x = ''success'' then (List.insert (item_id x) d, a, h)
      else if kopia_snapshot_delete_already_absent x then (d, List.insert (item_id x) a, h) else (d, a, x # h))"
    using Cons.prems r unfolding item_id_def by (simp only: list.map classify_kopia_snapshot_delete_results.simps json.case prod.case Let_def)
  note ih = Cons.IH [OF r]
  consider "item_id x = []" | "item_id x \<noteq> []" "item_status x = ''success''"
    | "item_id x \<noteq> []" "item_status x \<noteq> ''success''" "kopia_snapshot_delete_already_absent x"
    | "item_id x \<noteq> []" "item_status x \<noteq> ''success''" "\<not> kopia_snapshot_delete_already_absent x" by blast
  then show ?case using step ih by cases (simp_all add: item_gone_def flip: ih)
qed simp

lemma normalize_idem [simp]:
  "normalize_kopia_snapshot_id (JStr (normalize_kopia_snapshot_id v)) = normalize_kopia_snapshot_id v"
proof -
  have "strip [] = []" by (simp add: strip_def strip_by_def rstrip_by_def lstrip_by_def)
  then show ?thesis by (auto simp: normalize_kopia_snapshot_id_def Let_def)
qed

lemma gone_row:
  assumes "sd_kopia_id d = Some k" and "k \<in> gone_ids items"
  shows "physical_id d = k"
proof -
  from assms(2) obtain item where "k = item_id item" by (auto simp: gone_ids_def)
  then show ?thesis using assms(1) by (simp add: physical_id_def kopia_column_def item_id_def)
qed

lemma settle_mid:
  assumes "settle_group s g out acc pf = (pf', acc')"
  shows "mid (sn_id s) (gone_ids (outcome_items out)) pf pf'" "dp_items acc' = dp_items acc @ outcome_items out"
proof -
  obtain deleted absent hard where c:
    "classify_kopia_snapshot_delete_results (map JObj (outcome_items out)) = (deleted, absent, hard)"
    by (cases "classify_kopia_snapshot_delete_results (map JObj (outcome_items out))")
  have g: "k \<in> set deleted \<or> k \<in> set absent \<longleftrightarrow> k \<in> gone_ids (outcome_items out)" for k
    using classify_gone [OF c] by blast
  have "pf' = delete_rows (sn_id s) (\<lambda>d. sd_id d \<in> sd_id ` set g \<and> or_else (sd_kopia_id d) [] \<in> gone_ids (outcome_items out)
      \<and> sd_kopia_id d \<noteq> None) pf"
    using assms by (simp add: settle_group_def c Let_def g del: not_None_eq)
  then show "mid (sn_id s) (gone_ids (outcome_items out)) pf pf'"
    using gone_row [of _ _ "outcome_items out"]
    by (auto simp: delete_rows_def mid_def list_all2_update_where row_like_def)
  show "dp_items acc' = dp_items acc @ outcome_items out"
    using assms by (auto simp: settle_group_def c Let_def)
qed

lemma delete_groups_mid:
  assumes "delete_groups v org t s r gs acc pf = (pf', res)"
  shows "mid (sn_id s) UNIV pf pf'
    \<and> (\<forall>acc'. res = Inr acc' \<longrightarrow> (\<exists>items. dp_items acc' = dp_items acc @ items \<and> mid (sn_id s) (gone_ids items) pf pf'))"
  using assms
proof (induction gs arbitrary: acc pf)
  case (Cons g gs)
  from Cons.prems have "then_do (run_snapshot_delete v org t s (hd g) r (kopia_snapshot_ids g) ''protection.snapshot_delete'' pf)
      (\<lambda>out pf. case settle_group s g out acc pf of (pf, acc) \<Rightarrow> delete_groups v org t s r gs acc pf) = (pf', res)"
    by simp
  then show ?case
  proof (cases rule: then_doE)
    case (raised e)
    then show ?thesis using run_delete_mid by blast
  next
    case (went pf1 out)
    obtain pf2 acc2 where st: "settle_group s g out acc pf1 = (pf2, acc2)"
      by (cases "settle_group s g out acc pf1")
    have rest: "delete_groups v org t s r gs acc2 pf2 = (pf', res)" using went(2) st by simp
    note ih = Cons.IH [OF rest]
    have one: "mid (sn_id s) G pf pf1" for G using run_delete_mid went(1) by blast
    have "mid (sn_id s) UNIV pf1 pf2" using mid_mono [OF settle_mid(1) [OF st]] by blast
    then have all: "mid (sn_id s) UNIV pf pf'" using ih one mid_trans by blast
    have "\<exists>items. dp_items acc' = dp_items acc @ items \<and> mid (sn_id s) (gone_ids items) pf pf'" if acc': "res = Inr acc'" for acc'
    proof -
      from ih acc' obtain items where items: "dp_items acc' = dp_items acc2 @ items" "mid (sn_id s) (gone_ids items) pf2 pf'"
        by blast
      let ?G = "gone_ids (outcome_items out @ items)"
      have "mid (sn_id s) ?G pf1 pf2" by (rule mid_mono [OF settle_mid(1) [OF st]]) simp
      moreover have "mid (sn_id s) ?G pf2 pf'" by (rule mid_mono [OF items(2)]) simp
      ultimately have "mid (sn_id s) ?G pf pf'" using one mid_trans by blast
      then show ?thesis using items(1) settle_mid(2) [OF st] by (intro exI [of _ "outcome_items out @ items"]) simp
    qed
    then show ?thesis using all by blast
  qed
qed (auto intro!: exI [of _ "[]"])

section \<open>The end of a task\<close>

definition parent_readable :: "dict \<Rightarrow> bool" where
  "parent_readable request \<longleftrightarrow> int_or (dget request ''source_unregister_task_id'') 0 \<noteq> None
     \<and> int_or (dget request ''source_unregister_attempt'') 0 \<noteq> None"

definition good_task :: "int \<Rightarrow> string \<Rightarrow> nat \<Rightarrow> task_db \<Rightarrow> bool" where
  "good_task org uuid k db \<longleftrightarrow> distinct (map t_id (db_tasks db)) \<and> (\<forall>n \<in> set delete_steps. has_step k n db)
     \<and> (\<exists>t. locked_task db uuid org = Some t \<and> t_id t = k \<and> t_status t \<in> {Pending, Running} \<and> task_fit t
          \<and> parent_readable (or_else (t_request t) []))"

definition task_ended :: "int \<Rightarrow> string \<Rightarrow> task_status \<Rightarrow> dict \<Rightarrow> task_db \<Rightarrow> bool" where
  "task_ended org uuid st res db \<longleftrightarrow>
     (\<exists>t. locked_task db uuid org = Some t \<and> t_status t = st \<and> t_result t = Some res)"

lemma good_task_like:
  assumes "good_task org uuid k db" and "tasks_like db db'"
  shows "good_task org uuid k db'"
proof -
  from assms(1) obtain t where t: "locked_task db uuid org = Some t" "t_id t = k" "t_status t \<in> {Pending, Running}"
    "task_fit t" "parent_readable (or_else (t_request t) [])" by (auto simp: good_task_def)
  obtain t' where "locked_task db' uuid org = Some t'" "task_like t t'" using task_like_locked assms(2) t(1) by blast
  then show ?thesis using assms t
    by (auto simp: good_task_def tasks_like_ids tasks_like_steps task_like_columns)
qed

lemma good_task_row:
  assumes "good_task org uuid k db"
  obtains t where "locked_task db uuid org = Some t" "task_by_id db k = Some t" "t_id t = k" "t_uuid t = uuid"
    "t_org t = Some org" "t_status t \<in> {Pending, Running}" "task_fit t" "parent_readable (or_else (t_request t) [])"
proof -
  from assms obtain t where t: "locked_task db uuid org = Some t" "t_id t = k" "t_status t \<in> {Pending, Running}"
    "task_fit t" "parent_readable (or_else (t_request t) [])" by (auto simp: good_task_def)
  have "task_by_id db k = Some t"
    unfolding task_by_id_def using assms t(2) locked_task_Some [OF t(1)]
    by (intro first_where_key [where key = t_id]) (auto simp: good_task_def)
  then show ?thesis using that t locked_task_Some [OF t(1)] by blast
qed

lemma locked_save:
  assumes "\<And>r. t_org (f r) = t_org r \<and> t_uuid (f r) = t_uuid r"
  shows "locked_task (save_task f t db) uuid org
    = map_option (\<lambda>r. if t_id r = t_id t then f r else r) (locked_task db uuid org)"
  unfolding locked_task_def save_task_def by (simp add: first_where_update_where assms)

lemma by_id_save:
  assumes "\<And>r. t_id (f r) = t_id r"
  shows "task_by_id (save_task f t db) k = map_option (\<lambda>r. if t_id r = t_id t then f r else r) (task_by_id db k)"
  unfolding task_by_id_def save_task_def by (simp add: first_where_update_where assms)

text \<open>Closing an open task, with a readable owner.\<close>

lemma end_task_ends:
  assumes good: "good_task org uuid k db" and "parse_task_status (c_status c) = Some st" and "terminal st"
    and "progress_of (c_progress c) = Inr p" and "c_result c = Some res" and "t_uuid t = uuid" and "t_org t = Some org"
  obtains db' t' where "end_task now t c db = Inr db'" "locked_task db' uuid org = Some t'" "task_by_id db' k = Some t'"
    "t_status t' = st" "t_result t' = Some res" "t_error_code t' = nonempty (c_error_code c)"
    "parent_readable (or_else (t_request t') [])"
proof -
  obtain r where r: "locked_task db uuid org = Some r" "task_by_id db k = Some r" "t_id r = k"
    "t_status r \<in> {Pending, Running}" "parent_readable (or_else (t_request r) [])"
    using good_task_row [OF good] by blast
  obtain db' t1 where e: "finish_task now st p c r db = (db', t1)" by (cases "finish_task now st p c r db")
  let ?f = "completed_columns now st p c (Some (or_else (t_started_at r) now))"
  have tables: "db_tasks db' = db_tasks (save_task ?f r db)"
    using e by (auto simp: finish_task_def Let_def emit_task_terminal_signal_def send_signal_def split: task_status.splits)
  have "locked_task db' uuid org = locked_task (save_task ?f r db) uuid org" "task_by_id db' k = task_by_id (save_task ?f r db) k"
    by (simp_all add: locked_task_def task_by_id_def tables)
  then have row: "locked_task db' uuid org = Some (?f r)" "task_by_id db' k = Some (?f r)"
    by (simp_all add: locked_save by_id_save completed_columns_def r(1,2))
  have "complete_task now uuid org c db = Inr (db', t1)"
    using r(1,4) assms(2-4) e by (auto simp: complete_task_def find_locked_def)
  then have "end_task now t c db = Inr db'"
    by (simp add: end_task_def assms(6,7) lift_error_def)
  from that [OF this row] show ?thesis using r(5) assms(5) by (simp add: completed_columns_def)
qed

lemma followup_runs:
  assumes "task_by_id (pf_tasks pf) k = Some t" and "parent_readable (or_else (t_request t) [])"
  shows "\<exists>q. queue_source_unregister_followup k pf = (pf\<lparr>pr_unregister_queue := q\<rparr>, Inr ())"
proof -
  obtain i n where "int_or (dget (or_else (t_request t) []) ''source_unregister_task_id'') 0 = Some i"
    "int_or (dget (or_else (t_request t) []) ''source_unregister_attempt'') 0 = Some n"
    using assms(2) by (auto simp: parent_readable_def)
  then obtain p where "unregister_parent (Some t) (pf_tasks pf) = Inr p"
    by (simp add: unregister_parent_def Let_def)
  then show ?thesis
    by (cases p) (auto simp: queue_source_unregister_followup_def assms(1) intro: exI [of _ "pr_unregister_queue pf"])
qed

section \<open>The end of a run\<close>

definition snapshots_apart :: "snapshot list \<Rightarrow> bool" where
  "snapshots_apart ss \<longleftrightarrow> distinct (map sn_id ss) \<and> (\<forall>a \<in> set ss. \<forall>b \<in> set ss. snapshot_conflict a b \<longrightarrow> sn_id a = sn_id b)"

lemma typed_apart: "snapshots_typed pf \<Longrightarrow> snapshots_apart (pr_snapshots pf)"
  by (simp add: snapshots_typed_def snapshots_ok_def snapshots_apart_def)

lemma save_apart:
  assumes "snapshots_apart (pr_snapshots pf)" and "s \<in> set (pr_snapshots pf)" and "sn_id s = i"
    and "\<And>r x. snapshot_conflict (f r) x \<Longrightarrow> snapshot_conflict r x"
  shows "save_snapshot i f pf = Inr (pf\<lparr>pr_snapshots := update_where (\<lambda>r. sn_id r = i) f (pr_snapshots pf)\<rparr>)"
proof -
  have "first_where (\<lambda>r. sn_id r = i) (pr_snapshots pf) = Some s"
    using assms(1-3) by (intro first_where_key [where key = sn_id]) (auto simp: snapshots_apart_def)
  moreover have "sn_id x = i \<or> \<not> snapshot_conflict (f s) x" if "x \<in> set (pr_snapshots pf)" for x
    using assms that by (auto simp: snapshots_apart_def)
  ultimately show ?thesis by (simp add: save_snapshot_def)
qed

lemma closed_conflict:
  "snapshot_conflict (failed_columns code message r) x \<Longrightarrow> snapshot_conflict r x"
  "snapshot_conflict (deleted_columns now r) x \<Longrightarrow> snapshot_conflict r x"
  by (auto simp: snapshot_conflict_def failed_columns_def deleted_columns_def)

definition snapshot_is :: "int \<Rightarrow> snapshot_status \<Rightarrow> protection \<Rightarrow> bool" where
  "snapshot_is i st pf \<longleftrightarrow> (\<forall>s \<in> set (pr_snapshots pf). sn_id s = i \<longrightarrow> sn_status s = st)"

definition all_deleted :: "int \<Rightarrow> protection \<Rightarrow> bool" where
  "all_deleted i pf \<longleftrightarrow> (\<forall>d \<in> set (pr_directories pf). sd_snapshot d = i \<longrightarrow> sd_state d = Dir_deleted)"

text \<open>What a run leaves alone whatever happens.\<close>

definition same_guards :: "protection \<Rightarrow> protection \<Rightarrow> bool" where
  "same_guards pf pf' \<longleftrightarrow> pr_leases pf' = pr_leases pf \<and> pr_delete_locks pf' = pr_delete_locks pf"

lemma same_guards_refl [simp]: "same_guards pf pf"
  by (simp add: same_guards_def)

lemma same_guards_trans: "same_guards a b \<Longrightarrow> same_guards b c \<Longrightarrow> same_guards a c"
  by (simp add: same_guards_def)

lemma mid_guards: "mid i G pf pf' \<Longrightarrow> same_guards pf pf'"
  by (simp add: mid_def same_guards_def)

lemma end_numbers [simp]:
  "progress_of 100 = Inr 10000" "parse_task_status ''success'' = Some Success" "parse_task_status ''failed'' = Some Failed"
  by (simp_all add: progress_of_def round_half_even_def Let_def parse_task_status_def all_task_statuses_def)

lemma percent_progress: "task_fit t \<Longrightarrow> progress_of (percent (t_progress t)) = Inr (t_progress t)"
  by (simp add: progress_of_def percent_def round_half_even_def task_fit_def Let_def)

lemma complete_delete_ends:
  assumes "good_task org uuid (t_id t) (pf_tasks pf)" and "t_uuid t = uuid" and "t_org t = Some org"
  obtains pf' where "complete_delete now t s res pf = (pf', Inr res)" "task_ended org uuid Success res (pf_tasks pf')"
    "same_guards pf pf'" "pr_snapshots pf' = pr_snapshots pf" "pr_directories pf' = pr_directories pf"
proof -
  obtain db' t' where e: "end_task now t (completion_of ''success'' 100 res [] []) (pf_tasks pf) = Inr db'"
    "locked_task db' uuid org = Some t'" "task_by_id db' (t_id t) = Some t'" "t_status t' = Success"
    "t_result t' = Some res" "parent_readable (or_else (t_request t') [])"
    using assms by (rule_tac end_task_ends [of org uuid "t_id t" "pf_tasks pf" "completion_of ''success'' 100 res [] []" Success 10000 res t now])
      (simp_all add: completion_of_def)
  obtain q where "queue_source_unregister_followup (t_id t) (pf\<lparr>pf_tasks := db'\<rparr>)
      = (pf\<lparr>pf_tasks := db', pr_unregister_queue := q\<rparr>, Inr ())"
    using followup_runs [of "pf\<lparr>pf_tasks := db'\<rparr>" "t_id t" t'] e(3,6) by auto
  then have "complete_delete now t s res pf = (pf\<lparr>pf_tasks := db', pr_unregister_queue := q\<rparr>, Inr res)"
    by (simp add: complete_delete_def on_tasks_def e(1) then_do_def)
  from that [OF this] show ?thesis using e(2,4,5) by (simp add: task_ended_def same_guards_def)
qed

lemma failed_task_ends:
  assumes good: "good_task org uuid (t_id t) db" and row: "task_by_id db (t_id t) = Some t"
  obtains db' t' where "failed_task now t code message res event db = Inr db'" "locked_task db' uuid org = Some t'"
    "task_by_id db' (t_id t) = Some t'" "t_status t' = Failed" "t_result t' = Some res" "t_error_code t' = nonempty code"
    "parent_readable (or_else (t_request t') [])"
proof -
  obtain r where r: "task_by_id db (t_id t) = Some r" "t_uuid r = uuid" "t_org r = Some org" "task_fit r"
    using good_task_row [OF good] by metis
  then have t: "t_uuid t = uuid" "t_org t = Some org" "task_fit t" using row by simp_all
  have p: "0 \<le> t_progress t" "t_progress t \<le> 10000" using t(3) by (simp_all add: task_fit_def)
  let ?md = "Some [(''error_code'', JStr code), (''error_message'', JStr message),
      (''results'', dget_or res ''results'' (JList []))]"
  have "find_task_step db t (Some ''delete_kopia_snapshots'') \<noteq> None"
    using good by (intro find_step) (auto simp: good_task_def delete_steps_def)
  then obtain db1 where e: "append_task_step_event now t (Some ''delete_kopia_snapshots'') Error_level event ?md db = Inr db1"
    by (auto simp: append_task_step_event_def Let_def)
  obtain db2 t2 where s2: "set_step_status now ''delete_kopia_snapshots'' Step_failed (Some 0) (Some (percent (t_progress t)))
      None t db1 = (db2, t2)" by (atomize_elim, rule surj_pair)
  obtain db3 t3 where s3: "set_step_status now ''finalize_snapshot_delete'' Step_failed (Some 0) (Some (percent (t_progress t)))
      (Some ''finalize_snapshot_delete'') t2 db2 = (db3, t3)" by (atomize_elim, rule surj_pair)
  have l2: "tasks_like db1 db2 \<and> task_like t t2" by (rule set_step_like [OF s2]) (use p in auto)
  have l3: "tasks_like db2 db3 \<and> task_like t2 t3" by (rule set_step_like [OF s3]) (use p in \<open>auto simp: delete_steps_def\<close>)
  have "tasks_like db db3" using event_like [OF e] l2 l3 tasks_like_trans by blast
  then have g3: "good_task org uuid (t_id t) db3" using good good_task_like by blast
  have t3: "t_uuid t3 = uuid" "t_org t3 = Some org"
    using t l2 l3 task_like_columns(2,3) by metis+
  obtain db' t' where d: "end_task now t3 (completion_of ''failed'' (percent (t_progress t)) res code message) db3 = Inr db'"
    "locked_task db' uuid org = Some t'" "task_by_id db' (t_id t) = Some t'" "t_status t' = Failed"
    "t_result t' = Some res" "t_error_code t' = nonempty code" "parent_readable (or_else (t_request t') [])"
    using end_task_ends [OF g3, of "completion_of ''failed'' (percent (t_progress t)) res code message" Failed "t_progress t" res t3 now]
      t3 percent_progress [OF t(3)] by (auto simp: completion_of_def)
  have "failed_task now t code message res event db = Inr db'"
    by (simp add: failed_task_def e lift_error_def Let_def s2 s3 d(1))
  then show ?thesis using that d by blast
qed

definition failure_end :: "int \<Rightarrow> string \<Rightarrow> int \<Rightarrow> protection \<Rightarrow> dict \<Rightarrow> bool" where
  "failure_end org uuid i pf' res \<longleftrightarrow>
     task_ended org uuid Failed res (pf_tasks pf') \<and> snapshot_is i Snap_delete_failed pf'"

lemma row_of_snapshot:
  assumes "snapshot_row org i pf = Some s"
  shows "s \<in> set (pr_snapshots pf)" "sn_id s = i" "sn_org s = org"
  using first_where_Some [OF assms [unfolded snapshot_row_def]] by simp_all

lemma fail_ends:
  assumes good: "good_task org uuid k (pf_tasks pf)" and row: "snapshot_row org i pf = Some r"
    and ok: "snapshots_apart (pr_snapshots pf)" and s: "sn_org s = org" "sn_id s = i"
  obtains pf' res where "fail_snapshot_delete_task now k (Some s) code message given event pf = (pf', Inr res)"
    "failure_end org uuid i pf' res" "same_guards pf pf'" "pr_directories pf' = pr_directories pf"
proof -
  obtain t where t: "task_by_id (pf_tasks pf) k = Some t" "t_id t = k" "t_status t \<in> {Pending, Running}"
    using good_task_row [OF good] by metis
  let ?text = "failure_text message" and ?res = "failure_result (Some r) given pf"
  let ?pf = "pf\<lparr>pr_snapshots := update_where (\<lambda>r. sn_id r = i) (failed_columns code ?text) (pr_snapshots pf)\<rparr>"
  have save: "save_snapshot (sn_id r) (failed_columns code ?text) pf = Inr ?pf"
    using save_apart [OF ok row_of_snapshot(1,2) [OF row] closed_conflict(1)] row_of_snapshot(2) [OF row] by simp
  have good': "good_task org uuid (t_id t) (pf_tasks ?pf)" and by_id: "task_by_id (pf_tasks ?pf) (t_id t) = Some t"
    using good t(1,2) by simp_all
  obtain db' t' where d: "failed_task now t code ?text ?res event (pf_tasks ?pf) = Inr db'"
    "locked_task db' uuid org = Some t'" "task_by_id db' (t_id t) = Some t'" "t_status t' = Failed" "t_result t' = Some ?res"
    "parent_readable (or_else (t_request t') [])"
    using failed_task_ends [OF good' by_id] by metis
  have f: "fail_in_transaction now t (Some s) code ?text given event pf = Inr (?pf\<lparr>pf_tasks := db'\<rparr>, ?res)"
    using d(1) by (simp add: fail_in_transaction_def s row save Let_def on_tasks_def lift_error_def)
  obtain q where q: "queue_source_unregister_followup k (?pf\<lparr>pf_tasks := db'\<rparr>)
      = (?pf\<lparr>pf_tasks := db', pr_unregister_queue := q\<rparr>, Inr ())"
    using followup_runs [of "?pf\<lparr>pf_tasks := db'\<rparr>" k t'] d(3,6) t(2) by auto
  have "fail_snapshot_delete_task now k (Some s) code message given event pf
      = (?pf\<lparr>pf_tasks := db', pr_unregister_queue := q\<rparr>, Inr ?res)"
    using t by (auto simp: fail_snapshot_delete_task_def f q then_do_def)
  from that [OF this] show ?thesis using d(2,4,5)
    by (auto simp: failure_end_def task_ended_def same_guards_def snapshot_is_def ball_update_where failed_columns_def)
qed

text \<open>The physical snapshots the report of a run lists as gone.\<close>

definition reported_gone :: "dict \<Rightarrow> string set" where
  "reported_gone res = (case dget res ''results'' of
       JList xs \<Rightarrow> (case classify_kopia_snapshot_delete_results xs of (deleted, absent, hard) \<Rightarrow> set deleted \<union> set absent)
     | _ \<Rightarrow> {})"

lemma reported_items: "dget res ''results'' = JList (map JObj items) \<Longrightarrow> reported_gone res = gone_ids items"
  using classify_gone [of items]
  by (cases "classify_kopia_snapshot_delete_results (map JObj items)") (simp add: reported_gone_def)

definition confirmed :: "int \<Rightarrow> protection \<Rightarrow> dict \<Rightarrow> bool" where
  "confirmed i pf res \<longleftrightarrow> (\<forall>d \<in> set (pr_directories pf).
     sd_snapshot d = i \<and> sd_state d \<noteq> Dir_deleted \<and> physical_id d \<noteq> [] \<longrightarrow> physical_id d \<in> reported_gone res)"

definition success_end :: "int \<Rightarrow> string \<Rightarrow> int \<Rightarrow> protection \<Rightarrow> protection \<Rightarrow> dict \<Rightarrow> bool" where
  "success_end org uuid i pf pf' res \<longleftrightarrow> task_ended org uuid Success res (pf_tasks pf')
     \<and> snapshot_is i Snap_deleted pf' \<and> all_deleted i pf' \<and> confirmed i pf res"

lemma rows_in_0: "rows_in i (\<lambda>st. st \<noteq> Dir_deleted) pf = 0 \<longleftrightarrow> all_deleted i pf"
  by (auto simp: rows_in_def count_where_def all_deleted_def filter_empty_conv)

lemma save_deleted:
  assumes "snapshots_apart (pr_snapshots pf)" and "s \<in> set (pr_snapshots pf)"
  shows "save_snapshot (sn_id s) (deleted_columns now) pf
    = Inr (pf\<lparr>pr_snapshots := update_where (\<lambda>r. sn_id r = sn_id s) (deleted_columns now) (pr_snapshots pf)\<rparr>)"
  by (rule save_apart [OF assms refl closed_conflict(2)])

lemma deleted_is: "snapshot_is i Snap_deleted (pf\<lparr>pr_snapshots := update_where (\<lambda>r. sn_id r = i) (deleted_columns now) ss\<rparr>)"
  by (simp add: snapshot_is_def ball_update_where deleted_columns_def)

section \<open>The run ends\<close>

lemma mid_row:
  assumes "mid i G pf pf'" and "d \<in> set (pr_directories pf)"
  shows "\<exists>d' \<in> set (pr_directories pf'). row_like i G d d'"
proof -
  have "list_all2 (row_like i G) (pr_directories pf) (pr_directories pf')" using assms(1) by (simp add: mid_def)
  then show ?thesis using assms(2) by (induction rule: list_all2_induct) auto
qed

lemma mid_row_back:
  assumes "mid i G pf pf'" and "d' \<in> set (pr_directories pf')"
  shows "\<exists>d \<in> set (pr_directories pf). row_like i G d d'"
proof -
  have "list_all2 (row_like i G) (pr_directories pf) (pr_directories pf')" using assms(1) by (simp add: mid_def)
  then show ?thesis using assms(2) by (induction rule: list_all2_induct) auto
qed

lemma mid_confirmed:
  assumes "mid i (insert [] (gone_ids items)) pf pf'" and "all_deleted i pf'"
    and "dget res ''results'' = JList (map JObj items)"
  shows "confirmed i pf res"
proof -
  have "physical_id d \<in> gone_ids items"
    if d: "d \<in> set (pr_directories pf)" "sd_snapshot d = i" "sd_state d \<noteq> Dir_deleted" "physical_id d \<noteq> []" for d
  proof -
    from mid_row [OF assms(1) d(1)] obtain d' where d': "d' \<in> set (pr_directories pf')"
      "row_like i (insert [] (gone_ids items)) d d'" by blast
    have "sd_state d' = Dir_deleted" using assms(2) d' d(2) by (auto simp: all_deleted_def row_like_def)
    then show ?thesis using d' d(3,4) by (auto simp: row_like_def)
  qed
  then show ?thesis by (auto simp: confirmed_def reported_items [OF assms(3)])
qed

lemma logical_mid:
  assumes "\<And>d. d \<in> set (pr_directories pf) \<Longrightarrow> sd_id d \<in> set logical \<Longrightarrow> physical_id d = []"
  shows "mid i (insert [] G) pf (delete_rows i (\<lambda>d. sd_id d \<in> set logical \<and> sd_state d \<noteq> Dir_deleted) pf)"
  using assms by (auto simp: delete_rows_def mid_def list_all2_update_where row_like_def)

lemma run_result_items: "dget (run_result s failed acc pf) ''results'' = JList (map JObj (dp_items acc))"
  by (simp add: run_result_def dget_def)

lemma finish_mid:
  assumes "mid i G pf pf'" and "good_task org uuid k (pf_tasks pf)" and "snapshots_apart (pr_snapshots pf)"
    and "snapshot_row org i pf = Some s"
  shows "good_task org uuid k (pf_tasks pf')" "snapshots_apart (pr_snapshots pf')" "snapshot_row org i pf' = Some s"
  using assms good_task_like by (auto simp: mid_def snapshot_row_def)

definition run_ended :: "int \<Rightarrow> string \<Rightarrow> int \<Rightarrow> protection \<Rightarrow> protection \<Rightarrow> dict \<Rightarrow> bool" where
  "run_ended org uuid i pf pf' res \<longleftrightarrow> same_guards pf pf'
     \<and> (success_end org uuid i pf pf' res \<or> failure_end org uuid i pf' res)"

lemma finish_ends:
  assumes run: "finish_delete now t s logical acc pf = (pf', r)"
    and like: "mid i (insert [] (gone_ids (dp_items acc))) pf0 pf"
    and good: "good_task org uuid k (pf_tasks pf)" and ok: "snapshots_apart (pr_snapshots pf)"
    and row: "snapshot_row org i pf = Some s" and s: "sn_id s = i" "sn_org s = org"
    and t: "t_id t = k" "t_uuid t = uuid" "t_org t = Some org"
    and logical: "\<And>d. d \<in> set (pr_directories pf) \<Longrightarrow> sd_id d \<in> set logical \<Longrightarrow> physical_id d = []"
  shows "\<exists>res. r = Inr res \<and> run_ended org uuid i pf0 pf' res"
proof -
  let ?G = "insert [] (gone_ids (dp_items acc))"
  let ?pf = "if dp_failed acc then pf else delete_rows i (\<lambda>d. sd_id d \<in> set logical \<and> sd_state d \<noteq> Dir_deleted) pf"
  let ?failed = "dp_failed acc \<or> rows_in i (\<lambda>st. st \<noteq> Dir_deleted) ?pf > 0"
  let ?res = "run_result s ?failed acc ?pf"
  have m: "mid i ?G pf0 ?pf" using like logical_mid [OF logical, where G = "gone_ids (dp_items acc)"] mid_trans by auto
  have same: "good_task org uuid k (pf_tasks ?pf)" "snapshots_apart (pr_snapshots ?pf)" "snapshot_row org i ?pf = Some s"
    using good ok row by (simp_all add: delete_rows_def snapshot_row_def)
  show ?thesis
  proof (cases ?failed)
    case True
    then have r: "fail_snapshot_delete_task now k (Some s) ''SNAPSHOT_DELETE_FAILED''
        (case dp_messages acc of [] \<Rightarrow> ''One or more physical snapshots failed to delete.'' | m # _ \<Rightarrow> m)
        ?res ''Physical snapshot delete failed'' ?pf = (pf', r)"
      using run unfolding finish_delete_def Let_def s t by (simp only: True not_True_eq_False if_False)
    obtain pf1 res where e: "fail_snapshot_delete_task now k (Some s) ''SNAPSHOT_DELETE_FAILED''
        (case dp_messages acc of [] \<Rightarrow> ''One or more physical snapshots failed to delete.'' | m # _ \<Rightarrow> m)
        ?res ''Physical snapshot delete failed'' ?pf = (pf1, Inr res)" "failure_end org uuid i pf1 res" "same_guards ?pf pf1"
      using fail_ends [OF same(1,3,2) s(2,1)] by blast
    then have "r = Inr res" "failure_end org uuid i pf' res" "same_guards pf0 pf'"
      using r mid_guards [OF m] same_guards_trans by auto
    then show ?thesis by (simp add: run_ended_def)
  next
    case False
    then have "rows_in i (\<lambda>st. st \<noteq> Dir_deleted) ?pf = 0" by blast
    then have ad: "all_deleted i ?pf" by (simp only: rows_in_0)
    let ?pf1 = "?pf\<lparr>pr_snapshots := update_where (\<lambda>r. sn_id r = i) (deleted_columns now) (pr_snapshots ?pf)\<rparr>"
    have save: "save_snapshot i (deleted_columns now) ?pf = Inr ?pf1"
      using save_deleted [OF same(2) row_of_snapshot(1) [OF same(3)], of now] s by simp
    obtain pf2 t2 where s2: "step_to now ''delete_kopia_snapshots'' Step_success (Some 100) (Some 80) None (?pf1, t) = (pf2, t2)"
      by (atomize_elim, rule surj_pair)
    obtain pf3 t3 where s3: "step_to now ''finalize_snapshot_delete'' Step_success (Some 100) (Some 100)
        (Some ''finalize_snapshot_delete'') (pf2, t2) = (pf3, t3)" by (atomize_elim, rule surj_pair)
    have m2: "mid i {} ?pf1 pf2 \<and> task_like t t2" by (rule step_to_mid [OF s2]) auto
    have m3: "mid i {} pf2 pf3 \<and> task_like t2 t3" by (rule step_to_mid [OF s3]) (auto simp: delete_steps_def)
    have m13: "mid i {} ?pf1 pf3" using m2 m3 mid_trans by blast
    have t3: "t_id t3 = k" "t_uuid t3 = uuid" "t_org t3 = Some org"
      using t m2 m3 task_like_columns(1-3) by metis+
    have "good_task org uuid k (pf_tasks ?pf1)" using same(1) by simp
    then have g3: "good_task org uuid (t_id t3) (pf_tasks pf3)" using m13 good_task_like t3(1) by (auto simp: mid_def)
    obtain pf4 where e: "complete_delete now t3 s ?res pf3 = (pf4, Inr ?res)" "task_ended org uuid Success ?res (pf_tasks pf4)"
      "same_guards pf3 pf4" "pr_snapshots pf4 = pr_snapshots pf3" "pr_directories pf4 = pr_directories pf3"
      using complete_delete_ends [OF g3 t3(2,3)] by blast
    have "finish_delete now t s logical acc pf = complete_delete now t3 s ?res pf3"
      unfolding finish_delete_def Let_def s
      by (simp only: False not_False_eq_True if_True save sum.case s2 s3 prod.case)
    then have r: "r = Inr ?res" "pf' = pf4" using run e(1) by simp_all
    have "pr_directories ?pf1 = pr_directories ?pf" by simp
    have "all_deleted i ?pf1" using ad by (simp add: all_deleted_def)
    then have "all_deleted i pf3"
      using mid_row_back [OF m13] by (fastforce simp: all_deleted_def row_like_def)
    then have d: "all_deleted i pf4" by (simp add: all_deleted_def e(5))
    have "snapshot_is i Snap_deleted ?pf1" by (rule deleted_is)
    then have sn: "snapshot_is i Snap_deleted pf4" using m13 by (simp add: snapshot_is_def e(4) mid_def)
    have "confirmed i pf0 ?res" by (rule mid_confirmed [OF m ad run_result_items])
    moreover have "same_guards ?pf ?pf1" by (simp add: same_guards_def)
    then have "same_guards pf0 pf4" using mid_guards [OF m] mid_guards [OF m13] e(3) same_guards_trans by blast
    ultimately show ?thesis using r e(2) d sn by (auto simp: run_ended_def success_end_def)
  qed
qed

text \<open>A step of the run either raises within the frame or ends the task.\<close>

definition run_left ::
  "int \<Rightarrow> string \<Rightarrow> int \<Rightarrow> protection \<Rightarrow> (protection, work_error, dict) stepping \<Rightarrow> bool" where
  "run_left org uuid i pf x \<longleftrightarrow> (case x of
       (pf', Inl e) \<Rightarrow> mid i UNIV pf pf' | (pf', Inr res) \<Rightarrow> run_ended org uuid i pf pf' res)"

lemma run_left_simps [simp]:
  "run_left org uuid i pf (pf', Inl e) = mid i UNIV pf pf'"
  "run_left org uuid i pf (pf', Inr res) = run_ended org uuid i pf pf' res"
  by (simp_all add: run_left_def)

lemma run_left_later:
  assumes "mid i {} pf0 pf" and "run_left org uuid i pf x"
  shows "run_left org uuid i pf0 x"
proof -
  obtain pf' r where x: "x = (pf', r)" by (cases x)
  have c: "confirmed i pf0 res" if "confirmed i pf res" for res
  proof -
    have "physical_id d \<in> reported_gone res"
      if d: "d \<in> set (pr_directories pf0)" "sd_snapshot d = i" "sd_state d \<noteq> Dir_deleted" "physical_id d \<noteq> []" for d
    proof -
      from mid_row [OF assms(1) d(1)] obtain d' where d': "d' \<in> set (pr_directories pf)" "row_like i {} d d'" by blast
      then show ?thesis using \<open>confirmed i pf res\<close> d physical_id_like [OF d'(2)]
        by (auto simp: confirmed_def row_like_def)
    qed
    then show ?thesis by (auto simp: confirmed_def)
  qed
  have "mid i UNIV pf0 pf" using assms(1) mid_mono by blast
  then show ?thesis using assms c mid_trans mid_guards [OF assms(1)] same_guards_trans
    by (cases r) (auto simp: x run_ended_def success_end_def)
qed

lemma logical_rows:
  assumes "distinct (map sd_id (pr_directories pf))" and "set rows \<subseteq> set (pr_directories pf)" and "mid i G pf pf'"
    and "d' \<in> set (pr_directories pf')" and "sd_id d' \<in> set (map sd_id (filter (\<lambda>d. physical_id d = []) rows))"
  shows "physical_id d' = []"
proof -
  from assms(5) obtain e where e: "e \<in> set rows" "physical_id e = []" "sd_id e = sd_id d'" by auto
  from mid_row_back [OF assms(3,4)] obtain d where d: "d \<in> set (pr_directories pf)" "row_like i G d d'" by blast
  have "e = d" using assms(1,2) d e by (auto simp: distinct_map row_like_def intro: inj_onD)
  then show ?thesis using physical_id_like [OF d(2)] e(2) by simp
qed

lemma physical_ends:
  assumes good: "good_task org uuid k (pf_tasks pf)" and ok: "snapshots_apart (pr_snapshots pf)"
    and row: "snapshot_row org i pf = Some s" and s: "sn_id s = i" "sn_org s = org"
    and t: "t_id t = k" "t_uuid t = uuid" "t_org t = Some org"
    and ids: "distinct (map sd_id (pr_directories pf))" and rows: "set rows \<subseteq> set (pr_directories pf)"
  shows "run_left org uuid i pf (delete_physical v org t s rows pf)"
proof (cases "lift_error (\<lambda>e. Invalid_work (we_text v e)) (validate_backup_repository_compatible (we_start v) org
    (sn_source_type s) (sn_source_ref s) (sn_repository s) pf)")
  case (Inl e)
  then show ?thesis by (simp add: delete_physical_def)
next
  case (Inr r)
  obtain pf1 t1 where s1: "step_to (work_now v) ''delete_kopia_snapshots'' Step_running (Some 0) (Some 10)
      (Some ''delete_kopia_snapshots'') (pf, t) = (pf1, t1)" by (atomize_elim, rule surj_pair)
  have m1: "mid i G pf pf1 \<and> task_like t t1" for G by (rule step_to_mid [OF s1]) (auto simp: delete_steps_def)
  then have t1: "t_id t1 = k" "t_uuid t1 = uuid" "t_org t1 = Some org" using t task_like_columns(1-3) by metis+
  let ?acc = "\<lparr>dp_items = [], dp_absent = [], dp_failed = False, dp_messages = []\<rparr>"
  let ?logical = "map sd_id (filter (\<lambda>d. physical_id d = []) rows)"
  let ?groups = "\<lambda>groups pf. then_do (delete_groups v org t1 s r groups ?acc pf)
      (\<lambda>acc pf. finish_delete (work_now v) t1 s ?logical acc pf)"
  obtain pf2 a where s2: "announce_deletions (work_now v) t1 rows (kopia_snapshot_ids rows) pf1 = (pf2, a)" by (atomize_elim, rule surj_pair)
  have m2: "mid i G pf pf2" for G using m1 announce_mid [OF s2] mid_trans by blast
  obtain pf3 gs where s3: "group_snapshot_directories_by_repository_locator (filter (\<lambda>d. physical_id d \<noteq> []) rows) r pf2
      = (pf3, gs)" by (atomize_elim, rule surj_pair)
  have m3: "mid i G pf pf3" for G
    using m2 group_mid [OF s3 [unfolded group_snapshot_directories_by_repository_locator_def]] mid_trans by blast
  have start: "delete_physical v org t s rows pf = (case a of Inl e \<Rightarrow> (pf2, Inl e) | Inr _ \<Rightarrow>
      (case gs of Inl e \<Rightarrow> (pf3, Inl (locator_work e)) | Inr groups \<Rightarrow> ?groups groups pf3))"
    by (cases a; cases gs) (simp_all add: delete_physical_def Inr s1 s2 s3 then_do_def Let_def)
  show ?thesis
  proof (cases "\<exists>u groups. a = Inr u \<and> gs = Inr groups")
    case False
    then show ?thesis using start m2 m3 by (cases a; cases gs) auto
  next
    case True
    then obtain groups where run: "delete_physical v org t s rows pf = ?groups groups pf3" using start by auto
    obtain pf' res where res: "?groups groups pf3 = (pf', res)" by (atomize_elim, rule surj_pair)
    from res show ?thesis
    proof (cases rule: then_doE)
      case (raised e)
      have "mid i UNIV pf3 pf'" using delete_groups_mid [OF raised(1)] s(1) by simp
      then show ?thesis using m3 mid_trans raised(2) by (simp add: run res) blast
    next
      case (went pf4 acc)
      obtain items where "dp_items acc = items" "mid i (gone_ids items) pf3 pf4"
        using delete_groups_mid [OF went(1)] s(1) by auto
      then have "mid i (insert [] (gone_ids (dp_items acc))) pf3 pf4" using mid_mono by blast
      then have m4: "mid i (insert [] (gone_ids (dp_items acc))) pf pf4" using m3 mid_trans by blast
      have "\<exists>res'. res = Inr res' \<and> run_ended org uuid i pf pf' res'"
        by (rule finish_ends [OF went(2) m4 finish_mid(1,2,3) [OF m4 good ok row] s t1 logical_rows [OF ids rows m4]])
      then show ?thesis by (auto simp: run res)
    qed
  qed
qed

lemma first_occurrences_Nil: "first_occurrences seen xs = [] \<Longrightarrow> x \<in> set xs \<Longrightarrow> x = [] \<or> x \<in> set seen"
  by (induction seen xs rule: first_occurrences.induct) (auto split: if_splits)

lemma no_physical:
  assumes "kopia_snapshot_ids (snapshot_delete_rows s pf) = []"
  shows "confirmed (sn_id s) pf res"
proof -
  have "physical_id d = []" if "d \<in> set (pr_directories pf)" "sd_snapshot d = sn_id s" "sd_state d \<noteq> Dir_deleted" for d
  proof -
    have "d \<in> set (snapshot_delete_rows s pf)" using that by (simp add: snapshot_delete_rows_def)
    then have "physical_id d \<in> set (map (\<lambda>d. normalize_kopia_snapshot_id (kopia_column (sd_kopia_id d))) (snapshot_delete_rows s pf))"
      by (auto simp: physical_id_def)
    then show ?thesis using first_occurrences_Nil [OF assms [unfolded kopia_snapshot_ids_def]] by simp
  qed
  then show ?thesis by (auto simp: confirmed_def)
qed

lemma empty_ends:
  assumes good: "good_task org uuid k (pf_tasks pf)" and ok: "snapshots_apart (pr_snapshots pf)"
    and row: "snapshot_row org i pf = Some s" and s: "sn_id s = i" "sn_org s = org"
    and t: "t_id t = k" "t_uuid t = uuid" "t_org t = Some org" and c: "\<And>res. confirmed i pf res"
  shows "run_left org uuid i pf (complete_empty_delete now t s pf)"
proof -
  let ?pf = "delete_rows i (\<lambda>d. sd_state d \<noteq> Dir_deleted) pf"
  let ?pf1 = "?pf\<lparr>pr_snapshots := update_where (\<lambda>r. sn_id r = i) (deleted_columns now) (pr_snapshots ?pf)\<rparr>"
  have save: "save_snapshot i (deleted_columns now) ?pf = Inr ?pf1"
    using save_deleted [of ?pf s now] ok row_of_snapshot(1) [OF row] s by (simp add: delete_rows_def)
  have "good_task org uuid (t_id t) (pf_tasks ?pf1)" using good t(1) by (simp add: delete_rows_def)
  then obtain pf' where e: "complete_delete now t s (empty_delete_result s) ?pf1 = (pf', Inr (empty_delete_result s))"
    "task_ended org uuid Success (empty_delete_result s) (pf_tasks pf')" "same_guards ?pf1 pf'"
    "pr_snapshots pf' = pr_snapshots ?pf1" "pr_directories pf' = pr_directories ?pf1"
    using complete_delete_ends [OF _ t(2,3)] by blast
  have "snapshot_is i Snap_deleted pf'" using deleted_is [of i now "pr_snapshots ?pf" ?pf] by (simp add: snapshot_is_def e(4))
  moreover have "all_deleted i pf'" unfolding all_deleted_def e(5) by (simp add: delete_rows_def ball_update_where)
  moreover have "same_guards pf pf'" using e(3) by (simp add: same_guards_def delete_rows_def)
  ultimately show ?thesis using e(1,2) c
    by (simp add: complete_empty_delete_def Let_def s save run_ended_def success_end_def)
qed

lemma admitted_ends:
  assumes good: "good_task org uuid k (pf_tasks pf)" and ok: "snapshots_apart (pr_snapshots pf)"
    and row: "snapshot_row org i pf = Some s" and t: "t_id t = k" "t_uuid t = uuid" "t_org t = Some org"
    and ids: "distinct (map sd_id (pr_directories pf))"
  shows "run_left org uuid i pf (run_admitted_delete v org t s pf)"
proof -
  note s = row_of_snapshot(2,3) [OF row]
  let ?rows = "snapshot_delete_rows s pf" and ?now = "work_now v"
  obtain pf1 t1 where s1: "step_to ?now ''prepare_snapshot_delete'' Step_success (Some 100) (Some 10)
      (Some ''delete_kopia_snapshots'') (pf, t) = (pf1, t1)" by (atomize_elim, rule surj_pair)
  have m1: "mid i {} pf pf1 \<and> task_like t t1" by (rule step_to_mid [OF s1]) (auto simp: delete_steps_def)
  then have t1: "t_id t1 = k" "t_uuid t1 = uuid" "t_org t1 = Some org" using t task_like_columns(1-3) by metis+
  have d1: "pr_directories pf1 = pr_directories pf"
    using s1 by (auto simp: step_to_def split: prod.splits)
  note m1' = conjunct1 [OF m1] and keep1 = finish_mid [OF conjunct1 [OF m1] good ok row]
  show ?thesis
  proof (cases "kopia_snapshot_ids ?rows = []")
    case False
    have "run_left org uuid i pf1 (delete_physical v org t1 s ?rows pf1)"
      by (rule physical_ends [OF keep1 s t1]) (use ids in \<open>auto simp: d1 snapshot_delete_rows_def\<close>)
    then show ?thesis using False run_left_later [OF m1'] by (simp add: run_admitted_delete_def Let_def s1)
  next
    case True
    obtain pf2 t2 where s2: "step_to ?now ''delete_kopia_snapshots'' Step_skipped (Some 100) (Some 80) None (pf1, t1) = (pf2, t2)"
      by (atomize_elim, rule surj_pair)
    obtain pf3 t3 where s3: "step_to ?now ''finalize_snapshot_delete'' Step_success (Some 100) (Some 100) None (pf2, t2) = (pf3, t3)"
      by (atomize_elim, rule surj_pair)
    have m2: "mid i {} pf1 pf2 \<and> task_like t1 t2" by (rule step_to_mid [OF s2]) auto
    have m3: "mid i {} pf2 pf3 \<and> task_like t2 t3" by (rule step_to_mid [OF s3]) auto
    have m: "mid i {} pf pf3" using m1 m2 m3 mid_trans by blast
    have t3: "t_id t3 = k" "t_uuid t3 = uuid" "t_org t3 = Some org" using t1 m2 m3 task_like_columns(1-3) by metis+
    have "confirmed i pf res" for res using no_physical [OF True] s(1) by simp
    moreover have "pr_directories pf3 = pr_directories pf"
      using s2 s3 by (auto simp: step_to_def d1 split: prod.splits)
    ultimately have "confirmed i pf3 res" for res by (simp add: confirmed_def)
    then have "run_left org uuid i pf3 (complete_empty_delete ?now t3 s pf3)"
      by (rule empty_ends [OF finish_mid [OF m good ok row] s t3])
    then show ?thesis using True run_left_later [OF m] by (simp add: run_admitted_delete_def Let_def s1 s2 s3)
  qed
qed

end
