(* ===== verification/Delete_Run_Claims.thy ===== *)
theory Delete_Run_Claims
  imports Delete_Run_Correct
begin

text \<open>
  The worker's run of a deletion task ends: the task succeeds, fails or waits, the lock is free, and
  a snapshot it deletes has every physical snapshot reported gone.
\<close>

section \<open>Starting\<close>

lemma start_good:
  assumes "start_task now uuid org db = Inr (db', t')" and "good_task org uuid k db"
  shows "good_task org uuid k db'" "t_id t' = k" "t_uuid t' = uuid" "t_org t' = Some org"
proof -
  from good_task_row [OF assms(2)] obtain r where r: "locked_task db uuid org = Some r" "t_id r = k" "t_uuid r = uuid"
    "t_org r = Some org" "task_fit r" "parent_readable (or_else (t_request r) [])" by metis
  let ?f = "\<lambda>x. x\<lparr>t_status := Running, t_started_at := Some now, t_updated_at := now\<rparr>"
  from assms(1) r(1) have t': "t' = ?f r"
    and db': "db' = send_signal (updated_signal t') (append_task_event now t' Info ''Task started'' None
      (current_task_step (save_task ?f r db) t') (save_task ?f r db))"
    by (auto simp: start_task_def find_locked_def Let_def)
  have tables: "db_tasks db' = db_tasks (save_task ?f r db)" "db_steps db' = db_steps db"
    by (simp_all add: db' send_signal_def)
  have "locked_task db' uuid org = locked_task (save_task ?f r db) uuid org" by (simp add: locked_task_def tables)
  then have row: "locked_task db' uuid org = Some (?f r)" by (simp add: locked_save r(1))
  have "map t_id (db_tasks db') = map t_id (db_tasks db)"
    by (simp add: tables save_task_def map_update_where)
  then show "good_task org uuid k db'"
    using assms(2) row r by (auto simp: good_task_def has_step_def tables task_fit_def)
  show "t_id t' = k" "t_uuid t' = uuid" "t_org t' = Some org" using r by (simp_all add: t')
qed

section \<open>The worker\<close>

text \<open>A task and a snapshot a run can work on.\<close>

definition runnable :: "int \<Rightarrow> string \<Rightarrow> int \<Rightarrow> protection \<Rightarrow> bool" where
  "runnable org uuid i pf \<longleftrightarrow> (\<exists>k. good_task org uuid k (pf_tasks pf)) \<and> snapshots_typed pf
     \<and> distinct (map sd_id (pr_directories pf)) \<and> snapshot_row org i pf \<noteq> None"

definition workable :: "int \<Rightarrow> string \<Rightarrow> int \<Rightarrow> nat \<Rightarrow> protection \<Rightarrow> bool" where
  "workable org uuid i k pf \<longleftrightarrow> good_task org uuid k (pf_tasks pf) \<and> snapshots_apart (pr_snapshots pf)
     \<and> snapshot_row org i pf \<noteq> None"

lemma mid_workable: "mid i G pf pf' \<Longrightarrow> workable org uuid i k pf \<Longrightarrow> workable org uuid i k pf'"
  using good_task_like by (auto simp: workable_def mid_def snapshot_row_def)

lemma locked_run:
  assumes work: "workable org uuid i k pf" and ids: "distinct (map sd_id (pr_directories pf))"
    and run: "run_locked_delete v org uuid i pf = (pf', r)"
  shows "(snapshot_is_protected i pf \<and> pf' = pf \<and> r = Inl Snapshot_in_use)
    \<or> (\<not> snapshot_is_protected i pf \<and> (\<exists>db. workable org uuid i k (pf\<lparr>pf_tasks := db\<rparr>)
         \<and> run_left org uuid i (pf\<lparr>pf_tasks := db\<rparr>) (pf', r)))"
proof -
  obtain t s where t: "locked_task (pf_tasks pf) uuid org = Some t" "t_id t = k" "t_uuid t = uuid" "t_org t = Some org"
      "t_status t \<in> {Pending, Running}"
    and s: "snapshot_row org i pf = Some s" and good: "good_task org uuid k (pf_tasks pf)" and ok: "snapshots_apart (pr_snapshots pf)"
    using work good_task_row by (metis workable_def not_None_eq)
  show ?thesis
  proof (cases "snapshot_is_protected i pf")
    case True
    then show ?thesis using run by (simp add: run_locked_delete_def t(1) s)
  next
    case False
    obtain db t' where d: "run_locked_delete v org uuid i pf = run_admitted_delete v org t' s (pf\<lparr>pf_tasks := db\<rparr>)"
      "good_task org uuid k db" "t_id t' = k" "t_uuid t' = uuid" "t_org t' = Some org"
    proof (cases "t_status t = Pending")
      case True
      then obtain db t' where st: "start_task (work_now v) uuid org (pf_tasks pf) = Inr (db, t')"
        using t(1) by (auto simp: start_task_def find_locked_def Let_def)
      have "run_locked_delete v org uuid i pf = run_admitted_delete v org t' s (pf\<lparr>pf_tasks := db\<rparr>)"
        using t(1) s False True st by (simp add: run_locked_delete_def lift_error_def)
      then show ?thesis using that start_good [OF st good] by blast
    next
      case False
      have "run_locked_delete v org uuid i pf = run_admitted_delete v org t s (pf\<lparr>pf_tasks := pf_tasks pf\<rparr>)"
        using t(1,5) s \<open>\<not> snapshot_is_protected i pf\<close> False by (simp add: run_locked_delete_def)
      then show ?thesis using that good t(2-4) by blast
    qed
    have row: "snapshot_row org i (pf\<lparr>pf_tasks := db\<rparr>) = Some s" using s by (simp add: snapshot_row_def)
    have "run_left org uuid i (pf\<lparr>pf_tasks := db\<rparr>) (pf', r)"
      unfolding run [symmetric] d(1)
      by (rule admitted_ends [OF _ _ row d(3-5)]) (use d(2) ok ids in simp_all)
    then show ?thesis using False d(2) ok row by (auto simp: workable_def)
  qed
qed

lemma defer_ends:
  assumes good: "good_task org uuid k (pf_tasks pf)"
  obtains db t where "defer_snapshot_delete now org uuid message pf = Inr (pf\<lparr>pf_tasks := db\<rparr>)"
    "locked_task db uuid org = Some t" "t_status t = Pending"
proof -
  obtain r where r: "locked_task (pf_tasks pf) uuid org = Some r" "t_id r = k" "t_status r \<in> {Pending, Running}" "task_fit r"
    using good_task_row [OF good] by metis
  let ?f = "\<lambda>x. x\<lparr>t_status := Pending, t_updated_at := now\<rparr>" and ?step = "or_else (t_current_step r) []"
  let ?name = "if ?step = [] then ''delete_kopia_snapshots'' else ?step"
  let ?db = "save_task ?f r (pf_tasks pf)"
  have open_of: "(\<lambda>t. t_org t = Some org \<and> t_uuid t = uuid \<and> t_status t \<in> {Pending, Running})
      = (\<lambda>t. (t_uuid t = uuid \<and> t_org t = Some org) \<and> t_status t \<in> {Pending, Running})" by auto
  have found: "first_where (\<lambda>t. t_org t = Some org \<and> t_uuid t = uuid \<and> t_status t \<in> {Pending, Running})
      (db_tasks (pf_tasks pf)) = Some r"
    unfolding open_of by (rule first_where_and) (use r(1,3) in \<open>simp_all add: locked_task_def\<close>)
  have "?name \<in> set delete_steps" using r(4) by (auto simp: task_fit_def delete_steps_def)
  then have "has_step (t_id (?f r)) ?name ?db" "?name \<noteq> []"
    using good r(2) by (auto simp: good_task_def has_step_def delete_steps_def)
  then have "find_task_step ?db (?f r) (Some ?name) \<noteq> None" by (rule find_step)
  then obtain db where e: "append_task_step_event now (?f r) (Some ?name) Info
      ''Waiting for snapshot cleanup to continue'' (Some [(''reason'', JStr (take 500 message))]) ?db = Inr db"
    and tables: "db_tasks db = db_tasks ?db"
    by (auto simp: append_task_step_event_def Let_def)
  have "locked_task db uuid org = locked_task ?db uuid org" by (simp add: locked_task_def tables)
  then have "locked_task db uuid org = Some (?f r)" by (simp add: locked_save r(1))
  moreover have "defer_snapshot_delete now org uuid message pf = Inr (pf\<lparr>pf_tasks := db\<rparr>)"
    unfolding defer_snapshot_delete_def found option.case Let_def on_tasks_def e by (simp add: lift_error_def)
  ultimately show ?thesis using that by simp
qed

text \<open>The three ways a run ends.\<close>

definition waits :: "int \<Rightarrow> string \<Rightarrow> protection \<Rightarrow> protection \<Rightarrow> bool" where
  "waits org uuid pf pf' \<longleftrightarrow> pr_snapshots pf' = pr_snapshots pf
     \<and> (\<exists>t. locked_task (pf_tasks pf') uuid org = Some t \<and> t_status t = Pending)"

definition run_settles :: "int \<Rightarrow> string \<Rightarrow> int \<Rightarrow> protection \<Rightarrow> (protection, work_error, delete_run) stepping \<Rightarrow> bool" where
  "run_settles org uuid i pf x \<longleftrightarrow> (case x of (pf', out) \<Rightarrow>
     pr_leases pf' = pr_leases pf \<and> (org, i) \<notin> set (pr_delete_locks pf') \<and> (case out of
         Inr (Run_waiting reason) \<Rightarrow> waits org uuid pf pf'
       | Inr (Run_report res) \<Rightarrow>
           \<not> snapshot_is_protected i pf \<and> (success_end org uuid i pf pf' res \<or> failure_end org uuid i pf' res)
       | _ \<Rightarrow> False))"

lemma handled:
  assumes work: "workable org uuid i k pf"
    and run: "handle_delete_error now org uuid i e pf = (pf', out)"
  shows "same_guards pf pf' \<and> (case out of
      Inr (Run_waiting reason) \<Rightarrow> waiting_reason e \<noteq> None \<and> waits org uuid pf pf'
    | Inr (Run_report res) \<Rightarrow> waiting_reason e = None \<and> failure_end org uuid i pf' res
    | _ \<Rightarrow> False)"
proof (cases "waiting_reason e")
  case (Some w)
  obtain reason message where w: "w = (reason, message)" by (cases w)
  have "good_task org uuid k (pf_tasks pf)" using work by (simp add: workable_def)
  from defer_ends [OF this] obtain db t where "defer_snapshot_delete now org uuid message pf = Inr (pf\<lparr>pf_tasks := db\<rparr>)"
    "locked_task db uuid org = Some t" "t_status t = Pending" by metis
  then show ?thesis using run Some w by (auto simp: handle_delete_error_def waits_def same_guards_def)
next
  case None
  have good: "good_task org uuid k (pf_tasks pf)" and ok: "snapshots_apart (pr_snapshots pf)" using work by (simp_all add: workable_def)
  obtain s where s: "snapshot_row org i pf = Some s" using work by (auto simp: workable_def)
  obtain t where t: "locked_task (pf_tasks pf) uuid org = Some t" "t_id t = k" using good_task_row [OF good] by metis
  obtain pf1 res where e: "fail_snapshot_delete_task now k (Some s) (exception_code e) (exception_message e) []
      ''Snapshot delete execution failed'' pf = (pf1, Inr res)" "failure_end org uuid i pf1 res" "same_guards pf pf1"
    using fail_ends [OF good s ok row_of_snapshot(3,2) [OF s]] by metis
  have "handle_delete_error now org uuid i e pf = (pf1, Inr (Run_report res))"
    by (simp add: handle_delete_error_def None fail_delete_run_def t s e(1) then_do_def Let_def)
  then show ?thesis using run e(2,3) None by auto
qed

lemma run_settled:
  assumes work: "runnable org uuid i pf" and free: "(org, i) \<notin> set (pr_delete_locks pf)"
  shows "run_settles org uuid i pf (run_snapshot_delete_task v org uuid i pf)"
proof -
  let ?pf = "pf\<lparr>pr_delete_locks := (org, i) # pr_delete_locks pf\<rparr>"
  let ?free = "\<lambda>pf. pf\<lparr>pr_delete_locks := filter (\<lambda>k. k \<noteq> (org, i)) (pr_delete_locks pf)\<rparr>"
  obtain k where w: "workable org uuid i k ?pf" and ids: "distinct (map sd_id (pr_directories ?pf))"
    using work typed_apart by (auto simp: runnable_def workable_def snapshot_row_def)
  obtain pf1 r where run: "run_locked_delete v org uuid i ?pf = (pf1, r)" by (atomize_elim, rule surj_pair)
  have lease: "snapshot_is_protected i ?pf = snapshot_is_protected i pf" by (simp add: snapshot_is_protected_def)
  have wait: "waits org uuid pf (pf2\<lparr>pr_delete_locks := ls\<rparr>)" if "waits org uuid ?pf pf2" for pf2 ls
    using that by (simp add: waits_def)
  have fail: "failure_end org uuid i (pf2\<lparr>pr_delete_locks := ls\<rparr>) res" if "failure_end org uuid i pf2 res" for pf2 res ls
    using that by (simp add: failure_end_def snapshot_is_def)
  from locked_run [OF w ids run] consider
      (leased) "snapshot_is_protected i pf" "pf1 = ?pf" "r = Inl Snapshot_in_use"
    | (ended) db res where "\<not> snapshot_is_protected i pf" "r = Inr res" "run_ended org uuid i (?pf\<lparr>pf_tasks := db\<rparr>) pf1 res"
    | (raised) db e where "\<not> snapshot_is_protected i pf" "r = Inl e" "mid i UNIV (?pf\<lparr>pf_tasks := db\<rparr>) pf1"
        "workable org uuid i k (?pf\<lparr>pf_tasks := db\<rparr>)"
    by (cases r) (auto simp: lease)
  then show ?thesis
  proof cases
    case leased
    obtain pf2 out where h: "handle_delete_error (work_now v) org uuid i Snapshot_in_use ?pf = (pf2, out)"
      by (atomize_elim, rule surj_pair)
    have "run_snapshot_delete_task v org uuid i pf = (?free pf2, out)"
      using free by (simp add: run_snapshot_delete_task_def run leased h)
    then show ?thesis using handled [OF w h] wait
      by (auto simp: run_settles_def same_guards_def waiting_reason_def split: sum.splits delete_run.splits)
  next
    case ended
    have "success_end org uuid i pf (pf1\<lparr>pr_delete_locks := ls\<rparr>) res" if "success_end org uuid i (?pf\<lparr>pf_tasks := db\<rparr>) pf1 res" for ls
      using that by (simp add: success_end_def snapshot_is_def all_deleted_def confirmed_def)
    moreover have "run_snapshot_delete_task v org uuid i pf = (?free pf1, Inr (Run_report res))"
      using free by (simp add: run_snapshot_delete_task_def run ended)
    ultimately show ?thesis using ended fail by (auto simp: run_settles_def run_ended_def same_guards_def)
  next
    case raised
    obtain pf2 out where h: "handle_delete_error (work_now v) org uuid i e pf1 = (pf2, out)"
      by (atomize_elim, rule surj_pair)
    have g: "same_guards ?pf pf1" using mid_guards [OF raised(3)] by (simp add: same_guards_def)
    have "waits org uuid ?pf pf2" if "waits org uuid pf1 pf2" using that raised(3) by (simp add: waits_def mid_def)
    moreover have "run_snapshot_delete_task v org uuid i pf = (?free pf2, out)"
      using free by (simp add: run_snapshot_delete_task_def run raised h)
    ultimately show ?thesis using handled [OF mid_workable [OF raised(3,4)] h] wait fail g raised(1)
      by (auto simp: run_settles_def same_guards_def split: sum.splits delete_run.splits)
  qed
qed

lemma settled_deletion:
  assumes work: "runnable org uuid i pf" and run: "run_snapshot_delete_task v org uuid i pf = (pf', out)"
    and before: "\<forall>s \<in> set (pr_snapshots pf). sn_id s = i \<longrightarrow> sn_status s \<noteq> Snap_deleted"
    and after: "s \<in> set (pr_snapshots pf')" "sn_id s = i" "sn_status s = Snap_deleted"
  shows "\<not> snapshot_is_protected i pf \<and> (\<exists>res. out = Inr (Run_report res) \<and> success_end org uuid i pf pf' res)"
proof -
  have changed: "pr_snapshots pf' \<noteq> pr_snapshots pf" using before after by auto
  then have "(org, i) \<notin> set (pr_delete_locks pf)"
    using run by (auto simp: run_snapshot_delete_task_def split: if_splits)
  then have st: "run_settles org uuid i pf (pf', out)" using run_settled [OF work, of v] run by simp
  have "\<not> failure_end org uuid i pf' res" for res using after by (auto simp: failure_end_def snapshot_is_def)
  moreover have "\<not> waits org uuid pf pf'" using changed by (simp add: waits_def)
  ultimately show ?thesis using st by (auto simp: run_settles_def split: sum.splits delete_run.splits)
qed

section \<open>A small store\<close>

text \<open>An S3 repository whose writer is gone: the Controller deletes.\<close>

definition run_settings :: work_env where
  "run_settings = \<lparr>we_start = start_settings,
     we_courier = \<lparr>co_seal = (\<lambda>d. ''sealed''), co_open = (\<lambda>s. None), co_send = (\<lambda>i. None)\<rparr>,
     we_node_name = (\<lambda>i. ''n''), we_nas_online = (\<lambda>i. True), we_mount_point = (\<lambda>i. ''/m''),
     we_payload = (\<lambda>r n i. Inr []), we_sha256 = (\<lambda>s. s), we_command = (\<lambda>s. 90), we_text = (\<lambda>e. ''refused''),
     we_controller_free = True, we_engine_open = (\<lambda>r. None),
     we_engine_delete = (\<lambda>r i. Inr (0, ''ok'', [], []))\<rparr>"

definition stored_directory :: snapshot_directory where
  "stored_directory = \<lparr>sd_id = 1, sd_snapshot = 11, sd_org = 7, sd_config = 3, sd_config_dir = 1, sd_path = ''/a'',
     sd_path_type = ''directory'', sd_name = ''a'', sd_repository = 2, sd_kopia_id = Some ''k1'', sd_state = Dir_available,
     sd_size = 0, sd_new_original = None, sd_new_packed = None, sd_files = 0, sd_dirs = 0, sd_stats = [],
     sd_error_code = [], sd_error_message = [], sd_locator = JObj [], sd_node_task = None\<rparr>"

definition run_protection :: protection where
  "run_protection = deleting_protection\<lparr>pr_directories := [stored_directory],
     st_repositories := [(proxy_repository 2 ''/data/b'')\<lparr>rp_type := Repo_s3, rp_status := Repo_created,
       rp_health := Health_online\<rparr>]\<rparr>"

lemma run_deletes:
  "case run_snapshot_delete_task run_settings 7 ''d1'' 11 run_protection of (pf', out) \<Rightarrow>
     map (\<lambda>s. (sn_id s, sn_status s)) (pr_snapshots pf') = [(11, Snap_deleted)]
     \<and> map t_uuid (filter (\<lambda>t. t_uuid t = ''d1'') (db_tasks (pf_tasks pf'))) = [''d1'']"
  by code_simp

lemma run_example: "runnable 7 ''d1'' 11 run_protection"
proof -
  have "case locked_task (pf_tasks run_protection) ''d1'' 7 of None \<Rightarrow> False
    | Some t \<Rightarrow> distinct (map t_id (db_tasks (pf_tasks run_protection)))
        \<and> (\<forall>n \<in> set delete_steps. has_step (t_id t) n (pf_tasks run_protection))
        \<and> t_status t \<in> {Pending, Running} \<and> task_fit t \<and> parent_readable (or_else (t_request t) [])"
    by code_simp
  then have "\<exists>k. good_task 7 ''d1'' k (pf_tasks run_protection)"
    by (auto simp: good_task_def split: option.splits)
  moreover have "snapshots_typed run_protection \<and> distinct (map sd_id (pr_directories run_protection))
      \<and> snapshot_row 7 11 run_protection \<noteq> None" by code_simp
  ultimately show ?thesis by (simp add: runnable_def)
qed

lemma run_example_start:
  "(7, 11) \<notin> set (pr_delete_locks run_protection)"
  "\<forall>s \<in> set (pr_snapshots run_protection). sn_id s = 11 \<longrightarrow> sn_status s \<noteq> Snap_deleted"
  by code_simp+

section \<open>Properties\<close>





end
