(* ===== verification/Delete_Reconcile_Claims.thy ===== *)
theory Delete_Reconcile_Claims
  imports Delete_Reconcile Delete_Run_Claims
begin

text \<open>
  The reconciliation of deletions respects the leases: it queues no run for a snapshot in use and
  starts no deletion of one.
\<close>

section \<open>What a step may change\<close>

text \<open>
  Leases stay, the queue grows by snapshots nobody holds, and only such a snapshot starts to be
  deleted.
\<close>

definition spares :: "protection \<Rightarrow> protection \<Rightarrow> bool" where
  "spares pf pf' \<longleftrightarrow> pr_leases pf' = pr_leases pf
     \<and> (\<exists>q. pr_delete_queue pf' = pr_delete_queue pf @ q \<and> (\<forall>x \<in> set q. \<not> snapshot_is_protected (snd x) pf))
     \<and> (\<forall>s' \<in> set (pr_snapshots pf'). sn_status s' = Snap_deleting \<longrightarrow>
          snapshot_is_protected (sn_id s') pf \<longrightarrow> s' \<in> set (pr_snapshots pf))"

lemma spares_refl [simp]: "spares pf pf"
  by (simp add: spares_def)

lemma spares_trans:
  assumes "spares a b" and "spares b c"
  shows "spares a c"
proof -
  have p: "snapshot_is_protected i b = snapshot_is_protected i a" for i
    using assms(1) by (simp add: spares_def snapshot_is_protected_def)
  obtain q r where "pr_delete_queue b = pr_delete_queue a @ q" "\<forall>x \<in> set q. \<not> snapshot_is_protected (snd x) a"
    "pr_delete_queue c = pr_delete_queue b @ r" "\<forall>x \<in> set r. \<not> snapshot_is_protected (snd x) a"
    using assms by (auto simp: spares_def p)
  then have "\<exists>q. pr_delete_queue c = pr_delete_queue a @ q \<and> (\<forall>x \<in> set q. \<not> snapshot_is_protected (snd x) a)"
    by (intro exI [of _ "q @ r"]) auto
  moreover have "s \<in> set (pr_snapshots a)"
    if "s \<in> set (pr_snapshots c)" "sn_status s = Snap_deleting" "snapshot_is_protected (sn_id s) a" for s
    using assms that by (auto simp: spares_def p)
  moreover have "pr_leases c = pr_leases a" using assms by (simp add: spares_def)
  ultimately show ?thesis by (auto simp: spares_def)
qed

lemma spares_tables:
  assumes "pr_leases pf' = pr_leases pf" "pr_delete_queue pf' = pr_delete_queue pf" "pr_snapshots pf' = pr_snapshots pf"
  shows "spares pf pf'"
  using assms by (simp add: spares_def)

section \<open>Failing a task\<close>

lemma followup_frame:
  assumes "queue_source_unregister_followup k pf = (pf', r)"
  shows "pr_leases pf' = pr_leases pf \<and> pr_delete_queue pf' = pr_delete_queue pf \<and> pr_snapshots pf' = pr_snapshots pf"
proof -
  have "pf' = pf \<or> (\<exists>q. pf' = pf\<lparr>pr_unregister_queue := q\<rparr>)"
    using assms by (auto simp: queue_source_unregister_followup_def split: sum.splits option.splits)
  then show ?thesis by auto
qed

lemma save_frame:
  assumes "save_snapshot i f pf = Inr pf'"
  shows "pf' = pf\<lparr>pr_snapshots := update_where (\<lambda>r. sn_id r = i) f (pr_snapshots pf)\<rparr>"
  using assms by (auto simp: save_snapshot_def)

lemma lift_Inr [simp]: "lift_error f r = Inr x \<longleftrightarrow> r = Inr x"
  by (cases r) (simp_all add: lift_error_def)

lemma fail_spares:
  assumes "fail_snapshot_delete_task now k s code message given event pf = (pf', r)"
  shows "spares pf pf'"
proof (cases "task_by_id (pf_tasks pf) k")
  case None
  then show ?thesis using assms by (simp add: fail_snapshot_delete_task_def)
next
  case (Some t)
  have closing: "spares x y" if "then_do (queue_source_unregister_followup k x) (\<lambda>_ pf. (pf, Inr res)) = (y, r)" for x y res
    using that
  proof (cases rule: then_doE)
    case (raised e)
    then show ?thesis using followup_frame [OF raised(1)] spares_tables by blast
  next
    case (went x' u)
    then show ?thesis using followup_frame [OF went(1)] spares_tables by auto
  qed
  show ?thesis
  proof (cases "terminal (t_status t)")
    case True
    then show ?thesis using assms Some closing by (simp add: fail_snapshot_delete_task_def)
  next
    case False
    show ?thesis
    proof (cases "fail_in_transaction now t s code (failure_text message) given event pf")
      case (Inl e)
      then show ?thesis using assms Some False by (simp add: fail_snapshot_delete_task_def)
    next
      case (Inr x)
      obtain pf1 res where x: "x = (pf1, res)" by (cases x)
      from Inr x obtain pf2 where saved: "pf2 = pf \<or> (\<exists>i. pf2 = pf\<lparr>pr_snapshots := update_where (\<lambda>r. sn_id r = i)
            (failed_columns code (failure_text message)) (pr_snapshots pf)\<rparr>)"
        and tasks: "\<exists>db. pf1 = pf2\<lparr>pf_tasks := db\<rparr>"
        by (auto simp: fail_in_transaction_def Let_def on_tasks_def dest!: save_frame split: option.splits)
      have "spares pf pf2"
        using saved by (auto simp: spares_def set_update_where failed_columns_def split: if_splits)
      moreover have "spares pf2 pf1" using tasks by (auto intro: spares_tables)
      moreover have "spares pf1 pf'" using assms Some False Inr x closing by (simp add: fail_snapshot_delete_task_def)
      ultimately show ?thesis using spares_trans by blast
    qed
  qed
qed

lemma failing_spares:
  "spares pf (fst (then_do (fail_snapshot_delete_task now k s code message given event pf) (\<lambda>_ pf. (pf, Inr x))))"
proof -
  obtain pf1 r where r: "fail_snapshot_delete_task now k s code message given event pf = (pf1, r)"
    by (atomize_elim, rule surj_pair)
  then show ?thesis using fail_spares [OF r] by (cases r) (simp_all add: then_do_def)
qed

lemma transferred_spares: "count_transferred now t i n pf = Some x \<Longrightarrow> spares pf (fst x)"
  unfolding count_transferred_def finish_transferred_source_cleanup_def
  by (cases "transferred_residue t i pf") (auto intro: failing_spares simp del: fst_conv)

section \<open>The loops\<close>

lemma requeue_spares: "spares pf (fst (requeue_pending now t n pf))"
proof -
  have "spares pf (touch_pending now t pf)" by (rule spares_tables) (simp_all add: touch_pending_def)
  moreover have "spares pf (enqueue_delete t i (touch_pending now t pf))" if "\<not> snapshot_is_protected i pf" for i
    using that by (simp add: spares_def enqueue_delete_def touch_pending_def)
  moreover have "sn_id s = i" if "snapshot_of_task t i p pf = Some s" for s i p
    using first_where_Some [OF that [unfolded snapshot_of_task_def]] by simp
  ultimately show ?thesis
    using transferred_spares
    by (auto simp: requeue_pending_def or_else_def split: sum.split option.split)
qed

lemma recover_spares: "spares pf (fst (recover_running now t n pf))"
  using transferred_spares failing_spares
  by (auto simp: recover_running_def Let_def split: sum.split option.split)

lemma retry_spares: "spares pf (fst (retry_deletion now s n pf))"
proof -
  have "spares pf pf'" if run: "retry_deletion now s n pf = (pf', r)" for pf' r
  proof (cases "pf' = pf")
    case False
    then obtain row t db u n' where due: "retry_due now row pf = Inr (Some t)"
      and pf': "pf' = enqueue_delete u (sn_id row) (mark_deleting True (sn_id row) (pf\<lparr>pf_tasks := db\<rparr>))"
      using run by (auto simp: retry_deletion_def split: sum.splits option.splits)
    from due have "\<not> snapshot_is_protected (sn_id row) pf"
      by (auto simp: retry_due_def split: if_splits)
    then show ?thesis
      by (auto simp: pf' spares_def enqueue_delete_def mark_deleting_def set_update_where snapshot_is_protected_def split: if_splits)
  qed simp
  then show ?thesis by (cases "retry_deletion now s n pf") simp
qed

lemma each_spares:
  assumes "\<And>x n pf. spares pf (fst (f x n pf))"
  shows "spares pf (fst (reconcile_each f xs n pf))"
proof (induction xs arbitrary: n pf)
  case (Cons x xs)
  obtain pf1 r where r: "f x n pf = (pf1, r)" by (atomize_elim, rule surj_pair)
  have "spares pf pf1" using assms [of pf x n] r by simp
  then show ?case using Cons spares_trans by (cases r) (auto simp: r then_do_def)
qed simp

lemma then_spares:
  assumes "spares pf (fst m)" and "\<And>x s. spares s (fst (f x s))"
  shows "spares pf (fst (then_do m f))"
proof (cases m)
  case (Pair s r)
  then show ?thesis using assms spares_trans by (cases r) (auto simp: then_do_def)
qed

lemma run_spares: "spares pf (fst (reconcile_snapshot_delete_tasks now limit written pf))"
  unfolding reconcile_snapshot_delete_tasks_def
  by (intro then_spares each_spares requeue_spares recover_spares retry_spares)

lemma stale_deletion:
  "map snd (pr_delete_queue (fst (reconcile_snapshot_delete_tasks 400000000 100 (\<lambda>s. 0) deleting_protection))) = [11, 11]
   \<and> length (pr_delete_queue deleting_protection) = 1"
  by code_simp

section \<open>Properties\<close>

text \<open>
  C28. The reconciliation of deletions never works against a lease: complete or ended by an error,
  a run changes no lease, queues runs only for snapshots nobody holds, and leaves every snapshot in
  use out of a deletion that had not started before.
\<close>

theorem reconcile_spares_used:
  assumes "reconcile_snapshot_delete_tasks now limit written pf = (pf', r)"
  shows "pr_leases pf' = pr_leases pf
    \<and> (\<exists>q. pr_delete_queue pf' = pr_delete_queue pf @ q \<and> (\<forall>x \<in> set q. \<not> snapshot_is_protected (snd x) pf))
    \<and> (\<forall>s \<in> set (pr_snapshots pf'). sn_status s = Snap_deleting \<and> snapshot_is_protected (sn_id s) pf
         \<longrightarrow> s \<in> set (pr_snapshots pf))"
  using run_spares [of pf now limit written] by (auto simp: assms spares_def)

theorem reconcile_spares_used_witness:
  "\<exists>q. pr_delete_queue (fst (reconcile_snapshot_delete_tasks 400000000 100 (\<lambda>s. 0) deleting_protection))
       = pr_delete_queue deleting_protection @ q \<and> q \<noteq> [] \<and> (\<forall>x \<in> set q. \<not> snapshot_is_protected (snd x) deleting_protection)"
proof -
  obtain pf' r where run: "reconcile_snapshot_delete_tasks 400000000 100 (\<lambda>s. 0) deleting_protection = (pf', r)"
    by (atomize_elim, rule surj_pair)
  obtain q where q: "pr_delete_queue pf' = pr_delete_queue deleting_protection @ q"
    "\<forall>x \<in> set q. \<not> snapshot_is_protected (snd x) deleting_protection"
    using reconcile_spares_used [OF run] by blast
  have "length (pr_delete_queue pf') = 2" using arg_cong [OF conjunct1 [OF stale_deletion], of length] by (simp add: run)
  then have "q \<noteq> []" using q(1) stale_deletion by auto
  then show ?thesis using q by (auto simp: run)
qed

end
