(* ===== verification/Session_Tokens.thy ===== *)
theory Session_Tokens
  imports Civil_Time Interfaces Py_Text
begin

text \<open>
  Login sessions: the rotation of refresh tokens in \<^verbatim>\<open>apps/iam/services/token_service.py\<close> and its
  callers, the login and the refresh endpoint of \<^verbatim>\<open>apps/iam/auth/views/login.py\<close>. The cache is a map
  from keys to values with an optional time of expiry; each command on it is atomic, and between two
  commands of one request the commands of others may run. Signing and decoding of tokens belongs to a
  library: a decoded refresh token is a record of its claims.
\<close>

section \<open>The cache\<close>

datatype token_key =
  Blacklisted string
| Family_version int string
| Used_jti int string string
| Used_jtis int string
| Last_used int
| User_version int
| Invalid_reason int

text \<open>The text of a key, as it is sent to the cache.\<close>

definition refresh_family_key :: "int \<Rightarrow> string \<Rightarrow> string" where
  "refresh_family_key user family = ''refresh_family:'' @ show_int user @ '':'' @ family"

fun key_text :: "token_key \<Rightarrow> string" where
  "key_text (Blacklisted jti) = ''token_blacklist:'' @ jti"
| "key_text (Family_version user family) = refresh_family_key user family @ '':version''"
| "key_text (Used_jti user family jti) = refresh_family_key user family @ '':used_jti:'' @ jti"
| "key_text (Used_jtis user family) = refresh_family_key user family @ '':used_jtis''"
| "key_text (Last_used user) = ''refresh_lastused:'' @ show_int user"
| "key_text (User_version user) = ''user_token_version:'' @ show_int user"
| "key_text (Invalid_reason user) = ''user_token_invalid_reason:'' @ show_int user"

text \<open>\<open>Stamp\<close> is a timestamp of an earlier release, a float.\<close>

datatype cache_value = Number int | Words string | Flag | Members "string list" | Stamp int

record token_cache =
  tk_now :: int
  tk_entries :: "token_key \<Rightarrow> (cache_value \<times> int option) option"

definition cache_get :: "token_key \<Rightarrow> token_cache \<Rightarrow> cache_value option" where
  "cache_get k st = (case tk_entries st k of
       None \<Rightarrow> None
     | Some (v, None) \<Rightarrow> Some v
     | Some (v, Some e) \<Rightarrow> if tk_now st < e then Some v else None)"

text \<open>A timeout of \<open>None\<close> keeps the entry for good; one of zero or less removes it.\<close>

definition cache_set :: "token_key \<Rightarrow> cache_value \<Rightarrow> int option \<Rightarrow> token_cache \<Rightarrow> token_cache" where
  "cache_set k v timeout st =
     st\<lparr>tk_entries := (tk_entries st)(k \<mapsto> (v, map_option (\<lambda>t. tk_now st + seconds t) timeout))\<rparr>"

definition cache_delete :: "token_key \<Rightarrow> token_cache \<Rightarrow> token_cache" where
  "cache_delete k st = st\<lparr>tk_entries := (tk_entries st)(k := None)\<rparr>"

definition cache_add :: "token_key \<Rightarrow> cache_value \<Rightarrow> int \<Rightarrow> token_cache \<Rightarrow> token_cache \<times> bool" where
  "cache_add k v timeout st =
     (if cache_get k st = None then (cache_set k v (Some timeout) st, True) else (st, False))"

definition compare_and_set_claim :: "token_key \<Rightarrow> int \<Rightarrow> int \<Rightarrow> int \<Rightarrow> token_cache \<Rightarrow> token_cache \<times> bool" where
  "compare_and_set_claim k expected replacement timeout st =
     (if cache_get k st \<noteq> Some (Number expected) then (st, False)
      else (cache_set k (Number replacement) (Some timeout) st, True))"

definition compare_and_delete_claim :: "token_key \<Rightarrow> int \<Rightarrow> token_cache \<Rightarrow> token_cache \<times> bool" where
  "compare_and_delete_claim k expected st =
     (if cache_get k st \<noteq> Some (Number expected) then (st, False) else (cache_delete k st, True))"

section \<open>Versions and the blacklist\<close>

text \<open>Lifetimes come from the settings, or are the defaults of the module, in seconds.\<close>

record token_settings =
  ts_access :: "int option"
  ts_refresh :: "int option"

definition get_access_token_lifetime_seconds :: "token_settings \<Rightarrow> int" where
  "get_access_token_lifetime_seconds cf = or_else (ts_access cf) 3600"

definition get_refresh_token_lifetime_seconds :: "token_settings \<Rightarrow> int" where
  "get_refresh_token_lifetime_seconds cf = or_else (ts_refresh cf) 86400"

definition rotation_token_lifetime :: int where
  "rotation_token_lifetime = 7 * 86400"

definition refresh_inflight_ttl_seconds :: int where
  "refresh_inflight_ttl_seconds = 30"

datatype token_error =
  Token_expired | Refresh_expired | Token_blacklisted | Other_device_login | Password_changed
| Account_disabled | Token_reused | Refresh_concurrent | Invalid_token

definition number_or_zero :: "cache_value option \<Rightarrow> int" where
  "number_or_zero v = (case v of Some (Number n) \<Rightarrow> n | _ \<Rightarrow> 0)"

definition get_user_token_version :: "int \<Rightarrow> token_cache \<Rightarrow> int" where
  "get_user_token_version user st = number_or_zero (cache_get (User_version user) st)"

definition get_token_family_version :: "int \<Rightarrow> string \<Rightarrow> token_cache \<Rightarrow> int" where
  "get_token_family_version user family st = number_or_zero (cache_get (Family_version user family) st)"

definition get_user_token_invalid_reason :: "int \<Rightarrow> token_cache \<Rightarrow> string" where
  "get_user_token_invalid_reason user st =
     (case cache_get (Invalid_reason user) st of Some (Words w) \<Rightarrow> w | _ \<Rightarrow> [])"

definition is_token_version_valid :: "int \<Rightarrow> int \<Rightarrow> token_cache \<Rightarrow> bool" where
  "is_token_version_valid user version st \<longleftrightarrow> version = get_user_token_version user st"

text \<open>The remaining time is truncated to whole seconds.\<close>

definition blacklist_token :: "token_settings \<Rightarrow> string \<Rightarrow> int option \<Rightarrow> token_cache \<Rightarrow> token_cache" where
  "blacklist_token cf jti expires_at st = (case expires_at of
       Some e \<Rightarrow> if e - tk_now st > 0 then cache_set (Blacklisted jti) Flag (Some ((e - tk_now st) div 1000000)) st
                 else st
     | None \<Rightarrow> cache_set (Blacklisted jti) Flag (Some (get_access_token_lifetime_seconds cf)) st)"

definition is_token_blacklisted :: "string \<Rightarrow> token_cache \<Rightarrow> bool" where
  "is_token_blacklisted jti st \<longleftrightarrow> cache_get (Blacklisted jti) st = Some Flag"

definition blacklist_all_user_tokens :: "int \<Rightarrow> string \<Rightarrow> token_cache \<Rightarrow> token_cache" where
  "blacklist_all_user_tokens user reason st =
     cache_set (Invalid_reason user) (Words reason) None
       (cache_set (User_version user) (Number (get_user_token_version user st + 1)) None st)"

section \<open>Rotation\<close>

definition invalidate_refresh_token_family :: "int \<Rightarrow> string \<Rightarrow> int \<Rightarrow> token_cache \<Rightarrow> token_cache" where
  "invalidate_refresh_token_family user family current st =
     cache_set (Family_version user family) (Number (current + 1)) None st"

definition legacy_used_jtis :: "int \<Rightarrow> string \<Rightarrow> token_cache \<Rightarrow> string list" where
  "legacy_used_jtis user family st =
     (case cache_get (Used_jtis user family) st of Some (Members js) \<Rightarrow> js | _ \<Rightarrow> [])"

text \<open>The claim is a random number of 63 bits, and never zero.\<close>

definition claim_of :: "int \<Rightarrow> int" where
  "claim_of bits = (if bits = 0 then 1 else bits)"

text \<open>
  What the second look at the entry says, after it was found to be taken: an integer above zero (a
  flag counts as one) or a text with the old prefix is a claim in flight.
\<close>

definition in_flight :: "cache_value option \<Rightarrow> bool" where
  "in_flight state \<longleftrightarrow> (case state of
       Some (Number n) \<Rightarrow> n > 0
     | Some Flag \<Rightarrow> True
     | Some (Words w) \<Rightarrow> take 9 w = ''inflight:''
     | _ \<Rightarrow> False)"

definition judge_taken_claim ::
  "int \<Rightarrow> string \<Rightarrow> string \<Rightarrow> int \<Rightarrow> token_cache \<Rightarrow> token_cache \<times> (token_error, int) result" where
  "judge_taken_claim user family jti current st =
     (if in_flight (cache_get (Used_jti user family jti) st) then (st, Inl Refresh_concurrent)
      else (invalidate_refresh_token_family user family current st, Inl Token_reused))"

definition take_claim ::
  "int \<Rightarrow> string \<Rightarrow> string \<Rightarrow> int \<Rightarrow> token_cache \<Rightarrow> token_cache \<times> bool" where
  "take_claim user family jti bits st =
     cache_add (Used_jti user family jti) (Number (claim_of bits)) refresh_inflight_ttl_seconds st"

definition check_refresh_token_rotation ::
  "int \<Rightarrow> string \<Rightarrow> string \<Rightarrow> int \<Rightarrow> token_cache \<Rightarrow> token_cache \<times> (token_error, int) result" where
  "check_refresh_token_rotation user family jti bits st =
     (let current = get_user_token_version user st in
      if get_token_family_version user family st \<noteq> current then
        (st, Inl (if get_user_token_invalid_reason user st = ''password_changed'' then Password_changed
                  else Other_device_login))
      else if jti \<in> set (legacy_used_jtis user family st) then
        (invalidate_refresh_token_family user family current st, Inl Token_reused)
      else case take_claim user family jti bits st of
        (st, True) \<Rightarrow> (st, Inr (claim_of bits))
      | (st, False) \<Rightarrow> judge_taken_claim user family jti current st)"

definition complete_refresh_token_rotation_claim ::
  "int \<Rightarrow> string \<Rightarrow> string \<Rightarrow> int \<Rightarrow> token_cache \<Rightarrow> token_cache \<times> bool" where
  "complete_refresh_token_rotation_claim user family jti claim st =
     (case compare_and_set_claim (Used_jti user family jti) claim 0 rotation_token_lifetime st of
        (st, False) \<Rightarrow>
          (invalidate_refresh_token_family user family (get_user_token_version user st) st, False)
      | (st, True) \<Rightarrow>
          (cache_set (Used_jtis user family) (Members (List.insert jti (legacy_used_jtis user family st)))
             (Some rotation_token_lifetime) st, True))"

definition release_refresh_token_rotation_claim ::
  "int \<Rightarrow> string \<Rightarrow> string \<Rightarrow> int \<Rightarrow> token_cache \<Rightarrow> token_cache" where
  "release_refresh_token_rotation_claim user family jti claim st =
     fst (compare_and_delete_claim (Used_jti user family jti) claim st)"

definition extend_refresh_token_family :: "token_settings \<Rightarrow> int \<Rightarrow> string \<Rightarrow> int \<Rightarrow> token_cache \<Rightarrow> token_cache" where
  "extend_refresh_token_family cf user family version st =
     cache_set (Last_used user) (Words family) (Some (get_refresh_token_lifetime_seconds cf))
       (cache_set (Family_version user family) (Number version) (Some (get_refresh_token_lifetime_seconds cf)) st)"

definition store_refresh_token_family :: "token_settings \<Rightarrow> int \<Rightarrow> string \<Rightarrow> token_cache \<Rightarrow> token_cache \<times> int" where
  "store_refresh_token_family cf user family st =
     (extend_refresh_token_family cf user family (get_user_token_version user st) st,
      get_user_token_version user st)"

section \<open>The endpoints\<close>

text \<open>A login invalidates every other session of the user and starts a family.\<close>

definition complete_token_login :: "token_settings \<Rightarrow> int \<Rightarrow> string \<Rightarrow> token_cache \<Rightarrow> token_cache \<times> int" where
  "complete_token_login cf user family st =
     store_refresh_token_family cf user family (blacklist_all_user_tokens user ''new_login'' st)"

record refresh_claims =
  rc_user :: int
  rc_family :: string
  rc_jti :: string
  rc_version :: int

datatype account = Missing_account | Disabled_account | Active_account

text \<open>
  The refresh endpoint after its check admitted it: the account is looked up, the family extended
  and the claim completed. A library exception before that (\<open>raised\<close>) releases the claim. The new
  pair of tokens keeps family and version of the old one.
\<close>

definition issue_rotated ::
  "token_settings \<Rightarrow> refresh_claims \<Rightarrow> int \<Rightarrow> string \<Rightarrow> token_cache \<Rightarrow> token_cache \<times> (token_error, refresh_claims) result" where
  "issue_rotated cf t claim new_jti st =
     (case complete_refresh_token_rotation_claim (rc_user t) (rc_family t) (rc_jti t) claim
             (extend_refresh_token_family cf (rc_user t) (rc_family t) (rc_version t) st) of
        (st, False) \<Rightarrow> (st, Inl Token_reused)
      | (st, True) \<Rightarrow> (st, Inr (t\<lparr>rc_jti := new_jti\<rparr>)))"

definition finish_refresh ::
  "token_settings \<Rightarrow> refresh_claims \<Rightarrow> int \<Rightarrow> account \<Rightarrow> string \<Rightarrow> token_cache
     \<Rightarrow> token_cache \<times> (token_error, refresh_claims) result" where
  "finish_refresh cf t claim account new_jti st = (case account of
       Missing_account \<Rightarrow>
         (fst (complete_refresh_token_rotation_claim (rc_user t) (rc_family t) (rc_jti t) claim st), Inl Invalid_token)
     | Disabled_account \<Rightarrow>
         (fst (complete_refresh_token_rotation_claim (rc_user t) (rc_family t) (rc_jti t) claim st), Inl Account_disabled)
     | Active_account \<Rightarrow> issue_rotated cf t claim new_jti st)"

definition refresh_token_post ::
  "token_settings \<Rightarrow> refresh_claims \<Rightarrow> int \<Rightarrow> account \<Rightarrow> string \<Rightarrow> token_cache
     \<Rightarrow> token_cache \<times> (token_error, refresh_claims) result" where
  "refresh_token_post cf t bits account new_jti st =
     (case check_refresh_token_rotation (rc_user t) (rc_family t) (rc_jti t) bits st of
        (st, Inl e) \<Rightarrow> (st, Inl e)
      | (st, Inr claim) \<Rightarrow> finish_refresh cf t claim account new_jti st)"

text \<open>The check of an access token: the blacklist, then the version of the user.\<close>

definition check_access_token :: "string \<Rightarrow> int \<Rightarrow> int option \<Rightarrow> token_cache \<Rightarrow> (token_error, unit) result" where
  "check_access_token jti user version st =
     rbind (guard_that (\<not> (jti \<noteq> [] \<and> is_token_blacklisted jti st)) Token_blacklisted) (\<lambda>_.
       case version of
         None \<Rightarrow> Inr ()
       | Some v \<Rightarrow> guard_that (is_token_version_valid user v st)
           (if get_user_token_invalid_reason user st = ''password_changed'' then Password_changed
            else Other_device_login))"

text \<open>
  Logout. The time of expiry is made with \<^verbatim>\<open>django.utils.timezone.utc\<close>, an alias that Django removed in
  version 5.0: without it (\<open>utc_alias\<close>) the AttributeError is swallowed and nothing is blacklisted.
\<close>

definition logout_post ::
  "token_settings \<Rightarrow> bool \<Rightarrow> (string \<times> int) option \<Rightarrow> int option \<Rightarrow> token_cache \<Rightarrow> token_cache" where
  "logout_post cf utc_alias access refresh st =
     (let st = (case access of
            Some (jti, e) \<Rightarrow> if jti = [] \<or> \<not> utc_alias then st else blacklist_token cf jti (Some (seconds e)) st
          | None \<Rightarrow> st)
      in case refresh of
           Some user \<Rightarrow> if user = 0 then st else blacklist_all_user_tokens user ''user_logout'' st
         | None \<Rightarrow> st)"

end
