(* ===== verification/Session_Claims.thy ===== *)
theory Session_Claims
  imports Session_Tokens
begin

text \<open>
  A refresh token is exchanged at most once, however the commands of concurrent requests interleave,
  and using it again revokes its family.
\<close>

section \<open>Commands\<close>

text \<open>
  The single commands of every request, in any order, and the passing of time. The entry of a token
  is only ever added, promoted to zero or deleted by its claim, and claims are positive.
\<close>

fun exchange_key :: "token_key \<Rightarrow> bool" where
  "exchange_key (Used_jti user family jti) = True"
| "exchange_key k = False"

inductive cache_step :: "token_cache \<Rightarrow> token_cache \<Rightarrow> bool" where
  step_set: "\<not> exchange_key k \<Longrightarrow> cache_step st (cache_set k v timeout st)"
| step_add: "cache_step st (fst (take_claim user family jti bits st))"
| step_promote: "claim > 0 \<Longrightarrow>
    cache_step st (fst (compare_and_set_claim (Used_jti user family jti) claim 0 rotation_token_lifetime st))"
| step_delete: "claim > 0 \<Longrightarrow> cache_step st (fst (compare_and_delete_claim (Used_jti user family jti) claim st))"
| step_time: "0 \<le> d \<Longrightarrow> cache_step st (st\<lparr>tk_now := tk_now st + d\<rparr>)"

inductive_cases cache_stepE: "cache_step st st'"

lemma cache_get_set [simp]:
  "cache_get k (cache_set k' v timeout st) =
     (if k = k' then (case timeout of None \<Rightarrow> Some v | Some t \<Rightarrow> if 0 < t then Some v else None) else cache_get k st)"
  by (auto simp: cache_get_def cache_set_def seconds_def split: option.splits)

lemma tk_now_set [simp]: "tk_now (cache_set k v timeout st) = tk_now st"
  by (simp add: cache_set_def)

lemma entries_set: "k \<noteq> k' \<Longrightarrow> tk_entries (cache_set k' v timeout st) k = tk_entries st k"
  by (simp add: cache_set_def)

lemma steps_set: "\<not> exchange_key k \<Longrightarrow> cache_step\<^sup>*\<^sup>* st (cache_set k v timeout st)"
  using step_set by blast

lemma steps_set_after: "cache_step\<^sup>*\<^sup>* st st' \<Longrightarrow> \<not> exchange_key k \<Longrightarrow> cache_step\<^sup>*\<^sup>* st (cache_set k v timeout st')"
  by (rule rtranclp.rtrancl_into_rtrancl) (auto intro: step_set)

text \<open>Every service of the module is a sequence of these commands.\<close>

lemma blacklist_all_steps: "cache_step\<^sup>*\<^sup>* st (blacklist_all_user_tokens user reason st)"
  by (auto simp: blacklist_all_user_tokens_def intro!: steps_set_after)

lemma extend_steps: "cache_step\<^sup>*\<^sup>* st (extend_refresh_token_family cf user family version st)"
  by (auto simp: extend_refresh_token_family_def intro!: steps_set_after)

lemma login_steps: "cache_step\<^sup>*\<^sup>* st (fst (complete_token_login cf user family st))"
  using rtranclp_trans [OF blacklist_all_steps extend_steps]
  by (simp add: complete_token_login_def store_refresh_token_family_def)

lemma check_steps: "cache_step\<^sup>*\<^sup>* st (fst (check_refresh_token_rotation user family jti bits st))"
proof -
  have "cache_step\<^sup>*\<^sup>* st (fst (take_claim user family jti bits st))" using step_add by blast
  then show ?thesis
    by (auto simp: check_refresh_token_rotation_def Let_def judge_taken_claim_def invalidate_refresh_token_family_def
        split: prod.split bool.split intro!: steps_set_after)
qed

lemma complete_steps:
  assumes "claim > 0"
  shows "cache_step\<^sup>*\<^sup>* st (fst (complete_refresh_token_rotation_claim user family jti claim st))"
proof -
  have "cache_step\<^sup>*\<^sup>* st (fst (compare_and_set_claim (Used_jti user family jti) claim 0 rotation_token_lifetime st))"
    using step_promote [OF assms] by blast
  then show ?thesis
    by (auto simp: complete_refresh_token_rotation_claim_def invalidate_refresh_token_family_def
        split: prod.split bool.split intro!: steps_set_after)
qed

lemma release_steps:
  "claim > 0 \<Longrightarrow> cache_step\<^sup>*\<^sup>* st (release_refresh_token_rotation_claim user family jti claim st)"
  using step_delete by (auto simp: release_refresh_token_rotation_claim_def)

lemma finish_steps:
  assumes "claim > 0"
  shows "cache_step\<^sup>*\<^sup>* st (fst (finish_refresh cf t claim account new_jti st))"
proof (cases account)
  case Active_account
  have "fst (issue_rotated cf t claim new_jti st) = fst (complete_refresh_token_rotation_claim (rc_user t) (rc_family t)
      (rc_jti t) claim (extend_refresh_token_family cf (rc_user t) (rc_family t) (rc_version t) st))"
    by (simp add: issue_rotated_def split: prod.split bool.split)
  then show ?thesis using rtranclp_trans [OF extend_steps complete_steps [OF assms]]
    by (simp add: finish_refresh_def Active_account)
qed (simp_all add: finish_refresh_def complete_steps assms)

section \<open>Consumed tokens\<close>

text \<open>The entry of an exchanged token stays, until the time it expires.\<close>

definition consumed :: "int \<times> string \<times> string \<times> int \<Rightarrow> token_cache \<Rightarrow> bool" where
  "consumed = (\<lambda>(user, family, jti, expiry) st. expiry \<le> tk_now st
     \<or> tk_entries st (Used_jti user family jti) = Some (Number 0, Some expiry))"

lemma cache_step_now: "cache_step st st' \<Longrightarrow> tk_now st \<le> tk_now st'"
  by (erule cache_stepE) (auto simp: take_claim_def cache_add_def compare_and_set_claim_def compare_and_delete_claim_def
      cache_delete_def)

interpretation consumed_tokens: persisting cache_step "\<lambda>_. True" consumed
proof unfold_locales
  fix st st' :: token_cache and k :: "int \<times> string \<times> string \<times> int"
  assume "cache_step st st'" and k: "consumed k st"
  obtain user family jti expiry where key: "k = (user, family, jti, expiry)" by (cases k)
  show "consumed k st'"
  proof (cases "tk_now st < expiry")
    case False
    then have "expiry \<le> tk_now st'"
      using \<open>cache_step st st'\<close> cache_step_now by fastforce
    then show ?thesis by (simp add: consumed_def key)
  next
    case True
    then have entry: "tk_entries st (Used_jti user family jti) = Some (Number 0, Some expiry)"
      using k by (auto simp: consumed_def key)
    with \<open>cache_step st st'\<close> True show ?thesis
      by cases (auto simp: consumed_def key entries_set take_claim_def cache_add_def compare_and_set_claim_def
          compare_and_delete_claim_def cache_get_def cache_set_def cache_delete_def split: if_splits)
  qed
qed simp

lemma complete_consumes:
  assumes "complete_refresh_token_rotation_claim user family jti claim st = (st', True)"
  shows "consumed (user, family, jti, tk_now st + seconds rotation_token_lifetime) st'"
  using assms
  by (auto simp: complete_refresh_token_rotation_claim_def compare_and_set_claim_def consumed_def cache_set_def
      split: if_splits)

lemma consumed_get:
  "consumed (user, family, jti, expiry) st \<Longrightarrow> tk_now st < expiry
     \<Longrightarrow> cache_get (Used_jti user family jti) st = Some (Number 0)"
  by (auto simp: consumed_def cache_get_def)

lemma check_of_consumed:
  assumes "cache_get (Used_jti user family jti) st = Some (Number 0)"
  shows "isl (snd (check_refresh_token_rotation user family jti bits st))"
  using assms
  by (auto simp: check_refresh_token_rotation_def Let_def take_claim_def cache_add_def judge_taken_claim_def)

lemma login_version:
  "get_user_token_version user (fst (complete_token_login cf user family st)) = get_user_token_version user st + 1"
  by (simp add: complete_token_login_def store_refresh_token_family_def extend_refresh_token_family_def
      blacklist_all_user_tokens_def get_user_token_version_def) (simp add: number_or_zero_def)

lemma login_keeps_family:
  "family' \<noteq> family \<Longrightarrow>
     get_token_family_version user family (fst (complete_token_login cf user family' st)) = get_token_family_version user family st"
  by (simp add: complete_token_login_def store_refresh_token_family_def extend_refresh_token_family_def
      blacklist_all_user_tokens_def get_token_family_version_def)

section \<open>Properties\<close>

text \<open>
  C34. A refresh token is exchanged at most once: after one exchange was completed, and whatever
  commands other requests send in between, in any order, no check of the token succeeds, no claim on
  it can be completed and the refresh endpoint issues nothing for it, for seven days; the token
  itself is valid for at most one day unless configured otherwise.
\<close>

theorem refresh_token_exchanged_once:
  assumes "complete_refresh_token_rotation_claim user family jti claim st = (st1, True)"
    and "cache_step\<^sup>*\<^sup>* st1 st2" and "tk_now st2 < tk_now st + seconds (7 * 86400)"
    and "0 < claim'" and "rc_user t = user" and "rc_family t = family" and "rc_jti t = jti"
  shows "isl (snd (check_refresh_token_rotation user family jti bits st2))
    \<and> \<not> snd (complete_refresh_token_rotation_claim user family jti claim' st2)
    \<and> isl (snd (refresh_token_post cf t bits account new_jti st2))"
proof -
  have "consumed (user, family, jti, tk_now st + seconds (7 * 86400)) st2"
    using consumed_tokens.run_fact [OF assms(2) TrueI complete_consumes [OF assms(1)]]
    by (simp add: rotation_token_lifetime_def)
  from consumed_get [OF this assms(3)] have entry: "cache_get (Used_jti user family jti) st2 = Some (Number 0)" .
  obtain st3 e where c: "check_refresh_token_rotation user family jti bits st2 = (st3, Inl e)"
    using check_of_consumed [OF entry, of bits]
    by (cases "check_refresh_token_rotation user family jti bits st2"; cases "snd (check_refresh_token_rotation user family jti bits st2)") auto
  have "\<not> snd (complete_refresh_token_rotation_claim user family jti claim' st2)"
    using assms(4) by (simp add: complete_refresh_token_rotation_claim_def compare_and_set_claim_def entry)
  then show ?thesis using c assms(5-7) by (simp add: refresh_token_post_def)
qed

definition default_settings :: token_settings where
  "default_settings = \<lparr>ts_access = None, ts_refresh = None\<rparr>"

definition logged_in :: token_cache where
  "logged_in = fst (complete_token_login default_settings 7 ''f1'' \<lparr>tk_now = 0, tk_entries = Map.empty\<rparr>)"

definition first_token :: refresh_claims where
  "first_token = \<lparr>rc_user = 7, rc_family = ''f1'', rc_jti = ''a'', rc_version = 1\<rparr>"

definition claimed :: token_cache where
  "claimed = extend_refresh_token_family default_settings 7 ''f1'' 1
     (fst (check_refresh_token_rotation 7 ''f1'' ''a'' 55 logged_in))"

definition exchanged :: token_cache where
  "exchanged = fst (complete_refresh_token_rotation_claim 7 ''f1'' ''a'' 55 claimed)"

theorem refresh_token_exchanged_once_witness:
  "snd (refresh_token_post default_settings first_token 55 Active_account ''b'' logged_in) = Inr (first_token\<lparr>rc_jti := ''b''\<rparr>)
   \<and> isl (snd (refresh_token_post default_settings first_token 66 Active_account ''c''
        (exchanged\<lparr>tk_now := tk_now exchanged + seconds 60\<rparr>)))"
proof
  show "snd (refresh_token_post default_settings first_token 55 Active_account ''b'' logged_in) = Inr (first_token\<lparr>rc_jti := ''b''\<rparr>)"
    by code_simp
  have "snd (complete_refresh_token_rotation_claim 7 ''f1'' ''a'' 55 claimed)" by code_simp
  then have c: "complete_refresh_token_rotation_claim 7 ''f1'' ''a'' 55 claimed = (exchanged, True)"
    by (simp add: exchanged_def prod_eq_iff)
  have "cache_step exchanged (exchanged\<lparr>tk_now := tk_now exchanged + seconds 60\<rparr>)"
    by (rule step_time) (simp add: seconds_def)
  then have "cache_step\<^sup>*\<^sup>* exchanged (exchanged\<lparr>tk_now := tk_now exchanged + seconds 60\<rparr>)" by blast
  moreover have "tk_now exchanged = 0" "tk_now claimed = 0" by code_simp+
  ultimately show "isl (snd (refresh_token_post default_settings first_token 66 Active_account ''c''
      (exchanged\<lparr>tk_now := tk_now exchanged + seconds 60\<rparr>)))"
    using refresh_token_exchanged_once [OF c, of "exchanged\<lparr>tk_now := tk_now exchanged + seconds 60\<rparr>" 1 first_token]
    by (simp add: first_token_def seconds_def)
qed



end
