(* ===== verification/Wakeup.thy ===== *)
theory Wakeup
  imports Civil_Time Interfaces Py_Text
begin

text \<open>
  The single-flight guard of periodic wake-ups, \<^verbatim>\<open>common/scheduling/periodic_wakeup.py\<close>, and the
  scheduler that uses it, \<^verbatim>\<open>common/scheduling/scheduler.py\<close>. A wake-up owns one key in the broker's
  Redis; each service sends one command or one Lua script, which is atomic there. The key holds the
  phase and the token of its owner, and expires. SHA-256 and the random part of a token are
  arguments, and so is whether the broker answers (\<open>up\<close>).
\<close>

section \<open>Leases\<close>

datatype lease = Claiming string | Queued string | Running_lease string

fun lease_text :: "lease \<Rightarrow> string" where
  "lease_text (Claiming token) = ''claiming:'' @ token"
| "lease_text (Queued token) = ''queued:'' @ token"
| "lease_text (Running_lease token) = ''running:'' @ token"

fun owner :: "lease \<Rightarrow> string" where
  "owner (Claiming token) = token"
| "owner (Queued token) = token"
| "owner (Running_lease token) = token"

record wakeups =
  wk_now :: int
  wk_keys :: "string \<Rightarrow> (lease \<times> int) option"

record wakeup_conf =
  wc_max_queue :: int
  wc_claim :: int
  wc_lease :: int
  wc_time_limit :: int

definition wakeup_key :: "(string \<Rightarrow> string) \<Rightarrow> string \<Rightarrow> string" where
  "wakeup_key sha name = ''hfl:periodic-wakeup:'' @ sha name"

definition live :: "string \<Rightarrow> wakeups \<Rightarrow> lease option" where
  "live k st = (case wk_keys st k of None \<Rightarrow> None | Some (l, e) \<Rightarrow> if wk_now st < e then Some l else None)"

definition hold :: "string \<Rightarrow> lease \<Rightarrow> int \<Rightarrow> wakeups \<Rightarrow> wakeups" where
  "hold k l ttl st = st\<lparr>wk_keys := (wk_keys st)(k \<mapsto> (l, wk_now st + seconds ttl))\<rparr>"

definition drop_key :: "string \<Rightarrow> wakeups \<Rightarrow> wakeups" where
  "drop_key k st = st\<lparr>wk_keys := (wk_keys st)(k := None)\<rparr>"

text \<open>Tokens are a deadline in seconds, a colon and 32 hexadecimal digits.\<close>

definition hex_digit :: "char \<Rightarrow> bool" where
  "hex_digit c \<longleftrightarrow> c \<in> set ''0123456789abcdef''"

definition decimal_digit :: "char \<Rightarrow> bool" where
  "decimal_digit c \<longleftrightarrow> digit_val c \<noteq> None"

definition token_shape :: "string \<Rightarrow> bool" where
  "token_shape v = (let d = takeWhile decimal_digit v; rest = dropWhile decimal_digit v in
     d \<noteq> [] \<and> rest \<noteq> [] \<and> hd rest = CHR '':'' \<and> length (tl rest) = 32 \<and> list_all hex_digit (tl rest))"

definition normalize_token :: "string \<Rightarrow> string" where
  "normalize_token token = (let v = strip token in if token_shape v then v else [])"

definition make_token :: "int \<Rightarrow> string \<Rightarrow> string" where
  "make_token deadline hex = show_int deadline @ CHR '':'' # hex"

text \<open>\<^verbatim>\<open>string.match(value, '^queued:(%d+):')\<close> on the token.\<close>

definition deadline_of :: "string \<Rightarrow> int option" where
  "deadline_of token = (let d = takeWhile decimal_digit token in
     if d = [] \<or> dropWhile decimal_digit token = [] \<or> hd (dropWhile decimal_digit token) \<noteq> CHR '':'' then None
     else map_option int (parse_nat d))"

definition now_seconds :: "wakeups \<Rightarrow> int" where
  "now_seconds st = wk_now st div 1000000"

section \<open>The services\<close>

datatype claim_result = Claimed string | Not_due | Guard_unavailable

text \<open>Only a queued lease is renewed, and never past its deadline.\<close>

definition renew_queued :: "wakeup_conf \<Rightarrow> string \<Rightarrow> wakeups \<Rightarrow> wakeups" where
  "renew_queued cf k st = (case live k st of
       Some (Queued token) \<Rightarrow> (case deadline_of token of
           None \<Rightarrow> st
         | Some d \<Rightarrow>
             let remaining = d - now_seconds st in
             if remaining \<le> 0 then st else hold k (Queued token) (min (max 60 (wc_lease cf)) remaining) st)
     | _ \<Rightarrow> st)"

definition claim_periodic_wakeup ::
  "(string \<Rightarrow> string) \<Rightarrow> wakeup_conf \<Rightarrow> bool \<Rightarrow> int \<Rightarrow> string \<Rightarrow> string \<Rightarrow> wakeups \<Rightarrow> wakeups \<times> claim_result" where
  "claim_periodic_wakeup sha cf up clock hex name st =
     (let token = make_token (clock + max 60 (wc_max_queue cf)) hex; k = wakeup_key sha name in
      if \<not> up then (st, Guard_unavailable)
      else if live k st = None then (hold k (Claiming token) (max 5 (wc_claim cf)) st, Claimed token)
      else (renew_queued cf k st, Not_due))"

definition promote_periodic_wakeup ::
  "(string \<Rightarrow> string) \<Rightarrow> wakeup_conf \<Rightarrow> bool \<Rightarrow> string \<Rightarrow> string \<Rightarrow> wakeups \<Rightarrow> wakeups \<times> bool" where
  "promote_periodic_wakeup sha cf up name token st =
     (let v = normalize_token token; k = wakeup_key sha name in
      if v = [] \<or> \<not> up \<or> live k st \<noteq> Some (Claiming v) then (st, False)
      else case deadline_of v of
        None \<Rightarrow> (st, False)
      | Some d \<Rightarrow>
          let remaining = d - now_seconds st in
          if remaining \<le> 0 then (st, False)
          else (hold k (Queued v) (min (max 60 (wc_lease cf)) remaining) st, True))"

definition mark_periodic_wakeup_running ::
  "(string \<Rightarrow> string) \<Rightarrow> wakeup_conf \<Rightarrow> bool \<Rightarrow> string \<Rightarrow> string \<Rightarrow> wakeups \<Rightarrow> wakeups \<times> bool" where
  "mark_periodic_wakeup_running sha cf up name token st =
     (let v = normalize_token token; k = wakeup_key sha name in
      if v = [] \<or> \<not> up \<or> live k st \<notin> {Some (Claiming v), Some (Queued v)} then (st, False)
      else (hold k (Running_lease v) (max 60 (wc_time_limit cf + 300)) st, True))"

definition requeue_periodic_wakeup ::
  "(string \<Rightarrow> string) \<Rightarrow> wakeup_conf \<Rightarrow> bool \<Rightarrow> string \<Rightarrow> string \<Rightarrow> wakeups \<Rightarrow> wakeups \<times> bool" where
  "requeue_periodic_wakeup sha cf up name token st =
     (let v = normalize_token token; k = wakeup_key sha name in
      if v = [] \<or> \<not> up \<or> live k st \<notin> {Some (Running_lease v), Some (Queued v)} then (st, False)
      else case deadline_of v of
        None \<Rightarrow> (st, False)
      | Some d \<Rightarrow>
          let remaining = d - now_seconds st in
          if remaining \<le> 0 then (drop_key k st, False)
          else (hold k (Queued v) (min (max 60 (wc_lease cf)) remaining) st, True))"

definition release_periodic_wakeup ::
  "(string \<Rightarrow> string) \<Rightarrow> bool \<Rightarrow> string \<Rightarrow> string \<Rightarrow> wakeups \<Rightarrow> wakeups \<times> bool" where
  "release_periodic_wakeup sha up name token st =
     (let v = normalize_token token; k = wakeup_key sha name in
      if v = [] \<or> \<not> up \<or> live k st \<notin> {Some (Claiming v), Some (Queued v), Some (Running_lease v)} then (st, False)
      else (drop_key k st, True))"

section \<open>The scheduler and the worker\<close>

text \<open>What reaches the broker: nothing, a message without a token, or one that carries the claim.\<close>

datatype dispatch = Suppressed | Published "string option" | Publish_failed

definition apply_async ::
  "(string \<Rightarrow> string) \<Rightarrow> wakeup_conf \<Rightarrow> bool \<Rightarrow> int \<Rightarrow> string \<Rightarrow> bool \<Rightarrow> bool \<Rightarrow> string \<Rightarrow> wakeups \<Rightarrow> wakeups \<times> dispatch" where
  "apply_async sha cf up clock hex coalesce accepted name st =
     (let plain = (if accepted then Published None else Publish_failed) in
      if \<not> coalesce then (st, plain)
      else case claim_periodic_wakeup sha cf up clock hex name st of
        (st, Not_due) \<Rightarrow> (st, Suppressed)
      | (st, Guard_unavailable) \<Rightarrow> (st, plain)
      | (st, Claimed token) \<Rightarrow>
          if accepted then (fst (promote_periodic_wakeup sha cf up name token st), Published (Some token))
          else (fst (release_periodic_wakeup sha up name token st), Publish_failed))"

definition request_wakeup :: "string \<Rightarrow> string \<Rightarrow> (string \<times> string) option" where
  "request_wakeup name token = (if strip name = [] \<or> strip token = [] then None else Some (strip name, strip token))"

definition task_prerun :: "(string \<Rightarrow> string) \<Rightarrow> wakeup_conf \<Rightarrow> bool \<Rightarrow> string \<Rightarrow> string \<Rightarrow> wakeups \<Rightarrow> wakeups" where
  "task_prerun sha cf up name token st = (case request_wakeup name token of
       None \<Rightarrow> st
     | Some (n, t) \<Rightarrow> fst (mark_periodic_wakeup_running sha cf up n t st))"

definition task_postrun ::
  "(string \<Rightarrow> string) \<Rightarrow> wakeup_conf \<Rightarrow> bool \<Rightarrow> string \<Rightarrow> string \<Rightarrow> bool \<Rightarrow> wakeups \<Rightarrow> wakeups" where
  "task_postrun sha cf up name token retry st = (case request_wakeup name token of
       None \<Rightarrow> st
     | Some (n, t) \<Rightarrow>
         if retry then fst (requeue_periodic_wakeup sha cf up n t st)
         else fst (release_periodic_wakeup sha up n t st))"

definition task_revoked :: "(string \<Rightarrow> string) \<Rightarrow> bool \<Rightarrow> string \<Rightarrow> string \<Rightarrow> wakeups \<Rightarrow> wakeups" where
  "task_revoked sha up name token st = (case request_wakeup name token of
       None \<Rightarrow> st
     | Some (n, t) \<Rightarrow> fst (release_periodic_wakeup sha up n t st))"

end
