(* ===== verification/Wakeup_Claims.thy ===== *)
theory Wakeup_Claims
  imports Wakeup
begin

text \<open>
  Two properties of the wake-up guard: a token that lost its key never gets it back, and a key is
  never held for longer than its phase allows.
\<close>

section \<open>Steps of the guard\<close>

text \<open>
  The commands of every scheduler and worker, with any settings, and the passing of time, together
  with the set of tokens issued so far: the random part makes a new token differ from all of them.
\<close>

inductive wake_step :: "string set \<times> wakeups \<Rightarrow> string set \<times> wakeups \<Rightarrow> bool" where
  wake_claim: "make_token (clock + max 60 (wc_max_queue cf)) hex \<notin> issued \<Longrightarrow>
    wake_step (issued, st) (insert (make_token (clock + max 60 (wc_max_queue cf)) hex) issued,
      fst (claim_periodic_wakeup sha cf up clock hex name st))"
| wake_renew: "wake_step (issued, st) (issued, renew_queued cf k st)"
| wake_promote: "wake_step (issued, st) (issued, fst (promote_periodic_wakeup sha cf up name token st))"
| wake_mark: "wake_step (issued, st) (issued, fst (mark_periodic_wakeup_running sha cf up name token st))"
| wake_requeue: "wake_step (issued, st) (issued, fst (requeue_periodic_wakeup sha cf up name token st))"
| wake_release: "wake_step (issued, st) (issued, fst (release_periodic_wakeup sha up name token st))"
| wake_time: "0 \<le> d \<Longrightarrow> wake_step (issued, st) (issued, st\<lparr>wk_now := wk_now st + d\<rparr>)"

lemma hold_fields:
  "wk_now (hold k' l ttl st) = wk_now st"
  "wk_keys (hold k' l ttl st) k = (if k = k' then Some (l, wk_now st + seconds ttl) else wk_keys st k)"
  by (simp_all add: hold_def)

lemma drop_fields: "wk_now (drop_key k' st) = wk_now st" "wk_keys (drop_key k' st) k = (if k = k' then None else wk_keys st k)"
  by (simp_all add: drop_key_def)

lemma live_hold: "live k (hold k' l ttl st) = (if k = k' then (if 0 < ttl then Some l else None) else live k st)"
  by (simp add: live_def hold_fields seconds_def split: option.split prod.split)

lemma live_drop [simp]: "live k (drop_key k' st) = (if k = k' then None else live k st)"
  by (simp add: live_def drop_fields split: option.split prod.split)

lemma live_time: "0 \<le> d \<Longrightarrow> live k (st\<lparr>wk_now := wk_now st + d\<rparr>) = Some l \<Longrightarrow> live k st = Some l"
  by (auto simp: live_def split: option.splits if_splits)

text \<open>Every service leaves the key to its owner, takes it for a new owner or gives it up.\<close>

definition same_owner :: "wakeups \<Rightarrow> wakeups \<Rightarrow> bool" where
  "same_owner st st' \<longleftrightarrow> (\<forall>k l'. live k st' = Some l' \<longrightarrow> (\<exists>l. live k st = Some l \<and> owner l = owner l'))"

lemma same_owner_refl [simp]: "same_owner st st"
  by (simp add: same_owner_def)

lemma same_owner_hold: "live k st = Some l \<Longrightarrow> owner l = owner l' \<Longrightarrow> same_owner st (hold k l' ttl st)"
  by (auto simp: same_owner_def live_hold split: if_splits)

lemma same_owner_drop [simp]: "same_owner st (drop_key k st)"
  by (simp add: same_owner_def)

lemma renew_same_owner: "same_owner st (renew_queued cf k st)"
  by (auto simp: renew_queued_def Let_def split: option.split lease.split intro: same_owner_hold)

lemma promote_same_owner: "same_owner st (fst (promote_periodic_wakeup sha cf up name token st))"
  by (auto simp: promote_periodic_wakeup_def Let_def split: option.split intro: same_owner_hold)

lemma mark_same_owner: "same_owner st (fst (mark_periodic_wakeup_running sha cf up name token st))"
  by (auto simp: mark_periodic_wakeup_running_def Let_def intro: same_owner_hold)

lemma requeue_same_owner: "same_owner st (fst (requeue_periodic_wakeup sha cf up name token st))"
  by (auto simp: requeue_periodic_wakeup_def Let_def split: option.split intro: same_owner_hold)

lemma release_same_owner: "same_owner st (fst (release_periodic_wakeup sha up name token st))"
  by (auto simp: release_periodic_wakeup_def Let_def)

lemma time_same_owner: "0 \<le> d \<Longrightarrow> same_owner st (st\<lparr>wk_now := wk_now st + d\<rparr>)"
  using live_time unfolding same_owner_def by blast

lemma claim_owner:
  assumes "live k (fst (claim_periodic_wakeup sha cf up clock hex name st)) = Some l'"
  shows "(\<exists>l. live k st = Some l \<and> owner l = owner l') \<or> owner l' = make_token (clock + max 60 (wc_max_queue cf)) hex"
  using assms renew_same_owner [of st cf "wakeup_key sha name"]
  by (auto simp: claim_periodic_wakeup_def Let_def live_hold same_owner_def split: if_splits)

text \<open>An issued token that does not own the key.\<close>

definition stale :: "string \<times> string \<Rightarrow> string set \<times> wakeups \<Rightarrow> bool" where
  "stale = (\<lambda>(k, token) (issued, st). token \<in> issued \<and> (\<forall>l. live k st = Some l \<longrightarrow> owner l \<noteq> token))"

lemma stale_same_owner: "same_owner st st' \<Longrightarrow> stale kt (issued, st) \<Longrightarrow> stale kt (issued, st')"
  by (cases kt) (fastforce simp: stale_def same_owner_def)

interpretation stale_tokens: persisting wake_step "\<lambda>_. True" stale
proof unfold_locales
  fix s s' :: "string set \<times> wakeups" and kt :: "string \<times> string"
  assume "wake_step s s'" and s: "stale kt s"
  then show "stale kt s'"
  proof cases
    case (wake_claim clock cf hex issued st sha up name)
    obtain k token where kt: "kt = (k, token)" by (cases kt)
    have old: "token \<in> issued" "\<And>l. live k st = Some l \<Longrightarrow> owner l \<noteq> token"
      using s wake_claim(1) by (auto simp: stale_def kt)
    have "owner l' \<noteq> token" if "live k (fst (claim_periodic_wakeup sha cf up clock hex name st)) = Some l'" for l'
      using claim_owner [OF that] old wake_claim(3) by auto
    then show ?thesis using old(1) by (simp add: stale_def kt wake_claim(2))
  qed (use s in \<open>auto intro: stale_same_owner renew_same_owner promote_same_owner mark_same_owner
      requeue_same_owner release_same_owner time_same_owner\<close>)
qed simp

section \<open>How long a key is held\<close>

text \<open>A queued lease ends within a second of its deadline, every other one at its time.\<close>

definition ends_by :: "lease \<Rightarrow> int \<Rightarrow> int \<Rightarrow> bool" where
  "ends_by l e limit \<longleftrightarrow> (case l of
       Queued token \<Rightarrow> (\<exists>d. deadline_of token = Some d \<and> e < seconds (d + 1) \<and> seconds (d + 1) \<le> limit)
     | _ \<Rightarrow> e \<le> limit)"

lemma ends_by_le: "ends_by l e limit \<Longrightarrow> e \<le> limit"
  by (auto simp: ends_by_def split: lease.splits)

text \<open>Schedulers alone: claims, renewals and time.\<close>

inductive beat_step :: "string set \<times> wakeups \<Rightarrow> string set \<times> wakeups \<Rightarrow> bool" where
  beat_claim: "make_token (clock + max 60 (wc_max_queue cf)) hex \<notin> issued \<Longrightarrow>
    beat_step (issued, st) (insert (make_token (clock + max 60 (wc_max_queue cf)) hex) issued,
      fst (claim_periodic_wakeup sha cf up clock hex name st))"
| beat_renew: "beat_step (issued, st) (issued, renew_queued cf k st)"
| beat_time: "0 \<le> d \<Longrightarrow> beat_step (issued, st) (issued, st\<lparr>wk_now := wk_now st + d\<rparr>)"

definition limited :: "string \<times> string \<times> int \<Rightarrow> string set \<times> wakeups \<Rightarrow> bool" where
  "limited = (\<lambda>(k, token, limit) (issued, st). token \<in> issued \<and>
     (\<forall>l e. wk_keys st k = Some (l, e) \<and> wk_now st < e \<and> owner l = token \<longrightarrow> ends_by l e limit))"

lemma renewed_ends_by:
  assumes "deadline_of token = Some d" and "seconds (d + 1) \<le> limit"
  shows "ends_by (Queued token) (wk_now st + seconds (min m (d - now_seconds st))) limit"
proof -
  define x where "x = min m (d - now_seconds st)"
  have "x + now_seconds st \<le> d" by (simp add: x_def)
  then have "seconds (min m (d - now_seconds st)) \<le> seconds d - seconds (now_seconds st)"
    unfolding x_def [symmetric] seconds_def by linarith
  moreover have "wk_now st < seconds (now_seconds st) + 1000000"
    by (simp add: seconds_def now_seconds_def)
  ultimately show ?thesis using assms by (simp add: ends_by_def) (simp add: seconds_def)
qed

lemma renew_limited:
  assumes "limited (k, token, limit) (issued, st)"
  shows "limited (k, token, limit) (issued, renew_queued cf k' st)"
proof -
  have "ends_by l e limit"
    if "wk_keys (renew_queued cf k' st) k = Some (l, e)" "wk_now st < e" "owner l = token" for l e
  proof (cases "wk_keys (renew_queued cf k' st) k = wk_keys st k")
    case True
    then show ?thesis using assms that by (simp add: limited_def)
  next
    case False
    have "(\<exists>t d. live k' st = Some (Queued t) \<and> deadline_of t = Some d \<and> renew_queued cf k' st
        = hold k' (Queued t) (min (max 60 (wc_lease cf)) (d - now_seconds st)) st) \<or> renew_queued cf k' st = st"
      by (simp add: renew_queued_def Let_def split: option.split lease.split)
    then obtain t d where r: "live k' st = Some (Queued t)" "deadline_of t = Some d"
      "renew_queued cf k' st = hold k' (Queued t) (min (max 60 (wc_lease cf)) (d - now_seconds st)) st"
      using False by metis
    then have q: "k' = k" "live k st = Some (Queued t)" "deadline_of t = Some d"
      "(l, e) = (Queued t, wk_now st + seconds (min (max 60 (wc_lease cf)) (d - now_seconds st)))"
      using False that(1) by (auto simp: hold_fields split: if_splits)
    from q(2) obtain e0 where e0: "wk_keys st k = Some (Queued t, e0)" "wk_now st < e0"
      by (auto simp: live_def split: option.splits if_splits)
    have "t = token" using that(3) q(4) by simp
    then have "ends_by (Queued t) e0 limit" using assms e0 by (simp add: limited_def)
    then show ?thesis using renewed_ends_by [OF q(3)] q(3,4) by (auto simp: ends_by_def)
  qed
  moreover have "wk_now (renew_queued cf k' st) = wk_now st"
    by (simp add: renew_queued_def Let_def hold_fields split: option.split lease.split)
  ultimately show ?thesis using assms by (simp add: limited_def)
qed

interpretation limited_leases: persisting beat_step "\<lambda>_. True" limited
proof unfold_locales
  fix s s' :: "string set \<times> wakeups" and key :: "string \<times> string \<times> int"
  assume "beat_step s s'" and s: "limited key s"
  obtain k token limit where key: "key = (k, token, limit)" by (cases key)
  from \<open>beat_step s s'\<close> show "limited key s'"
  proof cases
    case (beat_claim clock cf hex issued st sha up name)
    let ?new = "make_token (clock + max 60 (wc_max_queue cf)) hex"
    have old: "limited (k, token, limit) (issued, st)" using s by (simp add: key beat_claim(1))
    show ?thesis
    proof (cases "up \<and> live (wakeup_key sha name) st = None")
      case True
      then show ?thesis using old beat_claim(3)
        by (auto simp: key beat_claim(2) limited_def claim_periodic_wakeup_def Let_def hold_fields split: if_splits)
    next
      case False
      then have "limited (k, token, limit) (issued, fst (claim_periodic_wakeup sha cf up clock hex name st))"
        using old renew_limited [OF old, of cf "wakeup_key sha name"] by (auto simp: claim_periodic_wakeup_def Let_def)
      then show ?thesis by (simp add: key beat_claim(2) limited_def)
    qed
  next
    case (beat_renew issued st cf k')
    then show ?thesis using s renew_limited by (simp add: key)
  next
    case (beat_time d issued st)
    then show ?thesis using s by (auto simp: key limited_def)
  qed
qed simp

section \<open>Issued tokens\<close>

text \<open>An issued token passes normalization, and its deadline reads back.\<close>

lemma decimal_show_nat: "c \<in> set (show_nat n) \<Longrightarrow> decimal_digit c"
  using show_nat_digits by (fastforce simp: decimal_digit_def)

lemma make_token_split:
  assumes "0 \<le> d"
  shows "takeWhile decimal_digit (make_token d hex) = show_nat (nat d)"
    and "dropWhile decimal_digit (make_token d hex) = CHR '':'' # hex"
  using assms decimal_show_nat
  by (simp_all add: make_token_def show_int_def takeWhile_append2 dropWhile_append2)
     (simp_all add: decimal_digit_def digit_val_def Let_def)

lemma deadline_make_token [simp]: "0 \<le> d \<Longrightarrow> deadline_of (make_token d hex) = Some d"
  by (simp add: deadline_of_def make_token_split)

definition hex32 :: "string \<Rightarrow> bool" where
  "hex32 hex \<longleftrightarrow> length hex = 32 \<and> list_all hex_digit hex"

lemma hex_digit_space: "hex_digit c \<Longrightarrow> \<not> is_space c"
  by (auto simp: hex_digit_def is_space_def)

lemma normalize_make_token [simp]:
  assumes "0 \<le> d" and "hex32 hex"
  shows "normalize_token (make_token d hex) = make_token d hex"
proof -
  have hex: "hex \<noteq> []" "\<forall>c \<in> set hex. hex_digit c" using assms(2) by (auto simp: hex32_def list_all_iff)
  then have "\<not> is_space (last (make_token d hex))"
    using hex_digit_space [of "last hex"] by (simp add: make_token_def)
  moreover have "\<not> is_space (hd (make_token d hex))"
    using assms(1) by (simp add: make_token_def show_int_def hd_append)
  ultimately have "strip (make_token d hex) = make_token d hex" by (intro strip_stable) (simp_all add: make_token_def)
  moreover have "token_shape (make_token d hex)"
    using assms by (simp add: token_shape_def Let_def make_token_split hex32_def)
  ultimately show ?thesis by (simp add: normalize_token_def)
qed

lemma make_token_eq: "0 \<le> d \<Longrightarrow> 0 \<le> d' \<Longrightarrow> make_token d hex = make_token d' hex' \<longleftrightarrow> d = d' \<and> hex = hex'"
  by (metis deadline_make_token list.inject make_token_split(2) option.inject)

section \<open>Properties\<close>

text \<open>
  C36. A stale wake-up is fenced: once another wake-up has claimed the key, a token issued before
  never moves, renews or releases it again, whatever schedulers and workers do, in any order: every
  command with it fails and leaves the guard as it is.
\<close>

theorem stale_wakeup_fenced:
  assumes "claim_periodic_wakeup sha cf True clock hex name st0 = (st, Claimed other)"
    and "normalize_token token \<in> issued" and "other \<notin> issued"
    and "wake_step\<^sup>*\<^sup>* (insert other issued, st) (issued', st')"
  shows "promote_periodic_wakeup sha cf' up name token st' = (st', False)
    \<and> mark_periodic_wakeup_running sha cf' up name token st' = (st', False)
    \<and> requeue_periodic_wakeup sha cf' up name token st' = (st', False)
    \<and> release_periodic_wakeup sha up name token st' = (st', False)"
proof -
  let ?k = "wakeup_key sha name"
  have "live ?k st = Some (Claiming other)"
    using assms(1) by (auto simp: claim_periodic_wakeup_def Let_def live_hold split: if_splits)
  then have "stale (?k, normalize_token token) (insert other issued, st)"
    using assms(2,3) by (auto simp: stale_def)
  then have "stale (?k, normalize_token token) (issued', st')"
    using stale_tokens.run_fact [OF assms(4)] by blast
  then have lost: "\<And>l. live ?k st' = Some l \<Longrightarrow> owner l \<noteq> normalize_token token" by (auto simp: stale_def)
  then have "live ?k st' \<noteq> Some (Claiming (normalize_token token))"
    "live ?k st' \<noteq> Some (Queued (normalize_token token))"
    "live ?k st' \<noteq> Some (Running_lease (normalize_token token))" by fastforce+
  then show ?thesis
    by (simp add: promote_periodic_wakeup_def mark_periodic_wakeup_running_def requeue_periodic_wakeup_def
        release_periodic_wakeup_def Let_def)
qed

definition wakeup_settings :: wakeup_conf where
  "wakeup_settings = \<lparr>wc_max_queue = 900, wc_claim = 30, wc_lease = 120, wc_time_limit = 3600\<rparr>"

definition zero_hex :: "char \<Rightarrow> string" where
  "zero_hex c = replicate 31 CHR ''0'' @ [c]"

lemma zero_hex_32: "hex32 (zero_hex CHR ''a'')" "hex32 (zero_hex CHR ''b'')"
  by (simp_all add: hex32_def zero_hex_def hex_digit_def list_all_iff)

definition idle_guard :: wakeups where
  "idle_guard = \<lparr>wk_now = seconds 1000, wk_keys = Map.empty\<rparr>"

text \<open>The first claim expires unpromoted, and a second wake-up takes the key.\<close>

definition second_claim :: wakeups where
  "second_claim = fst (claim_periodic_wakeup id wakeup_settings True 1040 (zero_hex CHR ''b'') ''sweep''
     ((fst (claim_periodic_wakeup id wakeup_settings True 1000 (zero_hex CHR ''a'') ''sweep'' idle_guard))
        \<lparr>wk_now := seconds 1040\<rparr>))"

theorem stale_wakeup_fenced_witness:
  "mark_periodic_wakeup_running id wakeup_settings True ''sweep'' (make_token 1900 (zero_hex CHR ''a'')) second_claim
     = (second_claim, False)
   \<and> snd (mark_periodic_wakeup_running id wakeup_settings True ''sweep'' (make_token 1940 (zero_hex CHR ''b'')) second_claim)"
proof
  let ?st0 = "(fst (claim_periodic_wakeup id wakeup_settings True 1000 (zero_hex CHR ''a'') ''sweep'' idle_guard))
        \<lparr>wk_now := seconds 1040\<rparr>"
  let ?a = "make_token 1900 (zero_hex CHR ''a'')" and ?b = "make_token 1940 (zero_hex CHR ''b'')"
  have free: "live (wakeup_key id ''sweep'') ?st0 = None"
    by (simp add: idle_guard_def claim_periodic_wakeup_def Let_def live_def hold_def wakeup_settings_def seconds_def)
  then have c: "claim_periodic_wakeup id wakeup_settings True 1040 (zero_hex CHR ''b'') ''sweep'' ?st0
      = (second_claim, Claimed ?b)"
    by (simp add: second_claim_def claim_periodic_wakeup_def Let_def wakeup_settings_def)
  show "mark_periodic_wakeup_running id wakeup_settings True ''sweep'' ?a second_claim = (second_claim, False)"
    using stale_wakeup_fenced [OF c, of ?a "{?a}"] by (auto simp: make_token_eq zero_hex_32)
  have "live (wakeup_key id ''sweep'') second_claim = Some (Claiming ?b)"
    using free by (simp add: second_claim_def claim_periodic_wakeup_def Let_def live_hold wakeup_settings_def)
  then show "snd (mark_periodic_wakeup_running id wakeup_settings True ''sweep'' ?b second_claim)"
    by (simp add: mark_periodic_wakeup_running_def Let_def zero_hex_32) (simp add: make_token_def)
qed

text \<open>
  C37. The guard heals itself: when the owner of a key is heard of no more, and schedulers only claim
  and renew, the key is free or another's once the limit of its lease has passed: its time, or for a
  queued lease the second after its deadline, however often it is renewed. So a due wake-up is held
  back no longer than that.
\<close>

theorem wakeup_lease_ends:
  assumes "wk_keys st (wakeup_key sha name) = Some (l, e)" and "ends_by l e limit" and "owner l \<in> issued"
    and "beat_step\<^sup>*\<^sup>* (issued, st) (issued', st')" and "limit \<le> wk_now st'"
  shows "(\<forall>l'. live (wakeup_key sha name) st' = Some l' \<longrightarrow> owner l' \<noteq> owner l)
    \<and> (live (wakeup_key sha name) st' = None \<longrightarrow>
        snd (claim_periodic_wakeup sha cf True clock hex name st') = Claimed (make_token (clock + max 60 (wc_max_queue cf)) hex))"
proof (intro conjI allI impI)
  fix l' assume l': "live (wakeup_key sha name) st' = Some l'"
  have "limited (wakeup_key sha name, owner l, limit) (issued, st)"
    using assms(1-3) by (simp add: limited_def)
  then have "limited (wakeup_key sha name, owner l, limit) (issued', st')"
    using limited_leases.run_fact [OF assms(4)] by blast
  moreover obtain e' where e': "wk_keys st' (wakeup_key sha name) = Some (l', e')" "wk_now st' < e'"
    using l' by (auto simp: live_def split: option.splits if_splits)
  ultimately have "owner l' = owner l \<Longrightarrow> e' \<le> limit" using ends_by_le by (auto simp: limited_def)
  then show "owner l' \<noteq> owner l" using e'(2) assms(5) by auto
next
  assume "live (wakeup_key sha name) st' = None"
  then show "snd (claim_periodic_wakeup sha cf True clock hex name st') = Claimed (make_token (clock + max 60 (wc_max_queue cf)) hex)"
    by (simp add: claim_periodic_wakeup_def Let_def)
qed

text \<open>A queued wake-up whose worker died, renewed once before its deadline.\<close>

definition queued_guard :: wakeups where
  "queued_guard = hold (wakeup_key id ''sweep'') (Queued (make_token 1900 (zero_hex CHR ''a''))) 120 idle_guard"

definition renewed_guard :: wakeups where
  "renewed_guard = (renew_queued wakeup_settings (wakeup_key id ''sweep'') (queued_guard\<lparr>wk_now := wk_now queued_guard + seconds 100\<rparr>))"

theorem wakeup_lease_ends_witness:
  "live (wakeup_key id ''sweep'') renewed_guard \<noteq> None
   \<and> snd (claim_periodic_wakeup id wakeup_settings True 1901 (zero_hex CHR ''c'') ''sweep''
        (renewed_guard\<lparr>wk_now := wk_now renewed_guard + seconds 801\<rparr>))
      = Claimed (make_token 2801 (zero_hex CHR ''c''))"
proof
  let ?t = "make_token 1900 (zero_hex CHR ''a'')"
  let ?late = "renewed_guard\<lparr>wk_now := wk_now renewed_guard + seconds 801\<rparr>"
  have q: "wk_keys queued_guard (wakeup_key id ''sweep'') = Some (Queued ?t, seconds 1120)"
    by (simp add: queued_guard_def hold_fields idle_guard_def seconds_def)
  have d: "deadline_of ?t = Some 1900" by simp
  have "live (wakeup_key id ''sweep'') (queued_guard\<lparr>wk_now := wk_now queued_guard + seconds 100\<rparr>) = Some (Queued ?t)"
    by (simp add: live_def q) (simp add: queued_guard_def hold_fields idle_guard_def seconds_def)
  then have r: "renewed_guard = hold (wakeup_key id ''sweep'') (Queued ?t) 120
      (queued_guard\<lparr>wk_now := wk_now queued_guard + seconds 100\<rparr>)"
    by (simp add: renewed_guard_def renew_queued_def d Let_def now_seconds_def wakeup_settings_def)
       (simp add: queued_guard_def hold_fields idle_guard_def seconds_def)
  then show "live (wakeup_key id ''sweep'') renewed_guard \<noteq> None"
    by (simp add: r live_hold)
  have run: "beat_step\<^sup>*\<^sup>* ({?t}, queued_guard) ({?t}, ?late)"
  proof (rule rtranclp.rtrancl_into_rtrancl [OF two_steps])
    show "beat_step ({?t}, queued_guard) ({?t}, queued_guard\<lparr>wk_now := wk_now queued_guard + seconds 100\<rparr>)"
      by (rule beat_time) (simp add: seconds_def)
    show "beat_step ({?t}, queued_guard\<lparr>wk_now := wk_now queued_guard + seconds 100\<rparr>) ({?t}, renewed_guard)"
      unfolding renewed_guard_def by (rule beat_renew)
    show "beat_step ({?t}, renewed_guard) ({?t}, ?late)" by (rule beat_time) (simp add: seconds_def)
  qed
  have now: "seconds 1901 \<le> wk_now ?late" "live (wakeup_key id ''sweep'') ?late = None"
    by (simp_all add: r live_def hold_fields queued_guard_def idle_guard_def) (simp_all add: seconds_def)
  have e: "ends_by (Queued ?t) (seconds 1120) (seconds 1901)" using d by (simp add: ends_by_def seconds_def)
  show "snd (claim_periodic_wakeup id wakeup_settings True 1901 (zero_hex CHR ''c'') ''sweep'' ?late)
      = Claimed (make_token 2801 (zero_hex CHR ''c''))"
    using wakeup_lease_ends [OF q e _ run now(1), of wakeup_settings 1901 "zero_hex CHR ''c''"] now(2)
    by (simp add: wakeup_settings_def)
qed

end
