(* ===== verification/Spec2Isabelle.thy ===== *)
theory Spec2Isabelle
  imports Task_Claims Delivery_Claims Fence_Claims Usage_Claims Storage_Claims Delete_Claims Schedule_Claims
    Retention_Claims Start_Claims Delete_Reconcile_Claims Session_Claims Wakeup_Claims
begin

text \<open>
  A verification library for the backend of HyperFileLens (the Django applications under
  \<^verbatim>\<open>src/backend/apps\<close>): the product tasks, the commands sent to Agents, the fences between
  operations on one backup source, the places of repositories, the records of snapshots, the leases
  on them, the start of backups, the deletion of snapshots from its request to its report, and the
  schedules and retention of backup policies.

  How the parts interact. A user's operation is a product task (\<^verbatim>\<open>apps/task\<close>). It is carried out by
  commands to the Agents of nodes (\<^verbatim>\<open>apps/node\<close>), which are delivered, accepted, watched, cancelled
  and completed on their own, and report back to their task. Before a task starts on a backup
  source, the fence (\<^verbatim>\<open>apps/source\<close>) asks whether another operation owns the source. A repository
  (\<^verbatim>\<open>apps/storage\<close>) owns a place, and work on its data is admitted only when it does. A restore or a
  chat holds a lease on the snapshot it reads (\<^verbatim>\<open>apps/protection\<close>); a deletion is admitted only
  without one. A worker then runs it: the node that wrote the data, or the Controller, deletes the
  physical snapshots, and the task ends with a report or waits for a command; a timer takes up what
  was lost. The policy run requests deletions of what retention lets go, after it has given back
  the leases nobody needs and started the backups that are due; the start of a backup writes its
  task and its snapshot, whose row then collects the results of the directories.

  State. The database is a record of tables, a table the list of its rows: \<open>task_db\<close> in Task\_Model,
  \<open>fleet\<close> in Node\_Model, \<open>platform\<close> in Source\_Fence (both of them and the tables the fence
  reads), extended by \<open>storage\<close> in Location and by \<open>protection\<close> in Snapshot\_Usage. A service that
  runs in one transaction is a function to a sum: the exception (\<open>Inl\<close>), which leaves nothing
  behind, or the new state and the answer (\<open>Inr\<close>). A run that is not one transaction gives the
  state it leaves together with its exception or answer (\<open>stepping\<close> in Prelude, \<open>left_state\<close> in
  Retention\_Claims). Signals, messages and
  announcements to the worker queue are appended to outboxes of the state. Times are integers of
  microseconds, identifiers are natural numbers or integers, JSON columns are the type \<open>json\<close>.
  Row locks serialise the services, so interleavings are sequences of whole services; where a
  service works on a copy read earlier (the delivery of a command, the services of a snapshot row),
  the copy is an argument. A request or a run reads the clock once.

  The theories.
  \<^item> Prelude: results, loops that may raise, tables; Interfaces: the locales \<open>preserved\<close> (a step
    relation and its invariant), \<open>absorbing\<close> (a final observation never changes) and \<open>persisting\<close>
    (a fact that stays true), which the components interpret on their own step relations.
  \<^item> Py\_Text, Py\_Value, Civil\_Time, Event\_Text: what the code uses of Python's strings, values and
    calendar, and the neutral event texts of \<^verbatim>\<open>apps/task/event_text.py\<close>.
  \<^item> Task\_Model, Task\_Service, Task\_Correct, Task\_Claims: the models, services and recovery of
    \<^verbatim>\<open>apps/task\<close> (\<^verbatim>\<open>services/interface.py\<close>, \<^verbatim>\<open>services/recovery.py\<close>, \<^verbatim>\<open>trigger.py\<close>). The invariant
    \<open>core_ok\<close> holds the unique keys, gapless event numbers and the columns of each status; a
    terminal task is final but for a retry; each service is characterised on every branch.
  \<^item> Node\_Model, Node\_Task, Node\_Correct, Node\_Claims: nodes and their commands
    (\<^verbatim>\<open>apps/node/services/internal/task.py\<close>, \<^verbatim>\<open>task_offline_reconcile.py\<close>): acceptance, progress,
    completion, cancellation, the watchdog and the offline sweeps. Settled commands stay settled,
    the sweeps settle every row they are for, a replayed result changes nothing.
  \<^item> Node\_Delivery, Delivery\_Correct, Delivery\_Claims: the durable delivery of commands; the
    number of copies ever sent of one command is at most one more than the configured retries.
  \<^item> Source\_Fence, Fence\_Claims: \<^verbatim>\<open>source_operation_fence.py\<close>; a reset or deregistration excludes
    every product operation on its source while it is active, and a backup is admitted exactly when
    nothing else owns the source.
  \<^item> Endpoints, Location, Location\_Claims, Storage\_Claims: \<^verbatim>\<open>repository_endpoints.py\<close> and
    \<^verbatim>\<open>repository_location.py\<close>; active places of different repositories never overlap.
  \<^item> Snapshot\_Usage, Usage\_Claims, Workload, Snapshot\_Delete, Delete\_Claims: \<^verbatim>\<open>snapshot_usage.py\<close>,
    \<^verbatim>\<open>repository_workload.py\<close> and the admission of deletions in \<^verbatim>\<open>snapshot_delete.py\<close>; leases and
    deletions exclude each other under every interleaving.
  \<^item> Snapshot\_Record, Backup\_Start, Start\_Claims: \<^verbatim>\<open>backup_source_snapshot.py\<close>, with the
    constraints of its tables, and \<open>start_backup_tasks\<close> of \<^verbatim>\<open>backup_task.py\<close>: the request, the
    admission, the transaction and the queue. The table of snapshots stays typed under every
    interleaving, a backup starts only where it may, a scheduled one at most once.
  \<^item> Locator, Agent\_Work, Delete\_Execution: the place of a physical snapshot
    (\<^verbatim>\<open>snapshot_repository_locator.py\<close>), the node that works on it (\<^verbatim>\<open>source_execution.py\<close>,
    \<^verbatim>\<open>repository_access.py\<close>, \<^verbatim>\<open>run_agent_task_async\<close>), and its deletion there or on the Controller
    (\<^verbatim>\<open>snapshot_delete_execution.py\<close>, \<^verbatim>\<open>delete_s3_snapshots\<close>).
  \<^item> Delete\_Run, Delete\_Run\_Correct, Delete\_Run\_Claims: the worker's run of a deletion in
    \<^verbatim>\<open>snapshot_delete.py\<close>. Delete\_Run\_Correct holds the frame of a run (\<open>mid\<close>: only progress, steps,
    events, locators, commands, and directory rows the results cover) and the ways it ends; every
    run ends in one of three ways, and a snapshot is deleted only when its data is reported gone.
  \<^item> Delete\_Reconcile, Delete\_Reconcile\_Claims: \<open>reconcile_snapshot_delete_tasks\<close>; it never works
    against a lease.
  \<^item> Schedule, Schedule\_Claims, Retention, Retention\_Claims: \<^verbatim>\<open>policy_execution.py\<close>; cron
    expressions agree with a reference on their items, intervals fire at their multiples, keys
    identify occurrences, retention lets go only what it may and never the last recovery point.
  \<^item> Session\_Tokens, Session\_Claims: \<^verbatim>\<open>apps/iam/services/token_service.py\<close>, \<^verbatim>\<open>login.py\<close>,
    \<^verbatim>\<open>authentication.py\<close>. Every command to the shared cache is one step, so requests interleave
    between them; a refresh token is exchanged at most once, and a replay revokes its family.
  \<^item> Wakeup, Wakeup\_Claims: \<^verbatim>\<open>common/scheduling/periodic_wakeup.py\<close> and \<^verbatim>\<open>scheduler.py\<close>; an
    announcement of an earlier round changes nothing, and a lease cannot be held for ever.

  Bounds. No function needs fuel: loops of the code run over a list that the state determines, and
  are structural recursions over it; the year and the ancestor walks have measures. The calendar is
  unbounded where Python stops at the years 1 and 9999.

  Parameters: SHA-256, the time zone database, the routes to Agents, the license provider, the
  platforms, names and addresses of nodes, the initialization of a direct NAS repository, the
  payload of a repository with its secrets, the answers of the backup engine on the Controller,
  the drawn identifiers and the answers of the broker. What a property needs of one of them is a
  hypothesis of it.

  Not modelled: the phases of a running backup and of a restore, the creation and reset of
  configurations, the deregistration workflow, the lifecycle of repositories and nodes beyond the
  columns read here, the chat engine and its adapters, and everything that is only input and
  output (views, serializers, mail, metrics). The Go Agent and the frontend are other languages.
\<close>

end
